(* ===== verification/Prelude.thy ===== *)
theory Prelude
  imports Main "HOL-Library.AList" "HOL-Library.Multiset" "HOL-Library.Char_ord"
    "HOL-Library.List_Lexorder" "HOL-Library.Word"
begin

text \<open>
  What every component of the model shares.

  \<^item> \<open>crash\<close> is what the process does when the Go code does not return: a nil
    dereference, a slice index out of range, or \<open>logrus.Fatalf\<close>. An operation that can do so
    returns \<open>crash + 'a\<close>; an error that the code returns as a value stays inside \<open>'a\<close>.
  \<^item> A Go map is an association list with distinct keys (\<open>gm_wf\<close>). The order of the list is
    the order in which a \<open>range\<close> loop happens to visit the map, which Go leaves open: a
    theorem that quantifies over the list holds for every order.
  \<^item> The functions of the package \<open>strings\<close> that the source calls, on byte strings.
  \<^item> A locale \<open>invariant_system\<close> for components that are state machines.

  A nil slice or map is the empty list: the source never tells the two apart.
\<close>

named_theorems go_defs \<open>definitions that a component's proofs unfold\<close>
named_theorems gm_simps \<open>rewrite rules for Go maps\<close>

section \<open>Outcomes\<close>

datatype crash = NilDeref | IndexOutOfRange | FatalExit

fun bindC :: "crash + 'a \<Rightarrow> ('a \<Rightarrow> crash + 'b) \<Rightarrow> crash + 'b" where
  "bindC (Inl c) f = Inl c"
| "bindC (Inr x) f = f x"

lemma bindC_Inr_iff: "bindC m f = Inr y \<longleftrightarrow> (\<exists>x. m = Inr x \<and> f x = Inr y)"
  by (cases m) auto

lemma bindC_InrE: "bindC m f = Inr y \<Longrightarrow> (\<And>x. m = Inr x \<Longrightarrow> f x = Inr y \<Longrightarrow> P) \<Longrightarrow> P"
  by (cases m) auto

lemma bindC_Inl_iff: "bindC m f = Inl c \<longleftrightarrow> m = Inl c \<or> (\<exists>x. m = Inr x \<and> f x = Inl c)"
  by (cases m) auto

lemma bindC_assoc: "bindC (bindC m f) g = bindC m (\<lambda>x. bindC (f x) g)"
  by (cases m) auto

section \<open>Go maps\<close>

type_synonym ('k, 'v) gomap = "('k \<times> 'v) list"

definition gm_wf :: "('k, 'v) gomap \<Rightarrow> bool" where
  "gm_wf m \<longleftrightarrow> distinct (map fst m)"

abbreviation gm_get :: "('k, 'v) gomap \<Rightarrow> 'k \<Rightarrow> 'v option" where
  "gm_get m k \<equiv> map_of m k"

abbreviation gm_put :: "'k \<Rightarrow> 'v \<Rightarrow> ('k, 'v) gomap \<Rightarrow> ('k, 'v) gomap" where
  "gm_put k v m \<equiv> AList.update k v m"

abbreviation gm_del :: "'k \<Rightarrow> ('k, 'v) gomap \<Rightarrow> ('k, 'v) gomap" where
  "gm_del k m \<equiv> AList.delete k m"

text \<open>\<open>m[k]\<close> on a map of strings: the zero value where the key is missing.\<close>

definition gm_str :: "('k, string) gomap \<Rightarrow> 'k \<Rightarrow> string" where
  "gm_str m k = (case gm_get m k of None \<Rightarrow> [] | Some v \<Rightarrow> v)"

lemma gm_wf_Nil [simp, gm_simps]: "gm_wf []"
  by (simp add: gm_wf_def)

lemma gm_get_put [simp, gm_simps]: "gm_get (gm_put k v m) k' = (if k' = k then Some v else gm_get m k')"
  by (simp add: update_conv)

lemma gm_get_del [simp, gm_simps]: "gm_get (gm_del k m) k' = (if k' = k then None else gm_get m k')"
  by (simp add: delete_conv)

lemma gm_wf_put [simp, intro, gm_simps]: "gm_wf m \<Longrightarrow> gm_wf (gm_put k v m)"
  by (simp add: gm_wf_def distinct_update)

lemma gm_wf_del [simp, intro, gm_simps]: "gm_wf m \<Longrightarrow> gm_wf (gm_del k m)"
  by (simp add: gm_wf_def distinct_delete)

lemma gm_get_in: "gm_wf m \<Longrightarrow> (k, v) \<in> set m \<longleftrightarrow> gm_get m k = Some v"
  by (simp add: gm_wf_def)

lemma gm_set_put: "gm_wf m \<Longrightarrow> set (gm_put k v m) = insert (k, v) {(k', v') \<in> set m. k' \<noteq> k}"
  using gm_get_in [of m] gm_get_in [of "gm_put k v m"] by (auto split: if_splits)

lemma gm_set_del: "set (gm_del k m) = {(k', v') \<in> set m. k' \<noteq> k}"
  by (auto simp: AList.delete_eq)

lemma gm_length_dom: "gm_wf m \<Longrightarrow> length m = card (dom (map_of m))"
  by (simp add: gm_wf_def dom_map_of_conv_image_fst card_image distinct_map
      distinct_card [symmetric] flip: set_map)
     (metis distinct_card distinct_map length_map list.set_map)

text \<open>Two lists that hold the same map differ only in their order.\<close>

lemma gm_same_mset:
  assumes "gm_wf m" and "gm_wf m'" and "map_of m = map_of m'"
  shows "mset m = mset m'"
proof -
  have "set m = set m'"
    using assms gm_get_in [of m] gm_get_in [of m'] by auto
  moreover have "distinct m" "distinct m'"
    using assms by (auto simp: gm_wf_def distinct_map)
  ultimately show ?thesis by (simp add: set_eq_iff_mset_eq_distinct)
qed

section \<open>The package strings\<close>

text \<open>\<open>strings.FieldsFunc\<close>: the maximal runs of characters that do not satisfy the predicate.\<close>

fun fields_aux :: "(char \<Rightarrow> bool) \<Rightarrow> string \<Rightarrow> string \<Rightarrow> string list" where
  "fields_aux p [] acc = (if acc = [] then [] else [rev acc])"
| "fields_aux p (c # cs) acc =
     (if p c then (if acc = [] then fields_aux p cs [] else rev acc # fields_aux p cs [])
      else fields_aux p cs (c # acc))"

definition fields_func :: "(char \<Rightarrow> bool) \<Rightarrow> string \<Rightarrow> string list" where
  "fields_func p s = fields_aux p s []"

text \<open>The separator function that the source passes to it everywhere.\<close>

definition slash_fields :: "string \<Rightarrow> string list" where
  "slash_fields s = fields_func (\<lambda>c. c = CHR ''/'') s"

text \<open>\<open>strings.Split\<close> for a separator of one character: never empty.\<close>

fun split_aux :: "char \<Rightarrow> string \<Rightarrow> string \<Rightarrow> string list" where
  "split_aux d [] acc = [rev acc]"
| "split_aux d (c # cs) acc = (if c = d then rev acc # split_aux d cs [] else split_aux d cs (c # acc))"

definition split_on :: "char \<Rightarrow> string \<Rightarrow> string list" where
  "split_on d s = split_aux d s []"

text \<open>\<open>strings.Join\<close>.\<close>

fun join :: "string \<Rightarrow> string list \<Rightarrow> string" where
  "join sep [] = []"
| "join sep [x] = x"
| "join sep (x # y # xs) = x @ sep @ join sep (y # xs)"

text \<open>\<open>strings.Replace s old new (-1)\<close> for one-character strings.\<close>

definition replace_char :: "char \<Rightarrow> char \<Rightarrow> string \<Rightarrow> string" where
  "replace_char a b s = map (\<lambda>c. if c = a then b else c) s"

text \<open>\<open>strings.ToLower\<close> on ASCII letters.\<close>

definition lower_char :: "char \<Rightarrow> char" where
  "lower_char c = (let n = (of_char c :: nat) in if 65 \<le> n \<and> n \<le> 90 then char_of (n + 32) else c)"

definition to_lower :: "string \<Rightarrow> string" where
  "to_lower s = map lower_char s"

text \<open>\<open>strings.Contains\<close>.\<close>

fun is_prefix :: "string \<Rightarrow> string \<Rightarrow> bool" where
  "is_prefix [] ys = True"
| "is_prefix (x # xs) [] = False"
| "is_prefix (x # xs) (y # ys) = (x = y \<and> is_prefix xs ys)"

fun contains :: "string \<Rightarrow> string \<Rightarrow> bool" where
  "contains s [] = (s = [])"
| "contains s (c # cs) = (is_prefix s (c # cs) \<or> contains s cs)"

text \<open>\<open>strings.Split\<close> for a separator of several characters (the second argument counts the
  characters of a separator that are still to be skipped).\<close>

fun split_str_aux :: "string \<Rightarrow> nat \<Rightarrow> string \<Rightarrow> string \<Rightarrow> string list" where
  "split_str_aux sep k [] acc = [rev acc]"
| "split_str_aux sep (Suc k) (c # cs) acc = split_str_aux sep k cs acc"
| "split_str_aux sep 0 (c # cs) acc =
     (if is_prefix sep (c # cs) then rev acc # split_str_aux sep (length sep - 1) cs []
      else split_str_aux sep 0 cs (c # acc))"

definition split_str :: "string \<Rightarrow> string \<Rightarrow> string list" where
  "split_str sep s = split_str_aux sep 0 s []"

text \<open>\<open>strconv.Itoa\<close>, and the verb \<open>%d\<close>.\<close>

fun nat_digits :: "nat \<Rightarrow> string" where
  "nat_digits n = (if n < 10 then [char_of (48 + n)] else nat_digits (n div 10) @ [char_of (48 + n mod 10)])"

declare nat_digits.simps [simp del]

definition itoa :: "int \<Rightarrow> string" where
  "itoa i = (if i < 0 then CHR ''-'' # nat_digits (nat (- i)) else nat_digits (nat i))"

section \<open>Lemmas on strings\<close>

lemma fields_aux_seg:
  "\<forall>c \<in> set a. \<not> p c \<Longrightarrow> fields_aux p (a @ s) acc = fields_aux p s (rev a @ acc)"
  by (induction a arbitrary: acc) auto

lemma slash_fields_slash [simp]: "slash_fields (CHR ''/'' # s) = slash_fields s"
  by (simp add: slash_fields_def fields_func_def)

lemma slash_fields_seg [simp]:
  assumes "a \<noteq> []" and "CHR ''/'' \<notin> set a"
  shows "slash_fields (a @ CHR ''/'' # s) = a # slash_fields s"
proof -
  have "\<forall>c \<in> set a. \<not> c = CHR ''/''" using assms(2) by auto
  from fields_aux_seg [OF this, of "CHR ''/'' # s" "[]"] assms(1)
  show ?thesis by (simp add: slash_fields_def fields_func_def)
qed

lemma slash_fields_last [simp]:
  assumes "a \<noteq> []" and "CHR ''/'' \<notin> set a"
  shows "slash_fields a = [a]"
proof -
  have "\<forall>c \<in> set a. \<not> c = CHR ''/''" using assms(2) by auto
  from fields_aux_seg [OF this, of "[]" "[]"] assms(1)
  show ?thesis by (simp add: slash_fields_def fields_func_def)
qed

lemma slash_fields_Nil [simp]: "slash_fields [] = []"
  by (simp add: slash_fields_def fields_func_def)

lemma fields_aux_no_sep:
  assumes "x \<in> set (fields_aux p s acc)" and "\<And>c. c \<in> set acc \<Longrightarrow> \<not> p c"
  shows "x \<noteq> [] \<and> list_all (\<lambda>c. \<not> p c) x"
  using assms
proof (induction p s acc rule: fields_aux.induct)
  case (1 p acc)
  then show ?case by (cases "acc = []") (simp_all add: list_all_iff)
next
  case (2 p c cs acc)
  show ?case
  proof (cases "p c")
    case True
    note sep = this
    show ?thesis
    proof (cases "acc = []")
      case True
      with sep 2 show ?thesis by simp
    next
      case False
      with sep "2.prems"(1) consider "x = rev acc" | "x \<in> set (fields_aux p cs [])" by auto
      then show ?thesis
      proof cases
        case 1
        with False "2.prems"(2) show ?thesis by (simp add: list_all_iff)
      next
        case b: 2
        show ?thesis by (rule "2.IH"(2) [OF sep False b]) simp
      qed
    qed
  next
    case False
    with "2.prems"(1) have "x \<in> set (fields_aux p cs (c # acc))" by simp
    with False show ?thesis
      using "2.prems"(2) by (intro "2.IH"(3)) auto
  qed
qed

lemma slash_fields_no_slash:
  assumes "x \<in> set (slash_fields s)"
  shows "x \<noteq> [] \<and> CHR ''/'' \<notin> set x"
  using fields_aux_no_sep [OF assms [unfolded slash_fields_def fields_func_def]]
  by (simp add: list_all_iff) blast

lemma split_aux_seg: "d \<notin> set a \<Longrightarrow> split_aux d (a @ s) acc = split_aux d s (rev a @ acc)"
  by (induction a arbitrary: acc) auto

lemma split_on_single: "d \<notin> set a \<Longrightarrow> split_on d a = [a]"
  using split_aux_seg [of d a "[]" "[]"] by (simp add: split_on_def)

lemma split_on_cons: "d \<notin> set a \<Longrightarrow> split_on d (a @ d # s) = a # split_on d s"
  using split_aux_seg [of d a "d # s" "[]"] by (simp add: split_on_def)

text \<open>Splitting what was joined gives the parts back, if no part holds the separator.\<close>

lemma split_join: "xs \<noteq> [] \<Longrightarrow> \<forall>x \<in> set xs. d \<notin> set x \<Longrightarrow> split_on d (join [d] xs) = xs"
  by (induction "[d]" xs rule: join.induct) (simp_all add: split_on_single split_on_cons)

lemma split_on_not_Nil [simp]: "split_on d s \<noteq> []"
proof -
  have "split_aux d s acc \<noteq> []" for acc
    by (induction s arbitrary: acc) auto
  then show ?thesis by (simp add: split_on_def)
qed

lemma replace_char_inverse: "b \<notin> set s \<Longrightarrow> replace_char b a (replace_char a b s) = s"
  by (induction s) (auto simp: replace_char_def)

lemma nat_digits_not_Nil [simp]: "nat_digits n \<noteq> []"
  by (subst nat_digits.simps) simp

section \<open>State machines\<close>

text \<open>
  The contract of a component with state: an invariant that the start states satisfy and that
  every step keeps holds in every state that is reachable.
\<close>

locale invariant_system =
  fixes start :: "'s \<Rightarrow> bool"
    and step :: "'s \<Rightarrow> 's \<Rightarrow> bool"
    and inv :: "'s \<Rightarrow> bool"
  assumes inv_start: "start s \<Longrightarrow> inv s"
    and inv_step: "inv s \<Longrightarrow> step s t \<Longrightarrow> inv t"
begin

lemma inv_steps: "step\<^sup>*\<^sup>* s t \<Longrightarrow> inv s \<Longrightarrow> inv t"
  by (induction rule: rtranclp_induct) (auto intro: inv_step)

lemma inv_reachable: "start s \<Longrightarrow> step\<^sup>*\<^sup>* s t \<Longrightarrow> inv t"
  using inv_start inv_steps by blast

end

end
