(* ===== verification/Entities.thy ===== *)
theory Entities
  imports Prelude
begin

text \<open>
  \<open>pkg/entities\<close>: the data that the API server, the caches and the agents exchange.

  Structs are records (a field carries a two-letter prefix, since record fields share one name
  space), a pointer that may be nil is an \<open>option\<close>, a \<open>time.Time\<close> is its number of nanoseconds
  since a fixed epoch, and integers whose width no operation can exceed are \<open>int\<close>. Errors are
  values of \<open>error\<close>: one constructor per error that the source builds, with the data that goes
  into its message; \<open>EExternal\<close> is an error that a library returned, and \<open>ENotFound\<close>
  one for which \<open>IsNotFound\<close> of the Kubernetes API errors holds.
\<close>

section \<open>Errors\<close>

datatype error =
    EExternal string
  | ENotFound string
  | EClusterNotFound string
  | EAgentNotFound string
  | EDisposed string
  | EEmptyClusterId
  | ERequiredField string
  | EClusterDeleted string
  | EClusterBlocked string
  | EDirtyAgent
  | EDifferentHostname
  | EDifferentIP
  | EDeletedAgent
  | EAdminConfNotFound
  | EStateNotOnline string
  | ENoProvisionedMaster string
  | EEmptyAdminCertificate string
  | EClientNotInitialized string
  | ENoNetworkSettings string
  | ENoDNSSettings string
  | EUnsupported string
  | EUnhealthy string string
  | EOnlineOnly string
  | EInvalidSettings string
  | EDuplicatedTask string
  | EHTTPStatus int
  | EBiz int string
  | EWrap string error

section \<open>Agents: agent.go\<close>

abbreviation AgentJob_Deploy_Master :: string where "AgentJob_Deploy_Master \<equiv> ''MASTER''"
abbreviation AgentJob_Deploy_ETCD :: string where "AgentJob_Deploy_ETCD \<equiv> ''ETCD''"
abbreviation AgentJob_Deploy_Minion :: string where "AgentJob_Deploy_Minion \<equiv> ''Minion''"
abbreviation AgentJob_Deploy_HA :: string where "AgentJob_Deploy_HA \<equiv> ''HA''"
abbreviation AgentJob_NOP :: string where "AgentJob_NOP \<equiv> ''NOP''"
abbreviation AgentStatus_Running :: string where "AgentStatus_Running \<equiv> ''Running''"
abbreviation AgentStatus_Provisioning :: string where "AgentStatus_Provisioning \<equiv> ''Provisioning''"

definition MaxAgentReportTimeoutSecs :: int where
  "MaxAgentReportTimeoutSecs = 30"

definition AgentDeploymentPhase_Pending :: int where "AgentDeploymentPhase_Pending = 0"
definition AgentDeploymentPhase_Deploying :: int where "AgentDeploymentPhase_Deploying = 1"
definition AgentDeploymentPhase_Deployed :: int where "AgentDeploymentPhase_Deployed = 2"

lemmas phase_defs = AgentDeploymentPhase_Pending_def AgentDeploymentPhase_Deploying_def
  AgentDeploymentPhase_Deployed_def

text \<open>\<open>CPUMhz\<close> is the bit pattern of a \<open>float64\<close>; nothing computes with it.\<close>

record host_information =
  hi_OS :: string
  hi_Kernel :: string
  hi_CPUCores :: "32 word"
  hi_CPUMhz :: "64 word"
  hi_MemoryTotalMB :: "64 word"

record agent_state =
  as_LastReportIP :: string
  as_LastReportTime :: int
  as_Reason :: string
  as_HasProvisionedMasterComponents :: bool
  as_HasProvisionedETCD :: bool
  as_HasProvisionedMinion :: bool
  as_HasProvisionedHA :: bool

record agent =
  ag_Id :: string
  ag_ClusterId :: string
  ag_AdminCertificate :: string
  ag_DeploymentPhase :: int
  ag_Hostname :: string
  ag_IsDelete :: bool
  ag_HasETCDRole :: bool
  ag_HasMasterRole :: bool
  ag_HasMinionRole :: bool
  ag_HasHARole :: bool
  ag_HostInformation :: host_information
  ag_ListenPort :: int
  ag_State :: "agent_state option"

text \<open>The zero values of the structs.\<close>

definition zero_state :: agent_state where
  "zero_state = \<lparr>as_LastReportIP = [], as_LastReportTime = 0, as_Reason = [],
     as_HasProvisionedMasterComponents = False, as_HasProvisionedETCD = False,
     as_HasProvisionedMinion = False, as_HasProvisionedHA = False\<rparr>"

definition zero_host :: host_information where
  "zero_host = \<lparr>hi_OS = [], hi_Kernel = [], hi_CPUCores = 0, hi_CPUMhz = 0, hi_MemoryTotalMB = 0\<rparr>"

definition zero_agent :: agent where
  "zero_agent = \<lparr>ag_Id = [], ag_ClusterId = [], ag_AdminCertificate = [], ag_DeploymentPhase = 0,
     ag_Hostname = [], ag_IsDelete = False, ag_HasETCDRole = False, ag_HasMasterRole = False,
     ag_HasMinionRole = False, ag_HasHARole = False, ag_HostInformation = zero_host,
     ag_ListenPort = 0, ag_State = None\<rparr>"

definition HasInitializedRoles :: "agent \<Rightarrow> bool" where
  "HasInitializedRoles a \<longleftrightarrow>
     ag_HasETCDRole a \<or> ag_HasMasterRole a \<or> ag_HasMinionRole a \<or> ag_HasHARole a"

text \<open>
  \<open>time.Since(t).Seconds() <= MaxAgentReportTimeoutSecs\<close> at the instant \<open>now\<close>, in nanoseconds.
\<close>

definition within_report_timeout :: "int \<Rightarrow> int \<Rightarrow> bool" where
  "within_report_timeout now t \<longleftrightarrow> now - t \<le> MaxAgentReportTimeoutSecs * 1000000000"

definition IsRunning :: "int \<Rightarrow> agent \<Rightarrow> bool" where
  "IsRunning now a =
     (case ag_State a of
        None \<Rightarrow> False
      | Some s \<Rightarrow> within_report_timeout now (as_LastReportTime s))"

text \<open>The older \<open>Agent\<close> struct, with the fields that its method reads.\<close>

record old_agent =
  oa_LastReportStatus :: string
  oa_LastReportTime :: int

definition Agent_IsRunning :: "int \<Rightarrow> old_agent \<Rightarrow> bool" where
  "Agent_IsRunning now a \<longleftrightarrow>
     (oa_LastReportStatus a = AgentStatus_Running \<or> oa_LastReportStatus a = AgentStatus_Provisioning)
     \<and> within_report_timeout now (oa_LastReportTime a)"

record agent_job =
  aj_Name :: string
  aj_Arguments :: "(string, string) gomap"
  aj_Reason :: string

record report_item =
  ri_HasProvisioned :: bool
  ri_Reason :: string
  ri_LastSeenTime :: int

record report_status =
  rs_IP :: string
  rs_Items :: "(string, report_item) gomap"
  rs_LeaseId :: int

record node_info =
  ni_NodeIP :: string
  ni_PodCIDR :: string

record change_request =
  cr_OldClusterId :: string
  cr_NewClusterId :: string
  cr_IsETCDRole :: bool
  cr_IsMasterRole :: bool
  cr_IsMinionRole :: bool
  cr_IsHARole :: bool

section \<open>Clusters: cluster.go\<close>

abbreviation AgentRole_Master :: string where "AgentRole_Master \<equiv> ''master''"
abbreviation AgentRole_ETCD :: string where "AgentRole_ETCD \<equiv> ''etcd''"
abbreviation AgentRole_Minion :: string where "AgentRole_Minion \<equiv> ''minion''"
abbreviation AgentRole_HA :: string where "AgentRole_HA \<equiv> ''ha''"
abbreviation ClusterReady :: string where "ClusterReady \<equiv> ''Ready''"
abbreviation ClusterDeleted :: string where "ClusterDeleted \<equiv> ''ClusterDeleted''"
abbreviation ClusterBlockedAgentRegistering :: string where
  "ClusterBlockedAgentRegistering \<equiv> ''ClusterBlockedAgentRegistering''"
abbreviation NetworkStack_KubeRouter :: string where "NetworkStack_KubeRouter \<equiv> ''kuberouter''"
abbreviation DNS_CoreDNS :: string where "DNS_CoreDNS \<equiv> ''coredns''"
abbreviation EXT_DEPLOYMENT_PROMETHEUS :: string where "EXT_DEPLOYMENT_PROMETHEUS \<equiv> ''prometheus''"
abbreviation EXT_DEPLOYMENT_METRICSERVER :: string where "EXT_DEPLOYMENT_METRICSERVER \<equiv> ''metric-server''"
abbreviation EXT_DEPLOYMENT_TRAEFIK :: string where "EXT_DEPLOYMENT_TRAEFIK \<equiv> ''traefik''"
abbreviation EXT_DEPLOYMENT_ES :: string where "EXT_DEPLOYMENT_ES \<equiv> ''es''"
abbreviation EXT_DEPLOYMENT_FILEBEAT :: string where "EXT_DEPLOYMENT_FILEBEAT \<equiv> ''filebeat''"
abbreviation EXT_DEPLOYMENT_HELM :: string where "EXT_DEPLOYMENT_HELM \<equiv> ''helm''"
abbreviation EXT_DEPLOYMENT_ALTERMANAGER :: string where "EXT_DEPLOYMENT_ALTERMANAGER \<equiv> ''altermanager''"
abbreviation EXT_DEPLOYMENT_METRICBEAT :: string where "EXT_DEPLOYMENT_METRICBEAT \<equiv> ''metricbeat''"

datatype condition_checked_result = ConditionConfirmed | ConditionNotConfirmed | ConditionInapplicable

datatype agent_status_flag =
  AgentStatusFlag_Whatever | AgentStatusFlag_Running | AgentStatusFlag_Provisioned

record ha_settings =
  hs_VIP :: string
  hs_RouterID :: string
  hs_NodeCount :: int

record port_range =
  pr_Begin :: int
  pr_End :: int

record pull_secret =
  ps_Name :: string
  ps_Namespace :: string
  ps_Registry :: string
  ps_Username :: string
  ps_Password :: string
  ps_Email :: string

text \<open>\<open>NetworkStackSettings\<close> and \<open>DNSDeploymentSettings\<close> have the same two fields.\<close>

record typed_settings =
  ts_Type :: string
  ts_Attributes :: "(string, string) gomap"

record resource_reservation =
  rr_Kube :: string
  rr_System :: string

record helm_repo =
  hr_Name :: string
  hr_Url :: string
  hr_Username :: string
  hr_Password :: string

record helm_chart =
  hc_Name :: string
  hc_Namespace :: string
  hc_Chart :: string
  hc_Version :: string
  hc_Username :: string
  hc_Password :: string
  hc_Repository :: string
  hc_Parameters :: "(string \<times> string) list"

record helm_settings =
  he_Repositories :: "helm_repo list"
  he_Charts :: "helm_chart list"

record cluster_settings =
  cs_Id :: string
  cs_CreateTime :: int
  cs_Name :: string
  cs_ExpectedETCDCount :: int
  cs_ServiceCIDR :: string
  cs_KubernetesVersion :: string
  cs_PodNetworkCIDR :: string
  cs_SecurityToken :: string
  cs_ServiceDNSDomain :: string
  cs_ServiceDNSClusterIP :: string
  cs_MaximumAllowedPodCountPerNode :: int
  cs_NetworkStack :: "typed_settings option"
  cs_DNSSettings :: "typed_settings option"
  cs_HASettings :: "ha_settings option"
  cs_ExtensionalDeployments :: "(string, (string, string) gomap) gomap"
  cs_ExtraDockerGraphPath :: string
  cs_PortRangeSettings :: "port_range option"
  cs_ResourceReservation :: "resource_reservation option"
  cs_HelmSettings :: "helm_settings option"
  cs_ImagePullSecrets :: "pull_secret list"

definition zero_settings :: cluster_settings where
  "zero_settings = \<lparr>cs_Id = [], cs_CreateTime = 0, cs_Name = [], cs_ExpectedETCDCount = 0,
     cs_ServiceCIDR = [], cs_KubernetesVersion = [], cs_PodNetworkCIDR = [], cs_SecurityToken = [],
     cs_ServiceDNSDomain = [], cs_ServiceDNSClusterIP = [], cs_MaximumAllowedPodCountPerNode = 0,
     cs_NetworkStack = None, cs_DNSSettings = None, cs_HASettings = None,
     cs_ExtensionalDeployments = [], cs_ExtraDockerGraphPath = [], cs_PortRangeSettings = None,
     cs_ResourceReservation = None, cs_HelmSettings = None, cs_ImagePullSecrets = []\<rparr>"

text \<open>Certificates: pairs of a name and a content, looked up without regard to case.\<close>

record cert_pair =
  ck_Name :: string
  ck_Value :: string

fun GetCertificateContent :: "cert_pair list \<Rightarrow> string \<Rightarrow> string" where
  "GetCertificateContent [] name = []"
| "GetCertificateContent (c # cs) name =
     (if to_lower (ck_Name c) = to_lower name then ck_Value c else GetCertificateContent cs name)"

record old_cert =
  oc_Name :: string
  oc_Content :: string

fun Old_GetCertificateContent :: "old_cert list \<Rightarrow> string \<Rightarrow> string" where
  "Old_GetCertificateContent [] name = []"
| "Old_GetCertificateContent (c # cs) name =
     (if to_lower (oc_Name c) = to_lower name then oc_Content c else Old_GetCertificateContent cs name)"

section \<open>HTTP: http.go\<close>

definition Succeed :: int where "Succeed = 0"
definition ParameterError :: int where "ParameterError = 40001"
definition DeserializeError :: int where "DeserializeError = 40002"
definition OperationFailed :: int where "OperationFailed = 40005"
definition InternalError :: int where "InternalError = 50000"

lemmas response_codes = Succeed_def ParameterError_def DeserializeError_def OperationFailed_def
  InternalError_def

text \<open>A reply carries either no reason, a fixed text, or the text of an error.\<close>

datatype reason = NoReason | Text string | ErrText error

record response =
  re_ErrorId :: int
  re_Reason :: reason
  re_NeedCrash :: bool

record watch_point =
  wp_IsSystemComponent :: bool
  wp_Name :: string
  wp_Namespace :: string
  wp_Status :: string
  wp_LastCheckTime :: int

record brief_information =
  bi_HostInformation :: host_information
  bi_Id :: string
  bi_HasETCDRole :: bool
  bi_HasMasterRole :: bool
  bi_HasMinionRole :: bool
  bi_HasHARole :: bool
  bi_Hostname :: string
  bi_State :: "agent_state option"
  bi_DeploymentPhase :: int

text \<open>\<open>uuid.Nil.String()\<close>: the cluster of an agent that has none.\<close>

definition nil_uuid :: string where
  "nil_uuid = ''00000000-0000-0000-0000-000000000000''"

section \<open>Lemmas\<close>

lemma IsRunning_state: "IsRunning now a \<Longrightarrow> \<exists>s. ag_State a = Some s"
  by (auto simp: IsRunning_def split: option.splits)

lemma IsRunning_mono: "IsRunning now a \<Longrightarrow> now' \<le> now \<Longrightarrow> IsRunning now' a"
  by (auto simp: IsRunning_def within_report_timeout_def split: option.splits)

lemma GetCertificateContent_cases:
  "GetCertificateContent cs name \<noteq> [] \<Longrightarrow>
     \<exists>c \<in> set cs. to_lower (ck_Name c) = to_lower name \<and> ck_Value c = GetCertificateContent cs name"
  by (induction cs) auto

lemma GetCertificateContent_unique:
  assumes "c \<in> set cs" and "to_lower (ck_Name c) = to_lower name"
    and "\<And>d. d \<in> set cs \<Longrightarrow> to_lower (ck_Name d) = to_lower name \<Longrightarrow> d = c"
  shows "GetCertificateContent cs name = ck_Value c"
  using assms
proof (induction cs)
  case Nil
  then show ?case by simp
next
  case (Cons d cs)
  show ?case
  proof (cases "to_lower (ck_Name d) = to_lower name")
    case True
    with Cons.prems(3) [of d] have "d = c" by simp
    with True show ?thesis by simp
  next
    case False
    with Cons.prems(1,2) have "c \<in> set cs" by auto
    then have "GetCertificateContent cs name = ck_Value c"
      using Cons.prems(2,3) by (intro Cons.IH) auto
    with False show ?thesis by simp
  qed
qed

end
