(* ===== verification/AgentCache.thy ===== *)
theory AgentCache
  imports Entities
begin

text \<open>
  \<open>pkg/cache/cache.go\<close>: the in-process cache of the agents of one cluster, one map per role and
  one for agents without a role (the pool).

  The maps hold pointers. \<open>Online\<close> stores the address of its own copy of the agent in every map
  of its roles, and \<open>QueryAgentNextWorkItem\<close> later writes through such a pointer, so the model has
  the heap: \<open>ac_objs\<close> maps references to agents, the maps hold references, \<open>ac_fresh\<close> is the
  next free one. Every method takes the mutex for its whole body, so a method is one step.
  \<open>InitializeWithValues\<close>, which only tests call, is left out.
\<close>

section \<open>State\<close>

record agent_cache =
  ac_etcd :: "(string, nat) gomap"
  ac_k8sMaster :: "(string, nat) gomap"
  ac_k8sMinion :: "(string, nat) gomap"
  ac_ha :: "(string, nat) gomap"
  ac_pool :: "(string, nat) gomap"
  ac_objs :: "nat \<Rightarrow> agent"
  ac_fresh :: nat

definition Initialize :: agent_cache where
  "Initialize = \<lparr>ac_etcd = [], ac_k8sMaster = [], ac_k8sMinion = [], ac_ha = [], ac_pool = [],
     ac_objs = (\<lambda>_. zero_agent), ac_fresh = 0\<rparr>"

section \<open>Online and offline\<close>

definition store_agent :: "agent \<Rightarrow> agent_cache \<Rightarrow> agent_cache" where
  "store_agent a ac = ac\<lparr>ac_objs := (ac_objs ac)(ac_fresh ac := a), ac_fresh := Suc (ac_fresh ac)\<rparr>"

definition Online :: "agent \<Rightarrow> agent_cache \<Rightarrow> agent_cache" where
  "Online a ac0 =
     (let r = ac_fresh ac0;
          ac = store_agent a ac0;
          ac = (if ag_HasETCDRole a then ac\<lparr>ac_etcd := gm_put (ag_Id a) r (ac_etcd ac)\<rparr> else ac);
          ac = (if ag_HasMasterRole a then ac\<lparr>ac_k8sMaster := gm_put (ag_Id a) r (ac_k8sMaster ac)\<rparr> else ac);
          ac = (if ag_HasMinionRole a then ac\<lparr>ac_k8sMinion := gm_put (ag_Id a) r (ac_k8sMinion ac)\<rparr> else ac);
          ac = (if ag_HasHARole a then ac\<lparr>ac_ha := gm_put (ag_Id a) r (ac_ha ac)\<rparr> else ac)
      in if \<not> ag_HasETCDRole a \<and> \<not> ag_HasMasterRole a \<and> \<not> ag_HasMinionRole a \<and> \<not> ag_HasHARole a
         then ac\<lparr>ac_pool := gm_put (ag_Id a) r (ac_pool ac)\<rparr> else ac)"

definition Offline :: "agent \<Rightarrow> agent_cache \<Rightarrow> agent_cache" where
  "Offline a ac =
     (let ac = (if ag_HasETCDRole a then ac\<lparr>ac_etcd := gm_del (ag_Id a) (ac_etcd ac)\<rparr> else ac);
          ac = (if ag_HasMasterRole a then ac\<lparr>ac_k8sMaster := gm_del (ag_Id a) (ac_k8sMaster ac)\<rparr> else ac);
          ac = (if ag_HasMinionRole a then ac\<lparr>ac_k8sMinion := gm_del (ag_Id a) (ac_k8sMinion ac)\<rparr> else ac);
          ac = (if ag_HasHARole a then ac\<lparr>ac_ha := gm_del (ag_Id a) (ac_ha ac)\<rparr> else ac)
      in if \<not> ag_HasETCDRole a \<and> \<not> ag_HasMasterRole a \<and> \<not> ag_HasMinionRole a \<and> \<not> ag_HasHARole a
         then ac\<lparr>ac_pool := gm_del (ag_Id a) (ac_pool ac)\<rparr> else ac)"

text \<open>The write of \<open>DeploymentPhase\<close> through a cached pointer.\<close>

definition set_phase :: "nat \<Rightarrow> int \<Rightarrow> agent_cache \<Rightarrow> agent_cache" where
  "set_phase r p ac = ac\<lparr>ac_objs := (ac_objs ac)(r := (ac_objs ac r)\<lparr>ag_DeploymentPhase := p\<rparr>)\<rparr>"

section \<open>Queries\<close>

text \<open>The agents that a \<open>range\<close> loop over a map visits, in its order.\<close>

definition range_agents :: "agent_cache \<Rightarrow> (string, nat) gomap \<Rightarrow> agent list" where
  "range_agents ac m = map (\<lambda>(k, r). ac_objs ac r) m"

definition GetTotalCountByRole :: "string \<Rightarrow> agent_cache \<Rightarrow> int" where
  "GetTotalCountByRole role ac =
     (if role = AgentRole_ETCD then int (length (ac_etcd ac))
      else if role = AgentRole_Master then int (length (ac_k8sMaster ac))
      else if role = AgentRole_Minion then int (length (ac_k8sMinion ac))
      else if role = AgentRole_HA then int (length (ac_ha ac))
      else - 1)"

text \<open>\<open>a.State != nil && f(a.State)\<close>.\<close>

definition state_flag :: "(agent_state \<Rightarrow> bool) \<Rightarrow> agent \<Rightarrow> bool" where
  "state_flag f a = (case ag_State a of None \<Rightarrow> False | Some s \<Rightarrow> f s)"

fun count_if :: "(agent \<Rightarrow> bool) \<Rightarrow> agent list \<Rightarrow> int" where
  "count_if f [] = 0"
| "count_if f (a # as) = (if f a then 1 else 0) + count_if f as"

definition GetTotalProvisionedCountByRole :: "string \<Rightarrow> agent_cache \<Rightarrow> int" where
  "GetTotalProvisionedCountByRole role ac =
     (if role = AgentRole_ETCD
        then count_if (state_flag as_HasProvisionedETCD) (range_agents ac (ac_etcd ac))
      else if role = AgentRole_Master
        then count_if (state_flag as_HasProvisionedMasterComponents) (range_agents ac (ac_k8sMaster ac))
      else if role = AgentRole_Minion
        then count_if (state_flag as_HasProvisionedMinion) (range_agents ac (ac_k8sMinion ac))
      else if role = AgentRole_HA
        then count_if (state_flag as_HasProvisionedHA) (range_agents ac (ac_ha ac))
      else - 1)"

text \<open>
  The four filters of \<open>GetAgentsAddress\<close>. The third test reads \<open>a.State\<close> only after
  \<open>IsRunning\<close>, which implies that it is not nil. The filter for minions has no such test.
\<close>

definition expFunc_ETCD :: "int \<Rightarrow> agent_status_flag \<Rightarrow> agent \<Rightarrow> bool" where
  "expFunc_ETCD now flag a =
     (if \<not> ag_HasETCDRole a then False
      else if flag = AgentStatusFlag_Running \<and> \<not> IsRunning now a then False
      else if flag = AgentStatusFlag_Provisioned \<and>
              (\<not> IsRunning now a \<or> \<not> state_flag as_HasProvisionedETCD a) then False
      else True)"

definition expFunc_Master :: "int \<Rightarrow> agent_status_flag \<Rightarrow> agent \<Rightarrow> bool" where
  "expFunc_Master now flag a =
     (if \<not> ag_HasMasterRole a then False
      else if flag = AgentStatusFlag_Running \<and> \<not> IsRunning now a then False
      else if flag = AgentStatusFlag_Provisioned \<and>
              (\<not> IsRunning now a \<or> \<not> state_flag as_HasProvisionedMasterComponents a) then False
      else True)"

definition expFunc_Minion :: "int \<Rightarrow> agent_status_flag \<Rightarrow> agent \<Rightarrow> bool" where
  "expFunc_Minion now flag a =
     (if \<not> ag_HasMinionRole a then False
      else if flag = AgentStatusFlag_Running \<and> \<not> IsRunning now a then False
      else True)"

definition expFunc_HA :: "int \<Rightarrow> agent_status_flag \<Rightarrow> agent \<Rightarrow> bool" where
  "expFunc_HA now flag a =
     (if \<not> ag_HasHARole a then False
      else if flag = AgentStatusFlag_Running \<and> \<not> IsRunning now a then False
      else if flag = AgentStatusFlag_Provisioned \<and>
              (\<not> IsRunning now a \<or> \<not> state_flag as_HasProvisionedHA a) then False
      else True)"

text \<open>\<open>ips = append(ips, as.State.LastReportIP)\<close> dereferences the state.\<close>

fun collect_ips :: "(agent \<Rightarrow> bool) \<Rightarrow> agent list \<Rightarrow> crash + string list" where
  "collect_ips f [] = Inr []"
| "collect_ips f (a # as) =
     (if f a
      then case ag_State a of
             None \<Rightarrow> Inl NilDeref
           | Some s \<Rightarrow> bindC (collect_ips f as) (\<lambda>ips. Inr (as_LastReportIP s # ips))
      else collect_ips f as)"

definition sorted_ips :: "(agent \<Rightarrow> bool) \<Rightarrow> agent list \<Rightarrow> crash + string list" where
  "sorted_ips f as = bindC (collect_ips f as) (\<lambda>ips. Inr (sort ips))"

definition GetAgentsAddress :: "int \<Rightarrow> string \<Rightarrow> agent_status_flag \<Rightarrow> agent_cache \<Rightarrow> crash + string list" where
  "GetAgentsAddress now role flag ac =
     (if role = AgentRole_ETCD then sorted_ips (expFunc_ETCD now flag) (range_agents ac (ac_etcd ac))
      else if role = AgentRole_Master then sorted_ips (expFunc_Master now flag) (range_agents ac (ac_k8sMaster ac))
      else if role = AgentRole_Minion then sorted_ips (expFunc_Minion now flag) (range_agents ac (ac_k8sMinion ac))
      else if role = AgentRole_HA then sorted_ips (expFunc_HA now flag) (range_agents ac (ac_ha ac))
      else Inl FatalExit)"

definition GetETCDCount :: "agent_cache \<Rightarrow> int" where
  "GetETCDCount ac = int (length (ac_etcd ac))"

definition GetKubernetesMasterCount :: "agent_cache \<Rightarrow> int" where
  "GetKubernetesMasterCount ac = int (length (ac_k8sMaster ac))"

definition GetKubernetesMinionCount :: "agent_cache \<Rightarrow> int" where
  "GetKubernetesMinionCount ac = int (length (ac_k8sMinion ac))"

definition GetHACount :: "agent_cache \<Rightarrow> int" where
  "GetHACount ac = int (length (ac_ha ac))"

definition GetFirstProvisionedKubernetesMasterAgent :: "agent_cache \<Rightarrow> agent option" where
  "GetFirstProvisionedKubernetesMasterAgent ac =
     find (state_flag as_HasProvisionedMasterComponents) (range_agents ac (ac_k8sMaster ac))"

definition GetAdminConfFromMasterAgents :: "agent_cache \<Rightarrow> string" where
  "GetAdminConfFromMasterAgents ac =
     (case find (\<lambda>a. ag_State a \<noteq> None) (range_agents ac (ac_k8sMaster ac)) of
        None \<Rightarrow> []
      | Some a \<Rightarrow> ag_AdminCertificate a)"

text \<open>
  The lookup of \<open>ClusterControllerImple.GetCachedAgent\<close>: the maps in a fixed order, the first
  that knows the identifier answers with its pointer.
\<close>

definition find_cached :: "string \<Rightarrow> agent_cache \<Rightarrow> nat option" where
  "find_cached agentId ac =
     (case gm_get (ac_etcd ac) agentId of Some r \<Rightarrow> Some r | None \<Rightarrow>
     (case gm_get (ac_k8sMaster ac) agentId of Some r \<Rightarrow> Some r | None \<Rightarrow>
     (case gm_get (ac_k8sMinion ac) agentId of Some r \<Rightarrow> Some r | None \<Rightarrow>
     (case gm_get (ac_ha ac) agentId of Some r \<Rightarrow> Some r | None \<Rightarrow>
     (case gm_get (ac_pool ac) agentId of Some r \<Rightarrow> Some r | None \<Rightarrow> None)))))"

section \<open>What the cache promises\<close>

text \<open>The abstract state: for every role (and the pool) a map from identifiers to agents.\<close>

datatype role = RoleETCD | RoleMaster | RoleMinion | RoleHA | RolePool

fun has_role :: "role \<Rightarrow> agent \<Rightarrow> bool" where
  "has_role RoleETCD a = ag_HasETCDRole a"
| "has_role RoleMaster a = ag_HasMasterRole a"
| "has_role RoleMinion a = ag_HasMinionRole a"
| "has_role RoleHA a = ag_HasHARole a"
| "has_role RolePool a =
     (\<not> ag_HasETCDRole a \<and> \<not> ag_HasMasterRole a \<and> \<not> ag_HasMinionRole a \<and> \<not> ag_HasHARole a)"

fun cache_map :: "role \<Rightarrow> agent_cache \<Rightarrow> (string, nat) gomap" where
  "cache_map RoleETCD ac = ac_etcd ac"
| "cache_map RoleMaster ac = ac_k8sMaster ac"
| "cache_map RoleMinion ac = ac_k8sMinion ac"
| "cache_map RoleHA ac = ac_ha ac"
| "cache_map RolePool ac = ac_pool ac"

definition view :: "agent_cache \<Rightarrow> role \<Rightarrow> string \<Rightarrow> agent option" where
  "view ac \<rho> k = map_option (ac_objs ac) (gm_get (cache_map \<rho> ac) k)"

definition entry_ok :: "agent_cache \<Rightarrow> role \<Rightarrow> string \<Rightarrow> nat \<Rightarrow> bool" where
  "entry_ok ac \<rho> k r \<longleftrightarrow> r < ac_fresh ac \<and> has_role \<rho> (ac_objs ac r) \<and> ag_Id (ac_objs ac r) = k \<and>
     ag_State (ac_objs ac r) \<noteq> None"

definition cache_inv :: "agent_cache \<Rightarrow> bool" where
  "cache_inv ac \<longleftrightarrow> (\<forall>\<rho>. gm_wf (cache_map \<rho> ac) \<and>
     (\<forall>k r. gm_get (cache_map \<rho> ac) k = Some r \<longrightarrow> entry_ok ac \<rho> k r))"

text \<open>An event that the watcher delivers: an agent came up (with its state) or went down.\<close>

datatype agent_event = AgentUp agent | AgentDown agent

fun event_agent :: "agent_event \<Rightarrow> agent" where
  "event_agent (AgentUp a) = a"
| "event_agent (AgentDown a) = a"

definition concerns :: "role \<Rightarrow> string \<Rightarrow> agent_event \<Rightarrow> bool" where
  "concerns \<rho> k e \<longleftrightarrow> ag_Id (event_agent e) = k \<and> has_role \<rho> (event_agent e)"

definition up_has_state :: "agent_event \<Rightarrow> bool" where
  "up_has_state e = (case e of AgentUp a \<Rightarrow> ag_State a \<noteq> None | AgentDown a \<Rightarrow> True)"

fun apply_event :: "(agent \<Rightarrow> 'c \<Rightarrow> 'c) \<Rightarrow> (agent \<Rightarrow> 'c \<Rightarrow> 'c) \<Rightarrow> agent_event \<Rightarrow> 'c \<Rightarrow> 'c" where
  "apply_event on off (AgentUp a) c = on a c"
| "apply_event on off (AgentDown a) c = off a c"

text \<open>The contract of a registry of agents, and what follows for any history of events.\<close>

locale agent_registry =
  fixes empty :: 'c
    and online :: "agent \<Rightarrow> 'c \<Rightarrow> 'c"
    and offline :: "agent \<Rightarrow> 'c \<Rightarrow> 'c"
    and look :: "'c \<Rightarrow> role \<Rightarrow> string \<Rightarrow> agent option"
    and invar :: "'c \<Rightarrow> bool"
  assumes look_empty: "look empty \<rho> k = None"
    and look_online: "invar c \<Longrightarrow> look (online a c) \<rho> k =
          (if has_role \<rho> a \<and> k = ag_Id a then Some a else look c \<rho> k)"
    and look_offline: "invar c \<Longrightarrow> look (offline a c) \<rho> k =
          (if has_role \<rho> a \<and> k = ag_Id a then None else look c \<rho> k)"
    and invar_empty: "invar empty"
    and invar_online: "invar c \<Longrightarrow> ag_State a \<noteq> None \<Longrightarrow> invar (online a c)"
    and invar_offline: "invar c \<Longrightarrow> invar (offline a c)"
begin

lemma invar_event: "invar c \<Longrightarrow> up_has_state e \<Longrightarrow> invar (apply_event online offline e c)"
  by (cases e) (auto simp: up_has_state_def intro: invar_online invar_offline)

lemma invar_run: "invar c \<Longrightarrow> \<forall>e \<in> set es. up_has_state e \<Longrightarrow> invar (fold (apply_event online offline) es c)"
  by (induction es arbitrary: c) (simp_all add: invar_event)

lemma look_event: "invar c \<Longrightarrow> look (apply_event online offline e c) \<rho> k =
    (if concerns \<rho> k e then (case e of AgentUp a \<Rightarrow> Some a | AgentDown a \<Rightarrow> None) else look c \<rho> k)"
  by (cases e) (auto simp: concerns_def look_online look_offline)

lemma look_run:
  assumes "\<forall>e \<in> set es. up_has_state e"
  shows "look (fold (apply_event online offline) es empty) \<rho> k = Some a \<longleftrightarrow>
     (\<exists>es1 es2. es = es1 @ AgentUp a # es2 \<and> concerns \<rho> k (AgentUp a) \<and> (\<forall>e \<in> set es2. \<not> concerns \<rho> k e))"
  using assms
proof (induction es rule: rev_induct)
  case Nil
  then show ?case by (simp add: look_empty)
next
  case (snoc e es)
  let ?c = "fold (apply_event online offline) es empty"
  have inv: "invar ?c" using snoc.prems by (auto intro: invar_run invar_empty)
  have IH: "look ?c \<rho> k = Some a \<longleftrightarrow>
     (\<exists>es1 es2. es = es1 @ AgentUp a # es2 \<and> concerns \<rho> k (AgentUp a) \<and> (\<forall>e \<in> set es2. \<not> concerns \<rho> k e))"
    using snoc by simp
  show ?case (is "_ \<longleftrightarrow> ?R")
  proof (cases "concerns \<rho> k e")
    case True
    have "?R \<longleftrightarrow> e = AgentUp a"
    proof
      assume ?R
      then obtain es1 es2 where *: "es @ [e] = es1 @ AgentUp a # es2"
        "\<forall>e \<in> set es2. \<not> concerns \<rho> k e" by blast
      with True show "e = AgentUp a" by (cases es2 rule: rev_cases) auto
    next
      assume "e = AgentUp a"
      with True show ?R by (intro exI [of _ es] exI [of _ "[]"]) auto
    qed
    with True inv show ?thesis by (auto simp: look_event split: agent_event.splits)
  next
    case False
    have "?R \<longleftrightarrow> (\<exists>es1 es2. es = es1 @ AgentUp a # es2 \<and> concerns \<rho> k (AgentUp a) \<and>
        (\<forall>e \<in> set es2. \<not> concerns \<rho> k e))" (is "_ \<longleftrightarrow> ?Q")
    proof
      assume ?R
      then obtain es1 es2 where *: "es @ [e] = es1 @ AgentUp a # es2" "concerns \<rho> k (AgentUp a)"
        "\<forall>e \<in> set es2. \<not> concerns \<rho> k e" by blast
      with False have "es2 \<noteq> []" by auto
      with * show ?Q by (cases es2 rule: rev_cases) auto
    next
      assume ?Q
      then obtain es1 es2 where "es = es1 @ AgentUp a # es2" "concerns \<rho> k (AgentUp a)"
        "\<forall>e \<in> set es2. \<not> concerns \<rho> k e" by blast
      with False show ?R by (intro exI [of _ es1] exI [of _ "es2 @ [e]"]) auto
    qed
    with IH False inv show ?thesis by (simp add: look_event)
  qed
qed

end

section \<open>The cache keeps the contract\<close>

lemma cache_map_Online [simp]: "cache_map \<rho> (Online a ac) =
    (if has_role \<rho> a then gm_put (ag_Id a) (ac_fresh ac) (cache_map \<rho> ac) else cache_map \<rho> ac)"
  by (cases \<rho>) (simp_all add: Online_def store_agent_def Let_def)

lemma cache_map_Offline [simp]: "cache_map \<rho> (Offline a ac) =
    (if has_role \<rho> a then gm_del (ag_Id a) (cache_map \<rho> ac) else cache_map \<rho> ac)"
  by (cases \<rho>) (simp_all add: Offline_def Let_def)

lemma heap_Online [simp]: "ac_objs (Online a ac) = (ac_objs ac)(ac_fresh ac := a)"
    "ac_fresh (Online a ac) = Suc (ac_fresh ac)"
  by (simp_all add: Online_def store_agent_def Let_def)

lemma heap_Offline [simp]: "ac_objs (Offline a ac) = ac_objs ac" "ac_fresh (Offline a ac) = ac_fresh ac"
  by (simp_all add: Offline_def Let_def)

lemma cache_map_set_phase [simp]: "cache_map \<rho> (set_phase r p ac) = cache_map \<rho> ac"
  by (cases \<rho>) (simp_all add: set_phase_def)

lemma cache_map_Initialize [simp]: "cache_map \<rho> Initialize = []"
  by (cases \<rho>) (simp_all add: Initialize_def)

lemma cache_invD:
  assumes "cache_inv ac"
  shows "gm_wf (cache_map \<rho> ac)" and "gm_get (cache_map \<rho> ac) k = Some r \<Longrightarrow> entry_ok ac \<rho> k r"
  using assms by (auto simp: cache_inv_def)

lemma cache_inv_Initialize: "cache_inv Initialize"
  by (simp add: cache_inv_def)

lemma cache_inv_Online: "cache_inv ac \<Longrightarrow> ag_State a \<noteq> None \<Longrightarrow> cache_inv (Online a ac)"
  by (auto simp: cache_inv_def entry_ok_def less_Suc_eq split: if_splits)

lemma cache_inv_Offline: "cache_inv ac \<Longrightarrow> cache_inv (Offline a ac)"
  by (auto simp: cache_inv_def entry_ok_def split: if_splits)

lemma has_role_phase [simp]: "has_role \<rho> (a\<lparr>ag_DeploymentPhase := p\<rparr>) = has_role \<rho> a"
  by (cases \<rho>) simp_all

lemma heap_set_phase [simp]: "ac_fresh (set_phase r p ac) = ac_fresh ac"
    "ac_objs (set_phase r p ac) = (ac_objs ac)(r := (ac_objs ac r)\<lparr>ag_DeploymentPhase := p\<rparr>)"
  by (simp_all add: set_phase_def)

lemma cache_inv_set_phase: "cache_inv ac \<Longrightarrow> cache_inv (set_phase r p ac)"
  by (auto simp: cache_inv_def entry_ok_def)

lemma view_Online: "cache_inv ac \<Longrightarrow> view (Online a ac) \<rho> k =
    (if has_role \<rho> a \<and> k = ag_Id a then Some a else view ac \<rho> k)"
  by (auto simp: view_def option.map_comp entry_ok_def
      intro!: option.map_cong dest!: cache_invD(2) [of ac])

lemma view_Offline: "view (Offline a ac) \<rho> k =
    (if has_role \<rho> a \<and> k = ag_Id a then None else view ac \<rho> k)"
  by (simp add: view_def)

interpretation registry: agent_registry Initialize Online Offline view cache_inv
  by unfold_locales
    (simp_all add: view_Online view_Offline cache_inv_Initialize cache_inv_Online cache_inv_Offline,
     simp add: view_def)

section \<open>Queries do not depend on the order of the maps\<close>

definition last_ip :: "agent \<Rightarrow> string" where
  "last_ip a = (case ag_State a of None \<Rightarrow> [] | Some s \<Rightarrow> as_LastReportIP s)"

lemma collect_ips_ok:
  "\<forall>a \<in> set as. ag_State a \<noteq> None \<Longrightarrow> collect_ips f as = Inr (map last_ip (filter f as))"
  by (induction as) (auto simp: last_ip_def)

lemma sorted_ips_ok:
  "\<forall>a \<in> set as. ag_State a \<noteq> None \<Longrightarrow> sorted_ips f as = Inr (sort (map last_ip (filter f as)))"
  by (simp add: sorted_ips_def collect_ips_ok)

lemma count_if_length: "count_if f as = int (length (filter f as))"
  by (induction as) auto

lemma count_if_mset: "mset as = mset bs \<Longrightarrow> count_if f as = count_if f bs"
  by (metis count_if_length mset_filter size_mset)

lemma range_agents_in:
  assumes "cache_inv ac" and "a \<in> set (range_agents ac (cache_map \<rho> ac))"
  shows "\<exists>r. gm_get (cache_map \<rho> ac) (ag_Id a) = Some r \<and> a = ac_objs ac r \<and> entry_ok ac \<rho> (ag_Id a) r"
proof -
  obtain k r where kr: "(k, r) \<in> set (cache_map \<rho> ac)" "a = ac_objs ac r"
    using assms(2) by (auto simp: range_agents_def)
  then have "gm_get (cache_map \<rho> ac) k = Some r"
    using cache_invD(1) [OF assms(1)] by (simp add: gm_get_in)
  with kr show ?thesis using cache_invD(2) [OF assms(1), of \<rho> k r] by (auto simp: entry_ok_def)
qed

lemma range_agents_state:
  "cache_inv ac \<Longrightarrow> \<forall>a \<in> set (range_agents ac (cache_map \<rho> ac)). ag_State a \<noteq> None"
  using range_agents_in by (fastforce simp: entry_ok_def)

lemma range_agents_iff:
  assumes "cache_inv ac"
  shows "a \<in> set (range_agents ac (cache_map \<rho> ac)) \<longleftrightarrow> view ac \<rho> (ag_Id a) = Some a"
proof
  assume "a \<in> set (range_agents ac (cache_map \<rho> ac))"
  then show "view ac \<rho> (ag_Id a) = Some a"
    using range_agents_in [OF assms] by (force simp: view_def)
next
  assume "view ac \<rho> (ag_Id a) = Some a"
  then obtain r where "gm_get (cache_map \<rho> ac) (ag_Id a) = Some r" "a = ac_objs ac r"
    by (auto simp: view_def)
  then show "a \<in> set (range_agents ac (cache_map \<rho> ac))"
    by (force simp: range_agents_def dest: map_of_SomeD)
qed

lemma range_agents_mset:
  assumes "cache_inv ac" and "cache_inv ac'" and "view ac \<rho> = view ac' \<rho>"
  shows "mset (range_agents ac (cache_map \<rho> ac)) = mset (range_agents ac' (cache_map \<rho> ac'))"
proof -
  let ?g = "\<lambda>ac. map (\<lambda>(k, r). (k, ac_objs ac r)) (cache_map \<rho> ac)"
  have wf: "gm_wf (?g ac)" "gm_wf (?g ac')"
    using cache_invD(1) [OF assms(1), of \<rho>] cache_invD(1) [OF assms(2), of \<rho>]
    by (simp_all add: gm_wf_def comp_def case_prod_beta')
  have "map_of (?g c) = view c \<rho>" for c
    by (simp add: map_of_map view_def fun_eq_iff comp_def)
  then have "mset (?g ac) = mset (?g ac')"
    using assms(3) by (intro gm_same_mset wf) simp
  then have "mset (map snd (?g ac)) = mset (map snd (?g ac'))"
    by (simp only: mset_map)
  then show ?thesis by (simp add: range_agents_def comp_def case_prod_beta')
qed

lemma sort_map_filter_mset: "mset as = mset bs \<Longrightarrow> sort (map g (filter f as)) = sort (map g (filter f bs))"
  by (metis mset_filter mset_map sorted_list_of_multiset_mset)

text \<open>The four switch cases in one: the map and the filters that belong to a role.\<close>

definition expFunc :: "int \<Rightarrow> agent_status_flag \<Rightarrow> role \<Rightarrow> agent \<Rightarrow> bool" where
  "expFunc now flag \<rho> = (case \<rho> of RoleETCD \<Rightarrow> expFunc_ETCD now flag | RoleMaster \<Rightarrow> expFunc_Master now flag
     | RoleMinion \<Rightarrow> expFunc_Minion now flag | RoleHA \<Rightarrow> expFunc_HA now flag | RolePool \<Rightarrow> (\<lambda>_. False))"

definition provisioned :: "role \<Rightarrow> agent_state \<Rightarrow> bool" where
  "provisioned \<rho> = (case \<rho> of RoleETCD \<Rightarrow> as_HasProvisionedETCD
     | RoleMaster \<Rightarrow> as_HasProvisionedMasterComponents | RoleMinion \<Rightarrow> as_HasProvisionedMinion
     | RoleHA \<Rightarrow> as_HasProvisionedHA | RolePool \<Rightarrow> (\<lambda>_. False))"

definition role_of :: "string \<Rightarrow> role option" where
  "role_of s = (if s = AgentRole_ETCD then Some RoleETCD else if s = AgentRole_Master then Some RoleMaster
     else if s = AgentRole_Minion then Some RoleMinion else if s = AgentRole_HA then Some RoleHA else None)"

lemma role_of_simps [simp]:
  "role_of AgentRole_ETCD = Some RoleETCD" "role_of AgentRole_Master = Some RoleMaster"
  "role_of AgentRole_Minion = Some RoleMinion" "role_of AgentRole_HA = Some RoleHA"
  by (simp_all add: role_of_def)

lemma GetAgentsAddress_role: "role_of s = Some \<rho> \<Longrightarrow>
    GetAgentsAddress now s flag ac = sorted_ips (expFunc now flag \<rho>) (range_agents ac (cache_map \<rho> ac))"
  by (auto simp: GetAgentsAddress_def role_of_def expFunc_def split: if_splits)

lemma GetTotalProvisionedCountByRole_role: "role_of s = Some \<rho> \<Longrightarrow>
    GetTotalProvisionedCountByRole s ac =
      count_if (state_flag (provisioned \<rho>)) (range_agents ac (cache_map \<rho> ac))"
  by (auto simp: GetTotalProvisionedCountByRole_def role_of_def provisioned_def split: if_splits)

lemma GetTotalCountByRole_role:
  "role_of s = Some \<rho> \<Longrightarrow> GetTotalCountByRole s ac = int (length (cache_map \<rho> ac))"
  by (auto simp: GetTotalCountByRole_def role_of_def split: if_splits)

lemma length_range_agents [simp]: "length (range_agents ac m) = length m"
  by (simp add: range_agents_def)

lemma GetAgentsAddress_ok:
  assumes "cache_inv ac" and "role_of s = Some \<rho>"
  shows "GetAgentsAddress now s flag ac =
     Inr (sort (map last_ip (filter (expFunc now flag \<rho>) (range_agents ac (cache_map \<rho> ac)))))"
  using assms by (simp add: GetAgentsAddress_role sorted_ips_ok range_agents_state)

lemma find_cached_view:
  "find_cached k ac = None \<longleftrightarrow> (\<forall>\<rho>. view ac \<rho> k = None)"
proof -
  have "(\<forall>\<rho>. view ac \<rho> k = None) \<longleftrightarrow> view ac RoleETCD k = None \<and> view ac RoleMaster k = None \<and>
      view ac RoleMinion k = None \<and> view ac RoleHA k = None \<and> view ac RolePool k = None"
    by (metis role.exhaust)
  then show ?thesis by (auto simp: find_cached_def view_def split: option.splits)
qed

lemma find_cached_entry:
  assumes "find_cached k ac = Some r"
  shows "\<exists>\<rho>. gm_get (cache_map \<rho> ac) k = Some r"
  using assms unfolding find_cached_def
  by (auto split: option.splits)
     (metis cache_map.simps)+

lemma provisioned_le_total: "GetTotalProvisionedCountByRole s ac \<le> GetTotalCountByRole s ac"
proof (cases "role_of s")
  case None
  then show ?thesis
    by (simp add: GetTotalProvisionedCountByRole_def GetTotalCountByRole_def role_of_def split: if_splits)
next
  case (Some \<rho>)
  then show ?thesis
    using length_filter_le [of _ "range_agents ac (cache_map \<rho> ac)"]
    by (simp add: GetTotalProvisionedCountByRole_role GetTotalCountByRole_role count_if_length)
qed

section \<open>Properties\<close>

text \<open>Two agents for the witnesses.\<close>

definition sample_state :: "string \<Rightarrow> agent_state" where
  "sample_state ip = zero_state\<lparr>as_LastReportIP := ip, as_HasProvisionedETCD := True\<rparr>"

definition sample_etcd :: "string \<Rightarrow> string \<Rightarrow> agent" where
  "sample_etcd i ip = zero_agent\<lparr>ag_Id := i, ag_HasETCDRole := True, ag_State := Some (sample_state ip)\<rparr>"

definition sample_master :: "string \<Rightarrow> string \<Rightarrow> agent" where
  "sample_master i ip = zero_agent\<lparr>ag_Id := i, ag_HasMasterRole := True, ag_State := Some (sample_state ip)\<rparr>"

lemmas sample_defs = sample_etcd_def sample_master_def sample_state_def zero_agent_def zero_state_def

text \<open>
  C32: after any history of agent events, the cache holds an agent under a role and an identifier
  exactly if the history has a last event for that role and identifier and it is that agent
  coming up.
\<close>

theorem cache_history:
  assumes "\<forall>e \<in> set es. up_has_state e"
  shows "view (fold (apply_event Online Offline) es Initialize) \<rho> k = Some a \<longleftrightarrow>
     (\<exists>es1 es2. es = es1 @ AgentUp a # es2 \<and> concerns \<rho> k (AgentUp a) \<and> (\<forall>e \<in> set es2. \<not> concerns \<rho> k e))"
  using assms by (rule registry.look_run)

theorem cache_history_witness:
  "view (fold (apply_event Online Offline)
     [AgentUp (sample_etcd ''n1'' ''10.0.0.1''), AgentUp (sample_etcd ''n2'' ''10.0.0.2''),
      AgentDown (sample_etcd ''n2'' ''10.0.0.2'')] Initialize) RoleETCD ''n1''
   = Some (sample_etcd ''n1'' ''10.0.0.1'')"
proof (subst cache_history)
  show "\<forall>e \<in> set [AgentUp (sample_etcd ''n1'' ''10.0.0.1''), AgentUp (sample_etcd ''n2'' ''10.0.0.2''),
      AgentDown (sample_etcd ''n2'' ''10.0.0.2'')]. up_has_state e"
    by (simp add: up_has_state_def sample_defs)
qed (intro exI [of _ "[]"] exI [of _ "[AgentUp (sample_etcd ''n2'' ''10.0.0.2''),
      AgentDown (sample_etcd ''n2'' ''10.0.0.2'')]"], simp add: concerns_def sample_defs)

text \<open>
  In a cache that only ever stored agents with a state, listing the addresses of a role never
  dereferences nil; the result is sorted and holds exactly the last reported addresses of the
  agents of that role that pass the requested status filter.
\<close>

theorem addresses_total:
  assumes "cache_inv ac" and "role_of s = Some \<rho>"
  shows "\<exists>ips. GetAgentsAddress now s flag ac = Inr ips \<and> sorted ips \<and>
     set ips = {last_ip a | a. view ac \<rho> (ag_Id a) = Some a \<and> expFunc now flag \<rho> a}"
proof -
  have "set (filter (expFunc now flag \<rho>) (range_agents ac (cache_map \<rho> ac))) =
        {a. view ac \<rho> (ag_Id a) = Some a \<and> expFunc now flag \<rho> a}"
    using range_agents_iff [OF assms(1)] by auto
  then show ?thesis by (auto simp: GetAgentsAddress_ok [OF assms])
qed

definition sample_cache :: agent_cache where
  "sample_cache = Online (sample_etcd ''n2'' ''10.0.0.2'') (Online (sample_etcd ''n1'' ''10.0.0.1'') Initialize)"

lemma sample_cache_inv: "cache_inv sample_cache"
  unfolding sample_cache_def by (intro cache_inv_Online cache_inv_Initialize) (simp_all add: sample_defs)

theorem addresses_total_witness:
  "\<exists>ips. GetAgentsAddress 0 AgentRole_ETCD AgentStatusFlag_Whatever sample_cache = Inr ips \<and> sorted ips \<and>
     set ips = {last_ip a | a. view sample_cache RoleETCD (ag_Id a) = Some a \<and>
       expFunc 0 AgentStatusFlag_Whatever RoleETCD a}"
  using sample_cache_inv by (rule addresses_total) simp

text \<open>
  C33: the answers do not depend on the order in which Go happens to visit its maps: two caches
  that hold the same agents agree on every address list and on every count.
\<close>

theorem queries_order_free:
  assumes "cache_inv ac" and "cache_inv ac'" and "view ac = view ac'"
  shows "GetAgentsAddress now s flag ac = GetAgentsAddress now s flag ac' \<and>
     GetTotalCountByRole s ac = GetTotalCountByRole s ac' \<and>
     GetTotalProvisionedCountByRole s ac = GetTotalProvisionedCountByRole s ac'"
proof (cases "role_of s")
  case None
  then show ?thesis
    by (simp add: GetAgentsAddress_def GetTotalCountByRole_def GetTotalProvisionedCountByRole_def
        role_of_def split: if_splits)
next
  case (Some \<rho>)
  from assms have "mset (range_agents ac (cache_map \<rho> ac)) = mset (range_agents ac' (cache_map \<rho> ac'))"
    by (intro range_agents_mset) simp_all
  note m = this mset_eq_length [OF this]
  from m show ?thesis
    by (simp add: Some GetTotalCountByRole_role GetTotalProvisionedCountByRole_role
        GetAgentsAddress_ok [OF assms(1) Some] GetAgentsAddress_ok [OF assms(2) Some]
        count_if_mset [OF m(1)] sort_map_filter_mset [OF m(1)])
qed

theorem queries_order_free_witness:
  "GetAgentsAddress 0 AgentRole_ETCD AgentStatusFlag_Running sample_cache =
   GetAgentsAddress 0 AgentRole_ETCD AgentStatusFlag_Running
     (Online (sample_etcd ''n1'' ''10.0.0.1'') (Online (sample_etcd ''n2'' ''10.0.0.2'') Initialize))"
proof (rule queries_order_free [THEN conjunct1])
  show inv: "cache_inv (Online (sample_etcd ''n1'' ''10.0.0.1'') (Online (sample_etcd ''n2'' ''10.0.0.2'') Initialize))"
    by (intro cache_inv_Online cache_inv_Initialize) (simp_all add: sample_defs)
  show "view sample_cache =
      view (Online (sample_etcd ''n1'' ''10.0.0.1'') (Online (sample_etcd ''n2'' ''10.0.0.2'') Initialize))"
  proof (intro ext)
    show "view sample_cache \<rho> k =
      view (Online (sample_etcd ''n1'' ''10.0.0.1'') (Online (sample_etcd ''n2'' ''10.0.0.2'') Initialize)) \<rho> k" for \<rho> k
      unfolding sample_cache_def
      by (simp add: view_Online cache_inv_Online cache_inv_Initialize sample_etcd_def)
  qed
qed (rule sample_cache_inv)

text \<open>
  An agent that goes offline with all the roles under which the cache knows its identifier is
  forgotten: no later lookup of the identifier finds it, and no other agent is touched.
\<close>

theorem offline_forgets:
  assumes "\<And>\<rho> b. view ac \<rho> (ag_Id a) = Some b \<Longrightarrow> has_role \<rho> a"
  shows "find_cached (ag_Id a) (Offline a ac) = None \<and>
     (\<forall>\<rho> k. k \<noteq> ag_Id a \<longrightarrow> view (Offline a ac) \<rho> k = view ac \<rho> k)"
  using assms by (auto simp: find_cached_view view_Offline) (metis option.exhaust)

theorem offline_forgets_witness:
  "find_cached ''n1'' (Offline (sample_etcd ''n1'' ''10.0.0.9'') sample_cache) = None"
proof -
  have "ag_Id (sample_etcd ''n1'' ''10.0.0.9'') = ''n1''" by (simp add: sample_defs)
  moreover have "has_role \<rho> (sample_etcd ''n1'' ''10.0.0.9'')" if "view sample_cache \<rho> ''n1'' = Some b" for \<rho> b
    using that unfolding sample_cache_def
    by (cases \<rho>) (simp_all add: view_Online cache_inv_Online cache_inv_Initialize sample_defs view_def)
  ultimately show ?thesis using offline_forgets [of sample_cache "sample_etcd ''n1'' ''10.0.0.9''"] by simp
qed

text \<open>
  An agent that comes online again under the same identifier with other roles leaves its old
  entry behind: going offline with the new roles does not remove it, and the lookup by
  identifier still finds the agent with the old roles.
\<close>

theorem role_change_leaves_stale_entry:
  assumes "cache_inv ac" and "ag_State a \<noteq> None" and "ag_State b \<noteq> None"
    and "ag_Id b = ag_Id a" and "has_role \<rho> a" and "\<not> has_role \<rho> b"
  shows "view (Offline b (Online b (Online a ac))) \<rho> (ag_Id a) = Some a \<and>
     find_cached (ag_Id a) (Offline b (Online b (Online a ac))) \<noteq> None"
proof -
  have "view (Offline b (Online b (Online a ac))) \<rho> (ag_Id a) = Some a"
    using assms by (simp add: view_Offline view_Online cache_inv_Online)
  then show ?thesis by (metis find_cached_view option.distinct(1))
qed

theorem role_change_leaves_stale_entry_witness:
  "find_cached ''n1'' (Offline (sample_master ''n1'' ''10.0.0.1'')
     (Online (sample_master ''n1'' ''10.0.0.1'') (Online (sample_etcd ''n1'' ''10.0.0.1'') Initialize))) \<noteq> None"
  using role_change_leaves_stale_entry [OF cache_inv_Initialize,
      of "sample_etcd ''n1'' ''10.0.0.1''" "sample_master ''n1'' ''10.0.0.1''" RoleETCD]
  by (simp add: sample_defs)

end
