(* ===== verification/Storage.thy ===== *)
theory Storage
  imports Entities
begin

text \<open>
  \<open>pkg/storage\<close> and the saving half of \<open>pkg/common\<close>: the interface of the storage driver, the
  keys under which agents and clusters are kept in etcd, and the operations that write them.

  The etcd client is a library: a driver is a record of functions over a world \<open>'w\<close> (everything
  outside the process), which answer with a value or an error. What the development relies on
  when a call succeeds is the predicate \<open>kv_driver\<close>: the documented behaviour of etcd's
  key-value operations over the contents \<open>kv\<close> of the store. A write that fails promises nothing
  (a request that timed out may have been applied), a read changes nothing. \<open>encoding/json\<close> enters as a \<open>codec\<close>, with the
  round trip of the values in question as the hypothesis of the theorems that need it.
\<close>

section \<open>The driver interface: driver.go\<close>

record get_response =
  gr_Count :: int
  gr_Kvs :: "(string \<times> string) list"
  gr_Revision :: int

text \<open>
  \<open>sd_Get w key withPrefix\<close>; \<open>sd_Put w key value lease\<close>; \<open>sd_TxnCreate\<close> is the one transaction
  that the source commits (put the key if its create revision is 0); \<open>sd_Watch w key\<close> opens a
  watch on a prefix; \<open>sd_Grant w ttl\<close> and \<open>sd_KeepAliveOnce w lease\<close> are the lease calls.
\<close>

record 'w driver =
  sd_Get :: "'w \<Rightarrow> string \<Rightarrow> bool \<Rightarrow> 'w \<times> (error + get_response)"
  sd_Put :: "'w \<Rightarrow> string \<Rightarrow> string \<Rightarrow> int option \<Rightarrow> 'w \<times> error option"
  sd_Delete :: "'w \<Rightarrow> string \<Rightarrow> 'w \<times> error option"
  sd_TxnCreate :: "'w \<Rightarrow> string \<Rightarrow> string \<Rightarrow> 'w \<times> error option"
  sd_Watch :: "'w \<Rightarrow> string \<Rightarrow> 'w"
  sd_Grant :: "'w \<Rightarrow> int \<Rightarrow> 'w \<times> (error + int)"
  sd_KeepAliveOnce :: "'w \<Rightarrow> int \<Rightarrow> 'w \<times> error option"

datatype driver_kind = ETCDStorageDriver

definition NewStorageDriver :: "string \<Rightarrow> error + driver_kind" where
  "NewStorageDriver t =
     (if to_lower t = ''etcd'' then Inr ETCDStorageDriver else Inl (EUnsupported t))"

text \<open>
  \<open>LightningMonkeyETCDStorageDriver.Initialize\<close>: the defaults are written into the caller's
  map, then the two durations are parsed and the endpoints checked, in this order.
  \<open>parse\<close> is \<open>time.ParseDuration\<close>, \<open>connect\<close> is \<open>clientv3.New\<close>.
\<close>

definition default_timeout :: "string \<Rightarrow> (string, string) gomap \<Rightarrow> (string, string) gomap" where
  "default_timeout k settings = (if gm_str settings k = [] then gm_put k ''5s'' settings else settings)"

definition ETCD_Initialize ::
  "(string \<Rightarrow> error + int) \<Rightarrow> (string list \<Rightarrow> int \<Rightarrow> error + 'c) \<Rightarrow> (string, string) gomap
     \<Rightarrow> (string, string) gomap \<times> (error + 'c \<times> int)" where
  "ETCD_Initialize parse connect settings0 =
     (let settings = default_timeout ''REQUEST_TIMEOUT'' (default_timeout ''DIAL_TIMEOUT'' settings0) in
      (settings,
       case parse (gm_str settings ''DIAL_TIMEOUT'') of
         Inl e \<Rightarrow> Inl (EWrap ''DIAL_TIMEOUT'' e)
       | Inr dialTimeout \<Rightarrow>
         (case parse (gm_str settings ''REQUEST_TIMEOUT'') of
            Inl e \<Rightarrow> Inl (EWrap ''REQUEST_TIMEOUT'' e)
          | Inr requestTimeout \<Rightarrow>
            (if gm_str settings ''ENDPOINTS'' = [] then Inl (ERequiredField ''ENDPOINTS'')
             else case connect (split_on CHR '','' (gm_str settings ''ENDPOINTS'')) dialTimeout of
                    Inl e \<Rightarrow> Inl (EWrap ''client'' e)
                  | Inr c \<Rightarrow> Inr (c, requestTimeout)))))"

section \<open>Keys\<close>

definition clusters_prefix :: string where
  "clusters_prefix = ''/lightning-monkey/clusters/''"

definition cluster_path :: "string \<Rightarrow> string" where
  "cluster_path cid = clusters_prefix @ cid"

definition agent_path :: "string \<Rightarrow> string \<Rightarrow> string" where
  "agent_path cid aid = cluster_path cid @ ''/agents/'' @ aid"

definition agent_settings_path :: "string \<Rightarrow> string \<Rightarrow> string" where
  "agent_settings_path cid aid = agent_path cid aid @ ''/settings''"

definition agent_state_path :: "string \<Rightarrow> string \<Rightarrow> string" where
  "agent_state_path cid aid = agent_path cid aid @ ''/state''"

definition metadata_path :: "string \<Rightarrow> string" where
  "metadata_path cid = cluster_path cid @ ''/metadata''"

definition certificate_path :: "string \<Rightarrow> string \<Rightarrow> string" where
  "certificate_path cid name = cluster_path cid @ ''/certificates/'' @ replace_char CHR ''/'' CHR ''_'' name"

lemmas path_defs = clusters_prefix_def cluster_path_def agent_path_def agent_settings_path_def
  agent_state_path_def metadata_path_def certificate_path_def

section \<open>JSON\<close>

record codec =
  mar_agent :: "agent \<Rightarrow> error + string"
  unm_agent :: "string \<Rightarrow> error + agent"
  mar_state :: "agent_state option \<Rightarrow> error + string"
  unm_state :: "string \<Rightarrow> error + agent_state"
  mar_settings :: "cluster_settings \<Rightarrow> error + string"
  unm_settings :: "string \<Rightarrow> error + cluster_settings"

text \<open>
  The round trip of one value. The field \<open>State\<close> of an agent carries the tag \<open>json:"-"\<close>: it is
  not written, and reads back as nil.
\<close>

definition codec_agent :: "codec \<Rightarrow> agent \<Rightarrow> bool" where
  "codec_agent c a \<longleftrightarrow> (\<forall>s. mar_agent c a = Inr s \<longrightarrow> unm_agent c s = Inr (a\<lparr>ag_State := None\<rparr>))"

definition codec_state :: "codec \<Rightarrow> agent_state \<Rightarrow> bool" where
  "codec_state c st \<longleftrightarrow> (\<forall>s. mar_state c (Some st) = Inr s \<longrightarrow> unm_state c s = Inr st)"

definition codec_settings :: "codec \<Rightarrow> cluster_settings \<Rightarrow> bool" where
  "codec_settings c x \<longleftrightarrow> (\<forall>s. mar_settings c x = Inr s \<longrightarrow> unm_settings c s = Inr x)"

section \<open>Saving agents: common.go\<close>

definition newETCDLease :: "'w driver \<Rightarrow> 'w \<Rightarrow> 'w \<times> (error + int)" where
  "newETCDLease d w =
     (case sd_Grant d w 15 of
        (w', Inl e) \<Rightarrow> (w', Inl (EWrap ''grant lease'' e))
      | (w', Inr i) \<Rightarrow> (w', Inr i))"

definition SaveAgentSettingsOnly :: "'w driver \<Rightarrow> codec \<Rightarrow> agent \<Rightarrow> 'w \<Rightarrow> 'w \<times> error option" where
  "SaveAgentSettingsOnly d c agent w =
     (case mar_agent c agent of
        Inl e \<Rightarrow> (w, Some e)
      | Inr data \<Rightarrow> sd_Put d w (agent_settings_path (ag_ClusterId agent) (ag_Id agent)) data None)"

text \<open>The functions below return a lease identifier (-1 with an error) next to the error.\<close>

definition SaveAgentStateOnlyWithTTL ::
  "'w driver \<Rightarrow> codec \<Rightarrow> string \<Rightarrow> string \<Rightarrow> agent_state option \<Rightarrow> 'w \<Rightarrow> 'w \<times> int \<times> error option" where
  "SaveAgentStateOnlyWithTTL d c clusterId agentId state w =
     (case newETCDLease d w of
        (w1, Inl e) \<Rightarrow> (w1, - 1, Some e)
      | (w1, Inr leaseId) \<Rightarrow>
        (case mar_state c state of
           Inl e \<Rightarrow> (w1, - 1, Some e)
         | Inr data \<Rightarrow>
           (case sd_Put d w1 (agent_state_path clusterId agentId) data (Some leaseId) of
              (w2, Some e) \<Rightarrow> (w2, - 1, Some e)
            | (w2, None) \<Rightarrow> (w2, leaseId, None))))"

definition SaveAgent :: "'w driver \<Rightarrow> codec \<Rightarrow> agent \<Rightarrow> 'w \<Rightarrow> 'w \<times> int \<times> error option" where
  "SaveAgent d c agent w =
     (case SaveAgentSettingsOnly d c agent w of
        (w1, Some e) \<Rightarrow> (w1, - 1, Some e)
      | (w1, None) \<Rightarrow> SaveAgentStateOnlyWithTTL d c (ag_ClusterId agent) (ag_Id agent) (ag_State agent) w1)"

text \<open>The lease: a new one where the caller has none (-1), else one more period of the old one.\<close>

definition renew_lease :: "'w driver \<Rightarrow> int \<Rightarrow> 'w \<Rightarrow> 'w \<times> (error + int)" where
  "renew_lease d leaseId w =
     (if leaseId = - 1 then newETCDLease d w
      else case sd_KeepAliveOnce d w leaseId of
             (w', Some e) \<Rightarrow> (w', Inl (EWrap ''renew lease'' e))
           | (w', None) \<Rightarrow> (w', Inr leaseId))"

definition SaveAgentStateOnly ::
  "'w driver \<Rightarrow> codec \<Rightarrow> string \<Rightarrow> string \<Rightarrow> int \<Rightarrow> agent_state \<Rightarrow> 'w \<Rightarrow> 'w \<times> int \<times> error option" where
  "SaveAgentStateOnly d c clusterId agentId leaseId0 state w =
     (case renew_lease d leaseId0 w of
        (w1, Inl e) \<Rightarrow> (w1, - 1, Some e)
      | (w1, Inr leaseId) \<Rightarrow>
        (case mar_state c (Some state) of
           Inl e \<Rightarrow> (w1, leaseId, Some e)
         | Inr data \<Rightarrow>
           (case sd_Put d w1 (agent_state_path clusterId agentId) data (Some leaseId) of
              (w2, r) \<Rightarrow> (w2, leaseId, r))))"

section \<open>Documented behaviour of etcd\<close>

definition read_law :: "'w driver \<Rightarrow> ('w \<Rightarrow> string \<rightharpoonup> string) \<Rightarrow> bool" where
  "read_law d kv \<longleftrightarrow> (\<forall>w k pre w' r. sd_Get d w k pre = (w', r) \<longrightarrow> kv w' = kv w)"

definition get_law :: "'w driver \<Rightarrow> ('w \<Rightarrow> string \<rightharpoonup> string) \<Rightarrow> bool" where
  "get_law d kv \<longleftrightarrow> (\<forall>w k w' r. sd_Get d w k False = (w', Inr r) \<longrightarrow>
     kv w' = kv w \<and> gr_Count r = int (length (gr_Kvs r)) \<and>
     gr_Kvs r = (case kv w k of None \<Rightarrow> [] | Some v \<Rightarrow> [(k, v)]))"

definition get_prefix_law :: "'w driver \<Rightarrow> ('w \<Rightarrow> string \<rightharpoonup> string) \<Rightarrow> bool" where
  "get_prefix_law d kv \<longleftrightarrow> (\<forall>w k w' r. sd_Get d w k True = (w', Inr r) \<longrightarrow>
     kv w' = kv w \<and> gr_Count r = int (length (gr_Kvs r)) \<and> sorted (map fst (gr_Kvs r)) \<and>
     distinct (map fst (gr_Kvs r)) \<and>
     map_of (gr_Kvs r) = (\<lambda>x. if is_prefix k x then kv w x else None))"

definition write_law :: "'w driver \<Rightarrow> ('w \<Rightarrow> string \<rightharpoonup> string) \<Rightarrow> bool" where
  "write_law d kv \<longleftrightarrow>
     (\<forall>w k v l w'. sd_Put d w k v l = (w', None) \<longrightarrow> kv w' = (kv w)(k \<mapsto> v)) \<and>
     (\<forall>w k w'. sd_Delete d w k = (w', None) \<longrightarrow> kv w' = (kv w)(k := None)) \<and>
     (\<forall>w k v w'. sd_TxnCreate d w k v = (w', None) \<longrightarrow>
        kv w' = (if kv w k = None then (kv w)(k \<mapsto> v) else kv w))"

definition lease_law :: "'w driver \<Rightarrow> ('w \<Rightarrow> string \<rightharpoonup> string) \<Rightarrow> bool" where
  "lease_law d kv \<longleftrightarrow>
     (\<forall>w k. kv (sd_Watch d w k) = kv w) \<and>
     (\<forall>w t w' r. sd_Grant d w t = (w', r) \<longrightarrow> kv w' = kv w) \<and>
     (\<forall>w l w' r. sd_KeepAliveOnce d w l = (w', r) \<longrightarrow> kv w' = kv w)"

definition kv_driver :: "'w driver \<Rightarrow> ('w \<Rightarrow> string \<rightharpoonup> string) \<Rightarrow> bool" where
  "kv_driver d kv \<longleftrightarrow> get_law d kv \<and> get_prefix_law d kv \<and> write_law d kv \<and> lease_law d kv \<and> read_law d kv"

lemma kv_read: "kv_driver d kv \<Longrightarrow> sd_Get d w k pre = (w', r) \<Longrightarrow> kv w' = kv w"
  unfolding kv_driver_def read_law_def by metis

lemma kv_get:
  assumes "kv_driver d kv" and "sd_Get d w k False = (w', Inr r)"
  shows "kv w' = kv w" and "gr_Count r = int (length (gr_Kvs r))"
    and "gr_Kvs r = (case kv w k of None \<Rightarrow> [] | Some v \<Rightarrow> [(k, v)])"
  using assms(1) [unfolded kv_driver_def, THEN conjunct1, unfolded get_law_def, rule_format, OF assms(2)]
  by simp_all

lemma kv_get_prefix:
  assumes "kv_driver d kv" and "sd_Get d w k True = (w', Inr r)"
  shows "kv w' = kv w" and "gr_Count r = int (length (gr_Kvs r))"
    and "sorted (map fst (gr_Kvs r))" and "distinct (map fst (gr_Kvs r))"
    and "map_of (gr_Kvs r) = (\<lambda>x. if is_prefix k x then kv w x else None)"
  using assms(1) [unfolded kv_driver_def, THEN conjunct2, THEN conjunct1, unfolded get_prefix_law_def,
    rule_format, OF assms(2)]
  by simp_all

lemma kv_put: "kv_driver d kv \<Longrightarrow> sd_Put d w k v l = (w', None) \<Longrightarrow> kv w' = (kv w)(k \<mapsto> v)"
  unfolding kv_driver_def write_law_def by metis

lemma kv_delete: "kv_driver d kv \<Longrightarrow> sd_Delete d w k = (w', None) \<Longrightarrow> kv w' = (kv w)(k := None)"
  unfolding kv_driver_def write_law_def by metis

lemma kv_txn: "kv_driver d kv \<Longrightarrow> sd_TxnCreate d w k v = (w', None) \<Longrightarrow>
    kv w' = (if kv w k = None then (kv w)(k \<mapsto> v) else kv w)"
  unfolding kv_driver_def write_law_def by metis

lemma kv_watch: "kv_driver d kv \<Longrightarrow> kv (sd_Watch d w k) = kv w"
  unfolding kv_driver_def lease_law_def by metis

lemma kv_grant: "kv_driver d kv \<Longrightarrow> sd_Grant d w t = (w', r) \<Longrightarrow> kv w' = kv w"
  unfolding kv_driver_def lease_law_def by metis

lemma kv_keepalive: "kv_driver d kv \<Longrightarrow> sd_KeepAliveOnce d w l = (w', r) \<Longrightarrow> kv w' = kv w"
  unfolding kv_driver_def lease_law_def by metis

section \<open>What the saving operations leave in the store\<close>

lemma newETCDLease_kv: "kv_driver d kv \<Longrightarrow> newETCDLease d w = (w', r) \<Longrightarrow> kv w' = kv w"
  by (auto simp: newETCDLease_def dest: kv_grant split: prod.splits sum.splits)

lemma renew_lease_kv: "kv_driver d kv \<Longrightarrow> renew_lease d l w = (w', r) \<Longrightarrow> kv w' = kv w"
  by (auto simp: renew_lease_def dest: newETCDLease_kv kv_keepalive split: if_splits prod.splits option.splits)

lemma SaveAgentSettingsOnly_kv:
  assumes "kv_driver d kv" and "SaveAgentSettingsOnly d c a w = (w', None)"
  shows "\<exists>data. mar_agent c a = Inr data \<and>
     kv w' = (kv w)(agent_settings_path (ag_ClusterId a) (ag_Id a) \<mapsto> data)"
  using assms by (auto simp: SaveAgentSettingsOnly_def dest: kv_put split: sum.splits)

lemma SaveAgentStateOnlyWithTTL_kv:
  assumes "kv_driver d kv" and "SaveAgentStateOnlyWithTTL d c cid aid st w = (w', l, None)"
  shows "\<exists>data. mar_state c st = Inr data \<and> kv w' = (kv w)(agent_state_path cid aid \<mapsto> data)"
  using assms newETCDLease_kv [OF assms(1)]
  by (auto simp: SaveAgentStateOnlyWithTTL_def dest!: kv_put split: sum.splits prod.splits option.splits)

lemma SaveAgentStateOnly_kv:
  assumes "kv_driver d kv" and "SaveAgentStateOnly d c cid aid l st w = (w', l', None)"
  shows "\<exists>data. mar_state c (Some st) = Inr data \<and> kv w' = (kv w)(agent_state_path cid aid \<mapsto> data)"
  using assms renew_lease_kv [OF assms(1)]
  by (auto simp: SaveAgentStateOnly_def dest!: kv_put split: sum.splits prod.splits)

lemma SaveAgent_kv:
  assumes "kv_driver d kv" and "SaveAgent d c a w = (w', l, None)"
  shows "\<exists>data data'. mar_agent c a = Inr data \<and> mar_state c (ag_State a) = Inr data' \<and>
     kv w' = (kv w)(agent_settings_path (ag_ClusterId a) (ag_Id a) \<mapsto> data,
                    agent_state_path (ag_ClusterId a) (ag_Id a) \<mapsto> data')"
proof -
  obtain w1 where 1: "SaveAgentSettingsOnly d c a w = (w1, None)"
    and 2: "SaveAgentStateOnlyWithTTL d c (ag_ClusterId a) (ag_Id a) (ag_State a) w1 = (w', l, None)"
    using assms(2) by (auto simp: SaveAgent_def split: prod.splits option.splits)
  from SaveAgentSettingsOnly_kv [OF assms(1) 1] SaveAgentStateOnlyWithTTL_kv [OF assms(1) 2]
  show ?thesis by auto
qed

text \<open>Keys are separated: identifiers that hold no slash can be read back from a key.\<close>

lemma slash_fields_agent_path:
  assumes "cid \<noteq> []" and "CHR ''/'' \<notin> set cid" and "aid \<noteq> []" and "CHR ''/'' \<notin> set aid"
    and "leaf \<noteq> []" and "CHR ''/'' \<notin> set leaf"
  shows "slash_fields (agent_path cid aid @ CHR ''/'' # leaf) =
           [''lightning-monkey'', ''clusters'', cid, ''agents'', aid, leaf]"
proof -
  have "slash_fields (''lightning-monkey'' @ CHR ''/'' # ''clusters'' @ CHR ''/'' # cid @
          CHR ''/'' # ''agents'' @ CHR ''/'' # aid @ CHR ''/'' # leaf) =
        [''lightning-monkey'', ''clusters'', cid, ''agents'', aid, leaf]"
    using assms by (simp del: append.simps)
  then show ?thesis by (simp add: path_defs)
qed

lemma settings_not_state: "agent_settings_path cid aid \<noteq> agent_state_path cid aid"
  by (simp add: path_defs)

section \<open>An in-memory store\<close>

text \<open>
  A driver that satisfies the laws, over any world that has the contents of the store as a
  field: the instance at which theorems about a driver are shown to apply.
\<close>

record mem_world =
  mw_kvs :: "(string, string) gomap"
  mw_next :: int

definition mem_kv :: "'a mem_world_scheme \<Rightarrow> string \<rightharpoonup> string" where
  "mem_kv w = map_of (mw_kvs w)"

definition mem_entries :: "string \<Rightarrow> (string, string) gomap \<Rightarrow> (string \<times> string) list" where
  "mem_entries pre m =
     map (\<lambda>k. (k, gm_str m k)) (sort (remdups (filter (is_prefix pre) (map fst m))))"

definition mem_response :: "(string \<times> string) list \<Rightarrow> get_response" where
  "mem_response kvs = \<lparr>gr_Count = int (length kvs), gr_Kvs = kvs, gr_Revision = 1\<rparr>"

definition mem_driver :: "'a mem_world_scheme driver" where
  "mem_driver =
     \<lparr>sd_Get = (\<lambda>w k pre. (w, Inr (mem_response
        (if pre then mem_entries k (mw_kvs w)
         else case gm_get (mw_kvs w) k of None \<Rightarrow> [] | Some v \<Rightarrow> [(k, v)])))),
      sd_Put = (\<lambda>w k v l. (w\<lparr>mw_kvs := gm_put k v (mw_kvs w)\<rparr>, None)),
      sd_Delete = (\<lambda>w k. (w\<lparr>mw_kvs := gm_del k (mw_kvs w)\<rparr>, None)),
      sd_TxnCreate = (\<lambda>w k v. (if gm_get (mw_kvs w) k = None
        then w\<lparr>mw_kvs := gm_put k v (mw_kvs w)\<rparr> else w, None)),
      sd_Watch = (\<lambda>w k. w),
      sd_Grant = (\<lambda>w t. (w\<lparr>mw_next := mw_next w + 1\<rparr>, Inr (mw_next w))),
      sd_KeepAliveOnce = (\<lambda>w l. (w, None))\<rparr>"

lemma map_of_mem_entries: "map_of (mem_entries pre m) = (\<lambda>x. if is_prefix pre x then map_of m x else None)"
proof
  fix x
  have "map_of (mem_entries pre m) x =
        (if x \<in> set (filter (is_prefix pre) (map fst m)) then Some (gm_str m x) else None)"
    by (simp add: mem_entries_def map_of_map_restrict restrict_map_def)
  moreover have "x \<in> set (map fst m) \<longleftrightarrow> map_of m x \<noteq> None"
    by (simp add: map_of_eq_None_iff)
  ultimately show "map_of (mem_entries pre m) x = (if is_prefix pre x then map_of m x else None)"
    by (cases "map_of m x") (simp_all add: gm_str_def)
qed

lemma mem_driver_kv: "kv_driver mem_driver mem_kv"
proof -
  have "get_law mem_driver mem_kv"
    by (auto simp: get_law_def mem_driver_def mem_response_def mem_kv_def)
  moreover have "get_prefix_law mem_driver mem_kv"
    by (auto simp: get_prefix_law_def mem_driver_def mem_response_def map_of_mem_entries fun_eq_iff mem_kv_def)
       (auto simp: mem_entries_def comp_def)
  moreover have "write_law mem_driver mem_kv"
    by (auto simp: write_law_def mem_driver_def mem_kv_def fun_eq_iff)
  moreover have "lease_law mem_driver mem_kv"
    by (auto simp: lease_law_def mem_driver_def mem_kv_def)
  moreover have "read_law mem_driver mem_kv"
    by (auto simp: read_law_def mem_driver_def)
  ultimately show ?thesis by (simp add: kv_driver_def)
qed

end
