(* ===== verification/GoLib.thy ===== *)
theory GoLib
  imports Prelude
begin

text \<open>
  The functions of Go's standard library that the handlers and the agent use beyond
  \<open>Prelude\<close>: number parsing (\<open>strconv\<close>), the verb \<open>%s\<close> (\<open>fmt\<close>), slash paths (\<open>path/filepath\<close>),
  \<open>regexp.ReplaceAllString\<close> for the one shape of expression that the source has, and
  \<open>html/template\<close> for templates whose only actions are \<open>{{.KEY}}\<close>.
\<close>

section \<open>strconv\<close>

fun digits_val :: "string \<Rightarrow> nat \<Rightarrow> nat option" where
  "digits_val [] n = Some n"
| "digits_val (c # cs) n =
     (if 48 \<le> (of_char c :: nat) \<and> (of_char c :: nat) \<le> 57
      then digits_val cs (10 * n + (of_char c - 48)) else None)"

definition signed :: "string \<Rightarrow> bool \<times> string" where
  "signed s = (case s of [] \<Rightarrow> (False, [])
     | c # cs \<Rightarrow> (if c = CHR ''-'' then (True, cs) else if c = CHR ''+'' then (False, cs) else (False, s)))"

text \<open>\<open>strconv.ParseInt(s, 10, bits)\<close>, and \<open>strconv.Atoi\<close> on a 64-bit machine; \<open>None\<close> is the error.\<close>

definition parse_int :: "nat \<Rightarrow> string \<Rightarrow> int option" where
  "parse_int bits s =
     (case signed s of (neg, ds) \<Rightarrow>
       (if ds = [] then None
        else case digits_val ds 0 of
          None \<Rightarrow> None
        | Some n \<Rightarrow>
          (if neg then (if int n \<le> 2 ^ (bits - 1) then Some (- int n) else None)
           else (if int n < 2 ^ (bits - 1) then Some (int n) else None))))"

definition atoi :: "string \<Rightarrow> int option" where
  "atoi s = parse_int 64 s"

lemma digits_val_append:
  "digits_val (xs @ ys) a = (case digits_val xs a of None \<Rightarrow> None | Some m \<Rightarrow> digits_val ys m)"
  by (induction xs arbitrary: a) auto

lemma digits_val_nat: "digits_val (nat_digits n) 0 = Some n"
proof (induction n rule: nat_digits.induct)
  case (1 n)
  then show ?case
    by (subst nat_digits.simps) (auto simp: digits_val_append)
qed

lemma nat_digits_char: "c \<in> set (nat_digits n) \<Longrightarrow> 48 \<le> (of_char c :: nat) \<and> (of_char c :: nat) \<le> 57"
proof (induction n rule: nat_digits.induct)
  case (1 n)
  then show ?case by (subst (asm) (2) nat_digits.simps) (auto split: if_splits)
qed

lemma signed_digits: "signed (nat_digits n) = (False, nat_digits n)"
proof -
  obtain c cs where c: "nat_digits n = c # cs" by (metis list.exhaust nat_digits_not_Nil)
  then have "48 \<le> (of_char c :: nat)" using nat_digits_char [of c n] by simp
  then have "c \<noteq> CHR ''-''" "c \<noteq> CHR ''+''" by auto
  with c show ?thesis by (simp add: signed_def)
qed

text \<open>What \<open>Itoa\<close> prints, \<open>Atoi\<close> reads back.\<close>

lemma atoi_itoa: "- (2 ^ 63) \<le> i \<Longrightarrow> i < 2 ^ 63 \<Longrightarrow> atoi (itoa i) = Some i"
  by (auto simp: atoi_def parse_int_def itoa_def signed_digits digits_val_nat)
     (auto simp: signed_def digits_val_nat)

section \<open>fmt\<close>

text \<open>\<open>fmt.Sprintf\<close> for a format whose verbs are \<open>%s\<close>, as many as there are arguments.\<close>

fun sprintf_s :: "string \<Rightarrow> string list \<Rightarrow> string" where
  "sprintf_s [] xs = []"
| "sprintf_s [c] xs = [c]"
| "sprintf_s (c # d # cs) xs =
     (if c = CHR ''%'' \<and> d = CHR ''s''
      then (case xs of [] \<Rightarrow> c # d # sprintf_s cs [] | y # ys \<Rightarrow> y @ sprintf_s cs ys)
      else c # sprintf_s (d # cs) xs)"

section \<open>path/filepath\<close>

text \<open>\<open>Clean\<close>: drop empty and \<open>.\<close> segments, let \<open>..\<close> take the segment before it away.\<close>

fun clean_segs :: "bool \<Rightarrow> string list \<Rightarrow> string list \<Rightarrow> string list" where
  "clean_segs rooted [] acc = rev acc"
| "clean_segs rooted (s # ss) acc =
     (if s = [] \<or> s = ''.'' then clean_segs rooted ss acc
      else if s = ''..''
      then (case acc of
              [] \<Rightarrow> clean_segs rooted ss (if rooted then [] else [''..''])
            | a # as \<Rightarrow> clean_segs rooted ss (if a = ''..'' then ''..'' # acc else as))
      else clean_segs rooted ss (s # acc))"

definition path_clean :: "string \<Rightarrow> string" where
  "path_clean p =
     (if p = [] then ''.''
      else let rooted = (hd p = CHR ''/''); segs = clean_segs rooted (split_on CHR ''/'' p) [] in
        if rooted then ''/'' @ join ''/'' segs
        else if segs = [] then ''.'' else join ''/'' segs)"

definition path_join :: "string list \<Rightarrow> string" where
  "path_join ps = (case filter (\<lambda>p. p \<noteq> []) ps of [] \<Rightarrow> [] | q # qs \<Rightarrow> path_clean (join ''/'' (q # qs)))"

definition path_dir :: "string \<Rightarrow> string" where
  "path_dir p = path_clean (rev (dropWhile (\<lambda>c. c \<noteq> CHR ''/'') (rev p)))"

section \<open>strings\<close>

text \<open>\<open>strings.Replace(s, old, new, -1)\<close> and \<open>strings.Count\<close> for a non-empty \<open>old\<close>.\<close>

definition replace_str :: "string \<Rightarrow> string \<Rightarrow> string \<Rightarrow> string" where
  "replace_str old new s = join new (split_str old s)"

definition count_str :: "string \<Rightarrow> string \<Rightarrow> nat" where
  "count_str sub s = length (split_str sub s) - 1"

lemma split_aux_append: "split_aux d (a @ d # s) acc = split_aux d a acc @ split_on d s"
  by (induction a arbitrary: acc) (auto simp: split_on_def)

lemma split_on_append: "split_on d (a @ d # s) = split_on d a @ split_on d s"
  by (simp add: split_on_def split_aux_append)

lemma split_aux_not_Nil: "split_aux d s acc \<noteq> []"
  by (induction s arbitrary: acc) auto

lemma join_split_aux: "join [d] (split_aux d s acc) = rev acc @ s"
proof (induction s arbitrary: acc)
  case Nil
  then show ?case by simp
next
  case (Cons c s)
  then have "join [d] (split_aux d s []) = s" by simp
  then have "c = d \<Longrightarrow> join [d] (rev acc # split_aux d s []) = rev acc @ c # s"
    by (cases "split_aux d s []") (auto simp: split_aux_not_Nil)
  with Cons show ?case by simp
qed

lemma inj_split_on: "inj (split_on d)"
  by (rule inj_on_inverseI [where g = "join [d]"]) (simp add: split_on_def join_split_aux)

lemma lex_append: "(as @ xs \<le> as @ ys) = (xs \<le> (ys :: string list))"
  by (induction as) auto

lemma is_prefix_append [simp]: "is_prefix xs (xs @ ys)"
  by (induction xs) auto

abbreviation newline :: char where
  "newline \<equiv> CHR 0x0A"

definition unlines :: "string list \<Rightarrow> string" where
  "unlines ls = join [newline] ls"

section \<open>regexp\<close>

definition word_char :: "char \<Rightarrow> bool" where
  "word_char c = (let n = (of_char c :: nat) in
     (48 \<le> n \<and> n \<le> 57) \<or> (65 \<le> n \<and> n \<le> 90) \<or> n = 95 \<or> (97 \<le> n \<and> n \<le> 122))"

text \<open>The name after a dollar sign in a replacement, and what follows it.\<close>

definition extract_name :: "string \<Rightarrow> (string \<times> string) option" where
  "extract_name t =
     (case t of
        [] \<Rightarrow> None
      | c # cs \<Rightarrow>
        (let brace = (c = CHR ''{''); s = (if brace then cs else t);
             name = takeWhile word_char s; rest = dropWhile word_char s in
         if name = [] then None
         else if brace then (if rest \<noteq> [] \<and> hd rest = CHR ''}'' then Some (name, tl rest) else None)
         else Some (name, rest)))"

text \<open>The text of a group; a number has no leading zero, every other name is of no group.\<close>

definition group :: "string list \<Rightarrow> string \<Rightarrow> string" where
  "group gs name =
     (if length name > 1 \<and> hd name = CHR ''0'' then []
      else case digits_val name 0 of None \<Rightarrow> [] | Some n \<Rightarrow> (if n < length gs then gs ! n else []))"

lemma extract_name_shorter:
  assumes "extract_name t = Some (n, r)"
  shows "length r < length t"
proof -
  have len: "length (takeWhile word_char s) + length (dropWhile word_char s) = length s" for s
    by (metis length_append takeWhile_dropWhile_id)
  obtain c cs where t: "t = c # cs" using assms by (cases t) (auto simp: extract_name_def)
  from assms consider "r = tl (dropWhile word_char cs)" | "r = dropWhile word_char t" "takeWhile word_char t \<noteq> []"
    by (auto simp: extract_name_def t Let_def split: if_splits)
  then show ?thesis
  proof cases
    case 1
    with len [of cs] show ?thesis by (simp add: t)
  next
    case 2
    then have "length (takeWhile word_char t) \<noteq> 0" by simp
    with len [of t] have "length (dropWhile word_char t) < length t" by arith
    with 2 show ?thesis by simp
  qed
qed

function expand :: "string list \<Rightarrow> string \<Rightarrow> string" where
  "expand gs [] = []"
| "expand gs (c # t) =
     (if c \<noteq> CHR ''$'' then c # expand gs t
      else if t \<noteq> [] \<and> hd t = CHR ''$'' then CHR ''$'' # expand gs (tl t)
      else case extract_name t of
        None \<Rightarrow> CHR ''$'' # expand gs t
      | Some (n, r) \<Rightarrow> group gs n @ expand gs r)"
  by pat_completeness auto
termination
  by (relation "measure (\<lambda>(gs, t). length t)") (auto dest: extract_name_shorter)

text \<open>
  \<open>regexp.MustCompile(`(pre)(.*)`).ReplaceAllString(s, repl)\<close> for a literal \<open>pre\<close> without a
  newline: \<open>.\<close> does not match a newline, so in every line the first occurrence of \<open>pre\<close> and
  all that follows it is replaced.
\<close>

fun after :: "string \<Rightarrow> string \<Rightarrow> (string \<times> string) option" where
  "after pre [] = (if pre = [] then Some ([], []) else None)"
| "after pre (c # cs) =
     (if is_prefix pre (c # cs) then Some ([], drop (length pre) (c # cs))
      else map_option (\<lambda>(b, r). (c # b, r)) (after pre cs))"

definition rewrite_line :: "string \<Rightarrow> string \<Rightarrow> string \<Rightarrow> string" where
  "rewrite_line pre repl l =
     (case after pre l of None \<Rightarrow> l | Some (b, r) \<Rightarrow> b @ expand [pre @ r, pre, r] repl)"

definition replace_lines :: "string \<Rightarrow> string \<Rightarrow> string \<Rightarrow> string" where
  "replace_lines pre repl s = unlines (map (rewrite_line pre repl) (split_on newline s))"

section \<open>html/template\<close>

text \<open>The escaper that \<open>html/template\<close> applies to a value in the text of a document.\<close>

definition html_char :: "char \<Rightarrow> string" where
  "html_char c =
     (if c = CHR 0x22 then ''&#34;'' else if c = CHR ''&'' then ''&amp;''
      else if c = CHR 0x27 then ''&#39;'' else if c = CHR ''+'' then ''&#43;''
      else if c = CHR ''<'' then ''&lt;'' else if c = CHR ''>'' then ''&gt;'' else [c])"

definition html_escape :: "string \<Rightarrow> string" where
  "html_escape s = concat (map html_char s)"

definition fill_piece :: "(string, string) gomap \<Rightarrow> string \<Rightarrow> string" where
  "fill_piece attrs p =
     (let n = takeWhile (\<lambda>c. c \<noteq> CHR ''}'') p in html_escape (gm_str attrs n) @ drop (length n + 2) p)"

text \<open>
  Executing a template that is text without \<open><\<close> with actions \<open>{{.KEY}}\<close> whose keys are all present.
\<close>

definition execute_template :: "string \<Rightarrow> (string, string) gomap \<Rightarrow> string" where
  "execute_template tpl attrs =
     (case split_str ''{{.'' tpl of [] \<Rightarrow> [] | t # ps \<Rightarrow> t @ concat (map (fill_piece attrs) ps))"

section \<open>Templates\<close>

lemma split_str_aux_text:
  "list_all (\<lambda>c. c \<noteq> CHR ''{'') t \<Longrightarrow>
   split_str_aux ''{{.'' 0 (t @ CHR ''{'' # CHR ''{'' # CHR ''.'' # r) acc = (rev acc @ t) # split_str_aux ''{{.'' 0 r []"
  by (induction t arbitrary: acc) (auto simp: numeral_2_eq_2)

lemma split_str_aux_end: "list_all (\<lambda>c. c \<noteq> CHR ''{'') t \<Longrightarrow> split_str_aux ''{{.'' 0 t acc = [rev acc @ t]"
  by (induction t arbitrary: acc) auto

text \<open>A template as its text and the actions in it, each with the text that follows.\<close>

definition template :: "string \<Rightarrow> (string \<times> string) list \<Rightarrow> string" where
  "template t ps = t @ concat (map (\<lambda>(k, u). ''{{.'' @ k @ ''}}'' @ u) ps)"

definition template_ok :: "string \<Rightarrow> (string \<times> string) list \<Rightarrow> bool" where
  "template_ok t ps \<longleftrightarrow> list_all (\<lambda>c. c \<noteq> CHR ''{'') t \<and>
     list_all (\<lambda>(k, u). list_all (\<lambda>c. c \<noteq> CHR ''{'' \<and> c \<noteq> CHR ''}'') k \<and> list_all (\<lambda>c. c \<noteq> CHR ''{'') u) ps"

lemma split_template: "template_ok t ps \<Longrightarrow> split_str ''{{.'' (template t ps) = t # map (\<lambda>(k, u). k @ ''}}'' @ u) ps"
proof (induction ps arbitrary: t)
  case Nil
  then show ?case by (simp add: template_ok_def template_def split_str_def split_str_aux_end)
next
  case (Cons p ps)
  obtain k u where p: "p = (k, u)" by fastforce
  have k: "list_all (\<lambda>c. c \<noteq> CHR ''{'') k" using Cons.prems p by (auto simp: template_ok_def list_all_iff)
  with Cons.prems p have "template_ok (k @ ''}}'' @ u) ps" by (simp add: template_ok_def)
  from Cons.IH [OF this] Cons.prems p show ?case
    by (simp add: template_def template_ok_def split_str_def split_str_aux_text)
qed

lemma fill_piece_key:
  "list_all (\<lambda>c. c \<noteq> CHR ''}'') k \<Longrightarrow> fill_piece attrs (k @ ''}}'' @ u) = html_escape (gm_str attrs k) @ u"
  by (simp add: fill_piece_def Let_def list_all_iff takeWhile_append)

lemma execute_template_pieces:
  assumes "template_ok t ps"
  shows "execute_template (template t ps) attrs = t @ concat (map (\<lambda>(k, u). html_escape (gm_str attrs k) @ u) ps)"
proof -
  have "fill_piece attrs (k @ ''}}'' @ u) = html_escape (gm_str attrs k) @ u" if "(k, u) \<in> set ps" for k u
  proof (rule fill_piece_key)
    from assms that show "list_all (\<lambda>c. c \<noteq> CHR ''}'') k" by (fastforce simp: template_ok_def list_all_iff)
  qed
  then have "map (fill_piece attrs) (map (\<lambda>(k, u). k @ ''}}'' @ u) ps) = map (\<lambda>(k, u). html_escape (gm_str attrs k) @ u) ps"
    unfolding map_map by (intro map_cong) (auto simp del: append_Cons)
  then show ?thesis by (simp only: execute_template_def split_template [OF assms] list.case)
qed

end
