(* ===== verification/Templates.thy ===== *)
theory Templates
  imports GoLib
begin

text \<open>
  \<open>text/template\<close> for the templates of the deployment controllers, which are texts with actions
  \<open>{{.KEY}}\<close>: \<open>parse_template\<close> is \<open>Parse\<close>, \<open>exec_pieces\<close> is \<open>Execute\<close> on a map of strings. Values are
  inserted as they are. The lemmas say how a template goes line by line (\<open>text_template_lines\<close>)
  and when the values that are filled into a line cannot change how the text around them is read
  (\<open>neat_line\<close>).
\<close>

section \<open>Parsing and executing\<close>

text \<open>\<open>None\<close> stands for a template that is outside of this class.\<close>

datatype piece = Lit char | Field string

definition field_name :: "string \<Rightarrow> string option" where
  "field_name a =
     (case rev (dropWhile (\<lambda>c. c = CHR '' '') (rev (dropWhile (\<lambda>c. c = CHR '' '') a))) of
        [] \<Rightarrow> None
      | c # k \<Rightarrow> (if c = CHR ''.'' \<and> k \<noteq> [] \<and> list_all word_char k then Some k else None))"

lemma is_prefix_iff: "is_prefix p k \<longleftrightarrow> (\<exists>r. k = p @ r)"
proof (induction p arbitrary: k)
  case (Cons x p)
  then show ?case by (cases k) auto
qed simp

lemma after_hit: "after pre (pre @ u) = Some ([], u)"
proof (cases "pre @ u")
  case (Cons c cs)
  then have "is_prefix pre (c # cs)" using is_prefix_append [of pre u] by simp
  moreover have "drop (length pre) (c # cs) = u" using Cons by (metis append_eq_conv_conj)
  ultimately show ?thesis using Cons by (simp del: is_prefix.simps)
qed simp

lemma after_length: "after pre s = Some (b, r) \<Longrightarrow> length s = length b + length pre + length r"
proof (induction pre s arbitrary: b r rule: after.induct)
  case (2 pre c cs)
  show ?case
  proof (cases "is_prefix pre (c # cs)")
    case True
    then obtain u where "c # cs = pre @ u" by (auto simp: is_prefix_iff)
    moreover from this have "b = []" "r = u" using "2.prems" by (simp_all add: after_hit)
    ultimately show ?thesis by simp
  next
    case False
    with 2 show ?thesis by (auto simp del: is_prefix.simps)
  qed
qed (auto split: if_splits)

function parse_template :: "string \<Rightarrow> piece list option" where
  "parse_template [] = Some []"
| "parse_template (c # cs) =
     (if is_prefix ''{{'' (c # cs)
      then case after ''}}'' (tl cs) of
             None \<Rightarrow> None
           | Some (a, r) \<Rightarrow>
             (case field_name a of
                None \<Rightarrow> None
              | Some k \<Rightarrow> map_option ((#) (Field k)) (parse_template r))
      else map_option ((#) (Lit c)) (parse_template cs))"
  by pat_completeness auto
termination
proof (relation "measure length")
  fix c cs x2 a r and k :: string
  assume "after ''}}'' (tl cs) = Some x2" and "(a, r) = x2"
  then have "length r \<le> length (tl cs)" using after_length [of "''}}''" "tl cs" a r] by simp
  then show "(r, c # cs) \<in> measure length" by simp
qed auto

declare parse_template.simps(2) [simp del]

text \<open>A missing key prints as \<open><no value>\<close>.\<close>

fun exec_piece :: "(string, string) gomap \<Rightarrow> piece \<Rightarrow> string" where
  "exec_piece attrs (Lit c) = [c]"
| "exec_piece attrs (Field k) = (case gm_get attrs k of None \<Rightarrow> ''<no value>'' | Some v \<Rightarrow> v)"

definition exec_pieces :: "(string, string) gomap \<Rightarrow> piece list \<Rightarrow> string" where
  "exec_pieces attrs ps = concat (map (exec_piece attrs) ps)"

definition text_template :: "string \<Rightarrow> (string, string) gomap \<Rightarrow> string option" where
  "text_template tpl attrs = map_option (exec_pieces attrs) (parse_template tpl)"

lemma exec_pieces_simps [simp]:
  "exec_pieces attrs [] = []"
  "exec_pieces attrs (p # ps) = exec_piece attrs p @ exec_pieces attrs ps"
  by (simp_all add: exec_pieces_def)

lemma exec_pieces_append: "exec_pieces attrs (ps @ qs) = exec_pieces attrs ps @ exec_pieces attrs qs"
  by (simp add: exec_pieces_def)

section \<open>Line by line\<close>

lemma is_prefix_shorter: "is_prefix p (s @ t) \<Longrightarrow> length p \<le> length s \<Longrightarrow> is_prefix p s"
  by (induction p s rule: is_prefix.induct) auto

lemma is_prefix_longer: "is_prefix p s \<Longrightarrow> is_prefix p (s @ t)"
  by (auto simp: is_prefix_iff)

lemma after_append: "after pre s = Some (b, r) \<Longrightarrow> after pre (s @ t) = Some (b, r @ t)"
proof (induction pre s arbitrary: b r rule: after.induct)
  case (1 pre)
  then show ?case by (cases t) (auto split: if_splits)
next
  case (2 pre c cs)
  show ?case
  proof (cases "is_prefix pre (c # cs)")
    case True
    then obtain u where u: "c # cs = pre @ u" by (auto simp: is_prefix_iff)
    then have "c # (cs @ t) = pre @ (u @ t)" by (metis append.assoc append_Cons)
    with "2.prems" u show ?thesis by (simp add: after_hit)
  next
    case False
    with 2 obtain b' where b': "after pre cs = Some (b', r)" "b = c # b'"
      by (auto simp del: is_prefix.simps)
    from after_length [OF b'(1)] False is_prefix_shorter [of pre "c # cs" t]
    have "\<not> is_prefix pre (c # cs @ t)" by (auto simp del: is_prefix.simps)
    with "2.IH" [OF False b'(1)] b' show ?thesis by (simp del: is_prefix.simps)
  qed
qed

lemma parse_template_append:
  assumes "parse_template a = Some ps"
  shows "parse_template (a @ newline # b) = map_option (\<lambda>qs. ps @ Lit newline # qs) (parse_template b)"
  using assms
proof (induction a arbitrary: ps rule: parse_template.induct)
  case 1
  then show ?case by (simp add: parse_template.simps(2) option.map_comp comp_def)
next
  case (2 c cs)
  show ?case
  proof (cases "is_prefix ''{{'' (c # cs)")
    case True
    with "2.prems" obtain x r k qs where x: "after ''}}'' (tl cs) = Some (x, r)" "field_name x = Some k"
      "parse_template r = Some qs" "ps = Field k # qs"
      by (auto simp: parse_template.simps(2) simp del: is_prefix.simps split: option.splits prod.splits)
    from True obtain ds where "cs = CHR ''{'' # ds" by (cases cs) auto
    then have "after ''}}'' (tl (cs @ newline # b)) = Some (x, r @ newline # b)"
      using after_append [OF x(1), of "newline # b"] by simp
    moreover have "is_prefix ''{{'' (c # cs @ newline # b)"
      using is_prefix_longer [OF True, of "newline # b"] by (simp del: is_prefix.simps)
    ultimately show ?thesis
      using "2.IH"(1) [OF True x(1) refl x(2,3)] x
      by (simp add: parse_template.simps(2) option.map_comp comp_def del: is_prefix.simps)
  next
    case False
    with "2.prems" obtain qs where qs: "parse_template cs = Some qs" "ps = Lit c # qs"
      by (auto simp: parse_template.simps(2) simp del: is_prefix.simps)
    from False have "\<not> is_prefix ''{{'' (c # cs @ newline # b)" by (cases cs) simp_all
    with "2.IH"(2) [OF False qs(1)] qs(2) show ?thesis
      by (simp add: parse_template.simps(2) option.map_comp comp_def del: is_prefix.simps)
  qed
qed

text \<open>A line of a template, filled in.\<close>

definition fill :: "(string, string) gomap \<Rightarrow> string \<Rightarrow> string" where
  "fill attrs l = (case parse_template l of None \<Rightarrow> [] | Some ps \<Rightarrow> exec_pieces attrs ps)"

lemma unlines_Cons: "ls \<noteq> [] \<Longrightarrow> unlines (l # ls) = l @ newline # unlines ls"
  by (cases ls) (simp_all add: unlines_def)

lemma unlines_single [simp]: "unlines [l] = l"
  by (simp add: unlines_def)

lemma text_template_lines:
  assumes "ls \<noteq> []" and "list_all (\<lambda>l. parse_template l \<noteq> None) ls"
  shows "text_template (unlines ls) attrs = Some (unlines (map (fill attrs) ls))"
  using assms
proof (induction ls)
  case (Cons l ls)
  then obtain ps where ps: "parse_template l = Some ps" by auto
  show ?case
  proof (cases "ls = []")
    case True
    with ps show ?thesis by (simp add: text_template_def fill_def)
  next
    case False
    with Cons obtain qs where qs: "parse_template (unlines ls) = Some qs"
      "exec_pieces attrs qs = unlines (map (fill attrs) ls)"
      by (auto simp: text_template_def)
    moreover have "fill attrs l = exec_pieces attrs ps" using ps by (simp add: fill_def)
    ultimately show ?thesis using False
      by (simp add: text_template_def unlines_Cons parse_template_append [OF ps] exec_pieces_append)
  qed
qed simp

section \<open>Values in a line\<close>

text \<open>
  The two texts that the code looks for in a filled-in template: the separator of documents, and
  the API group that decides which decoder reads a document.
\<close>

definition marks :: "string list" where
  "marks = [''---'', ''apiregistration.k8s.io'']"

text \<open>A value that is one line, without any of the two in it.\<close>

definition plain_value :: "string \<Rightarrow> bool" where
  "plain_value v \<longleftrightarrow> list_all (\<lambda>p. \<not> contains p v) marks \<and> newline \<notin> set v"

definition plain_values :: "(string, string) gomap \<Rightarrow> bool" where
  "plain_values attrs \<longleftrightarrow> list_all (\<lambda>(k, v). plain_value v) attrs"

text \<open>
  No field of the line can complete an occurrence of \<open>p\<close> with the text around it: no beginning of
  \<open>p\<close> stands before the field (\<open>prev\<close> is that text, last character first), and the character
  after it is not of \<open>p\<close>.
\<close>

definition no_tail :: "string \<Rightarrow> string \<Rightarrow> bool" where
  "no_tail p prev \<longleftrightarrow> list_all (\<lambda>i. \<not> is_prefix (rev (take i p)) prev) [1..<length p]"

fun apart :: "string \<Rightarrow> string \<Rightarrow> piece list \<Rightarrow> bool" where
  "apart p prev [] = True"
| "apart p prev (Lit c # ps) = apart p (c # prev) ps"
| "apart p prev (Field k # ps) =
     (no_tail p prev \<and> (case ps of [] \<Rightarrow> True | Lit c # qs \<Rightarrow> c \<notin> set p | Field j # qs \<Rightarrow> False) \<and> apart p [] ps)"

fun skeleton :: "piece list \<Rightarrow> string" where
  "skeleton [] = []"
| "skeleton (Lit c # ps) = c # skeleton ps"
| "skeleton (Field k # ps) = CHR '' '' # skeleton ps"

fun is_lit :: "piece \<Rightarrow> bool" where
  "is_lit (Lit c) = True"
| "is_lit (Field k) = False"

lemma contains_iff: "p \<noteq> [] \<Longrightarrow> contains p s \<longleftrightarrow> (\<exists>a b. s = a @ p @ b)"
proof (induction s)
  case (Cons c s)
  then show ?case by (auto simp: is_prefix_iff Cons_eq_append_conv simp del: is_prefix.simps)
qed simp

lemma contains_append_left: "p \<noteq> [] \<Longrightarrow> contains p a \<Longrightarrow> contains p (a @ b)"
  and contains_append_right: "p \<noteq> [] \<Longrightarrow> contains p b \<Longrightarrow> contains p (a @ b)"
  by (auto simp: contains_iff) (metis append.assoc)+

lemma contains_other:
  assumes "p \<noteq> []" and "c \<notin> set p"
  shows "contains p (a @ c # b) = (contains p a \<or> contains p b)"
proof
  assume "contains p (a @ c # b)"
  then obtain x y where "a @ c # b = x @ p @ y" using assms(1) by (auto simp: contains_iff)
  with assms show "contains p a \<or> contains p b"
    by (auto simp: contains_iff append_eq_append_conv2 Cons_eq_append_conv append_eq_Cons_conv)
       blast+
qed (use assms contains_append_left [of p a "c # b"] contains_append_right [of p b "a @ [c]"] in auto)

lemma contains_no_tail:
  assumes "p \<noteq> []" and "no_tail p (rev a)" and "contains p (a @ b)"
  shows "contains p a \<or> contains p b"
proof -
  obtain x y where xy: "a @ b = x @ p @ y" using assms(1,3) by (auto simp: contains_iff)
  show ?thesis
  proof (cases "length x < length a \<and> length a < length (x @ p)")
    case True
    let ?i = "length a - length x"
    have "a = x @ take ?i p" using arg_cong [OF xy, of "take (length a)"] True by simp
    then have "is_prefix (rev (take ?i p)) (rev a)" by (metis is_prefix_append rev_append)
    moreover have "?i \<in> set [1..<length p]" using True by auto
    ultimately show ?thesis using assms(2) by (auto simp: no_tail_def list_all_iff)
  next
    case False
    then have "length (x @ p) \<le> length a \<or> length a \<le> length x" by auto
    then show ?thesis
    proof
      assume "length (x @ p) \<le> length a"
      then have "take (length (x @ p)) a = x @ p"
        using arg_cong [OF xy, of "take (length (x @ p))"] by simp
      then have "a = x @ p @ drop (length (x @ p)) a" by (metis append_take_drop_id append.assoc)
      then show ?thesis using assms(1) by (auto simp: contains_iff)
    next
      assume "length a \<le> length x"
      then have "b = drop (length a) x @ p @ y" using arg_cong [OF xy, of "drop (length a)"] by simp
      then show ?thesis using assms(1) by (auto simp: contains_iff)
    qed
  qed
qed

lemma contains_exec:
  assumes "p \<noteq> []" and "\<And>k. \<not> contains p (exec_piece attrs (Field k))"
  shows "apart p prev ps \<Longrightarrow> \<not> contains p (rev prev @ skeleton ps) \<Longrightarrow> \<not> contains p (rev prev @ exec_pieces attrs ps)"
proof (induction ps arbitrary: prev)
  case (Cons q ps)
  show ?case
  proof (cases q)
    case (Lit c)
    with Cons show ?thesis using Cons.IH [of "c # prev"] by simp
  next
    case (Field k)
    let ?v = "exec_piece attrs (Field k)"
    have prev: "\<not> contains p (rev prev)"
      using Cons.prems(2) contains_append_left [OF assms(1)] by blast
    have "\<not> contains p (skeleton ps)"
      using Cons.prems(2) contains_append_right [OF assms(1), of "skeleton ps" "rev prev @ [CHR '' '']"] Field by auto
    with Cons.IH [of "[]"] Cons.prems(1) Field have rest: "\<not> contains p (exec_pieces attrs ps)" by simp
    have "\<not> contains p (?v @ exec_pieces attrs ps)"
    proof (cases ps)
      case (Cons r rs)
      with Cons.prems(1) Field obtain c where c: "r = Lit c" "c \<notin> set p" by (cases r) auto
      with rest Cons assms(2) [of k] contains_other [OF assms(1), of c ?v "exec_pieces attrs rs"]
      show ?thesis
        using contains_append_right [OF assms(1), of "exec_pieces attrs rs" "[c]"] by (simp del: exec_piece.simps(2)) 
    qed (use assms(2) [of k] in simp)
    with prev Cons.prems(1) Field contains_no_tail [OF assms(1), of "rev prev" "?v @ exec_pieces attrs ps"]
    show ?thesis by (auto simp del: exec_piece.simps(2))
  qed
qed simp

lemma marks_not_Nil: "p \<in> set marks \<Longrightarrow> p \<noteq> []"
  by (auto simp: marks_def)

lemma plain_get: "plain_values attrs \<Longrightarrow> plain_value (exec_piece attrs (Field k))"
  by (auto simp: plain_values_def list_all_iff plain_value_def marks_def split: option.splits dest!: map_of_SomeD)

lemma newline_exec:
  assumes "plain_values attrs" and "newline \<notin> set (skeleton ps)"
  shows "newline \<notin> set (exec_pieces attrs ps)"
  using assms(2)
proof (induction ps)
  case (Cons p ps)
  then show ?case
    using plain_get [OF assms(1)] by (cases p) (auto simp: plain_value_def simp del: exec_piece.simps(2))
qed simp

lemma plain_exec:
  assumes "plain_values attrs" and "list_all (\<lambda>p. apart p [] ps) marks" and "plain_value (skeleton ps)"
  shows "plain_value (exec_pieces attrs ps)"
proof -
  have "\<not> contains p (exec_pieces attrs ps)" if "p \<in> set marks" for p
    using contains_exec [of p attrs "[]" ps] plain_get [OF assms(1)] assms(2,3) that
    by (auto simp: marks_not_Nil plain_value_def list_all_iff simp del: exec_piece.simps(2))
  with newline_exec [OF assms(1)] assms(3) show ?thesis by (auto simp: plain_value_def list_all_iff)
qed

section \<open>Lines that a header does not depend on\<close>

text \<open>
  A line is inert when it is indented and what it starts with is neither an \<open>n\<close> (as the keys
  \<open>name\<close> and \<open>namespace\<close> do) nor an action.
\<close>

definition indent :: "string \<Rightarrow> string" where
  "indent l = takeWhile (\<lambda>c. c = CHR '' '') l"

definition inert :: "string \<Rightarrow> bool" where
  "inert l \<longleftrightarrow> l \<noteq> [] \<and> hd l = CHR '' '' \<and>
     (case dropWhile (\<lambda>c. c = CHR '' '') l of [] \<Rightarrow> False | c # r \<Rightarrow> c \<notin> set ''n{'')"

definition neat_pieces :: "string \<Rightarrow> piece list \<Rightarrow> bool" where
  "neat_pieces l ps \<longleftrightarrow>
     \<not> contains ''---'' (skeleton ps) \<and> newline \<notin> set (skeleton ps) \<and>
     (list_all is_lit ps \<or> inert l \<and> \<not> contains ''apiregistration.k8s.io'' l \<and>
        list_all (\<lambda>p. apart p [] ps) marks \<and> plain_value (skeleton ps))"

definition neat_line :: "string \<Rightarrow> bool" where
  "neat_line l = (case parse_template l of None \<Rightarrow> False | Some ps \<Rightarrow> neat_pieces l ps)"

lemmas neat_defs = neat_line_def neat_pieces_def

lemma parse_lit: "parse_template l = Some ps \<Longrightarrow> list_all is_lit ps \<Longrightarrow> skeleton ps = l \<and> exec_pieces attrs ps = l"
proof (induction l arbitrary: ps rule: parse_template.induct)
  case (2 c cs)
  show ?case
  proof (cases "is_prefix ''{{'' (c # cs)")
    case True
    with 2 show ?thesis
      by (auto simp: parse_template.simps(2) simp del: is_prefix.simps split: option.splits prod.splits)
  next
    case False
    with "2.prems" obtain qs where "parse_template cs = Some qs" "ps = Lit c # qs"
      by (auto simp: parse_template.simps(2) simp del: is_prefix.simps)
    with "2.IH"(2) [OF False] "2.prems" show ?thesis by simp
  qed
qed simp

lemma parse_spaces:
  "list_all (\<lambda>c. c \<noteq> CHR ''{'') a \<Longrightarrow> parse_template (a @ b) = map_option ((@) (map Lit a)) (parse_template b)"
proof (induction a)
  case (Cons c a)
  then show ?case by (auto simp: parse_template.simps(2) option.map_comp comp_def)
qed (cases "parse_template b"; simp)

lemma inert_split:
  assumes "inert l"
  obtains c r where "l = indent l @ c # r" "c \<noteq> CHR '' ''" "c \<noteq> CHR ''n''" "c \<noteq> CHR ''{''" "indent l \<noteq> []"
proof (cases "dropWhile (\<lambda>c. c = CHR '' '') l")
  case Nil
  with assms show ?thesis by (simp add: inert_def)
next
  case (Cons c r)
  have "c \<noteq> CHR '' ''" using Cons hd_dropWhile [of "\<lambda>c. c = CHR '' ''" l] by auto
  moreover have "l = indent l @ c # r" using Cons by (metis indent_def takeWhile_dropWhile_id)
  moreover have "indent l \<noteq> []" using assms by (cases l) (auto simp: inert_def indent_def)
  ultimately show ?thesis using assms Cons that by (auto simp: inert_def)
qed

lemma indent_spaces: "c \<in> set (indent l) \<Longrightarrow> c = CHR '' ''"
  by (auto simp: indent_def dest: set_takeWhileD)

lemma fill_inert:
  assumes "inert l" and "parse_template l \<noteq> None"
  shows "inert (fill attrs l) \<and> indent (fill attrs l) = indent l"
proof -
  obtain c r where l: "l = indent l @ c # r" and c: "c \<noteq> CHR '' ''" "c \<noteq> CHR ''n''" "c \<noteq> CHR ''{''" "indent l \<noteq> []"
    using assms(1) by (rule inert_split)
  let ?a = "indent l @ [c]"
  have "list_all (\<lambda>c. c \<noteq> CHR ''{'') ?a" using c(3) indent_spaces [of _ l] by (auto simp: list_all_iff)
  from parse_spaces [OF this, of r] l assms(2) obtain qs where "parse_template l = Some (map Lit ?a @ qs)"
    by (cases "parse_template r") auto
  moreover have "exec_pieces attrs (map Lit xs) = xs" for xs by (induction xs) auto
  ultimately have f: "fill attrs l = indent l @ c # exec_pieces attrs qs"
    by (simp add: fill_def exec_pieces_append)
  have "indent (fill attrs l) = indent l"
    unfolding f using c(1) indent_spaces [of _ l] by (simp add: indent_def [of "_ @ _"] takeWhile_append)
  moreover have "dropWhile (\<lambda>c. c = CHR '' '') (fill attrs l) = c # exec_pieces attrs qs"
    unfolding f using c(1) indent_spaces [of _ l] by (simp add: dropWhile_append)
  moreover have "hd (fill attrs l) = CHR '' ''" "fill attrs l \<noteq> []"
    using f c(4) indent_spaces [of "hd (indent l)" l] by (auto simp: hd_append)
  ultimately show ?thesis using c by (simp add: inert_def)
qed

lemma neat_line:
  assumes "neat_line l" and "plain_values attrs"
  shows "parse_template l \<noteq> None" and "\<not> contains ''---'' (fill attrs l)" and "newline \<notin> set (fill attrs l)"
    and "fill attrs l = l \<or> inert l \<and> inert (fill attrs l) \<and> indent (fill attrs l) = indent l"
    and "contains ''apiregistration.k8s.io'' (fill attrs l) = contains ''apiregistration.k8s.io'' l"
proof -
  from assms(1) obtain ps where ps: "parse_template l = Some ps" by (auto simp: neat_defs split: option.splits)
  then show "parse_template l \<noteq> None" by simp
  have f: "fill attrs l = exec_pieces attrs ps" using ps by (simp add: fill_def)
  consider "list_all is_lit ps" | "inert l" "\<not> contains ''apiregistration.k8s.io'' l" "plain_value (fill attrs l)"
    using assms(1) ps plain_exec [OF assms(2), of ps] f by (auto simp: neat_defs)
  note cases = this
  from cases show "fill attrs l = l \<or> inert l \<and> inert (fill attrs l) \<and> indent (fill attrs l) = indent l"
    using parse_lit [OF ps, of attrs] fill_inert [of l attrs] ps f by cases auto
  from cases show "contains ''apiregistration.k8s.io'' (fill attrs l) = contains ''apiregistration.k8s.io'' l"
    using parse_lit [OF ps, of attrs] f by cases (auto simp: plain_value_def marks_def)
  from cases show "\<not> contains ''---'' (fill attrs l)"
    using parse_lit [OF ps, of attrs] f assms(1) ps by cases (auto simp: plain_value_def marks_def neat_defs)
  from cases show "newline \<notin> set (fill attrs l)"
    using parse_lit [OF ps, of attrs] f assms(1) ps by cases (auto simp: plain_value_def neat_defs)
qed

section \<open>The fields of a template\<close>

fun fields_of :: "piece list \<Rightarrow> string list" where
  "fields_of [] = []"
| "fields_of (Lit c # ps) = fields_of ps"
| "fields_of (Field k # ps) = k # fields_of ps"

text \<open>The fields of neat lines; \<open>None\<close> when one of the lines is not neat.\<close>

definition line_fields :: "string \<Rightarrow> string list option" where
  "line_fields l = (case parse_template l of None \<Rightarrow> None
     | Some ps \<Rightarrow> if neat_pieces l ps then Some (fields_of ps) else None)"

fun doc_fields :: "string list \<Rightarrow> string list option" where
  "doc_fields [] = Some []"
| "doc_fields (l # ls) = (case line_fields l of None \<Rightarrow> None | Some a \<Rightarrow> map_option ((@) a) (doc_fields ls))"

lemma fields_of_lits: "fields_of ps = [] \<Longrightarrow> list_all is_lit ps"
  by (induction ps rule: fields_of.induct) auto

lemma doc_fields_neat: "doc_fields d = Some fs \<Longrightarrow> list_all neat_line d"
  by (induction d arbitrary: fs) (auto simp: line_fields_def neat_line_def split: option.splits if_splits)

lemma doc_fields_none: "doc_fields d = Some [] \<Longrightarrow> map (fill attrs) d = d"
proof (induction d)
  case (Cons l d)
  then obtain ps where "parse_template l = Some ps" "fields_of ps = []" "doc_fields d = Some []"
    by (auto simp: line_fields_def split: option.splits if_splits)
  with Cons.IH parse_lit [of l ps attrs] fields_of_lits show ?case by (simp add: fill_def)
qed simp

end
