(* ===== verification/Documents.thy ===== *)
theory Documents
  imports Templates
begin

text \<open>
  YAML streams as the controllers read them: documents separated by \<open>---\<close>, split as text. Where no
  line has a separator in it, splitting gives the documents back (\<open>split_yaml_stream\<close>), also after a
  template was filled in with plain values (\<open>template_documents\<close>), and neither the object that a
  document is about (\<open>yaml_header\<close>) nor its decoder depends on those values (\<open>template_headers\<close>,
  \<open>template_apigroup\<close>).
\<close>

section \<open>Documents of a stream\<close>

text \<open>A YAML stream: the lines of its documents, with a line \<open>---\<close> between two documents.\<close>

fun stream_lines :: "string list list \<Rightarrow> string list" where
  "stream_lines [] = []"
| "stream_lines [d] = d"
| "stream_lines (d # e # ds) = d @ [''---''] @ stream_lines (e # ds)"

definition yaml_stream :: "string list list \<Rightarrow> string" where
  "yaml_stream ds = unlines (stream_lines ds)"

text \<open>What is left of a document when its stream is split: it keeps the line ends around it.\<close>

fun stream_chunks :: "string \<Rightarrow> string list list \<Rightarrow> string list" where
  "stream_chunks start [] = []"
| "stream_chunks start [d] = [start @ unlines d]"
| "stream_chunks start (d # e # ds) = (start @ unlines d @ [newline]) # stream_chunks [newline] (e # ds)"

lemma stream_lines_eq_Nil [simp]: "d \<noteq> [] \<Longrightarrow> stream_lines (d # ds) \<noteq> []"
  by (cases ds) auto

lemma map_stream_lines: "f ''---'' = ''---'' \<Longrightarrow> map f (stream_lines ds) = stream_lines (map (map f) ds)"
  by (induction ds rule: stream_lines.induct) auto

lemma contains_sep: "c \<noteq> CHR ''-'' \<Longrightarrow> contains ''---'' (a @ c # b) = (contains ''---'' a \<or> contains ''---'' b)"
proof (induction a)
  case (Cons x a)
  have "is_prefix ''---'' (x # a @ c # b) = is_prefix ''---'' (x # a)"
    using Cons.prems by (cases a; cases "tl a") auto
  with Cons show ?case by simp
qed auto

lemma contains_unlines:
  "contains ''---'' (unlines ls) = list_ex (contains ''---'') ls"
proof (induction ls)
  case (Cons l ls)
  then show ?case by (cases "ls = []") (simp_all add: unlines_Cons contains_sep del: contains.simps)
qed (simp add: unlines_def)

lemma split_sep_none: "\<not> contains ''---'' a \<Longrightarrow> split_str_aux ''---'' 0 a acc = [rev acc @ a]"
  by (induction a arbitrary: acc) auto

lemma split_sep_first:
  "\<not> contains ''---'' (a @ [c]) \<Longrightarrow> c \<noteq> CHR ''-'' \<Longrightarrow>
   split_str_aux ''---'' 0 (a @ c # ''---'' @ b) acc = (rev acc @ a @ [c]) # split_str_aux ''---'' 0 b []"
proof (induction a arbitrary: acc)
  case Nil
  then show ?case by (simp add: numeral_2_eq_2)
next
  case (Cons x a)
  have "\<not> is_prefix ''---'' (x # a @ c # ''---'' @ b)"
    using Cons.prems by (cases a; cases "tl a") auto
  with Cons show ?case by simp
qed

lemma unlines_append: "as \<noteq> [] \<Longrightarrow> bs \<noteq> [] \<Longrightarrow> unlines (as @ bs) = unlines as @ newline # unlines bs"
proof (induction as)
  case (Cons a as)
  then show ?case by (cases "as = []") (simp_all add: unlines_Cons)
qed simp

text \<open>Where no line has a separator in it, splitting the stream gives its documents back.\<close>

lemma split_yaml_stream:
  assumes "ds \<noteq> []" and "list_all (\<lambda>d. d \<noteq> [] \<and> list_all (\<lambda>l. \<not> contains ''---'' l) d) ds"
  shows "split_str ''---'' (yaml_stream ds) = stream_chunks [] ds"
proof -
  have "split_str_aux ''---'' 0 (start @ unlines (stream_lines ds)) [] = stream_chunks start ds"
    if "ds \<noteq> []" "list_all (\<lambda>d. d \<noteq> [] \<and> list_all (\<lambda>l. \<not> contains ''---'' l) d) ds"
      "start = [] \<or> start = [newline]" for start ds
    using that
  proof (induction start ds rule: stream_chunks.induct)
    case (2 start d)
    then have "\<not> contains ''---'' (start @ unlines d)"
      using contains_sep [of newline "[]" "unlines d"] by (auto simp: contains_unlines list_all_iff list_ex_iff)
    then show ?case by (simp add: split_sep_none)
  next
    case (3 start d e ds)
    have "\<not> contains ''---'' (start @ unlines d @ [newline])"
      using contains_sep [of newline "[]" "unlines d @ [newline]"] contains_sep [of newline "unlines d" "[]"] 3(3,4)
      by (auto simp: contains_unlines list_all_iff list_ex_iff)
    moreover have "unlines (stream_lines (d # e # ds)) = unlines d @ newline # ''---'' @ newline # unlines (stream_lines (e # ds))"
      using 3(3) by (simp add: unlines_append unlines_Cons)
    ultimately show ?case
      using split_sep_first [of "start @ unlines d" newline "newline # unlines (stream_lines (e # ds))" "[]"] 3
      by simp
  qed simp
  from this [OF assms, of "[]"] show ?thesis by (simp add: split_str_def yaml_stream_def)
qed

section \<open>Filling in a stream\<close>

text \<open>The documents that a template gives: as many as it has, each filled in line by line.\<close>

definition neat_docs :: "string list list \<Rightarrow> bool" where
  "neat_docs ds \<longleftrightarrow> ds \<noteq> [] \<and> list_all (\<lambda>d. d \<noteq> [] \<and> list_all neat_line d) ds"

lemma stream_lines_all:
  "list_all (\<lambda>d. list_all P d) ds \<Longrightarrow> P ''---'' \<Longrightarrow> list_all P (stream_lines ds)"
  by (induction ds rule: stream_lines.induct) auto

lemma parse_dashes: "parse_template ''---'' = Some [Lit CHR ''-'', Lit CHR ''-'', Lit CHR ''-'']"
  by (simp add: parse_template.simps(2))

lemma template_documents:
  assumes "neat_docs ds" and "plain_values attrs"
  shows "text_template (yaml_stream ds) attrs = Some (yaml_stream (map (map (fill attrs)) ds))"
    and "split_str ''---'' (yaml_stream (map (map (fill attrs)) ds)) = stream_chunks [] (map (map (fill attrs)) ds)"
proof -
  obtain d es where ds: "ds = d # es" and d: "d \<noteq> []" using assms(1) by (cases ds) (auto simp: neat_docs_def)
  have lines: "parse_template l \<noteq> None" "\<not> contains ''---'' (fill attrs l)" if "d \<in> set ds" "l \<in> set d" for d l
    using that assms neat_line(1,2) [of l attrs] by (auto simp: neat_docs_def list_all_iff)
  have dashes: "fill attrs ''---'' = ''---''" by (simp add: fill_def parse_dashes)
  have "list_all (\<lambda>l. parse_template l \<noteq> None) (stream_lines ds)"
    using lines by (intro stream_lines_all) (auto simp: list_all_iff parse_dashes)
  from text_template_lines [OF _ this] d
  show "text_template (yaml_stream ds) attrs = Some (yaml_stream (map (map (fill attrs)) ds))"
    by (simp add: yaml_stream_def map_stream_lines dashes ds)
  show "split_str ''---'' (yaml_stream (map (map (fill attrs)) ds)) = stream_chunks [] (map (map (fill attrs)) ds)"
    using lines assms(1) by (intro split_yaml_stream) (auto simp: neat_docs_def list_all_iff)
qed

text \<open>The lines of a document, after the split.\<close>

definition doc_lines :: "string \<Rightarrow> string list" where
  "doc_lines s = filter (\<lambda>l. l \<noteq> []) (split_on newline s)"

lemma doc_lines_unlines:
  assumes "d \<noteq> []" and "list_all (\<lambda>l. newline \<notin> set l) d"
  shows "doc_lines (unlines d) = filter (\<lambda>l. l \<noteq> []) d"
  using assms split_join [of d newline] by (simp add: doc_lines_def unlines_def list_all_iff)

lemma doc_lines_start: "doc_lines (newline # s) = doc_lines s"
  using split_on_cons [of newline "[]" s] by (simp add: doc_lines_def)

lemma doc_lines_end: "doc_lines (s @ [newline]) = doc_lines s"
  using split_on_append [of newline s "[]"] split_on_single [of newline "[]"] by (simp add: doc_lines_def)

lemma chunk_lines:
  assumes "list_all (\<lambda>d. d \<noteq> [] \<and> list_all (\<lambda>l. newline \<notin> set l) d) ds" and "start = [] \<or> start = [newline]"
  shows "map doc_lines (stream_chunks start ds) = map (filter (\<lambda>l. l \<noteq> [])) ds"
  using assms
proof (induction start ds rule: stream_chunks.induct)
  case (3 start d e ds)
  have "doc_lines (start @ unlines d @ [newline]) = doc_lines (unlines d)"
    using 3(3) doc_lines_end [of "start @ unlines d"] by (auto simp: doc_lines_start)
  with 3 show ?case by (simp add: doc_lines_unlines)
qed (auto simp: doc_lines_start doc_lines_unlines)

section \<open>What a document is about\<close>

text \<open>
  The fields of a document in block style that say which object it is: \<open>apiVersion\<close> and \<open>kind\<close> at
  the top level, \<open>namespace\<close> and \<open>name\<close> in the block \<open>metadata\<close>; empty where there is none.
\<close>

record yaml_header =
  yh_apiVersion :: string
  yh_kind :: string
  yh_namespace :: string
  yh_name :: string

definition trim_spaces :: "string \<Rightarrow> string" where
  "trim_spaces s = rev (dropWhile (\<lambda>c. c = CHR '' '') (rev (dropWhile (\<lambda>c. c = CHR '' '') s)))"

definition scalar :: "string \<Rightarrow> string list \<Rightarrow> string" where
  "scalar key ls = (case filter (is_prefix (key @ '':'')) ls of [] \<Rightarrow> []
     | l # r \<Rightarrow> trim_spaces (drop (length key + 1) l))"

definition metadata_block :: "string list \<Rightarrow> string list" where
  "metadata_block ls = takeWhile (is_prefix '' '') (tl (dropWhile (\<lambda>l. l \<noteq> ''metadata:'') ls))"

definition header_of :: "string list \<Rightarrow> yaml_header" where
  "header_of ls =
     (let b = metadata_block ls; i = (case b of [] \<Rightarrow> [] | l # r \<Rightarrow> indent l) in
      \<lparr>yh_apiVersion = scalar ''apiVersion'' ls, yh_kind = scalar ''kind'' ls,
       yh_namespace = scalar (i @ ''namespace'') b, yh_name = scalar (i @ ''name'') b\<rparr>)"

definition yaml_header :: "string \<Rightarrow> yaml_header" where
  "yaml_header s = header_of (doc_lines s)"

definition similar :: "string \<Rightarrow> string \<Rightarrow> bool" where
  "similar l l' \<longleftrightarrow> l' = l \<or> inert l \<and> inert l' \<and> indent l' = indent l"

lemma inert_not_key:
  assumes "inert l" and "list_all (\<lambda>c. c = CHR '' '') i" and "c \<notin> set '' n'' \<longrightarrow> i = []" and "c \<noteq> CHR '' ''"
  shows "\<not> is_prefix (i @ c # k) l"
proof
  assume "is_prefix (i @ c # k) l"
  then obtain u where u: "l = i @ c # k @ u" by (auto simp: is_prefix_iff)
  have "dropWhile (\<lambda>c. c = CHR '' '') l = c # k @ u"
    unfolding u using assms(2,4) by (simp add: dropWhile_append list_all_iff)
  with assms u show False by (auto simp: inert_def)
qed

lemma filter_similar:
  assumes "list_all2 similar ls ls'" and "\<And>l. inert l \<Longrightarrow> \<not> P l"
  shows "filter P ls' = filter P ls"
  using assms by (induction rule: list_all2_induct) (auto simp: similar_def)

lemma dropWhile_similar:
  assumes "list_all2 similar ls ls'" and "\<And>l l'. similar l l' \<Longrightarrow> P l' = P l"
  shows "list_all2 similar (dropWhile P ls) (dropWhile P ls')"
  using assms by (induction rule: list_all2_induct) auto

lemma takeWhile_similar:
  assumes "list_all2 similar ls ls'" and "\<And>l l'. similar l l' \<Longrightarrow> P l' = P l"
  shows "list_all2 similar (takeWhile P ls) (takeWhile P ls')"
  using assms by (induction rule: list_all2_induct) auto

lemma similar_tl: "list_all2 similar ls ls' \<Longrightarrow> list_all2 similar (tl ls) (tl ls')"
  by (cases ls; cases ls') auto

lemma scalar_similar:
  assumes "list_all2 similar ls ls'" and "list_all (\<lambda>c. c = CHR '' '') i" and "c \<notin> set '' n'' \<longrightarrow> i = []" and "c \<noteq> CHR '' ''"
  shows "scalar (i @ c # k) ls' = scalar (i @ c # k) ls"
  using filter_similar [OF assms(1), of "is_prefix (i @ c # k @ '':'')"] inert_not_key [OF _ assms(2-4)]
  by (simp add: scalar_def)

lemma inert_space: "inert l \<Longrightarrow> is_prefix '' '' l \<and> l \<noteq> ''metadata:''"
  by (cases l) (auto simp: inert_def)

lemma header_similar:
  assumes "list_all2 similar ls ls'"
  shows "header_of ls' = header_of ls"
proof -
  have "list_all2 similar (dropWhile (\<lambda>l. l \<noteq> ''metadata:'') ls) (dropWhile (\<lambda>l. l \<noteq> ''metadata:'') ls')"
    using assms by (rule dropWhile_similar) (auto simp: similar_def dest: inert_space)
  then have "list_all2 similar (tl (dropWhile (\<lambda>l. l \<noteq> ''metadata:'') ls)) (tl (dropWhile (\<lambda>l. l \<noteq> ''metadata:'') ls'))"
    by (rule similar_tl)
  then have b: "list_all2 similar (metadata_block ls) (metadata_block ls')"
    unfolding metadata_block_def by (rule takeWhile_similar) (auto simp: similar_def dest: inert_space)
  let ?i = "\<lambda>b. case b of [] \<Rightarrow> [] | l # r \<Rightarrow> indent l"
  have i: "?i (metadata_block ls') = ?i (metadata_block ls)"
    using b by (cases "metadata_block ls"; cases "metadata_block ls'") (auto simp: similar_def)
  have sp: "list_all (\<lambda>c. c = CHR '' '') (?i (metadata_block ls))"
    by (auto simp: list_all_iff split: list.splits dest: indent_spaces)
  show ?thesis
    using scalar_similar [OF assms, of "[]"] scalar_similar [OF b sp, of "CHR ''n''"] i
    by (simp add: header_of_def Let_def)
qed

text \<open>Filling in a template changes neither what its documents are about nor which decoder reads them.\<close>

lemma template_headers:
  assumes "neat_docs ds" and "plain_values attrs"
  shows "map yaml_header (stream_chunks [] (map (map (fill attrs)) ds)) = map (\<lambda>d. header_of (filter (\<lambda>l. l \<noteq> []) d)) ds"
proof -
  have "list_all2 similar (filter (\<lambda>l. l \<noteq> []) d) (filter (\<lambda>l. l \<noteq> []) (map (fill attrs) d))"
    if "list_all neat_line d" for d
    using that
  proof (induction d)
    case (Cons l d)
    then show ?case
      using neat_line(4) [of l attrs] assms(2) by (auto simp: similar_def inert_def)
  qed simp
  then have "header_of (filter (\<lambda>l. l \<noteq> []) (map (fill attrs) d)) = header_of (filter (\<lambda>l. l \<noteq> []) d)"
    if "list_all neat_line d" for d using that header_similar by blast
  moreover have "map doc_lines (stream_chunks [] (map (map (fill attrs)) ds)) = map (filter (\<lambda>l. l \<noteq> [])) (map (map (fill attrs)) ds)"
    using assms neat_line(3) by (intro chunk_lines) (auto simp: neat_docs_def list_all_iff)
  ultimately show ?thesis using assms(1)
    unfolding yaml_header_def map_map [symmetric, of header_of doc_lines, unfolded comp_def]
    by (auto simp: neat_docs_def list_all_iff)
qed

lemma contains_apigroup_unlines:
  "contains ''apiregistration.k8s.io'' (unlines ls) = list_ex (contains ''apiregistration.k8s.io'') ls"
proof (induction ls)
  case (Cons l ls)
  then show ?case
    using contains_other [of "''apiregistration.k8s.io''" newline l "unlines ls"]
    by (cases "ls = []") (simp_all add: unlines_Cons del: contains.simps)
qed (simp add: unlines_def)

lemma chunk_apigroup:
  "start = [] \<or> start = [newline] \<Longrightarrow>
   map (contains ''apiregistration.k8s.io'') (stream_chunks start ds) = map (list_ex (contains ''apiregistration.k8s.io'')) ds"
proof (induction start ds rule: stream_chunks.induct)
  case (2 start d)
  then show ?case by (auto simp: contains_apigroup_unlines)
next
  case (3 start d e ds)
  have "contains ''apiregistration.k8s.io'' (start @ unlines d @ [newline]) = contains ''apiregistration.k8s.io'' (unlines d)"
    using 3(2) contains_other [of "''apiregistration.k8s.io''" newline "start @ unlines d" "[]"] by auto
  with 3 show ?case by (simp add: contains_apigroup_unlines)
qed simp

lemma template_apigroup:
  assumes "neat_docs ds" and "plain_values attrs"
  shows "map (contains ''apiregistration.k8s.io'') (stream_chunks [] (map (map (fill attrs)) ds)) =
     map (list_ex (contains ''apiregistration.k8s.io'')) ds"
  using assms neat_line(5)
  by (simp add: chunk_apigroup) (auto simp: neat_docs_def list_all_iff list_ex_iff)

end
