(* ===== verification/Kubernetes.thy ===== *)
theory Kubernetes
  imports Entities Documents
begin

text \<open>
  \<open>pkg/k8s/k8s.go\<close> and \<open>pkg/utils/decoder.go\<close>: creating a resource in a Kubernetes cluster and
  asking whether it exists.

  The client library is a parameter: the record \<open>'w kube\<close> holds the calls that the source makes,
  over the world \<open>'w\<close>. A typed client is a handle (a natural number), a nil pointer is \<open>None\<close>.
  \<open>Get\<close> takes the resource version of its \<open>GetOptions\<close>: the source asks for version \<open>0\<close> when it
  looks before it creates (\<open>IsKubernetesResourceExists\<close>) and for none in the queries of
  \<open>HasInstalled\<close>, and the API server promises less for the first: any version that it still has.
  What a call promises is \<open>kube_law\<close>, over the contents \<open>objs w c\<close> that handle \<open>c\<close> reaches in its
  cluster (the core client and the client of the API registration reach different resources) and the
  earlier contents \<open>past w c\<close> of which the server may still have a copy, both
  keyed by resource, namespace and name: the API versions of one resource
  (\<open>extensions/v1beta1\<close> and \<open>apps/v1\<close> deployments, say) are views of the same objects.
\<close>

section \<open>Objects\<close>

datatype kind =
    ReplicationController | Service | Pod | Secret | ExtDeployment | AppsV1beta1Deployment
  | AppsV1Deployment | CronJob | ExtDaemonSet | ConfigMap | ServiceAccount | Ingress
  | PersistentVolumeClaim | PersistentVolume | ClusterRoleV1beta1 | ClusterRoleBindingV1beta1
  | ClusterRoleV1 | ClusterRoleBindingV1 | APIService | RoleBindingV1beta1 | StatefulSet
  | StorageClass | OtherKind string

record object_meta =
  om_Namespace :: string
  om_Name :: string

text \<open>\<open>ko_Meta\<close> is \<open>None\<close> for a type without the field \<open>ObjectMeta\<close>.\<close>

record k8s_object =
  ko_Kind :: kind
  ko_Meta :: "object_meta option"
  ko_Content :: string

record client_set =
  kc_CoreClient :: "nat option"
  kc_APIRegClientV1beta1 :: "nat option"

text \<open>What the monitors and the node listing read of the listed items.\<close>

record condition =
  co_Type :: string
  co_Status :: string

record listed_component =
  lc_Name :: string
  lc_Conditions :: "condition list"

record listed_daemonset =
  ld_Name :: string
  ld_NumberMisscheduled :: "32 word"
  ld_NumberUnavailable :: "32 word"

record listed_node =
  ln_Addresses :: "(string \<times> string) list"
  ln_PodCIDR :: string

record 'w kube =
  ka_Get :: "'w \<Rightarrow> nat \<Rightarrow> string \<Rightarrow> kind \<Rightarrow> string \<Rightarrow> string \<Rightarrow> 'w \<times> (error + k8s_object option)"
  ka_Create :: "'w \<Rightarrow> nat \<Rightarrow> kind \<Rightarrow> string \<Rightarrow> k8s_object \<Rightarrow> 'w \<times> (error + k8s_object option)"
  ka_DecodeCore :: "string \<Rightarrow> error + k8s_object"
  ka_DecodeAgg :: "string \<Rightarrow> error + k8s_object"
  ka_ListNodes :: "'w \<Rightarrow> nat \<Rightarrow> 'w \<times> (error + listed_node list)"
  ka_ListComponentStatuses :: "'w \<Rightarrow> nat \<Rightarrow> 'w \<times> (error + listed_component list)"
  ka_ListDeployments :: "'w \<Rightarrow> nat \<Rightarrow> string \<Rightarrow> 'w \<times> (error + listed_component list)"
  ka_ListDaemonSets :: "'w \<Rightarrow> nat \<Rightarrow> string \<Rightarrow> 'w \<times> (error + listed_daemonset list)"

definition IsNotFound :: "error \<Rightarrow> bool" where
  "IsNotFound e = (case e of ENotFound m \<Rightarrow> True | _ \<Rightarrow> False)"

section \<open>utils/decoder.go\<close>

definition ObjectMetaFor :: "k8s_object \<Rightarrow> error + object_meta" where
  "ObjectMetaFor obj =
     (case ko_Meta obj of None \<Rightarrow> Inl (EExternal ''ObjectMeta'') | Some m \<Rightarrow> Inr m)"

definition DecodeYamlOrJson :: "'w kube \<Rightarrow> string \<Rightarrow> error + k8s_object" where
  "DecodeYamlOrJson K content =
     (case (if contains ''apiregistration.k8s.io'' content then ka_DecodeAgg K content
            else ka_DecodeCore K content) of
        Inl e \<Rightarrow> Inl e
      | Inr obj \<Rightarrow>
        (case ObjectMetaFor obj of
           Inl e \<Rightarrow> Inl e
         | Inr meta \<Rightarrow>
           Inr (if om_Namespace meta = []
                then obj\<lparr>ko_Meta := Some (meta\<lparr>om_Namespace := ''default''\<rparr>)\<rparr> else obj)))"

section \<open>k8s.go\<close>

text \<open>
  The two type switches: whether a type is supported, and whether its client takes the
  namespace, has no namespace, or belongs to the aggregation API.
\<close>

datatype scope = Namespaced | ClusterWide | Aggregated

fun create_case :: "kind \<Rightarrow> scope option" where
  "create_case ReplicationController = Some Namespaced"
| "create_case Service = Some Namespaced"
| "create_case Pod = Some Namespaced"
| "create_case Secret = Some Namespaced"
| "create_case ExtDeployment = Some Namespaced"
| "create_case AppsV1beta1Deployment = Some Namespaced"
| "create_case AppsV1Deployment = Some Namespaced"
| "create_case CronJob = Some Namespaced"
| "create_case ExtDaemonSet = Some Namespaced"
| "create_case ConfigMap = Some Namespaced"
| "create_case ServiceAccount = Some Namespaced"
| "create_case Ingress = Some Namespaced"
| "create_case PersistentVolumeClaim = Some Namespaced"
| "create_case PersistentVolume = Some ClusterWide"
| "create_case ClusterRoleV1beta1 = Some ClusterWide"
| "create_case ClusterRoleBindingV1beta1 = Some ClusterWide"
| "create_case ClusterRoleV1 = Some ClusterWide"
| "create_case ClusterRoleBindingV1 = Some ClusterWide"
| "create_case APIService = Some Aggregated"
| "create_case RoleBindingV1beta1 = Some Namespaced"
| "create_case StatefulSet = Some Namespaced"
| "create_case StorageClass = None"
| "create_case (OtherKind s) = None"

fun exists_case :: "kind \<Rightarrow> scope option" where
  "exists_case StorageClass = Some ClusterWide"
| "exists_case (OtherKind s) = None"
| "exists_case k = create_case k"

text \<open>The namespace argument of a call, and the client whose method it is.\<close>

definition scope_ns :: "scope \<Rightarrow> string \<Rightarrow> string" where
  "scope_ns sc ns = (if sc = Namespaced then ns else [])"

definition scope_client :: "client_set option \<Rightarrow> scope \<Rightarrow> crash + nat" where
  "scope_client cs sc =
     (case cs of
        None \<Rightarrow> Inl NilDeref
      | Some s \<Rightarrow>
        (case (if sc = Aggregated then kc_APIRegClientV1beta1 s else kc_CoreClient s) of
           None \<Rightarrow> Inl NilDeref
         | Some c \<Rightarrow> Inr c))"

definition meta_of :: "k8s_object \<Rightarrow> crash + object_meta" where
  "meta_of obj = (case ko_Meta obj of None \<Rightarrow> Inl NilDeref | Some m \<Rightarrow> Inr m)"

definition CreateK8SResource ::
  "'w kube \<Rightarrow> client_set option \<Rightarrow> k8s_object \<Rightarrow> 'w \<Rightarrow> crash + 'w \<times> (error + k8s_object option)" where
  "CreateK8SResource K cs obj w =
     (case create_case (ko_Kind obj) of
        None \<Rightarrow> Inr (w, Inl (EUnsupported ''runtime.object kind''))
      | Some sc \<Rightarrow>
        bindC (scope_client cs sc) (\<lambda>c.
        bindC (meta_of obj) (\<lambda>meta.
          Inr (ka_Create K w c (ko_Kind obj) (scope_ns sc (om_Namespace meta)) obj))))"

definition IsKubernetesResourceExists ::
  "'w kube \<Rightarrow> client_set option \<Rightarrow> k8s_object \<Rightarrow> 'w \<Rightarrow> crash + 'w \<times> (error + bool)" where
  "IsKubernetesResourceExists K cs obj w =
     (case exists_case (ko_Kind obj) of
        None \<Rightarrow> Inr (w, Inl (EUnsupported ''Kubernetes runtime.object kind''))
      | Some sc \<Rightarrow>
        bindC (scope_client cs sc) (\<lambda>c.
        bindC (meta_of obj) (\<lambda>meta.
          Inr (case ka_Get K w c ''0'' (ko_Kind obj) (scope_ns sc (om_Namespace meta)) (om_Name meta) of
                 (w', Inl e) \<Rightarrow> (w', Inl e)
               | (w', Inr realObj) \<Rightarrow> (w', Inr (realObj \<noteq> None))))))"

section \<open>Documented behaviour of the API server\<close>

fun resource :: "kind \<Rightarrow> string" where
  "resource ExtDeployment = ''deployments''"
| "resource AppsV1beta1Deployment = ''deployments''"
| "resource AppsV1Deployment = ''deployments''"
| "resource ClusterRoleV1beta1 = ''clusterroles''"
| "resource ClusterRoleV1 = ''clusterroles''"
| "resource ClusterRoleBindingV1beta1 = ''clusterrolebindings''"
| "resource ClusterRoleBindingV1 = ''clusterrolebindings''"
| "resource ReplicationController = ''replicationcontrollers''"
| "resource Service = ''services''"
| "resource Pod = ''pods''"
| "resource Secret = ''secrets''"
| "resource CronJob = ''cronjobs''"
| "resource ExtDaemonSet = ''daemonsets''"
| "resource ConfigMap = ''configmaps''"
| "resource ServiceAccount = ''serviceaccounts''"
| "resource Ingress = ''ingresses''"
| "resource PersistentVolumeClaim = ''persistentvolumeclaims''"
| "resource PersistentVolume = ''persistentvolumes''"
| "resource APIService = ''apiservices''"
| "resource RoleBindingV1beta1 = ''rolebindings''"
| "resource StatefulSet = ''statefulsets''"
| "resource StorageClass = ''storageclasses''"
| "resource (OtherKind s) = s"

type_synonym key = "string \<times> string \<times> string"
type_synonym 'w contents = "'w \<Rightarrow> nat \<Rightarrow> key \<rightharpoonup> k8s_object"

type_synonym 'w history = "'w \<Rightarrow> nat \<Rightarrow> (key \<rightharpoonup> k8s_object) set"

text \<open>
  What a read may answer when the object it finds at the key is \<open>x\<close>: the object, or \<open>NotFound\<close>
  only where there is none, or any other error.
\<close>

definition answers :: "(error + k8s_object option) \<Rightarrow> k8s_object option \<Rightarrow> bool" where
  "answers r x \<longleftrightarrow>
     (case r of Inr y \<Rightarrow> y = x \<and> y \<noteq> None | Inl e \<Rightarrow> IsNotFound e \<longrightarrow> x = None)"

text \<open>
  A read without a version answers with the contents of the cluster, a read of version \<open>0\<close> with
  these or with contents that the cluster had earlier; neither changes anything, and nobody else
  writes to the cluster during the calls that a theorem is about. A create that
  succeeds stores the object under a key that was free and touches nothing else. A create that
  fails has changed nothing, or has stored the object and lost the answer. Contents that a server
  may have kept are contents that the cluster had.
\<close>

definition keeps_history :: "'w contents \<Rightarrow> 'w history \<Rightarrow> 'w \<Rightarrow> 'w \<Rightarrow> bool" where
  "keeps_history objs past w w' \<longleftrightarrow>
     (\<forall>d. past w' d \<subseteq> insert (objs w d) (insert (objs w' d) (past w d)))"

definition kube_get_law :: "'w kube \<Rightarrow> 'w contents \<Rightarrow> 'w history \<Rightarrow> bool" where
  "kube_get_law K objs past \<longleftrightarrow> (\<forall>w c rv k ns n w' r. ka_Get K w c rv k ns n = (w', r) \<longrightarrow>
     objs w' = objs w \<and> keeps_history objs past w w' \<and>
     (rv = [] \<longrightarrow> answers r (objs w c (resource k, ns, n))) \<and>
     (rv = ''0'' \<longrightarrow> (\<exists>v \<in> insert (objs w c) (past w c). answers r (v (resource k, ns, n)))))"

definition stores :: "'w contents \<Rightarrow> 'w \<Rightarrow> nat \<Rightarrow> key \<Rightarrow> 'w \<Rightarrow> bool" where
  "stores objs w c key w' \<longleftrightarrow>
     objs w c key = None \<and> (\<exists>x. objs w' = (objs w)(c := (objs w c)(key \<mapsto> x)))"

definition kube_create_law :: "'w kube \<Rightarrow> 'w contents \<Rightarrow> 'w history \<Rightarrow> bool" where
  "kube_create_law K objs past \<longleftrightarrow> (\<forall>w c k ns obj w' r m.
     ka_Create K w c k ns obj = (w', r) \<and> ko_Meta obj = Some m \<longrightarrow>
     keeps_history objs past w w' \<and>
     (stores objs w c (resource k, ns, om_Name m) w' \<or> isl r \<and> objs w' = objs w))"

definition kube_law :: "'w kube \<Rightarrow> 'w contents \<Rightarrow> 'w history \<Rightarrow> bool" where
  "kube_law K objs past \<longleftrightarrow> kube_get_law K objs past \<and> kube_create_law K objs past"

text \<open>
  Nothing that a server may still show has been deleted from the cluster since. It holds of a
  cluster from which nothing has been deleted, and the two calls keep it.
\<close>

definition undisturbed :: "'w contents \<Rightarrow> 'w history \<Rightarrow> 'w \<Rightarrow> bool" where
  "undisturbed objs past w \<longleftrightarrow>
     (\<forall>c v key. v \<in> past w c \<longrightarrow> v key \<noteq> None \<longrightarrow> objs w c key \<noteq> None)"

text \<open>
  Nothing that the cluster holds is lost or replaced, and an undisturbed cluster stays so; and,
  stronger, the contents stay as they are.
\<close>

definition grows :: "'w contents \<Rightarrow> 'w history \<Rightarrow> 'w \<Rightarrow> 'w \<Rightarrow> bool" where
  "grows objs past w w' \<longleftrightarrow> (\<forall>c key v. objs w c key = Some v \<longrightarrow> objs w' c key = Some v) \<and>
     (undisturbed objs past w \<longrightarrow> undisturbed objs past w')"

definition unchanged :: "'w contents \<Rightarrow> 'w history \<Rightarrow> 'w \<Rightarrow> 'w \<Rightarrow> bool" where
  "unchanged objs past w w' \<longleftrightarrow> objs w' = objs w \<and> grows objs past w w'"

text \<open>Where an object of a supported type lives, through the clients of \<open>cs\<close>.\<close>

definition object_key :: "scope \<Rightarrow> k8s_object \<Rightarrow> object_meta \<Rightarrow> key" where
  "object_key sc obj meta = (resource (ko_Kind obj), scope_ns sc (om_Namespace meta), om_Name meta)"

definition present :: "'w contents \<Rightarrow> client_set option \<Rightarrow> 'w \<Rightarrow> k8s_object \<Rightarrow> bool" where
  "present objs cs w obj \<longleftrightarrow> (\<exists>sc c meta. exists_case (ko_Kind obj) = Some sc \<and>
     scope_client cs sc = Inr c \<and> ko_Meta obj = Some meta \<and> objs w c (object_key sc obj meta) \<noteq> None)"

lemma grows_refl [simp, intro]: "grows objs past w w"
  by (simp add: grows_def)

lemma grows_trans [trans]:
  "grows objs past w w' \<Longrightarrow> grows objs past w' w'' \<Longrightarrow> grows objs past w w''"
  by (simp add: grows_def)

lemma unchanged_refl [simp, intro]: "unchanged objs past w w"
  by (simp add: unchanged_def)

lemma unchanged_trans [trans]:
  "unchanged objs past w w' \<Longrightarrow> unchanged objs past w' w'' \<Longrightarrow> unchanged objs past w w''"
  by (auto simp: unchanged_def intro: grows_trans)

lemma unchanged_grows: "unchanged objs past w w' \<Longrightarrow> grows objs past w w'"
  by (simp add: unchanged_def)

lemma unchanged_objs: "unchanged objs past w w' \<Longrightarrow> objs w' = objs w"
  by (simp add: unchanged_def)

lemma grows_present: "grows objs past w w' \<Longrightarrow> present objs cs w obj \<Longrightarrow> present objs cs w' obj"
  unfolding grows_def present_def by blast

lemma grows_undisturbed: "grows objs past w w' \<Longrightarrow> undisturbed objs past w \<Longrightarrow> undisturbed objs past w'"
  by (simp add: grows_def)

lemma exists_create_case: "create_case k = Some sc \<Longrightarrow> exists_case k = Some sc"
  by (cases k) simp_all

lemma keeps_history_grows:
  assumes "keeps_history objs past w w'" and "\<And>c key v. objs w c key = Some v \<Longrightarrow> objs w' c key = Some v"
  shows "grows objs past w w'"
proof -
  have "objs w' c key \<noteq> None" if "undisturbed objs past w" "v \<in> past w' c" "v key \<noteq> None" for c v key
  proof -
    from assms(1) that(2) have "v = objs w c \<or> v = objs w' c \<or> v \<in> past w c"
      unfolding keeps_history_def by blast
    with that assms(2) [of c key] show ?thesis unfolding undisturbed_def by fastforce
  qed
  with assms(2) show ?thesis unfolding grows_def undisturbed_def by blast
qed

lemma kube_get:
  assumes "kube_law K objs past" and "ka_Get K w c rv k ns n = (w', r)"
  shows "unchanged objs past w w'"
    and "rv = [] \<Longrightarrow> answers r (objs w c (resource k, ns, n))"
    and "rv = ''0'' \<Longrightarrow> \<exists>v \<in> insert (objs w c) (past w c). answers r (v (resource k, ns, n))"
  using assms(1) [unfolded kube_law_def, THEN conjunct1, unfolded kube_get_law_def, rule_format, OF assms(2)]
  by (auto simp: unchanged_def intro: keeps_history_grows)

lemma kube_create:
  assumes "kube_law K objs past" and "ka_Create K w c k ns obj = (w', r)" and "ko_Meta obj = Some m"
  shows "grows objs past w w'"
    and "stores objs w c (resource k, ns, om_Name m) w' \<or> isl r \<and> objs w' = objs w"
proof -
  have "keeps_history objs past w w' \<and> (stores objs w c (resource k, ns, om_Name m) w' \<or> isl r \<and> objs w' = objs w)"
    using assms unfolding kube_law_def kube_create_law_def by blast
  then show "stores objs w c (resource k, ns, om_Name m) w' \<or> isl r \<and> objs w' = objs w"
    and "grows objs past w w'"
    by (auto simp: stores_def intro!: keeps_history_grows)
qed

section \<open>What the two operations do\<close>

lemma IsKubernetesResourceExists_cases:
  assumes "IsKubernetesResourceExists K cs obj w = Inr (w', r)"
  obtains (unsupported) e where "exists_case (ko_Kind obj) = None" "w' = w" "r = Inl e" "\<not> IsNotFound e"
  | (get) sc c meta g where "exists_case (ko_Kind obj) = Some sc" "scope_client cs sc = Inr c"
      "ko_Meta obj = Some meta"
      "ka_Get K w c ''0'' (ko_Kind obj) (scope_ns sc (om_Namespace meta)) (om_Name meta) = (w', g)"
      "r = map_sum id (\<lambda>x. x \<noteq> None) g"
proof (cases "exists_case (ko_Kind obj)")
  case None
  with assms show ?thesis
    by (intro unsupported) (auto simp: IsKubernetesResourceExists_def IsNotFound_def)
next
  case (Some sc)
  with assms obtain c meta where *: "scope_client cs sc = Inr c" "ko_Meta obj = Some meta"
    by (auto simp: IsKubernetesResourceExists_def bindC_Inr_iff meta_of_def split: option.splits)
  obtain w1 g where g: "ka_Get K w c ''0'' (ko_Kind obj) (scope_ns sc (om_Namespace meta)) (om_Name meta) = (w1, g)"
    by (cases "ka_Get K w c ''0'' (ko_Kind obj) (scope_ns sc (om_Namespace meta)) (om_Name meta)")
  with assms Some * have "w1 = w'" "r = map_sum id (\<lambda>x. x \<noteq> None) g"
    by (auto simp: IsKubernetesResourceExists_def meta_of_def split: sum.splits)
  with Some * g show ?thesis by (intro get) simp_all
qed

lemma IsKubernetesResourceExists_same:
  assumes "kube_law K objs past" and "IsKubernetesResourceExists K cs obj w = Inr (w', r)"
  shows "unchanged objs past w w'"
  using assms(2)
proof (cases rule: IsKubernetesResourceExists_cases)
  case (get sc c meta g)
  then show ?thesis by (intro kube_get(1) [OF assms(1)])
qed simp

text \<open>
  In an undisturbed cluster the answer that an object exists is right, whichever version the
  server answered with. The answer \<open>NotFound\<close> may be out of date.
\<close>

lemma IsKubernetesResourceExists_yes:
  assumes "kube_law K objs past" and "IsKubernetesResourceExists K cs obj w = Inr (w', Inr b)"
  shows "b" and "undisturbed objs past w \<Longrightarrow> present objs cs w' obj"
proof -
  have "b \<and> (undisturbed objs past w \<longrightarrow> present objs cs w' obj)"
    using assms(2)
  proof (cases rule: IsKubernetesResourceExists_cases)
    case (get sc c meta g)
    then obtain x where x: "g = Inr x" "b \<longleftrightarrow> x \<noteq> None" by (cases g) auto
    from kube_get(3) [OF assms(1) get(4)] obtain v where
      v: "v \<in> insert (objs w c) (past w c)" "answers g (v (object_key sc obj meta))"
      by (auto simp: object_key_def)
    with x have "b" "v (object_key sc obj meta) \<noteq> None" by (auto simp: answers_def)
    moreover from v(1) this(2) have "objs w c (object_key sc obj meta) \<noteq> None" if "undisturbed objs past w"
      using that unfolding undisturbed_def by blast
    ultimately show ?thesis
      using get(1-3) unchanged_objs [OF kube_get(1) [OF assms(1) get(4)]] by (auto simp: present_def)
  qed simp
  then show "b" and "undisturbed objs past w \<Longrightarrow> present objs cs w' obj" by simp_all
qed

lemma CreateK8SResource_cases:
  assumes "CreateK8SResource K cs obj w = Inr (w', r)"
  obtains (unsupported) e where "w' = w" "r = Inl e"
  | (create) sc c meta where "create_case (ko_Kind obj) = Some sc" "scope_client cs sc = Inr c"
      "ko_Meta obj = Some meta"
      "ka_Create K w c (ko_Kind obj) (scope_ns sc (om_Namespace meta)) obj = (w', r)"
  using assms
  by (auto simp: CreateK8SResource_def bindC_Inr_iff meta_of_def split: option.splits)

lemma CreateK8SResource_grows:
  assumes "kube_law K objs past" and "CreateK8SResource K cs obj w = Inr (w', r)"
  shows "grows objs past w w'"
  using assms(2)
proof (cases rule: CreateK8SResource_cases)
  case (create sc c meta)
  then show ?thesis using kube_create(1) [OF assms(1)] by blast
qed simp

lemma CreateK8SResource_present:
  assumes "kube_law K objs past" and "CreateK8SResource K cs obj w = Inr (w', Inr x)"
  shows "present objs cs w' obj"
  using assms(2)
proof (cases rule: CreateK8SResource_cases)
  case (create sc c meta)
  with kube_create(2) [OF assms(1) create(4,3)] show ?thesis
    by (auto simp: present_def object_key_def stores_def intro!: exists_create_case)
qed simp

text \<open>The name of an object that is there is taken: whatever \<open>Create\<close> answers, it changes nothing.\<close>

lemma CreateK8SResource_taken:
  assumes "kube_law K objs past" and "CreateK8SResource K cs obj w = Inr (w', r)" and "present objs cs w obj"
  shows "isl r" and "unchanged objs past w w'"
proof -
  have "isl r \<and> objs w' = objs w"
    using assms(2)
  proof (cases rule: CreateK8SResource_cases)
    case (create sc c meta)
    with assms(3) have "objs w c (resource (ko_Kind obj), scope_ns sc (om_Namespace meta), om_Name meta) \<noteq> None"
      using exists_create_case [OF create(1)] by (auto simp: present_def object_key_def)
    with kube_create(2) [OF assms(1) create(4,3)] show ?thesis by (auto simp: stores_def)
  qed simp
  with CreateK8SResource_grows [OF assms(1,2)] show "isl r" and "unchanged objs past w w'"
    by (simp_all add: unchanged_def)
qed

section \<open>What the decoders promise\<close>

text \<open>The Go types that the two schemes register, by API version and kind.\<close>

definition scheme_types :: "((string \<times> string) \<times> kind) list" where
  "scheme_types =
     [((''v1'', ''ReplicationController''), ReplicationController), ((''v1'', ''Service''), Service),
      ((''v1'', ''Pod''), Pod), ((''v1'', ''Secret''), Secret), ((''v1'', ''ConfigMap''), ConfigMap),
      ((''v1'', ''ServiceAccount''), ServiceAccount),
      ((''v1'', ''PersistentVolumeClaim''), PersistentVolumeClaim),
      ((''v1'', ''PersistentVolume''), PersistentVolume),
      ((''extensions/v1beta1'', ''Deployment''), ExtDeployment),
      ((''extensions/v1beta1'', ''DaemonSet''), ExtDaemonSet), ((''extensions/v1beta1'', ''Ingress''), Ingress),
      ((''apps/v1beta1'', ''Deployment''), AppsV1beta1Deployment), ((''apps/v1'', ''Deployment''), AppsV1Deployment),
      ((''apps/v1'', ''StatefulSet''), StatefulSet), ((''batch/v2alpha1'', ''CronJob''), CronJob),
      ((''rbac.authorization.k8s.io/v1beta1'', ''ClusterRole''), ClusterRoleV1beta1),
      ((''rbac.authorization.k8s.io/v1beta1'', ''ClusterRoleBinding''), ClusterRoleBindingV1beta1),
      ((''rbac.authorization.k8s.io/v1beta1'', ''RoleBinding''), RoleBindingV1beta1),
      ((''rbac.authorization.k8s.io/v1'', ''ClusterRole''), ClusterRoleV1),
      ((''rbac.authorization.k8s.io/v1'', ''ClusterRoleBinding''), ClusterRoleBindingV1),
      ((''apiregistration.k8s.io/v1beta1'', ''APIService''), APIService),
      ((''storage.k8s.io/v1'', ''StorageClass''), StorageClass)]"

text \<open>
  A document whose header names a registered type decodes to an object of that type with the
  namespace and the name of the header; \<open>APIService\<close> is known to the aggregation scheme only.
\<close>

definition header_meta :: "yaml_header \<Rightarrow> object_meta" where
  "header_meta h = \<lparr>om_Namespace = yh_namespace h, om_Name = yh_name h\<rparr>"

definition header_kind :: "yaml_header \<Rightarrow> kind option" where
  "header_kind h = map_of scheme_types (yh_apiVersion h, yh_kind h)"

definition decodes :: "'w kube \<Rightarrow> string \<Rightarrow> bool" where
  "decodes K s =
     (case header_kind (yaml_header s) of
        None \<Rightarrow> True
      | Some k \<Rightarrow> \<exists>c. (if k = APIService then ka_DecodeAgg K s else ka_DecodeCore K s) =
          Inr \<lparr>ko_Kind = k, ko_Meta = Some (header_meta (yaml_header s)), ko_Content = c\<rparr>)"

text \<open>An object by API version, kind, namespace and name; the decoded object has a default namespace.\<close>

type_synonym object_id = "string \<times> string \<times> string \<times> string"

definition is_object :: "k8s_object \<Rightarrow> object_id \<Rightarrow> bool" where
  "is_object obj i = (case i of (v, k, ns, n) \<Rightarrow>
     map_of scheme_types (v, k) = Some (ko_Kind obj) \<and>
     ko_Meta obj = Some \<lparr>om_Namespace = (if ns = [] then ''default'' else ns), om_Name = n\<rparr>)"

lemma DecodeYamlOrJson_object:
  assumes "decodes K s" and "i = (yh_apiVersion h, yh_kind h, yh_namespace h, yh_name h)" and "yaml_header s = h"
    and "contains ''apiregistration.k8s.io'' s = (header_kind h = Some APIService)" and "header_kind h \<noteq> None"
  shows "\<exists>obj. DecodeYamlOrJson K s = Inr obj \<and> is_object obj i"
proof -
  from assms(5) obtain k where k: "header_kind h = Some k" by auto
  with assms(1,3) obtain c where "(if k = APIService then ka_DecodeAgg K s else ka_DecodeCore K s) =
      Inr \<lparr>ko_Kind = k, ko_Meta = Some (header_meta h), ko_Content = c\<rparr>" by (auto simp: decodes_def)
  with k assms(2,4) show ?thesis
    by (auto simp: DecodeYamlOrJson_def ObjectMetaFor_def is_object_def header_kind_def header_meta_def split: if_splits)
qed

end
