(* ===== verification/Simulation.thy ===== *)
theory Simulation
  imports Storage Kubernetes
begin

text \<open>
  A world in memory that has an etcd store (from \<open>Storage\<close>) and a Kubernetes cluster: the
  instance of the model's parameters at which the theorems about them are shown to apply. Its
  decoders read the header of a document, as \<open>decodes\<close> asks of them. A second API server for the same
  cluster (\<open>lagging_kube\<close>) answers reads of version \<open>0\<close> with contents that are out of date.
\<close>

record sim_world = mem_world +
  sw_objs :: "(nat \<times> key, k8s_object) gomap"

definition sim_world :: sim_world where
  "sim_world = \<lparr>mw_kvs = [], mw_next = 1, sw_objs = []\<rparr>"

definition sim_objs :: "'a sim_world_scheme contents" where
  "sim_objs w c key = gm_get (sw_objs w) (c, key)"

definition sim_past :: "'a sim_world_scheme history" where
  "sim_past w c = {sim_objs w c}"

definition sim_object :: "string \<Rightarrow> k8s_object" where
  "sim_object s = \<lparr>ko_Kind = ConfigMap,
     ko_Meta = Some \<lparr>om_Namespace = ''kube-system'', om_Name = s\<rparr>, ko_Content = s\<rparr>"

definition sim_decode :: "bool \<Rightarrow> string \<Rightarrow> error + k8s_object" where
  "sim_decode aggregated s =
     (let h = yaml_header s in
      case header_kind h of
        None \<Rightarrow> Inl (EExternal ''no kind is registered'')
      | Some k \<Rightarrow>
        (if (k = APIService) = aggregated
         then Inr \<lparr>ko_Kind = k, ko_Meta = Some (header_meta h), ko_Content = s\<rparr>
         else Inl (EExternal ''no kind is registered'')))"

definition sim_get :: "'a sim_world_scheme \<Rightarrow> nat \<Rightarrow> string \<Rightarrow> kind \<Rightarrow> string \<Rightarrow> string
    \<Rightarrow> 'a sim_world_scheme \<times> (error + k8s_object option)" where
  "sim_get w c rv k ns n =
     (w, case gm_get (sw_objs w) (c, resource k, ns, n) of
           None \<Rightarrow> Inl (ENotFound n) | Some obj \<Rightarrow> Inr (Some obj))"

definition sim_create :: "'a sim_world_scheme \<Rightarrow> nat \<Rightarrow> kind \<Rightarrow> string \<Rightarrow> k8s_object
    \<Rightarrow> 'a sim_world_scheme \<times> (error + k8s_object option)" where
  "sim_create w c k ns obj =
     (case ko_Meta obj of
        None \<Rightarrow> (w, Inl (EExternal ''Invalid''))
      | Some m \<Rightarrow>
        (if gm_get (sw_objs w) (c, resource k, ns, om_Name m) \<noteq> None
         then (w, Inl (EExternal ''AlreadyExists''))
         else (w\<lparr>sw_objs := gm_put (c, resource k, ns, om_Name m) obj (sw_objs w)\<rparr>, Inr (Some obj))))"

definition sim_kube :: "'a sim_world_scheme kube" where
  "sim_kube =
     \<lparr>ka_Get = sim_get, ka_Create = sim_create,
      ka_DecodeCore = sim_decode False, ka_DecodeAgg = sim_decode True,
      ka_ListNodes = (\<lambda>w c. (w, Inr [])), ka_ListComponentStatuses = (\<lambda>w c. (w, Inr [])),
      ka_ListDeployments = (\<lambda>w c ns. (w, Inr [])), ka_ListDaemonSets = (\<lambda>w c ns. (w, Inr []))\<rparr>"

lemmas sim_defs = sim_world_def sim_objs_def sim_past_def sim_object_def sim_get_def sim_create_def sim_kube_def

lemma sim_kube_law: "kube_law sim_kube sim_objs sim_past"
proof -
  have "kube_get_law sim_kube sim_objs sim_past"
    by (auto simp: kube_get_law_def sim_kube_def sim_get_def sim_objs_def sim_past_def answers_def
        keeps_history_def split: option.splits)
  moreover have "kube_create_law sim_kube sim_objs sim_past"
    by (auto simp: kube_create_law_def sim_kube_def sim_create_def sim_objs_def sim_past_def stores_def
        keeps_history_def fun_eq_iff split: option.splits if_splits)
  ultimately show ?thesis by (simp add: kube_law_def)
qed

lemma sim_undisturbed: "undisturbed sim_objs sim_past w"
  by (simp add: undisturbed_def sim_past_def)

text \<open>The same cluster behind a server that still answers version \<open>0\<close> with an empty cluster.\<close>

definition lagging_kube :: "'a sim_world_scheme kube" where
  "lagging_kube = sim_kube\<lparr>ka_Get := (\<lambda>w c rv k ns n.
     if rv = ''0'' then (w, Inl (ENotFound n)) else sim_get w c rv k ns n)\<rparr>"

definition empty_past :: "'a sim_world_scheme history" where
  "empty_past w c = {Map.empty}"

lemma lagging_kube_law: "kube_law lagging_kube sim_objs empty_past"
proof -
  have keeps: "keeps_history sim_objs empty_past w w'" for w w' :: "'a sim_world_scheme"
    by (simp add: keeps_history_def empty_past_def)
  have create: "ka_Create lagging_kube = (ka_Create sim_kube :: 'a sim_world_scheme \<Rightarrow> _)"
    by (simp add: lagging_kube_def)
  have "kube_create_law lagging_kube (sim_objs :: 'a sim_world_scheme contents) empty_past"
    using sim_kube_law [where 'a = 'a] keeps
    unfolding kube_law_def kube_create_law_def create by blast
  moreover have "kube_get_law lagging_kube (sim_objs :: 'a sim_world_scheme contents) empty_past"
    by (auto simp: kube_get_law_def lagging_kube_def sim_get_def sim_objs_def empty_past_def answers_def
        keeps_history_def split: option.splits if_splits)
  ultimately show ?thesis by (simp add: kube_law_def)
qed

lemma lagging_undisturbed: "undisturbed sim_objs empty_past w"
  by (simp add: undisturbed_def empty_past_def)

lemma sim_decodes: "decodes sim_kube s"
  by (auto simp: decodes_def sim_kube_def sim_decode_def Let_def split: option.split)

end
