(* ===== verification/PayloadFacts.thy ===== *)
theory PayloadFacts
  imports Payloads
begin

text \<open>
  What every document of the payloads is, by evaluation: one line at a time in block style
  (\<open>neat_line\<close>), about the object that \<open>payload_objects\<close> lists.
\<close>

definition doc_ok :: "string list \<Rightarrow> object_id \<Rightarrow> string list \<Rightarrow> bool" where
  "doc_ok d i fs \<longleftrightarrow> d \<noteq> [] \<and> doc_fields d = Some fs \<and>
     (let h = header_of (filter (\<lambda>l. l \<noteq> []) d) in
       i = (yh_apiVersion h, yh_kind h, yh_namespace h, yh_name h)) \<and>
     list_ex (contains ''apiregistration.k8s.io'') d = (fst i = ''apiregistration.k8s.io/v1beta1'')"

lemma prometheus_clusterrole_ok: "doc_ok prometheus_clusterrole (''rbac.authorization.k8s.io/v1beta1'', ''ClusterRole'', [], ''prometheus'')
    []"
  by code_simp

lemma prometheus_clusterrolebinding_ok: "doc_ok prometheus_clusterrolebinding (''rbac.authorization.k8s.io/v1beta1'', ''ClusterRoleBinding'', [], ''prometheus'')
    []"
  by code_simp

lemma prometheus_configmap_ok: "doc_ok prometheus_configmap (''v1'', ''ConfigMap'', ''kube-system'', ''prometheus-server-conf'')
    []"
  by code_simp

lemma prometheus_deployment_ok: "doc_ok prometheus_deployment (''extensions/v1beta1'', ''Deployment'', ''kube-system'', ''prometheus-deployment'')
    []"
  by code_simp

lemma prometheus_service_ok: "doc_ok prometheus_service (''v1'', ''Service'', ''kube-system'', ''prometheus-service'')
    []"
  by code_simp

lemma metrics_clusterrole_ok: "doc_ok metrics_clusterrole (''rbac.authorization.k8s.io/v1'', ''ClusterRole'', [], ''system:aggregated-metrics-reader'')
    []"
  by code_simp

lemma metrics_clusterrolebinding_ok: "doc_ok metrics_clusterrolebinding (''rbac.authorization.k8s.io/v1beta1'', ''ClusterRoleBinding'', [], ''metrics-server:system:auth-delegator'')
    []"
  by code_simp

lemma metrics_rolebinding_ok: "doc_ok metrics_rolebinding (''rbac.authorization.k8s.io/v1beta1'', ''RoleBinding'', ''kube-system'', ''metrics-server-auth-reader'')
    []"
  by code_simp

lemma metrics_apiservice_ok: "doc_ok metrics_apiservice (''apiregistration.k8s.io/v1beta1'', ''APIService'', [], ''v1beta1.metrics.k8s.io'')
    []"
  by code_simp

lemma metrics_serviceaccount_ok: "doc_ok metrics_serviceaccount (''v1'', ''ServiceAccount'', ''kube-system'', ''metrics-server'')
    []"
  by code_simp

lemma metrics_deployment_ok: "doc_ok metrics_deployment (''extensions/v1beta1'', ''Deployment'', ''kube-system'', ''metrics-server'')
    []"
  by code_simp

lemma metrics_service_ok: "doc_ok metrics_service (''v1'', ''Service'', ''kube-system'', ''metrics-server'')
    []"
  by code_simp

lemma metrics_clusterrole_2_ok: "doc_ok metrics_clusterrole_2 (''rbac.authorization.k8s.io/v1'', ''ClusterRole'', [], ''system:metrics-server'')
    []"
  by code_simp

lemma metrics_clusterrolebinding_2_ok: "doc_ok metrics_clusterrolebinding_2 (''rbac.authorization.k8s.io/v1'', ''ClusterRoleBinding'', [], ''system:metrics-server'')
    []"
  by code_simp

lemma traefik_serviceaccount_ok: "doc_ok traefik_serviceaccount (''v1'', ''ServiceAccount'', ''kube-system'', ''traefik-ingress-controller'')
    []"
  by code_simp

lemma traefik_daemonset_ok: "doc_ok traefik_daemonset (''extensions/v1beta1'', ''DaemonSet'', ''kube-system'', ''traefik-ingress-controller'')
    []"
  by code_simp

lemma traefik_service_ok: "doc_ok traefik_service (''v1'', ''Service'', ''kube-system'', ''traefik-ingress-service'')
    []"
  by code_simp

lemma traefik_clusterrole_ok: "doc_ok traefik_clusterrole (''rbac.authorization.k8s.io/v1beta1'', ''ClusterRole'', [], ''traefik-ingress-controller'')
    []"
  by code_simp

lemma traefik_clusterrolebinding_ok: "doc_ok traefik_clusterrolebinding (''rbac.authorization.k8s.io/v1beta1'', ''ClusterRoleBinding'', [], ''traefik-ingress-controller'')
    []"
  by code_simp

lemma traefik_service_2_ok: "doc_ok traefik_service_2 (''v1'', ''Service'', ''kube-system'', ''traefik-web-ui'')
    []"
  by code_simp

lemma traefik_ingress_ok: "doc_ok traefik_ingress (''extensions/v1beta1'', ''Ingress'', ''kube-system'', ''traefik-web-ui'')
    []"
  by code_simp

lemma traefik_configmap_ok: "doc_ok traefik_configmap (''v1'', ''ConfigMap'', ''kube-system'', ''traefik-conf'')
    []"
  by code_simp

lemma elasticsearch_serviceaccount_ok: "doc_ok elasticsearch_serviceaccount (''v1'', ''ServiceAccount'', ''kube-system'', ''elasticsearch-admin'')
    []"
  by code_simp

lemma elasticsearch_clusterrolebinding_ok: "doc_ok elasticsearch_clusterrolebinding (''rbac.authorization.k8s.io/v1'', ''ClusterRoleBinding'', [], ''elasticsearch-admin'')
    []"
  by code_simp

lemma elasticsearch_deployment_ok: "doc_ok elasticsearch_deployment (''apps/v1'', ''Deployment'', ''kube-system'', ''elasticsearch-master'')
    [''PING_TIMEOUT'', ''MASTER_XMS'', ''MASTER_XMX'']"
  by code_simp

lemma elasticsearch_service_ok: "doc_ok elasticsearch_service (''v1'', ''Service'', ''kube-system'', ''elasticsearch-discovery'')
    []"
  by code_simp

lemma elasticsearch_service_2_ok: "doc_ok elasticsearch_service_2 (''v1'', ''Service'', ''kube-system'', ''elasticsearch-data-service'')
    []"
  by code_simp

lemma elasticsearch_statefulset_ok: "doc_ok elasticsearch_statefulset (''apps/v1'', ''StatefulSet'', ''kube-system'', ''elasticsearch-data'')
    [''MAX_MAP_COUNT'', ''DATA_XMS'', ''DATA_XMX'', ''DATA_DIR'']"
  by code_simp

lemma elasticsearch_service_3_ok: "doc_ok elasticsearch_service_3 (''v1'', ''Service'', ''kube-system'', ''elasticsearch-service'')
    []"
  by code_simp

lemma elasticsearch_ingress_ok: "doc_ok elasticsearch_ingress (''extensions/v1beta1'', ''Ingress'', ''kube-system'', ''elasticsearch-ingress'')
    []"
  by code_simp

lemma filebeat_configmap_ok: "doc_ok filebeat_configmap (''v1'', ''ConfigMap'', ''kube-system'', ''filebeat-config'')
    []"
  by code_simp

lemma filebeat_daemonset_ok: "doc_ok filebeat_daemonset (''extensions/v1beta1'', ''DaemonSet'', ''kube-system'', ''filebeat'')
    [''ES_HOST'', ''CONTAINER_PATH'', ''STORAGE_PATH'']"
  by code_simp

lemma filebeat_clusterrolebinding_ok: "doc_ok filebeat_clusterrolebinding (''rbac.authorization.k8s.io/v1beta1'', ''ClusterRoleBinding'', [], ''filebeat'')
    []"
  by code_simp

lemma filebeat_clusterrole_ok: "doc_ok filebeat_clusterrole (''rbac.authorization.k8s.io/v1beta1'', ''ClusterRole'', [], ''filebeat'')
    []"
  by code_simp

lemma filebeat_serviceaccount_ok: "doc_ok filebeat_serviceaccount (''v1'', ''ServiceAccount'', ''kube-system'', ''filebeat'')
    []"
  by code_simp

lemma metricbeat_configmap_ok: "doc_ok metricbeat_configmap (''v1'', ''ConfigMap'', ''kube-system'', ''metricbeat-deployment-config'')
    []"
  by code_simp

lemma metricbeat_configmap_2_ok: "doc_ok metricbeat_configmap_2 (''v1'', ''ConfigMap'', ''kube-system'', ''metricbeat-deployment-modules'')
    []"
  by code_simp

lemma metricbeat_deployment_ok: "doc_ok metricbeat_deployment (''apps/v1'', ''Deployment'', ''kube-system'', ''metricbeat'')
    [''ES_HOST'', ''ES_PORT'', ''ES_USERNAME'', ''ES_PASSWORD'']"
  by code_simp

lemma metricbeat_clusterrolebinding_ok: "doc_ok metricbeat_clusterrolebinding (''rbac.authorization.k8s.io/v1'', ''ClusterRoleBinding'', [], ''metricbeat'')
    []"
  by code_simp

lemma metricbeat_clusterrole_ok: "doc_ok metricbeat_clusterrole (''rbac.authorization.k8s.io/v1'', ''ClusterRole'', [], ''metricbeat'')
    []"
  by code_simp

lemma metricbeat_serviceaccount_ok: "doc_ok metricbeat_serviceaccount (''v1'', ''ServiceAccount'', ''kube-system'', ''metricbeat'')
    []"
  by code_simp

lemma helm_deployment_ok: "doc_ok helm_deployment (''extensions/v1beta1'', ''Deployment'', ''kube-system'', ''tiller-deploy'')
    []"
  by code_simp

lemma helm_serviceaccount_ok: "doc_ok helm_serviceaccount (''v1'', ''ServiceAccount'', ''kube-system'', ''tiller'')
    []"
  by code_simp

lemma helm_clusterrolebinding_ok: "doc_ok helm_clusterrolebinding (''rbac.authorization.k8s.io/v1beta1'', ''ClusterRoleBinding'', [], ''tiller'')
    []"
  by code_simp

lemma helm_service_ok: "doc_ok helm_service (''v1'', ''Service'', ''kube-system'', ''tiller-deploy'')
    []"
  by code_simp

lemma coredns_serviceaccount_ok: "doc_ok coredns_serviceaccount (''v1'', ''ServiceAccount'', ''kube-system'', ''coredns'')
    []"
  by code_simp

lemma coredns_clusterrole_ok: "doc_ok coredns_clusterrole (''rbac.authorization.k8s.io/v1'', ''ClusterRole'', [], ''system:coredns'')
    []"
  by code_simp

lemma coredns_clusterrolebinding_ok: "doc_ok coredns_clusterrolebinding (''rbac.authorization.k8s.io/v1'', ''ClusterRoleBinding'', [], ''system:coredns'')
    []"
  by code_simp

lemma coredns_configmap_ok: "doc_ok coredns_configmap (''v1'', ''ConfigMap'', ''kube-system'', ''coredns'')
    [''DOMAIN'']"
  by code_simp

lemma coredns_deployment_ok: "doc_ok coredns_deployment (''apps/v1'', ''Deployment'', ''kube-system'', ''coredns'')
    []"
  by code_simp

lemma coredns_service_ok: "doc_ok coredns_service (''v1'', ''Service'', ''kube-system'', ''kube-dns'')
    [''DNSIP'']"
  by code_simp

lemma kuberouter_configmap_ok: "doc_ok kuberouter_configmap (''v1'', ''ConfigMap'', ''kube-system'', ''kube-router-cfg'')
    [''CIDR'', ''APISERVER'']"
  by code_simp

lemma kuberouter_daemonset_ok: "doc_ok kuberouter_daemonset (''extensions/v1beta1'', ''DaemonSet'', ''kube-system'', ''kube-router'')
    []"
  by code_simp

lemma kuberouter_serviceaccount_ok: "doc_ok kuberouter_serviceaccount (''v1'', ''ServiceAccount'', ''kube-system'', ''kube-router'')
    []"
  by code_simp

lemma kuberouter_clusterrole_ok: "doc_ok kuberouter_clusterrole (''rbac.authorization.k8s.io/v1beta1'', ''ClusterRole'', ''kube-system'', ''kube-router'')
    []"
  by code_simp

lemma kuberouter_clusterrolebinding_ok: "doc_ok kuberouter_clusterrolebinding (''rbac.authorization.k8s.io/v1beta1'', ''ClusterRoleBinding'', [], ''kube-router'')
    []"
  by code_simp

section \<open>Payloads\<close>

lemma docs_ok: "list_all2 (\<lambda>d (i, fs). doc_ok d i fs) (payload_docs p) (zip (payload_objects p) (payload_fields p))"
  by (cases p) (simp_all add: prometheus_docs_def prometheus_clusterrole_ok
      prometheus_clusterrolebinding_ok prometheus_configmap_ok prometheus_deployment_ok
      prometheus_service_ok metrics_docs_def metrics_clusterrole_ok metrics_clusterrolebinding_ok
      metrics_rolebinding_ok metrics_apiservice_ok metrics_serviceaccount_ok metrics_deployment_ok
      metrics_service_ok metrics_clusterrole_2_ok metrics_clusterrolebinding_2_ok traefik_docs_def
      traefik_serviceaccount_ok traefik_daemonset_ok traefik_service_ok traefik_clusterrole_ok
      traefik_clusterrolebinding_ok traefik_service_2_ok traefik_ingress_ok traefik_configmap_ok
      elasticsearch_docs_def elasticsearch_serviceaccount_ok elasticsearch_clusterrolebinding_ok
      elasticsearch_deployment_ok elasticsearch_service_ok elasticsearch_service_2_ok
      elasticsearch_statefulset_ok elasticsearch_service_3_ok elasticsearch_ingress_ok filebeat_docs_def
      filebeat_configmap_ok filebeat_daemonset_ok filebeat_clusterrolebinding_ok filebeat_clusterrole_ok
      filebeat_serviceaccount_ok metricbeat_docs_def metricbeat_configmap_ok metricbeat_configmap_2_ok
      metricbeat_deployment_ok metricbeat_clusterrolebinding_ok metricbeat_clusterrole_ok
      metricbeat_serviceaccount_ok helm_docs_def helm_deployment_ok helm_serviceaccount_ok
      helm_clusterrolebinding_ok helm_service_ok coredns_docs_def coredns_serviceaccount_ok
      coredns_clusterrole_ok coredns_clusterrolebinding_ok coredns_configmap_ok coredns_deployment_ok
      coredns_service_ok kuberouter_docs_def kuberouter_configmap_ok kuberouter_daemonset_ok
      kuberouter_serviceaccount_ok kuberouter_clusterrole_ok kuberouter_clusterrolebinding_ok)

text \<open>Every object is of a type that \<open>CreateK8SResource\<close> handles.\<close>

definition id_kind :: "object_id \<Rightarrow> kind option" where
  "id_kind i = map_of scheme_types (fst i, fst (snd i))"

lemma payload_kinds:
  "list_all (\<lambda>i. case id_kind i of None \<Rightarrow> False
     | Some k \<Rightarrow> create_case k \<noteq> None \<and> (k = APIService) = (fst i = ''apiregistration.k8s.io/v1beta1'')) (payload_objects p)"
  by (cases p) (simp_all add: id_kind_def scheme_types_def)

lemma payload_lengths:
  "length (payload_objects p) = length (payload_docs p)" "length (payload_fields p) = length (payload_docs p)"
  by (cases p; simp add: prometheus_docs_def metrics_docs_def traefik_docs_def elasticsearch_docs_def
      filebeat_docs_def metricbeat_docs_def helm_docs_def coredns_docs_def kuberouter_docs_def)+

lemma doc_nth:
  "n < length (payload_docs p) \<Longrightarrow> doc_ok (payload_docs p ! n) (payload_objects p ! n) (payload_fields p ! n)"
  using docs_ok [of p] payload_lengths [of p] by (simp add: list_all2_conv_all_nth)

lemma payload_doc:
  assumes "d \<in> set (payload_docs p)"
  obtains n where "n < length (payload_docs p)" "d = payload_docs p ! n"
    "doc_ok d (payload_objects p ! n) (payload_fields p ! n)"
  using assms doc_nth by (metis in_set_conv_nth)

lemma payload_neat: "neat_docs (payload_docs p)"
proof -
  have "payload_docs p \<noteq> []" by (cases p) (simp_all add: prometheus_docs_def metrics_docs_def traefik_docs_def elasticsearch_docs_def
      filebeat_docs_def metricbeat_docs_def helm_docs_def coredns_docs_def kuberouter_docs_def)
  moreover have "d \<noteq> [] \<and> list_all neat_line d" if "d \<in> set (payload_docs p)" for d
    using that by (rule payload_doc) (auto simp: doc_ok_def intro: doc_fields_neat)
  ultimately show ?thesis by (auto simp: neat_docs_def list_all_iff)
qed

text \<open>A document by its header, and that it goes to the decoder that knows its type.\<close>

definition is_about :: "string \<Rightarrow> object_id \<Rightarrow> bool" where
  "is_about d i \<longleftrightarrow>
     i = (yh_apiVersion (yaml_header d), yh_kind (yaml_header d), yh_namespace (yaml_header d), yh_name (yaml_header d)) \<and>
     contains ''apiregistration.k8s.io'' d = (fst i = ''apiregistration.k8s.io/v1beta1'')"

text \<open>
  A payload that is filled in with plain values is split into one document for each of its
  objects, and each is about its object.
\<close>

lemma payload_text:
  assumes "plain_values attrs"
  obtains s where "text_template (payload p) attrs = Some s"
    "list_all2 is_about (split_str ''---'' s) (payload_objects p)"
    "concat (payload_fields p) = [] \<Longrightarrow> s = payload p"
proof
  let ?ds = "map (map (fill attrs)) (payload_docs p)"
  note neat = payload_neat [of p]
  show "text_template (payload p) attrs = Some (yaml_stream ?ds)"
    unfolding payload_def by (rule template_documents(1) [OF neat assms])
  show "concat (payload_fields p) = [] \<Longrightarrow> yaml_stream ?ds = payload p"
  proof -
    assume none: "concat (payload_fields p) = []"
    have "map (map (fill attrs)) (payload_docs p) = payload_docs p"
    proof (rule map_idI)
      fix d assume "d \<in> set (payload_docs p)"
      then obtain n where n: "n < length (payload_docs p)" "doc_ok d (payload_objects p ! n) (payload_fields p ! n)"
        by (rule payload_doc)
      with none have "payload_fields p ! n = []" using payload_lengths [of p] by (metis concat_eq_Nil_conv nth_mem)
      with n(2) show "map (fill attrs) d = d" by (simp add: doc_ok_def doc_fields_none)
    qed
    then show ?thesis by (simp add: payload_def)
  qed
  show "list_all2 is_about (split_str ''---'' (yaml_stream ?ds)) (payload_objects p)"
  proof (subst template_documents(2) [OF neat assms], rule list_all2_all_nthI)
    let ?cs = "stream_chunks [] ?ds"
    note h = template_headers [OF neat assms] and g = template_apigroup [OF neat assms]
    have len: "length ?cs = length (payload_docs p)" using arg_cong [OF h, of length] by simp
    then show "length ?cs = length (payload_objects p)" by (simp add: payload_lengths)
    fix n assume n: "n < length ?cs"
    have "yaml_header (?cs ! n) = header_of (filter (\<lambda>l. l \<noteq> []) (payload_docs p ! n))"
      using arg_cong [OF h, of "\<lambda>xs. xs ! n"] n len by simp
    moreover have "contains ''apiregistration.k8s.io'' (?cs ! n) = list_ex (contains ''apiregistration.k8s.io'') (payload_docs p ! n)"
      using arg_cong [OF g, of "\<lambda>xs. xs ! n"] n len by simp
    ultimately show "is_about (?cs ! n) (payload_objects p ! n)"
      using doc_nth [of n p] n len by (simp add: is_about_def doc_ok_def Let_def)
  qed
qed

end
