(* ===== verification/Deployments.thy ===== *)
theory Deployments
  imports Simulation PayloadFacts
begin

text \<open>
  \<open>pkg/controllers\<close>: the controllers that install a component (network, DNS, monitoring, ...) into
  a Kubernetes cluster, and \<open>ExtensionDeploymentController\<close>, which runs eight of them in order.

  Every controller has the same four fields, the record \<open>deployment_controller\<close>; the flag
  \<open>hasInstalled\<close> is an \<open>int32\<close> that is only ever 0 or 1. The interface \<open>DeploymentController\<close> is
  the dispatch \<open>Initialize_of\<close>, \<open>Install_of\<close>, \<open>HasInstalled_of\<close> on the dynamic type, and its contract
  is the locale \<open>deployment_contract\<close>. \<open>UnInstall\<close>, which panics everywhere, is left out.
\<close>

section \<open>State\<close>

record deployment_controller =
  dc_client :: "client_set option"
  dc_settings :: cluster_settings
  dc_parsedObjects :: "k8s_object list"
  dc_hasInstalled :: bool

definition new_dc :: deployment_controller where
  "new_dc = \<lparr>dc_client = None, dc_settings = zero_settings, dc_parsedObjects = [], dc_hasInstalled = False\<rparr>"

datatype controller_type =
    ImagePullSecretsController | PrometheusController | MetricServerController | TraefikController
  | ElasticSearchController | FilebeatController | MetricbeatController | HelmController
  | CoreDNSController | KubeRouterController

section \<open>What the controllers share\<close>

text \<open>The first two statements of every \<open>Initialize\<close>.\<close>

definition dc_bind :: "client_set option \<Rightarrow> cluster_settings \<Rightarrow> deployment_controller \<Rightarrow> deployment_controller" where
  "dc_bind client settings dc = dc\<lparr>dc_client := client, dc_settings := settings\<rparr>"

text \<open>The loop that decodes the documents of a payload; it stops at the first error.\<close>

fun decode_all :: "'w kube \<Rightarrow> string list \<Rightarrow> deployment_controller \<Rightarrow> deployment_controller \<times> error option" where
  "decode_all K [] dc = (dc, None)"
| "decode_all K (y # ys) dc =
     (case DecodeYamlOrJson K y of
        Inl e \<Rightarrow> (dc, Some (EWrap ''decoding yaml'' e))
      | Inr obj \<Rightarrow> decode_all K ys (dc\<lparr>dc_parsedObjects := dc_parsedObjects dc @ [obj]\<rparr>))"

definition load_payload :: "'w kube \<Rightarrow> string \<Rightarrow> deployment_controller \<Rightarrow> deployment_controller \<times> error option" where
  "load_payload K s dc = decode_all K (split_str ''---'' s) dc"

text \<open>The loop of every \<open>Install\<close>: create what does not exist, stop at the first error.\<close>

fun install_loop :: "'w kube \<Rightarrow> client_set option \<Rightarrow> k8s_object list \<Rightarrow> 'w \<Rightarrow> crash + 'w \<times> error option" where
  "install_loop K cs [] w = Inr (w, None)"
| "install_loop K cs (obj # objs) w =
     (case ObjectMetaFor obj of
        Inl e \<Rightarrow> Inr (w, Some (EWrap ''get resource'' e))
      | Inr meta \<Rightarrow>
        bindC (IsKubernetesResourceExists K cs obj w) (\<lambda>(w1, r).
          if (case r of Inl e \<Rightarrow> \<not> IsNotFound e | Inr existed \<Rightarrow> False)
          then Inr (w1, Some (EWrap ''check existence'' (projl r)))
          else if (case r of Inl e \<Rightarrow> True | Inr existed \<Rightarrow> \<not> existed)
          then bindC (CreateK8SResource K cs obj w1) (\<lambda>(w2, c).
                 case c of
                   Inl e \<Rightarrow> Inr (w2, Some (EWrap (om_Name meta) e))
                 | Inr obj' \<Rightarrow> install_loop K cs objs w2)
          else install_loop K cs objs w1))"

text \<open>The query at the end of \<open>HasInstalled\<close>, with the flag that remembers a positive answer.\<close>

definition note_answer ::
  "string \<Rightarrow> deployment_controller \<Rightarrow> 'w \<times> (error + k8s_object option)
     \<Rightarrow> 'w \<times> deployment_controller \<times> (error + bool)" where
  "note_answer name dc answer =
     (case snd answer of
        Inl e \<Rightarrow> (fst answer, dc, if IsNotFound e then Inr False else Inl (EWrap name e))
      | Inr ds \<Rightarrow>
          (fst answer, if ds \<noteq> None then dc\<lparr>dc_hasInstalled := True\<rparr> else dc, Inr (ds \<noteq> None)))"

definition query_installed ::
  "'w kube \<Rightarrow> kind \<Rightarrow> string \<Rightarrow> string \<Rightarrow> deployment_controller \<Rightarrow> 'w
     \<Rightarrow> crash + 'w \<times> deployment_controller \<times> (error + bool)" where
  "query_installed K k ns name dc w =
     bindC (scope_client (dc_client dc) Namespaced) (\<lambda>c.
       Inr (note_answer name dc (ka_Get K w c [] k ns name)))"

definition ext_has_installed ::
  "string \<Rightarrow> kind \<Rightarrow> string \<Rightarrow> 'w kube \<Rightarrow> deployment_controller \<Rightarrow> 'w
     \<Rightarrow> crash + 'w \<times> deployment_controller \<times> (error + bool)" where
  "ext_has_installed ext k name K dc w =
     (if cs_ExtensionalDeployments (dc_settings dc) = [] then Inr (w, dc, Inr True)
      else if gm_get (cs_ExtensionalDeployments (dc_settings dc)) ext = None then Inr (w, dc, Inr True)
      else if dc_hasInstalled dc then Inr (w, dc, Inr True)
      else query_installed K k ''kube-system'' name dc w)"

text \<open>\<open>Install\<close> of the controllers that ask \<open>HasInstalled\<close> first.\<close>

definition guarded_install ::
  "('w kube \<Rightarrow> deployment_controller \<Rightarrow> 'w \<Rightarrow> crash + 'w \<times> deployment_controller \<times> (error + bool))
     \<Rightarrow> string \<Rightarrow> 'w kube \<Rightarrow> deployment_controller \<Rightarrow> 'w
     \<Rightarrow> crash + 'w \<times> deployment_controller \<times> error option" where
  "guarded_install has_installed name K dc w =
     (if dc_parsedObjects dc = [] then Inr (w, dc, None)
      else bindC (has_installed K dc w) (\<lambda>(w1, dc1, r).
        case r of
          Inl e \<Rightarrow> Inr (w1, dc1, Some (EWrap name e))
        | Inr installed \<Rightarrow>
          (if installed then Inr (w1, dc1, None)
           else bindC (install_loop K (dc_client dc1) (dc_parsedObjects dc1) w1)
                  (\<lambda>(w2, e). Inr (w2, dc1, e)))))"

definition plain_install ::
  "'w kube \<Rightarrow> deployment_controller \<Rightarrow> 'w \<Rightarrow> crash + 'w \<times> deployment_controller \<times> error option" where
  "plain_install K dc w =
     (if dc_parsedObjects dc = [] then Inr (w, dc, None)
      else bindC (install_loop K (dc_client dc) (dc_parsedObjects dc) w) (\<lambda>(w2, e). Inr (w2, dc, e)))"

text \<open>\<open>if v, isOK = args[k]; !isOK { v = default }\<close>.\<close>

definition arg_or :: "(string, string) gomap \<Rightarrow> string \<Rightarrow> string \<Rightarrow> string" where
  "arg_or args k d = (case gm_get args k of None \<Rightarrow> d | Some v \<Rightarrow> v)"

text \<open>Rendering a payload; an error is logged and the text is empty.\<close>

definition render :: "payload_name \<Rightarrow> (string, string) gomap \<Rightarrow> string" where
  "render p attrs = (case text_template (payload p) attrs of None \<Rightarrow> [] | Some s \<Rightarrow> s)"

section \<open>Image pulling secrets\<close>

text \<open>\<open>base64.StdEncoding\<close>, and \<open>json.Marshal\<close> of a string and of an object with sorted keys.\<close>

definition b64_char :: "nat \<Rightarrow> char" where
  "b64_char n = ''ABCDEFGHIJKLMNOPQRSTUVWXYZabcdefghijklmnopqrstuvwxyz0123456789+/'' ! n"

fun b64_bytes :: "nat list \<Rightarrow> string" where
  "b64_bytes [] = []"
| "b64_bytes [a] = [b64_char (a div 4), b64_char (a mod 4 * 16), CHR ''='', CHR ''='']"
| "b64_bytes [a, b] =
     [b64_char (a div 4), b64_char (a mod 4 * 16 + b div 16), b64_char (b mod 16 * 4), CHR ''='']"
| "b64_bytes (a # b # c # r) =
     b64_char (a div 4) # b64_char (a mod 4 * 16 + b div 16)
       # b64_char (b mod 16 * 4 + c div 64) # b64_char (c mod 64) # b64_bytes r"

definition EncodeToString :: "string \<Rightarrow> string" where
  "EncodeToString s = b64_bytes (map of_char s)"

definition hex_char :: "nat \<Rightarrow> char" where
  "hex_char n = ''0123456789abcdef'' ! n"

definition json_char :: "char \<Rightarrow> string" where
  "json_char c = (let n = (of_char c :: nat) in
     if n = 34 \<or> n = 92 then [char_of (92::nat), c]
     else if n = 10 then [char_of (92::nat), CHR ''n'']
     else if n = 13 then [char_of (92::nat), CHR ''r'']
     else if n = 9 then [char_of (92::nat), CHR ''t'']
     else if n < 32 \<or> n = 60 \<or> n = 62 \<or> n = 38
     then [char_of (92::nat), CHR ''u'', CHR ''0'', CHR ''0'', hex_char (n div 16), hex_char (n mod 16)]
     else [c])"

definition json_string :: "string \<Rightarrow> string" where
  "json_string s = [char_of (34::nat)] @ concat (map json_char s) @ [char_of (34::nat)]"

definition json_object :: "(string \<times> string) list \<Rightarrow> string" where
  "json_object kvs = ''{'' @ join '','' (map (\<lambda>(k, v). json_string k @ '':'' @ v) kvs) @ ''}''"

definition newSecret :: "pull_secret \<Rightarrow> k8s_object" where
  "newSecret s =
     (let auth = EncodeToString (ps_Username s @ '':'' @ ps_Password s);
          child2Map = json_object [(''auth'', json_string auth), (''email'', json_string (ps_Email s)),
            (''password'', json_string (ps_Password s)), (''username'', json_string (ps_Username s))];
          childMap = json_object [(ps_Registry s, child2Map)];
          rootMap = json_object [(''auths'', childMap)]
      in \<lparr>ko_Kind = Secret,
          ko_Meta = Some \<lparr>om_Namespace = ps_Namespace s, om_Name = ps_Name s\<rparr>,
          ko_Content = rootMap\<rparr>)"

definition ImagePullSecrets_Initialize ::
  "'w kube \<Rightarrow> client_set option \<Rightarrow> string \<Rightarrow> cluster_settings \<Rightarrow> deployment_controller
     \<Rightarrow> deployment_controller \<times> error option" where
  "ImagePullSecrets_Initialize K client clientIp settings dc0 =
     (let dc = dc_bind client settings dc0 in
      (dc\<lparr>dc_parsedObjects := dc_parsedObjects dc @ map newSecret (cs_ImagePullSecrets settings)\<rparr>, None))"

text \<open>The deferred function sets the flag on every return with \<open>installed\<close>.\<close>

definition ImagePullSecrets_HasInstalled ::
  "'w kube \<Rightarrow> deployment_controller \<Rightarrow> 'w \<Rightarrow> crash + 'w \<times> deployment_controller \<times> (error + bool)" where
  "ImagePullSecrets_HasInstalled K dc w =
     (if dc_hasInstalled dc then Inr (w, dc, Inr True)
      else if cs_ExtensionalDeployments (dc_settings dc) = []
      then Inr (w, dc\<lparr>dc_hasInstalled := True\<rparr>, Inr True)
      else case cs_ImagePullSecrets (dc_settings dc) of
             [] \<Rightarrow> Inr (w, dc\<lparr>dc_hasInstalled := True\<rparr>, Inr True)
           | s # rest \<Rightarrow> query_installed K Secret (ps_Namespace s) (ps_Name s) dc w)"

definition ImagePullSecrets_Install ::
  "'w kube \<Rightarrow> deployment_controller \<Rightarrow> 'w \<Rightarrow> crash + 'w \<times> deployment_controller \<times> error option" where
  "ImagePullSecrets_Install K = guarded_install ImagePullSecrets_HasInstalled ''Image Pulling Secrets'' K"

section \<open>Prometheus, metrics server, Traefik and Helm\<close>

definition Prometheus_Initialize ::
  "'w kube \<Rightarrow> client_set option \<Rightarrow> string \<Rightarrow> cluster_settings \<Rightarrow> deployment_controller
     \<Rightarrow> deployment_controller \<times> error option" where
  "Prometheus_Initialize K client clientIp settings dc =
     load_payload K (payload PayloadPrometheus) (dc_bind client settings dc)"

definition Prometheus_HasInstalled ::
  "'w kube \<Rightarrow> deployment_controller \<Rightarrow> 'w \<Rightarrow> crash + 'w \<times> deployment_controller \<times> (error + bool)" where
  "Prometheus_HasInstalled K dc w = ext_has_installed EXT_DEPLOYMENT_PROMETHEUS AppsV1beta1Deployment ''prometheus-deployment'' K dc w"

definition Prometheus_Install ::
  "'w kube \<Rightarrow> deployment_controller \<Rightarrow> 'w \<Rightarrow> crash + 'w \<times> deployment_controller \<times> error option" where
  "Prometheus_Install K = guarded_install Prometheus_HasInstalled ''Prometheus'' K"

definition MetricServer_Initialize ::
  "'w kube \<Rightarrow> client_set option \<Rightarrow> string \<Rightarrow> cluster_settings \<Rightarrow> deployment_controller
     \<Rightarrow> deployment_controller \<times> error option" where
  "MetricServer_Initialize K client clientIp settings dc =
     load_payload K (payload PayloadMetricServer) (dc_bind client settings dc)"

definition MetricServer_HasInstalled ::
  "'w kube \<Rightarrow> deployment_controller \<Rightarrow> 'w \<Rightarrow> crash + 'w \<times> deployment_controller \<times> (error + bool)" where
  "MetricServer_HasInstalled K dc w = ext_has_installed EXT_DEPLOYMENT_METRICSERVER ExtDeployment ''metrics-server'' K dc w"

definition MetricServer_Install ::
  "'w kube \<Rightarrow> deployment_controller \<Rightarrow> 'w \<Rightarrow> crash + 'w \<times> deployment_controller \<times> error option" where
  "MetricServer_Install K = guarded_install MetricServer_HasInstalled ''MetricServer'' K"

definition Traefik_Initialize ::
  "'w kube \<Rightarrow> client_set option \<Rightarrow> string \<Rightarrow> cluster_settings \<Rightarrow> deployment_controller
     \<Rightarrow> deployment_controller \<times> error option" where
  "Traefik_Initialize K client clientIp settings dc =
     load_payload K (payload PayloadTraefik) (dc_bind client settings dc)"

definition Traefik_HasInstalled ::
  "'w kube \<Rightarrow> deployment_controller \<Rightarrow> 'w \<Rightarrow> crash + 'w \<times> deployment_controller \<times> (error + bool)" where
  "Traefik_HasInstalled K dc w = ext_has_installed EXT_DEPLOYMENT_TRAEFIK ExtDaemonSet ''traefik-ingress-controller'' K dc w"

definition Traefik_Install ::
  "'w kube \<Rightarrow> deployment_controller \<Rightarrow> 'w \<Rightarrow> crash + 'w \<times> deployment_controller \<times> error option" where
  "Traefik_Install K = guarded_install Traefik_HasInstalled ''Traefik'' K"

definition Helm_Initialize ::
  "'w kube \<Rightarrow> client_set option \<Rightarrow> string \<Rightarrow> cluster_settings \<Rightarrow> deployment_controller
     \<Rightarrow> deployment_controller \<times> error option" where
  "Helm_Initialize K client clientIp settings dc =
     load_payload K (payload PayloadHelm) (dc_bind client settings dc)"

definition Helm_HasInstalled ::
  "'w kube \<Rightarrow> deployment_controller \<Rightarrow> 'w \<Rightarrow> crash + 'w \<times> deployment_controller \<times> (error + bool)" where
  "Helm_HasInstalled K dc w = ext_has_installed EXT_DEPLOYMENT_HELM ExtDeployment ''tiller-deploy'' K dc w"

definition Helm_Install ::
  "'w kube \<Rightarrow> deployment_controller \<Rightarrow> 'w \<Rightarrow> crash + 'w \<times> deployment_controller \<times> error option" where
  "Helm_Install K = guarded_install Helm_HasInstalled ''Helm v2'' K"

section \<open>ElasticSearch, Filebeat and Metricbeat: payloads with arguments\<close>

definition ElasticSearch_attributes :: "(string, string) gomap \<Rightarrow> (string, string) gomap" where
  "ElasticSearch_attributes args =
       [(''DATA_XMS'', arg_or args ''data_xms'' ''1024m''),
        (''DATA_XMX'', arg_or args ''data_xmx'' ''1024m''),
        (''MASTER_XMS'', arg_or args ''master_xms'' ''512m''),
        (''MASTER_XMX'', arg_or args ''master_xmx'' ''512m''),
        (''PING_TIMEOUT'', arg_or args ''ping_timeout'' ''5s''),
        (''DATA_DIR'', arg_or args ''data_dir'' ''/data/elasticsearch''),
        (''MAX_MAP_COUNT'', arg_or args ''max_map_count'' ''262144'')]"

definition ElasticSearch_processArguments :: "(string, string) gomap \<Rightarrow> string" where
  "ElasticSearch_processArguments args = render PayloadElasticSearch (ElasticSearch_attributes args)"

definition ElasticSearch_Initialize ::
  "'w kube \<Rightarrow> client_set option \<Rightarrow> string \<Rightarrow> cluster_settings \<Rightarrow> deployment_controller
     \<Rightarrow> deployment_controller \<times> error option" where
  "ElasticSearch_Initialize K client clientIp settings dc0 =
     (let dc = dc_bind client settings dc0 in
      case gm_get (cs_ExtensionalDeployments (dc_settings dc)) EXT_DEPLOYMENT_ES of
        None \<Rightarrow> (dc, None)
      | Some args \<Rightarrow> load_payload K (ElasticSearch_processArguments args) dc)"

definition ElasticSearch_HasInstalled ::
  "'w kube \<Rightarrow> deployment_controller \<Rightarrow> 'w \<Rightarrow> crash + 'w \<times> deployment_controller \<times> (error + bool)" where
  "ElasticSearch_HasInstalled K dc w = ext_has_installed EXT_DEPLOYMENT_ES AppsV1beta1Deployment ''elasticsearch-master'' K dc w"

definition ElasticSearch_Install ::
  "'w kube \<Rightarrow> deployment_controller \<Rightarrow> 'w \<Rightarrow> crash + 'w \<times> deployment_controller \<times> error option" where
  "ElasticSearch_Install K = guarded_install ElasticSearch_HasInstalled ''ElasticSearch'' K"

definition Filebeat_attributes :: "(string, string) gomap \<Rightarrow> (string, string) gomap" where
  "Filebeat_attributes args =
       [(''CONTAINER_PATH'', arg_or args ''docker_container_path'' ''/var/lib/docker/containers''),
        (''STORAGE_PATH'', arg_or args ''filebeat_storage_path'' ''/var/lib/filebeat-data''),
        (''ES_HOST'', arg_or args ''es_host'' ''elasticsearch-service'')]"

definition Filebeat_processArguments :: "(string, string) gomap \<Rightarrow> string" where
  "Filebeat_processArguments args = render PayloadFilebeat (Filebeat_attributes args)"

definition Filebeat_Initialize ::
  "'w kube \<Rightarrow> client_set option \<Rightarrow> string \<Rightarrow> cluster_settings \<Rightarrow> deployment_controller
     \<Rightarrow> deployment_controller \<times> error option" where
  "Filebeat_Initialize K client clientIp settings dc0 =
     (let dc = dc_bind client settings dc0 in
      case gm_get (cs_ExtensionalDeployments (dc_settings dc)) EXT_DEPLOYMENT_FILEBEAT of
        None \<Rightarrow> (dc, None)
      | Some args \<Rightarrow> load_payload K (Filebeat_processArguments args) dc)"

definition Filebeat_HasInstalled ::
  "'w kube \<Rightarrow> deployment_controller \<Rightarrow> 'w \<Rightarrow> crash + 'w \<times> deployment_controller \<times> (error + bool)" where
  "Filebeat_HasInstalled K dc w = ext_has_installed EXT_DEPLOYMENT_FILEBEAT ExtDaemonSet ''filebeat'' K dc w"

definition Filebeat_Install ::
  "'w kube \<Rightarrow> deployment_controller \<Rightarrow> 'w \<Rightarrow> crash + 'w \<times> deployment_controller \<times> error option" where
  "Filebeat_Install K = guarded_install Filebeat_HasInstalled ''Filebeat'' K"

definition Metricbeat_attributes :: "(string, string) gomap \<Rightarrow> (string, string) gomap" where
  "Metricbeat_attributes args =
       [(''ES_HOST'', arg_or args ''es_host'' ''elasticsearch-service''),
        (''ES_PORT'', arg_or args ''es_port'' ''9200''),
        (''ES_USERNAME'', arg_or args ''es_username'' []),
        (''ES_PASSWORD'', arg_or args ''es_password'' [])]"

definition Metricbeat_processArguments :: "(string, string) gomap \<Rightarrow> string" where
  "Metricbeat_processArguments args = render PayloadMetricbeat (Metricbeat_attributes args)"

definition Metricbeat_Initialize ::
  "'w kube \<Rightarrow> client_set option \<Rightarrow> string \<Rightarrow> cluster_settings \<Rightarrow> deployment_controller
     \<Rightarrow> deployment_controller \<times> error option" where
  "Metricbeat_Initialize K client clientIp settings dc0 =
     (let dc = dc_bind client settings dc0 in
      case gm_get (cs_ExtensionalDeployments (dc_settings dc)) EXT_DEPLOYMENT_METRICBEAT of
        None \<Rightarrow> (dc, None)
      | Some args \<Rightarrow> load_payload K (Metricbeat_processArguments args) dc)"

definition Metricbeat_HasInstalled ::
  "'w kube \<Rightarrow> deployment_controller \<Rightarrow> 'w \<Rightarrow> crash + 'w \<times> deployment_controller \<times> (error + bool)" where
  "Metricbeat_HasInstalled K dc w = ext_has_installed EXT_DEPLOYMENT_METRICBEAT ExtDeployment ''metricbeat'' K dc w"

definition Metricbeat_Install ::
  "'w kube \<Rightarrow> deployment_controller \<Rightarrow> 'w \<Rightarrow> crash + 'w \<times> deployment_controller \<times> error option" where
  "Metricbeat_Install K = guarded_install Metricbeat_HasInstalled ''Metricbeat'' K"

section \<open>CoreDNS and kube-router\<close>

definition CoreDNS_attributes :: "cluster_settings \<Rightarrow> (string, string) gomap" where
  "CoreDNS_attributes settings =
     [(''DOMAIN'', cs_ServiceDNSDomain settings), (''DNSIP'', cs_ServiceDNSClusterIP settings)]"

definition CoreDNS_Initialize ::
  "'w kube \<Rightarrow> client_set option \<Rightarrow> string \<Rightarrow> cluster_settings \<Rightarrow> deployment_controller
     \<Rightarrow> deployment_controller \<times> error option" where
  "CoreDNS_Initialize K client clientIp settings dc0 =
     (let dc = dc_bind client settings dc0 in
      case text_template (payload PayloadCoreDNS) (CoreDNS_attributes settings) of
        None \<Rightarrow> (dc, Some (EExternal ''CoreDNS template''))
      | Some s \<Rightarrow> load_payload K s dc)"

definition CoreDNS_HasInstalled ::
  "'w kube \<Rightarrow> deployment_controller \<Rightarrow> 'w \<Rightarrow> crash + 'w \<times> deployment_controller \<times> (error + bool)" where
  "CoreDNS_HasInstalled K dc w =
     (if dc_hasInstalled dc then Inr (w, dc, Inr True)
      else query_installed K AppsV1beta1Deployment ''kube-system'' ''coredns'' dc w)"

definition CoreDNS_Install ::
  "'w kube \<Rightarrow> deployment_controller \<Rightarrow> 'w \<Rightarrow> crash + 'w \<times> deployment_controller \<times> error option" where
  "CoreDNS_Install K = plain_install K"

definition KubeRouter_attributes :: "string \<Rightarrow> cluster_settings \<Rightarrow> (string, string) gomap" where
  "KubeRouter_attributes clientIp settings =
     [(''CIDR'', cs_PodNetworkCIDR settings), (''APISERVER'', ''https://'' @ clientIp @ '':6443'')]"

definition KubeRouter_Initialize ::
  "'w kube \<Rightarrow> client_set option \<Rightarrow> string \<Rightarrow> cluster_settings \<Rightarrow> deployment_controller
     \<Rightarrow> deployment_controller \<times> error option" where
  "KubeRouter_Initialize K client clientIp settings dc0 =
     (let dc = dc_bind client settings dc0 in
      case text_template (payload PayloadKubeRouter) (KubeRouter_attributes clientIp settings) of
        None \<Rightarrow> (dc, Some (EExternal ''Kube-Router template''))
      | Some s \<Rightarrow> load_payload K s dc)"

definition KubeRouter_HasInstalled ::
  "'w kube \<Rightarrow> deployment_controller \<Rightarrow> 'w \<Rightarrow> crash + 'w \<times> deployment_controller \<times> (error + bool)" where
  "KubeRouter_HasInstalled K dc w =
     (if dc_hasInstalled dc then Inr (w, dc, Inr True)
      else query_installed K ExtDaemonSet ''kube-system'' ''kube-router'' dc w)"

definition KubeRouter_Install ::
  "'w kube \<Rightarrow> deployment_controller \<Rightarrow> 'w \<Rightarrow> crash + 'w \<times> deployment_controller \<times> error option" where
  "KubeRouter_Install K = plain_install K"

text \<open>
  The two constructors return a pointer of a concrete type next to the error. The pointer is nil
  (\<open>None\<close>) where no controller was made, and the partly initialised controller where
  \<open>Initialize\<close> failed. The error for an unknown DNS type reads \<open>NetworkStack.Type\<close>, which
  dereferences nil where the network settings are missing.
\<close>

definition CreateNetworkStackController ::
  "'w kube \<Rightarrow> client_set option \<Rightarrow> string \<Rightarrow> cluster_settings
     \<Rightarrow> deployment_controller option \<times> error option" where
  "CreateNetworkStackController K client clientIp settings =
     (case cs_NetworkStack settings of
        None \<Rightarrow> (None, Some (ENoNetworkSettings (cs_Id settings)))
      | Some ns \<Rightarrow>
        (if ts_Type ns = NetworkStack_KubeRouter
         then case KubeRouter_Initialize K client clientIp settings new_dc of (c, e) \<Rightarrow> (Some c, e)
         else (None, Some (EUnsupported (ts_Type ns)))))"

definition CreateDNSDeploymentController ::
  "'w kube \<Rightarrow> client_set option \<Rightarrow> string \<Rightarrow> cluster_settings
     \<Rightarrow> crash + deployment_controller option \<times> error option" where
  "CreateDNSDeploymentController K client clientIp settings =
     (case cs_DNSSettings settings of
        None \<Rightarrow> Inr (None, Some (ENoDNSSettings (cs_Id settings)))
      | Some ds \<Rightarrow>
        (if ts_Type ds = DNS_CoreDNS
         then Inr (case CoreDNS_Initialize K client clientIp settings new_dc of (c, e) \<Rightarrow> (Some c, e))
         else case cs_NetworkStack settings of
                None \<Rightarrow> Inl NilDeref
              | Some ns \<Rightarrow> Inr (None, Some (EUnsupported (ts_Type ns)))))"

section \<open>The interface DeploymentController\<close>

fun Initialize_of ::
  "controller_type \<Rightarrow> 'w kube \<Rightarrow> client_set option \<Rightarrow> string \<Rightarrow> cluster_settings
     \<Rightarrow> deployment_controller \<Rightarrow> deployment_controller \<times> error option" where
  "Initialize_of ImagePullSecretsController = ImagePullSecrets_Initialize"
| "Initialize_of PrometheusController = Prometheus_Initialize"
| "Initialize_of MetricServerController = MetricServer_Initialize"
| "Initialize_of TraefikController = Traefik_Initialize"
| "Initialize_of ElasticSearchController = ElasticSearch_Initialize"
| "Initialize_of FilebeatController = Filebeat_Initialize"
| "Initialize_of MetricbeatController = Metricbeat_Initialize"
| "Initialize_of HelmController = Helm_Initialize"
| "Initialize_of CoreDNSController = CoreDNS_Initialize"
| "Initialize_of KubeRouterController = KubeRouter_Initialize"

fun HasInstalled_of ::
  "controller_type \<Rightarrow> 'w kube \<Rightarrow> deployment_controller \<Rightarrow> 'w
     \<Rightarrow> crash + 'w \<times> deployment_controller \<times> (error + bool)" where
  "HasInstalled_of ImagePullSecretsController = ImagePullSecrets_HasInstalled"
| "HasInstalled_of PrometheusController = Prometheus_HasInstalled"
| "HasInstalled_of MetricServerController = MetricServer_HasInstalled"
| "HasInstalled_of TraefikController = Traefik_HasInstalled"
| "HasInstalled_of ElasticSearchController = ElasticSearch_HasInstalled"
| "HasInstalled_of FilebeatController = Filebeat_HasInstalled"
| "HasInstalled_of MetricbeatController = Metricbeat_HasInstalled"
| "HasInstalled_of HelmController = Helm_HasInstalled"
| "HasInstalled_of CoreDNSController = CoreDNS_HasInstalled"
| "HasInstalled_of KubeRouterController = KubeRouter_HasInstalled"

fun Install_of ::
  "controller_type \<Rightarrow> 'w kube \<Rightarrow> deployment_controller \<Rightarrow> 'w
     \<Rightarrow> crash + 'w \<times> deployment_controller \<times> error option" where
  "Install_of ImagePullSecretsController = ImagePullSecrets_Install"
| "Install_of PrometheusController = Prometheus_Install"
| "Install_of MetricServerController = MetricServer_Install"
| "Install_of TraefikController = Traefik_Install"
| "Install_of ElasticSearchController = ElasticSearch_Install"
| "Install_of FilebeatController = Filebeat_Install"
| "Install_of MetricbeatController = Metricbeat_Install"
| "Install_of HelmController = Helm_Install"
| "Install_of CoreDNSController = CoreDNS_Install"
| "Install_of KubeRouterController = KubeRouter_Install"

fun GetName_of :: "controller_type \<Rightarrow> string" where
  "GetName_of ImagePullSecretsController = ''Image Pulling Secrets''"
| "GetName_of PrometheusController = ''Prometheus''"
| "GetName_of MetricServerController = ''MetricServer''"
| "GetName_of TraefikController = ''Traefik''"
| "GetName_of ElasticSearchController = ''ElasticSearch''"
| "GetName_of FilebeatController = ''Filebeat''"
| "GetName_of MetricbeatController = ''Metricbeat''"
| "GetName_of HelmController = ''Helm v2''"
| "GetName_of CoreDNSController = ''CoreDNS''"
| "GetName_of KubeRouterController = ''Kube-Router''"

section \<open>ext.go\<close>

record extension_controller =
  ec_client :: "client_set option"
  ec_settings :: cluster_settings
  ec_controllers :: "(controller_type \<times> deployment_controller) list"

text \<open>A controller that fails to initialise is logged and left out.\<close>

fun init_controllers ::
  "'w kube \<Rightarrow> client_set option \<Rightarrow> string \<Rightarrow> cluster_settings \<Rightarrow> controller_type list
     \<Rightarrow> (controller_type \<times> deployment_controller) list" where
  "init_controllers K client clientIp settings [] = []"
| "init_controllers K client clientIp settings (t # ts) =
     (case Initialize_of t K client clientIp settings new_dc of
        (dc, Some e) \<Rightarrow> init_controllers K client clientIp settings ts
      | (dc, None) \<Rightarrow> (t, dc) # init_controllers K client clientIp settings ts)"

definition extension_types :: "controller_type list" where
  "extension_types = [ImagePullSecretsController, PrometheusController, MetricServerController,
     TraefikController, ElasticSearchController, FilebeatController, MetricbeatController, HelmController]"

definition Extension_Initialize ::
  "'w kube \<Rightarrow> client_set option \<Rightarrow> string \<Rightarrow> cluster_settings \<Rightarrow> extension_controller
     \<Rightarrow> extension_controller \<times> error option" where
  "Extension_Initialize K client clientIp settings ec =
     (ec\<lparr>ec_controllers := init_controllers K client clientIp settings extension_types\<rparr>, None)"

definition CreateExtensionDeploymentController ::
  "'w kube \<Rightarrow> client_set option \<Rightarrow> string \<Rightarrow> cluster_settings \<Rightarrow> extension_controller option \<times> error option" where
  "CreateExtensionDeploymentController K client clientIp settings =
     (case Extension_Initialize K client clientIp settings
             \<lparr>ec_client = client, ec_settings = settings, ec_controllers = []\<rparr> of
        (ec, Some e) \<Rightarrow> (None, Some (EWrap ''extension deployment controller'' e))
      | (ec, None) \<Rightarrow> (Some ec, None))"

fun install_controllers ::
  "'w kube \<Rightarrow> (controller_type \<times> deployment_controller) list \<Rightarrow> 'w
     \<Rightarrow> crash + 'w \<times> (controller_type \<times> deployment_controller) list \<times> error option" where
  "install_controllers K [] w = Inr (w, [], None)"
| "install_controllers K ((t, dc) # cs) w =
     bindC (Install_of t K dc w) (\<lambda>(w1, dc1, r).
       case r of
         Some e \<Rightarrow> Inr (w1, (t, dc1) # cs, Some (EWrap (GetName_of t) e))
       | None \<Rightarrow> bindC (install_controllers K cs w1) (\<lambda>(w2, cs2, r2). Inr (w2, (t, dc1) # cs2, r2)))"

definition Extension_Install ::
  "'w kube \<Rightarrow> extension_controller \<Rightarrow> 'w \<Rightarrow> crash + 'w \<times> extension_controller \<times> error option" where
  "Extension_Install K ec w =
     bindC (install_controllers K (ec_controllers ec) w) (\<lambda>(w', cs, r). Inr (w', ec\<lparr>ec_controllers := cs\<rparr>, r))"

fun check_controllers ::
  "'w kube \<Rightarrow> (controller_type \<times> deployment_controller) list \<Rightarrow> 'w
     \<Rightarrow> crash + 'w \<times> (controller_type \<times> deployment_controller) list \<times> (error + bool)" where
  "check_controllers K [] w = Inr (w, [], Inr True)"
| "check_controllers K ((t, dc) # cs) w =
     bindC (HasInstalled_of t K dc w) (\<lambda>(w1, dc1, r).
       case r of
         Inl e \<Rightarrow> Inr (w1, (t, dc1) # cs, Inl (EWrap (GetName_of t) e))
       | Inr installed \<Rightarrow>
         (if \<not> installed then Inr (w1, (t, dc1) # cs, Inr False)
          else bindC (check_controllers K cs w1) (\<lambda>(w2, cs2, r2). Inr (w2, (t, dc1) # cs2, r2))))"

definition Extension_HasInstalled ::
  "'w kube \<Rightarrow> extension_controller \<Rightarrow> 'w \<Rightarrow> crash + 'w \<times> extension_controller \<times> (error + bool)" where
  "Extension_HasInstalled K ec w =
     bindC (check_controllers K (ec_controllers ec) w) (\<lambda>(w', cs, r). Inr (w', ec\<lparr>ec_controllers := cs\<rparr>, r))"

section \<open>The contract of a deployment controller\<close>

text \<open>The use that three of the job strategies make of a controller.\<close>

definition ensure_installed ::
  "('w kube \<Rightarrow> 'c \<Rightarrow> 'w \<Rightarrow> crash + 'w \<times> 'c \<times> (error + bool))
     \<Rightarrow> ('w kube \<Rightarrow> 'c \<Rightarrow> 'w \<Rightarrow> crash + 'w \<times> 'c \<times> error option)
     \<Rightarrow> string \<Rightarrow> 'w kube \<Rightarrow> 'c \<Rightarrow> 'w \<Rightarrow> crash + 'w \<times> 'c \<times> error option" where
  "ensure_installed has_installed install name K d w =
     bindC (has_installed K d w) (\<lambda>(w1, d1, r).
       case r of
         Inl e \<Rightarrow> Inr (w1, d1, Some e)
       | Inr installed \<Rightarrow>
         (if installed then Inr (w1, d1, None)
          else bindC (install K d1 w1) (\<lambda>(w2, d2, e). Inr (w2, d2, map_option (EWrap name) e))))"

locale deployment_contract =
  fixes has_installed :: "'w kube \<Rightarrow> 'c \<Rightarrow> 'w \<Rightarrow> crash + 'w \<times> 'c \<times> (error + bool)"
    and install :: "'w kube \<Rightarrow> 'c \<Rightarrow> 'w \<Rightarrow> crash + 'w \<times> 'c \<times> error option"
  assumes has_installed_same:
      "kube_law K objs past \<Longrightarrow> has_installed K d w = Inr (w', d', r) \<Longrightarrow> unchanged objs past w w'"
    and has_installed_sticky:
      "has_installed K d w = Inr (w', d', Inr True) \<Longrightarrow> has_installed K d' v = Inr (v, d', Inr True)"
    and install_grows:
      "kube_law K objs past \<Longrightarrow> install K d w = Inr (w', d', e) \<Longrightarrow> grows objs past w w'"
begin

lemma ensure_grows:
  assumes "kube_law K objs past" and "ensure_installed has_installed install name K d w = Inr (w', d', e)"
  shows "grows objs past w w'"
proof -
  from assms(2) obtain w1 d1 r where h: "has_installed K d w = Inr (w1, d1, r)"
    by (auto simp: ensure_installed_def bindC_Inr_iff)
  note same = has_installed_same [OF assms(1) h]
  show ?thesis
  proof (cases "r = Inr False")
    case True
    with assms(2) h obtain e' where "install K d1 w1 = Inr (w', d', e')"
      by (auto simp: ensure_installed_def bindC_Inr_iff)
    from unchanged_grows [OF same] install_grows [OF assms(1) this] show ?thesis by (rule grows_trans)
  next
    case False
    with assms(2) h have "w1 = w'"
      by (auto simp: ensure_installed_def split: sum.splits if_splits)
    with same show ?thesis by (simp add: unchanged_grows)
  qed
qed

lemma ensure_idle:
  assumes "has_installed K d w = Inr (w', d', Inr True)"
  shows "ensure_installed has_installed install name K d' v = Inr (v, d', None)"
  by (simp add: ensure_installed_def has_installed_sticky [OF assms])

end

section \<open>The controllers keep the contract\<close>

lemma install_loop_cons:
  assumes "install_loop K cs (obj # obs) w = Inr (w', r)"
  obtains (meta) e where "ko_Meta obj = None" "w' = w" "r = Some e"
  | (check) e where "IsKubernetesResourceExists K cs obj w = Inr (w', Inl e)" "\<not> IsNotFound e" "r \<noteq> None"
  | (create) w1 r1 e where "IsKubernetesResourceExists K cs obj w = Inr (w1, r1)" "r1 \<noteq> Inr True"
      "CreateK8SResource K cs obj w1 = Inr (w', Inl e)" "r \<noteq> None"
      "\<And>e. r1 = Inl e \<Longrightarrow> IsNotFound e"
  | (created) w1 r1 w2 x where "IsKubernetesResourceExists K cs obj w = Inr (w1, r1)" "r1 \<noteq> Inr True"
      "CreateK8SResource K cs obj w1 = Inr (w2, Inr x)" "install_loop K cs obs w2 = Inr (w', r)"
      "\<And>e. r1 = Inl e \<Longrightarrow> IsNotFound e"
  | (existed) w1 where "IsKubernetesResourceExists K cs obj w = Inr (w1, Inr True)"
      "install_loop K cs obs w1 = Inr (w', r)"
proof (cases "ko_Meta obj")
  case None
  with assms show ?thesis by (intro meta) (auto simp: ObjectMetaFor_def)
next
  case (Some m)
  with assms obtain w1 r1 where e: "IsKubernetesResourceExists K cs obj w = Inr (w1, r1)"
    by (auto simp: ObjectMetaFor_def bindC_Inr_iff)
  let ?go = "bindC (CreateK8SResource K cs obj w1) (\<lambda>(w2, c).
      case c of Inl e \<Rightarrow> Inr (w2, Some (EWrap (om_Name m) e)) | Inr obj' \<Rightarrow> install_loop K cs obs w2)"
  have go: thesis if "?go = Inr (w', r)" "r1 \<noteq> Inr True" "\<And>e. r1 = Inl e \<Longrightarrow> IsNotFound e"
  proof -
    from that(1) obtain w2 c where c: "CreateK8SResource K cs obj w1 = Inr (w2, c)"
      by (auto simp: bindC_Inr_iff)
    show thesis
    proof (cases c)
      case (Inl x)
      with that c show thesis by (intro create [OF e]) auto
    next
      case (Inr x)
      with that c show thesis by (intro created [OF e]) auto
    qed
  qed
  show ?thesis
  proof (cases r1)
    case (Inl x)
    show ?thesis
    proof (cases "IsNotFound x")
      case True
      with assms Some e Inl show ?thesis by (intro go) (auto simp: ObjectMetaFor_def)
    next
      case False
      with assms Some e Inl show ?thesis by (intro check [of x]) (auto simp: ObjectMetaFor_def)
    qed
  next
    case (Inr b)
    show ?thesis
    proof (cases b)
      case True
      with assms Some e Inr show ?thesis by (intro existed [of w1]) (auto simp: ObjectMetaFor_def)
    next
      case False
      with assms Some e Inr show ?thesis by (intro go) (auto simp: ObjectMetaFor_def)
    qed
  qed
qed

declare install_loop.simps(2) [simp del]

lemma install_loop_grows:
  assumes "kube_law K objs past" and "install_loop K cs obs w = Inr (w', r)"
  shows "grows objs past w w'"
  using assms(2)
proof (induction obs arbitrary: w)
  case (Cons obj obs)
  note same = IsKubernetesResourceExists_same [OF assms(1)]
    and create = CreateK8SResource_grows [OF assms(1)]
  from Cons.prems show ?case
  proof (cases rule: install_loop_cons)
    case (created w1 r1 w2 x)
    have "grows objs past w w1" using same [OF created(1)] by (rule unchanged_grows)
    also have "grows objs past w1 w2" by (rule create [OF created(3)])
    also have "grows objs past w2 w'" by (rule Cons.IH [OF created(4)])
    finally show ?thesis .
  next
    case (create w1 r1 e)
    have "grows objs past w w1" using same [OF create(1)] by (rule unchanged_grows)
    also have "grows objs past w1 w'" by (rule CreateK8SResource_grows [OF assms(1) create(3)])
    finally show ?thesis .
  next
    case (existed w1)
    have "grows objs past w w1" using same [OF existed(1)] by (rule unchanged_grows)
    also have "grows objs past w1 w'" by (rule Cons.IH [OF existed(2)])
    finally show ?thesis .
  qed (auto intro: unchanged_grows dest: same)
qed simp

lemma install_loop_present:
  assumes "kube_law K objs past" and "install_loop K cs obs w = Inr (w', None)" and "obj \<in> set obs"
    and "undisturbed objs past w"
  shows "present objs cs w' obj"
  using assms(2-4)
proof (induction obs arbitrary: w)
  case (Cons ob obs)
  note und = grows_undisturbed [OF _ Cons.prems(3)]
  from Cons.prems(1) show ?case
  proof (cases rule: install_loop_cons)
    case (created w1 r1 w2 x)
    have "grows objs past w w2"
      using unchanged_grows [OF IsKubernetesResourceExists_same [OF assms(1) created(1)]]
        CreateK8SResource_grows [OF assms(1) created(3)] by (rule grows_trans)
    with CreateK8SResource_present [OF assms(1) created(3)] install_loop_grows [OF assms(1) created(4)]
      Cons.IH [OF created(4) _ und] Cons.prems(2)
    show ?thesis by (auto intro: grows_present)
  next
    case (existed w1)
    note g = unchanged_grows [OF IsKubernetesResourceExists_same [OF assms(1) existed(1)]]
    from IsKubernetesResourceExists_yes(2) [OF assms(1) existed(1) Cons.prems(3)]
      install_loop_grows [OF assms(1) existed(2)] Cons.IH [OF existed(2) _ und [OF g]] Cons.prems(2)
    show ?thesis by (auto intro: grows_present)
  qed simp_all
qed simp

text \<open>
  Where everything is there already, the loop changes nothing: if it is told, by an answer that is
  out of date, that an object is missing, its attempt to create the object fails.
\<close>

lemma install_loop_idle:
  assumes "kube_law K objs past" and "install_loop K cs obs w = Inr (w', r)"
    and "\<And>obj. obj \<in> set obs \<Longrightarrow> present objs cs w obj"
  shows "unchanged objs past w w'"
  using assms(2,3)
proof (induction obs arbitrary: w)
  case (Cons obj obs)
  note same = IsKubernetesResourceExists_same [OF assms(1)]
  have p: "present objs cs w1 ob" if "unchanged objs past w w1" "ob \<in> set (obj # obs)" for w1 ob
    using grows_present [OF unchanged_grows [OF that(1)]] Cons.prems(2) [OF that(2)] .
  from Cons.prems(1) show ?case
  proof (cases rule: install_loop_cons)
    case (existed w1)
    have "unchanged objs past w1 w'"
      using p [OF same [OF existed(1)]] by (intro Cons.IH [OF existed(2)]) simp
    with same [OF existed(1)] show ?thesis by (rule unchanged_trans)
  next
    case (create w1 r1 e)
    from same [OF create(1)] CreateK8SResource_taken(2) [OF assms(1) create(3) p [OF same [OF create(1)]]]
    show ?thesis by (auto intro: unchanged_trans)
  next
    case (created w1 r1 w2 x)
    with CreateK8SResource_taken(1) [OF assms(1) created(3) p [OF same [OF created(1)]]] show ?thesis by simp
  qed (auto dest: same)
qed simp

lemma query_installed_cases:
  assumes "query_installed K k ns n dc w = Inr (w', dc', r)"
  obtains c g where "scope_client (dc_client dc) Namespaced = Inr c" "ka_Get K w c [] k ns n = (w', g)"
    "(w', dc', r) = note_answer n dc (w', g)"
proof -
  from assms obtain c where c: "scope_client (dc_client dc) Namespaced = Inr c"
    "note_answer n dc (ka_Get K w c [] k ns n) = (w', dc', r)"
    by (auto simp: query_installed_def bindC_Inr_iff)
  obtain w1 g where g: "ka_Get K w c [] k ns n = (w1, g)" by (cases "ka_Get K w c [] k ns n")
  with c(2) have "w1 = w'" by (auto simp: note_answer_def split: sum.splits)
  with c g show thesis by (intro that [of c g]) simp_all
qed

lemma query_installed_same:
  assumes "kube_law K objs past" and "query_installed K k ns n dc w = Inr (w', dc', r)"
  shows "unchanged objs past w w'"
  using assms(2) by (rule query_installed_cases) (rule kube_get(1) [OF assms(1)])

lemma query_installed_frame:
  assumes "query_installed K k ns n dc w = Inr (w', dc', r)"
  shows "dc' = dc\<lparr>dc_hasInstalled := True\<rparr> \<or> dc' = dc \<and> r \<noteq> Inr True"
  using assms by (rule query_installed_cases) (auto simp: note_answer_def split: sum.splits if_splits)

lemmas HasInstalled_defs = ext_has_installed_def ImagePullSecrets_HasInstalled_def
  Prometheus_HasInstalled_def MetricServer_HasInstalled_def Traefik_HasInstalled_def
  ElasticSearch_HasInstalled_def Filebeat_HasInstalled_def Metricbeat_HasInstalled_def
  Helm_HasInstalled_def CoreDNS_HasInstalled_def KubeRouter_HasInstalled_def

lemmas Install_defs = ImagePullSecrets_Install_def Prometheus_Install_def MetricServer_Install_def
  Traefik_Install_def ElasticSearch_Install_def Filebeat_Install_def Metricbeat_Install_def
  Helm_Install_def CoreDNS_Install_def KubeRouter_Install_def

text \<open>
  \<open>HasInstalled\<close> answers from the settings (\<open>quiet\<close>: without any request) or asks the API server.
\<close>

lemma HasInstalled_cases:
  assumes "HasInstalled_of t K dc w = Inr (w', dc', r)"
  obtains (quiet) "w' = w" "r = Inr True" "\<And>v. HasInstalled_of t K dc' v = Inr (v, dc', Inr True)"
      "dc' = dc \<or> dc' = dc\<lparr>dc_hasInstalled := True\<rparr>"
  | (query) k ns n where "query_installed K k ns n dc w = Inr (w', dc', r)"
      "\<And>v. HasInstalled_of t K (dc\<lparr>dc_hasInstalled := True\<rparr>) v =
          Inr (v, dc\<lparr>dc_hasInstalled := True\<rparr>, Inr True)"
  using assms
  by (cases t) (auto simp: HasInstalled_defs split: if_splits list.splits)

lemma HasInstalled_same:
  assumes "kube_law K objs past" and "HasInstalled_of t K dc w = Inr (w', dc', r)"
  shows "unchanged objs past w w'"
  using assms(2) by (rule HasInstalled_cases) (simp_all add: query_installed_same [OF assms(1)])

text \<open>Asking changes at most the flag.\<close>

lemma HasInstalled_frame:
  assumes "HasInstalled_of t K dc w = Inr (w', dc', r)"
  shows "dc' = dc \<or> dc' = dc\<lparr>dc_hasInstalled := True\<rparr>"
  using assms by (rule HasInstalled_cases) (auto dest: query_installed_frame)

lemma HasInstalled_sticky:
  assumes "HasInstalled_of t K dc w = Inr (w', dc', Inr True)"
  shows "HasInstalled_of t K dc' v = Inr (v, dc', Inr True)"
  using assms by (rule HasInstalled_cases) (auto dest: query_installed_frame)


lemma guarded_install_cases:
  assumes "guarded_install h n K dc w = Inr (w', dc', r)"
  obtains (empty) "dc_parsedObjects dc = []" "w' = w" "dc' = dc" "r = None"
  | (check) e where "h K dc w = Inr (w', dc', Inl e)" "r = Some (EWrap n e)"
  | (installed) "h K dc w = Inr (w', dc', Inr True)" "r = None"
  | (run) w1 where "h K dc w = Inr (w1, dc', Inr False)"
      "install_loop K (dc_client dc') (dc_parsedObjects dc') w1 = Inr (w', r)"
proof (cases "dc_parsedObjects dc = []")
  case True
  with assms show ?thesis by (intro empty) (auto simp: guarded_install_def)
next
  case False
  with assms obtain w1 dc1 r1 where h: "h K dc w = Inr (w1, dc1, r1)"
    by (auto simp: guarded_install_def bindC_Inr_iff)
  show ?thesis
  proof (cases r1)
    case (Inl e)
    with False h assms show ?thesis by (intro check) (auto simp: guarded_install_def)
  next
    case (Inr b)
    with False h assms installed run show ?thesis
      by (cases b) (auto simp: guarded_install_def bindC_Inr_iff)
  qed
qed

text \<open>The two controllers that install without asking first.\<close>

definition plain_type :: "controller_type \<Rightarrow> bool" where
  "plain_type t \<longleftrightarrow> t = CoreDNSController \<or> t = KubeRouterController"

lemma Install_cases:
  assumes "Install_of t K dc w = Inr (w', dc', r)"
  obtains (empty) "dc_parsedObjects dc = []" "w' = w" "dc' = dc" "r = None"
  | (check) e e' where "HasInstalled_of t K dc w = Inr (w', dc', Inl e)" "r = Some e'"
  | (installed) "HasInstalled_of t K dc w = Inr (w', dc', Inr True)" "r = None" "\<not> plain_type t"
  | (run) w1 where "w1 = w \<and> dc' = dc \<and> plain_type t \<or> HasInstalled_of t K dc w = Inr (w1, dc', Inr False)"
      "install_loop K (dc_client dc') (dc_parsedObjects dc') w1 = Inr (w', r)"
proof (cases "plain_type t")
  case True
  then have "plain_install K dc w = Inr (w', dc', r)"
    using assms by (auto simp: plain_type_def Install_defs)
  then show ?thesis
    using empty run True by (auto simp: plain_install_def bindC_Inr_iff split: if_splits)
next
  case False
  with assms obtain n where "guarded_install (HasInstalled_of t) n K dc w = Inr (w', dc', r)"
    by (cases t) (auto simp: plain_type_def Install_defs)
  then show ?thesis
  proof (cases rule: guarded_install_cases)
    case b: (run w1)
    show ?thesis by (rule run [OF disjI2 [OF b(1)] b(2)])
  next
    case installed
    then show ?thesis using False that(3) by blast
  qed (rule empty check, assumption+)+
qed

lemma Install_grows:
  assumes "kube_law K objs past" and "Install_of t K dc w = Inr (w', dc', r)"
  shows "grows objs past w w'"
  using assms(2)
proof (cases rule: Install_cases)
  case (run w1)
  then have "unchanged objs past w w1" using HasInstalled_same [OF assms(1)] by auto
  then have "grows objs past w w1" by (rule unchanged_grows)
  also have "grows objs past w1 w'" using assms(1) run(2) by (rule install_loop_grows)
  finally show ?thesis .
qed (auto intro!: unchanged_grows dest: HasInstalled_same [OF assms(1)])

interpretation single: deployment_contract "HasInstalled_of t" "Install_of t" for t
  by unfold_locales (fact HasInstalled_same HasInstalled_sticky Install_grows)+

section \<open>The extension controller keeps it too\<close>

lemma check_controllers_same:
  assumes "kube_law K objs past" and "check_controllers K cs w = Inr (w', cs', r)"
  shows "unchanged objs past w w'"
  using assms(2)
proof (induction cs arbitrary: w cs')
  case (Cons c cs)
  obtain t dc where c: "c = (t, dc)" by (cases c)
  with Cons.prems obtain w1 dc1 r1 where h: "HasInstalled_of t K dc w = Inr (w1, dc1, r1)"
    by (auto simp: bindC_Inr_iff)
  note same = HasInstalled_same [OF assms(1) h]
  show ?case
  proof (cases "r1 = Inr True")
    case True
    with Cons.prems c h obtain cs2 where "check_controllers K cs w1 = Inr (w', cs2, r)"
      by (auto simp: bindC_Inr_iff)
    from same Cons.IH [OF this] show ?thesis by (rule unchanged_trans)
  next
    case False
    with Cons.prems c h same show ?thesis by (auto split: sum.splits if_splits)
  qed
qed simp

lemma check_controllers_sticky:
  assumes "check_controllers K cs w = Inr (w', cs', Inr True)"
  shows "check_controllers K cs' v = Inr (v, cs', Inr True)"
  using assms
proof (induction cs arbitrary: w cs')
  case (Cons c cs)
  obtain t dc where c: "c = (t, dc)" by (cases c)
  with Cons.prems obtain w1 dc1 r1 where h: "HasInstalled_of t K dc w = Inr (w1, dc1, r1)"
    by (auto simp: bindC_Inr_iff)
  with Cons.prems c have "r1 = Inr True" by (auto split: sum.splits if_splits)
  with Cons.prems c h obtain cs2 where *: "check_controllers K cs w1 = Inr (w', cs2, Inr True)"
    and cs': "cs' = (t, dc1) # cs2" by (auto simp: bindC_Inr_iff)
  from h \<open>r1 = Inr True\<close> have "HasInstalled_of t K dc1 v = Inr (v, dc1, Inr True)"
    by (auto intro: HasInstalled_sticky)
  with Cons.IH [OF *] cs' show ?case by simp
qed simp

lemma install_controllers_grows:
  assumes "kube_law K objs past" and "install_controllers K cs w = Inr (w', cs', r)"
  shows "grows objs past w w'"
  using assms(2)
proof (induction cs arbitrary: w cs')
  case (Cons c cs)
  obtain t dc where c: "c = (t, dc)" by (cases c)
  with Cons.prems obtain w1 dc1 r1 where h: "Install_of t K dc w = Inr (w1, dc1, r1)"
    by (auto simp: bindC_Inr_iff)
  note grows = Install_grows [OF assms(1) h]
  show ?case
  proof (cases r1)
    case None
    with Cons.prems c h obtain cs2 where "install_controllers K cs w1 = Inr (w', cs2, r)"
      by (auto simp: bindC_Inr_iff)
    with grows show ?thesis by (blast intro: grows_trans Cons.IH)
  next
    case (Some e)
    with Cons.prems c h grows show ?thesis by auto
  qed
qed simp

interpretation extension: deployment_contract Extension_HasInstalled Extension_Install
proof unfold_locales
  show "kube_law K objs past \<Longrightarrow> Extension_HasInstalled K d w = Inr (w', d', r) \<Longrightarrow> unchanged objs past w w'"
    for K objs past d w w' d' r
    by (auto simp: Extension_HasInstalled_def bindC_Inr_iff intro: check_controllers_same)
  show "Extension_HasInstalled K d w = Inr (w', d', Inr True) \<Longrightarrow>
      Extension_HasInstalled K d' v = Inr (v, d', Inr True)" for K d w w' d' v
    by (clarsimp simp: Extension_HasInstalled_def bindC_Inr_iff)
       (rule exI, rule conjI, erule check_controllers_sticky, rule refl)
  show "kube_law K objs past \<Longrightarrow> Extension_Install K d w = Inr (w', d', e) \<Longrightarrow> grows objs past w w'"
    for K objs past d w w' d' e
    by (auto simp: Extension_Install_def bindC_Inr_iff intro: install_controllers_grows)
qed

section \<open>Properties\<close>

lemma Install_frame:
  assumes "Install_of t K dc w = Inr (w', dc', r)"
  shows "dc' = dc \<or> dc' = dc\<lparr>dc_hasInstalled := True\<rparr>"
  using assms by (rule Install_cases) (auto dest: HasInstalled_frame)

lemma install_complete':
  assumes "kube_law K objs past" and "Install_of t K dc w = Inr (w', dc', None)"
    and "undisturbed objs past w"
  shows "(\<forall>obj \<in> set (dc_parsedObjects dc). present objs (dc_client dc) w' obj) \<or>
      (\<forall>v. HasInstalled_of t K dc' v = Inr (v, dc', Inr True))"
  using assms(2)
proof (cases rule: Install_cases)
  case installed
  then show ?thesis by (blast intro: HasInstalled_sticky)
next
  case (run w1)
  have "dc_client dc' = dc_client dc" "dc_parsedObjects dc' = dc_parsedObjects dc"
    using Install_frame [OF assms(2)] by auto
  moreover have "unchanged objs past w w1" using run(1) HasInstalled_same [OF assms(1)] by auto
  then have "undisturbed objs past w1"
    by (rule grows_undisturbed [OF unchanged_grows assms(3)])
  ultimately show ?thesis using install_loop_present [OF assms(1) run(2)] by simp
qed simp_all

text \<open>
  When a controller's \<open>Install\<close> returns without an error, then either every object of its
  payload is in the cluster, or the controller takes the component as installed from now on.
  Nothing that the cluster held before is lost or overwritten. The cluster is one from which
  nothing has been deleted: the look for an object asks for version \<open>0\<close>, and the server may answer
  with an object that is gone.
\<close>

theorem install_complete:
  assumes "kube_law K objs past" and "Install_of t K dc w = Inr (w', dc', None)"
    and "undisturbed objs past w"
  shows "grows objs past w w' \<and>
     ((\<forall>obj \<in> set (dc_parsedObjects dc). present objs (dc_client dc) w' obj) \<or>
      (\<forall>v. HasInstalled_of t K dc' v = Inr (v, dc', Inr True)))"
  using Install_grows [OF assms(1,2)] install_complete' [OF assms] by blast

definition sample_dc :: deployment_controller where
  "sample_dc = new_dc\<lparr>dc_client := Some \<lparr>kc_CoreClient = Some 0, kc_APIRegClientV1beta1 = None\<rparr>,
     dc_parsedObjects := [sim_object ''a'', sim_object ''b'']\<rparr>"

lemmas sample_dc_defs = sample_dc_def new_dc_def sim_object_def

lemma sample_install:
  "\<exists>w'. Install_of KubeRouterController sim_kube sample_dc sim_world = Inr (w', sample_dc, None)"
  by (simp add: KubeRouter_Install_def plain_install_def sample_dc_defs install_loop.simps ObjectMetaFor_def
      IsKubernetesResourceExists_def CreateK8SResource_def scope_client_def meta_of_def scope_ns_def
      sim_defs IsNotFound_def)

theorem install_complete_witness:
  "\<exists>w'. Install_of KubeRouterController sim_kube sample_dc sim_world = Inr (w', sample_dc, None) \<and>
     grows sim_objs sim_past sim_world w'"
  using sample_install install_complete [OF sim_kube_law _ sim_undisturbed] by blast

text \<open>
  C36: in a cluster from which nothing has been deleted, installing again after a success leaves
  the contents of the cluster as they are, whatever the second attempt returns; the answers of
  the API server to a look for an object may be out of date in both attempts.
\<close>

theorem reinstall_changes_nothing:
  assumes "kube_law K objs past" and "Install_of t K dc w = Inr (w', dc', None)"
    and "undisturbed objs past w"
    and "Install_of t K dc' w' = Inr (w'', dc'', r)"
  shows "objs w'' = objs w'"
proof -
  have same: "dc_client dc' = dc_client dc" "dc_parsedObjects dc' = dc_parsedObjects dc"
    using Install_frame [OF assms(2)] by auto
  note check = HasInstalled_same [OF assms(1)]
  from assms(4) show ?thesis
  proof (cases rule: Install_cases)
    case (run w1)
    have w1: "unchanged objs past w' w1" using run(1) check by auto
    have same'': "dc_client dc'' = dc_client dc" "dc_parsedObjects dc'' = dc_parsedObjects dc"
      using Install_frame [OF assms(4)] same by auto
    have idle: ?thesis if "\<forall>obj \<in> set (dc_parsedObjects dc). present objs (dc_client dc) w' obj"
    proof -
      have "unchanged objs past w1 w''"
        using that same'' by (intro install_loop_idle [OF assms(1) run(2)])
          (auto intro: grows_present [OF unchanged_grows [OF w1]])
      with w1 show ?thesis by (simp add: unchanged_def)
    qed
    from assms(2) show ?thesis
    proof (cases rule: Install_cases)
      case empty
      with idle show ?thesis by simp
    next
      case installed
      have "HasInstalled_of t K dc' w' = Inr (w', dc', Inr True)"
        using installed(1) by (rule HasInstalled_sticky)
      with run(1) installed(3) show ?thesis by simp
    next
      case b: (run w2)
      have "unchanged objs past w w2" using b(1) check by auto
      then have "undisturbed objs past w2" by (rule grows_undisturbed [OF unchanged_grows assms(3)])
      with install_loop_present [OF assms(1) b(2)] same idle show ?thesis by simp
    qed simp
  qed (auto dest: check unchanged_objs)
qed

lemmas install_run_simps = KubeRouter_Install_def plain_install_def sample_dc_defs install_loop.simps
  ObjectMetaFor_def IsKubernetesResourceExists_def CreateK8SResource_def scope_client_def meta_of_def
  scope_ns_def lagging_kube_def sim_defs IsNotFound_def

text \<open>
  A server that still answers with the empty cluster it had: the second \<open>Install\<close> tries to create
  the first object again and fails.
\<close>

theorem reinstall_changes_nothing_witness:
  "\<exists>w' w'' e. Install_of KubeRouterController lagging_kube sample_dc sim_world = Inr (w', sample_dc, None) \<and>
     Install_of KubeRouterController lagging_kube sample_dc w' = Inr (w'', sample_dc, Some e) \<and>
     sim_objs w'' = sim_objs w'"
proof -
  obtain w' where w': "Install_of KubeRouterController lagging_kube sample_dc sim_world = Inr (w', sample_dc, None)"
    by (simp add: install_run_simps)
  then obtain w'' e where again:
    "Install_of KubeRouterController lagging_kube sample_dc w' = Inr (w'', sample_dc, Some e)"
    by (auto simp: install_run_simps)
  have "sim_objs w'' = sim_objs w'"
    by (rule reinstall_changes_nothing [OF lagging_kube_law w' lagging_undisturbed again])
  with w' again show ?thesis by blast
qed

text \<open>
  The extension controller keeps exactly the controllers, in their order, whose
  \<open>Initialize\<close> succeeds, each in the state in which its \<open>Initialize\<close> left it; it never fails itself.
\<close>

theorem extension_keeps_working:
  "\<exists>ec. CreateExtensionDeploymentController K client ip settings = (Some ec, None) \<and>
     ec_controllers ec =
       map (\<lambda>t. (t, fst (Initialize_of t K client ip settings new_dc)))
         (filter (\<lambda>t. snd (Initialize_of t K client ip settings new_dc) = None) extension_types)"
proof -
  have "init_controllers K client ip settings ts =
       map (\<lambda>t. (t, fst (Initialize_of t K client ip settings new_dc)))
         (filter (\<lambda>t. snd (Initialize_of t K client ip settings new_dc) = None) ts)" for ts
    by (induction ts) (auto split: prod.splits option.splits)
  then show ?thesis
    by (simp add: CreateExtensionDeploymentController_def Extension_Initialize_def)
qed

text \<open>
  Once the extension controller has found all its components installed, the job strategy's
  check of it is free: it succeeds without sending any request, in every later world.
\<close>

theorem extension_idle:
  assumes "Extension_HasInstalled K ec w = Inr (w', ec', Inr True)"
  shows "ensure_installed Extension_HasInstalled Extension_Install name K ec' v = Inr (v, ec', None)"
  using assms by (rule extension.ensure_idle)

definition sample_ec :: extension_controller where
  "sample_ec = \<lparr>ec_client = None, ec_settings = zero_settings,
     ec_controllers = [(ImagePullSecretsController, sample_dc), (PrometheusController, sample_dc)]\<rparr>"

theorem extension_idle_witness:
  "\<exists>ec'. Extension_HasInstalled sim_kube sample_ec sim_world = Inr (sim_world, ec', Inr True) \<and>
     ensure_installed Extension_HasInstalled Extension_Install ''x'' sim_kube ec' sim_world =
       Inr (sim_world, ec', None)"
proof -
  have "\<exists>ec'. Extension_HasInstalled sim_kube sample_ec sim_world = Inr (sim_world, ec', Inr True)"
    by (simp add: sample_ec_def sample_dc_defs Extension_HasInstalled_def HasInstalled_defs zero_settings_def)
  then show ?thesis using extension_idle [of sim_kube sample_ec sim_world] by blast
qed

text \<open>
  When the extension controller's \<open>Install\<close> returns without an error, every one of its
  controllers was run, and for each of them either all objects of its payload are in the cluster
  or the controller takes its component as installed from now on.
\<close>

theorem extension_complete:
  assumes "kube_law K objs past" and "Extension_Install K ec w = Inr (w', ec', None)"
    and "undisturbed objs past w"
  shows "list_all2 (\<lambda>(t, dc) (t', dc'). t' = t \<and>
     ((\<forall>obj \<in> set (dc_parsedObjects dc). present objs (dc_client dc) w' obj) \<or>
      (\<forall>v. HasInstalled_of t K dc' v = Inr (v, dc', Inr True))))
     (ec_controllers ec) (ec_controllers ec')"
proof -
  have "list_all2 (\<lambda>(t, dc) (t', dc'). t' = t \<and>
     ((\<forall>obj \<in> set (dc_parsedObjects dc). present objs (dc_client dc) w' obj) \<or>
      (\<forall>v. HasInstalled_of t K dc' v = Inr (v, dc', Inr True)))) cs cs'"
    if "install_controllers K cs w = Inr (w', cs', None)" "undisturbed objs past w" for cs cs' w
    using that
  proof (induction cs arbitrary: w cs')
    case (Cons c cs)
    obtain t dc where c: "c = (t, dc)" by (cases c)
    with Cons.prems obtain w1 dc1 r1 where h: "Install_of t K dc w = Inr (w1, dc1, r1)"
      by (auto simp: bindC_Inr_iff)
    with Cons.prems c have "r1 = None" by (cases r1) auto
    with Cons.prems c h obtain cs2 where *: "install_controllers K cs w1 = Inr (w', cs2, None)"
      and cs': "cs' = (t, dc1) # cs2" by (auto simp: bindC_Inr_iff)
    from h \<open>r1 = None\<close> have "Install_of t K dc w = Inr (w1, dc1, None)" by simp
    from install_complete' [OF assms(1) this Cons.prems(2)] install_controllers_grows [OF assms(1) *]
      Cons.IH [OF * grows_undisturbed [OF Install_grows [OF assms(1) this] Cons.prems(2)]] cs' c
    show ?case by (auto intro: grows_present)
  qed simp
  with assms(2,3) show ?thesis by (auto simp: Extension_Install_def bindC_Inr_iff)
qed

definition sample_ec2 :: extension_controller where
  "sample_ec2 = \<lparr>ec_client = None, ec_settings = zero_settings,
     ec_controllers = [(KubeRouterController, sample_dc)]\<rparr>"

theorem extension_complete_witness:
  "\<exists>w' ec'. Extension_Install sim_kube sample_ec2 sim_world = Inr (w', ec', None) \<and>
     list_all2 (\<lambda>(t, dc) (t', dc'). t' = t \<and>
       ((\<forall>obj \<in> set (dc_parsedObjects dc). present sim_objs (dc_client dc) w' obj) \<or>
        (\<forall>v :: sim_world. HasInstalled_of t sim_kube dc' v = Inr (v, dc', Inr True))))
       (ec_controllers sample_ec2) (ec_controllers ec')"
proof -
  obtain w' where w': "Install_of KubeRouterController sim_kube sample_dc sim_world = Inr (w', sample_dc, None)"
    using sample_install by blast
  then have e: "Extension_Install sim_kube sample_ec2 sim_world = Inr (w', sample_ec2, None)"
    by (simp add: Extension_Install_def sample_ec2_def)
  from extension_complete [OF sim_kube_law e sim_undisturbed] e show ?thesis by blast
qed

end
