(* ===== verification/Monitors.thy ===== *)
theory Monitors
  imports Simulation
begin

text \<open>
  \<open>pkg/monitors\<close>: the three pollers that watch the components of a cluster.

  A monitor's goroutine is a sequence of \<open>monitor_tick\<close>s, one per round of its loop. Its cache is
  a pointer that is nil until a poll has stored a list: \<open>mo_cache\<close> is an option, and
  \<open>GetWatchPoints\<close> dereferences it. A panic inside a round is recovered by the goroutine, which
  then ends (\<open>mo_alive\<close>). \<open>now i\<close> is the reading of the clock for the \<open>i\<close>-th item of a round.
\<close>

section \<open>State\<close>

datatype monitor_type = SysMonitor | DeploymentMonitor | DaemonSetMonitor

record monitor =
  mo_type :: monitor_type
  mo_clusterId :: string
  mo_client :: "client_set option"
  mo_cache :: "watch_point list option"
  mo_stopChan :: bool
  mo_alive :: bool

definition Healthy :: string where "Healthy = ''healthy''"
definition Unhealthy :: string where "Unhealthy = ''unhealthy''"
definition Unknown :: string where "Unknown = ''unknown''"

lemmas health_defs = Healthy_def Unhealthy_def Unknown_def

definition NewMonitor :: "string \<Rightarrow> client_set option \<Rightarrow> string \<Rightarrow> monitor option" where
  "NewMonitor t c clusterId =
     (let make = (\<lambda>ty. \<lparr>mo_type = ty, mo_clusterId = clusterId, mo_client = c, mo_cache = None,
                        mo_stopChan = False, mo_alive = False\<rparr>) in
      if to_lower t = ''sys'' then Some (make SysMonitor)
      else if to_lower t = ''deployment'' then Some (make DeploymentMonitor)
      else if to_lower t = ''daemonset'' then Some (make DaemonSetMonitor)
      else None)"

definition GetWatchPoints :: "monitor \<Rightarrow> crash + watch_point list" where
  "GetWatchPoints m = (case mo_cache m of None \<Rightarrow> Inl NilDeref | Some wps \<Rightarrow> Inr wps)"

definition Monitor_Start :: "monitor \<Rightarrow> monitor \<times> error option" where
  "Monitor_Start m = (m\<lparr>mo_stopChan := True, mo_alive := True\<rparr>, None)"

definition Monitor_Dispose :: "monitor \<Rightarrow> monitor" where
  "Monitor_Dispose m = (if mo_stopChan m then m\<lparr>mo_stopChan := False\<rparr> else m)"

section \<open>Health\<close>

fun component_health :: "condition list \<Rightarrow> string" where
  "component_health [] = Unhealthy"
| "component_health (c # cc) =
     (if co_Type c = ''Healthy''
      then (if co_Status c = ''True'' then Healthy
            else if co_Status c = ''Unknown'' then Unknown
            else Unhealthy)
      else component_health cc)"

definition getHealthStatus :: "condition list \<Rightarrow> string" where
  "getHealthStatus cc = (if cc = [] then Unknown else component_health cc)"

fun deployment_health :: "condition list \<Rightarrow> string" where
  "deployment_health [] = Healthy"
| "deployment_health (c # cc) =
     (if co_Type c = ''Available''
      then (if co_Status c \<noteq> ''True'' then Unhealthy else deployment_health cc)
      else if co_Type c = ''Progressing''
      then (if co_Status c \<noteq> ''True'' then Unhealthy else deployment_health cc)
      else Unhealthy)"

definition getDeploymentHealthStatus :: "condition list \<Rightarrow> string" where
  "getDeploymentHealthStatus cc = (if cc = [] then Unknown else deployment_health cc)"

text \<open>The two counters are \<open>int32\<close>, and their sum wraps around.\<close>

definition getDaemonSetHealthStatus :: "listed_daemonset \<Rightarrow> string" where
  "getDaemonSetHealthStatus ds =
     (if sint (ld_NumberMisscheduled ds + ld_NumberUnavailable ds) > 0 then Unhealthy else Healthy)"

section \<open>Polling\<close>

text \<open>The loop that turns the listed items into watch points.\<close>

fun watch_points ::
  "bool \<Rightarrow> string \<Rightarrow> ('i \<Rightarrow> string) \<Rightarrow> ('i \<Rightarrow> string) \<Rightarrow> (nat \<Rightarrow> int) \<Rightarrow> nat \<Rightarrow> 'i list \<Rightarrow> watch_point list" where
  "watch_points sys ns name status now n [] = []"
| "watch_points sys ns name status now n (i # is) =
     \<lparr>wp_IsSystemComponent = sys, wp_Name = name i, wp_Namespace = ns, wp_Status = status i,
      wp_LastCheckTime = now n\<rparr> # watch_points sys ns name status now (Suc n) is"

text \<open>An error or an empty list leaves the system component monitor's old watch points in place.\<close>

definition sys_doMonitor :: "'w kube \<Rightarrow> (nat \<Rightarrow> int) \<Rightarrow> monitor \<Rightarrow> 'w \<Rightarrow> crash + 'w \<times> monitor" where
  "sys_doMonitor K now m w =
     (if mo_client m = None then Inr (w, m)
      else bindC (scope_client (mo_client m) ClusterWide) (\<lambda>c.
        let (w', r) = ka_ListComponentStatuses K w c in
        Inr (w', case r of
          Inl e \<Rightarrow> m
        | Inr is \<Rightarrow>
            if is = [] then m
            else m\<lparr>mo_cache := Some (watch_points True ''-'' lc_Name (\<lambda>i. getHealthStatus (lc_Conditions i)) now 0 is)\<rparr>)))"

definition getAppsV1DeploymentsStatus ::
  "'w kube \<Rightarrow> (nat \<Rightarrow> int) \<Rightarrow> monitor \<Rightarrow> string \<Rightarrow> 'w \<Rightarrow> crash + 'w \<times> watch_point list" where
  "getAppsV1DeploymentsStatus K now m ns w =
     bindC (scope_client (mo_client m) Namespaced) (\<lambda>c.
       let (w', r) = ka_ListDeployments K w c ns in
       Inr (w', case r of
          Inl e \<Rightarrow> []
        | Inr is \<Rightarrow>
            if is = [] then []
            else watch_points False ns lc_Name (\<lambda>i. getDeploymentHealthStatus (lc_Conditions i)) now 0 is))"

text \<open>These two store whatever the listing returned, the empty list on an error.\<close>

definition deployment_doMonitor :: "'w kube \<Rightarrow> (nat \<Rightarrow> int) \<Rightarrow> monitor \<Rightarrow> 'w \<Rightarrow> crash + 'w \<times> monitor" where
  "deployment_doMonitor K now m w =
     (if mo_client m = None then Inr (w, m)
      else bindC (getAppsV1DeploymentsStatus K now m ''kube-system'' w) (\<lambda>(w', wps).
        Inr (w', m\<lparr>mo_cache := Some wps\<rparr>)))"

definition getDaemonSetsStatus ::
  "'w kube \<Rightarrow> (nat \<Rightarrow> int) \<Rightarrow> monitor \<Rightarrow> string \<Rightarrow> 'w \<Rightarrow> crash + 'w \<times> watch_point list" where
  "getDaemonSetsStatus K now m ns w =
     bindC (scope_client (mo_client m) Namespaced) (\<lambda>c.
       let (w', r) = ka_ListDaemonSets K w c ns in
       Inr (w', case r of
          Inl e \<Rightarrow> []
        | Inr is \<Rightarrow>
            if is = [] then []
            else watch_points False ns ld_Name getDaemonSetHealthStatus now 0 is))"

definition daemonset_doMonitor :: "'w kube \<Rightarrow> (nat \<Rightarrow> int) \<Rightarrow> monitor \<Rightarrow> 'w \<Rightarrow> crash + 'w \<times> monitor" where
  "daemonset_doMonitor K now m w =
     (if mo_client m = None then Inr (w, m)
      else bindC (getDaemonSetsStatus K now m ''kube-system'' w) (\<lambda>(w', wps).
        Inr (w', m\<lparr>mo_cache := Some wps\<rparr>)))"

definition doMonitor :: "'w kube \<Rightarrow> (nat \<Rightarrow> int) \<Rightarrow> monitor \<Rightarrow> 'w \<Rightarrow> crash + 'w \<times> monitor" where
  "doMonitor K now m w =
     (case mo_type m of
        SysMonitor \<Rightarrow> sys_doMonitor K now m w
      | DeploymentMonitor \<Rightarrow> deployment_doMonitor K now m w
      | DaemonSetMonitor \<Rightarrow> daemonset_doMonitor K now m w)"

text \<open>One round of the goroutine that \<open>Start\<close> launches.\<close>

definition monitor_tick :: "'w kube \<Rightarrow> (nat \<Rightarrow> int) \<Rightarrow> monitor \<Rightarrow> 'w \<Rightarrow> 'w \<times> monitor" where
  "monitor_tick K now m w =
     (if \<not> mo_alive m then (w, m)
      else if \<not> mo_stopChan m then (w, m\<lparr>mo_alive := False\<rparr>)
      else case doMonitor K now m w of
             Inl c \<Rightarrow> (w, m\<lparr>mo_alive := False\<rparr>)
           | Inr (w', m') \<Rightarrow> (w', m'))"

section \<open>Lemmas\<close>

lemma watch_points_map:
  "map (\<lambda>p. (wp_Name p, wp_Status p)) (watch_points sys ns name status now n is) =
     map (\<lambda>i. (name i, status i)) is"
  by (induction "is" arbitrary: n) simp_all

lemma deployment_health_iff:
  "deployment_health cc = Healthy \<longleftrightarrow>
     (\<forall>c \<in> set cc. co_Type c \<in> {''Available'', ''Progressing''} \<and> co_Status c = ''True'')"
  by (induction cc) (auto simp: health_defs)

lemma deployment_health_cases: "deployment_health cc = Healthy \<or> deployment_health cc = Unhealthy"
  by (induction cc) auto

section \<open>Properties\<close>

text \<open>
  A deployment counts as healthy exactly if it reports conditions, all of them are of the
  kinds Available and Progressing, and all are true; without conditions it is unknown, and in
  every other case unhealthy.
\<close>

theorem deployment_health_correct:
  "getDeploymentHealthStatus cc =
     (if cc = [] then Unknown
      else if \<forall>c \<in> set cc. (co_Type c = ''Available'' \<or> co_Type c = ''Progressing'') \<and> co_Status c = ''True''
      then Healthy else Unhealthy)"
  using deployment_health_iff [of cc] deployment_health_cases [of cc]
  by (auto simp: getDeploymentHealthStatus_def)

theorem deployment_health_correct_witness:
  "getDeploymentHealthStatus [\<lparr>co_Type = ''Available'', co_Status = ''True''\<rparr>,
     \<lparr>co_Type = ''Progressing'', co_Status = ''False''\<rparr>] = Unhealthy"
  by (subst deployment_health_correct) simp

text \<open>
  C40: for counters that are not negative, a daemon set counts as healthy exactly if both are
  zero, or if their sum overflows the 32-bit counter.
\<close>

theorem daemonset_health_bounds:
  assumes "0 \<le> sint (ld_NumberMisscheduled ds)" and "0 \<le> sint (ld_NumberUnavailable ds)"
  shows "getDaemonSetHealthStatus ds = Healthy \<longleftrightarrow>
     (sint (ld_NumberMisscheduled ds) = 0 \<and> sint (ld_NumberUnavailable ds) = 0) \<or>
     2 ^ 31 \<le> sint (ld_NumberMisscheduled ds) + sint (ld_NumberUnavailable ds)"
proof -
  let ?a = "sint (ld_NumberMisscheduled ds)" and ?b = "sint (ld_NumberUnavailable ds)"
  have lt: "?a < 2 ^ 31" "?b < 2 ^ 31"
    using sint_lt [of "ld_NumberMisscheduled ds"] sint_lt [of "ld_NumberUnavailable ds"] by simp_all
  have s: "sint (ld_NumberMisscheduled ds + ld_NumberUnavailable ds) =
      (if ?a + ?b < 2 ^ 31 then ?a + ?b else ?a + ?b - 2 ^ 32)"
  proof -
    have "sint (ld_NumberMisscheduled ds + ld_NumberUnavailable ds) = (?a + ?b + 2 ^ 31) mod 2 ^ 32 - 2 ^ 31"
      using sint_word_ariths(1) [of "ld_NumberMisscheduled ds" "ld_NumberUnavailable ds"]
      by (simp add: signed_take_bit_eq_take_bit_shift take_bit_eq_mod)
    moreover have "(?a + ?b + 2 ^ 31) mod 2 ^ 32 = ?a + ?b + 2 ^ 31" if "?a + ?b < 2 ^ 31"
      using that assms by (intro mod_pos_pos_trivial) simp_all
    moreover have "(?a + ?b + 2 ^ 31) mod 2 ^ 32 = ?a + ?b - 2 ^ 31" if "2 ^ 31 \<le> ?a + ?b"
      using that lt mod_add_self2 [of "?a + ?b - 2 ^ 31" "2 ^ 32"]
        mod_pos_pos_trivial [of "?a + ?b - 2 ^ 31" "2 ^ 32"]
      by (simp add: ac_simps)
    ultimately show ?thesis by auto
  qed
  show ?thesis using assms lt by (auto simp: getDaemonSetHealthStatus_def s health_defs)
qed

theorem daemonset_health_bounds_witness:
  "getDaemonSetHealthStatus
     \<lparr>ld_Name = ''x'', ld_NumberMisscheduled = 2147483647, ld_NumberUnavailable = 1\<rparr> = Healthy"
  by (subst daemonset_health_bounds) simp_all

text \<open>
  Reading the watch points of a monitor that has been started but whose first round has not
  stored a list yet dereferences nil; and a round whose listing fails does not help the system
  component monitor, whose cache stays nil.
\<close>

theorem watch_points_before_first_poll:
  assumes "NewMonitor t cs cid = Some m"
  shows "GetWatchPoints (fst (Monitor_Start m)) = Inl NilDeref \<and>
     (mo_type m = SysMonitor \<longrightarrow> (\<forall>c. ka_ListComponentStatuses K w c = (w, Inl e)) \<longrightarrow>
        GetWatchPoints (snd (monitor_tick K now (fst (Monitor_Start m)) w)) = Inl NilDeref)"
  using assms
  by (auto simp: NewMonitor_def GetWatchPoints_def Monitor_Start_def monitor_tick_def doMonitor_def
      sys_doMonitor_def Let_def scope_client_def split: if_splits option.splits)

theorem watch_points_before_first_poll_witness:
  "\<exists>m. NewMonitor ''SYS'' None ''c1'' = Some m \<and> GetWatchPoints (fst (Monitor_Start m)) = Inl NilDeref"
proof -
  obtain m where m: "NewMonitor ''SYS'' None ''c1'' = Some m"
  proof -
    have "to_lower ''SYS'' = ''sys''" by code_simp
    with that show thesis by (simp add: NewMonitor_def Let_def)
  qed
  from watch_points_before_first_poll [OF m, of sim_kube sim_world] m show ?thesis by blast
qed

text \<open>
  After a round of a running deployment monitor whose listing succeeded, the watch points
  can be read, and they name the listed deployments in order, each with its health.
\<close>

theorem deployment_poll:
  assumes "mo_type m = DeploymentMonitor" and "mo_alive m" and "mo_stopChan m"
    and "mo_client m = Some cs" and "kc_CoreClient cs = Some c"
    and "ka_ListDeployments K w c ''kube-system'' = (w', Inr is)"
  shows "\<exists>wps. GetWatchPoints (snd (monitor_tick K now m w)) = Inr wps \<and>
     map (\<lambda>p. (wp_Name p, wp_Status p)) wps =
       map (\<lambda>i. (lc_Name i, getDeploymentHealthStatus (lc_Conditions i))) is"
  using assms
  by (simp add: monitor_tick_def doMonitor_def deployment_doMonitor_def getAppsV1DeploymentsStatus_def
      scope_client_def GetWatchPoints_def watch_points_map)

definition sample_monitor :: monitor where
  "sample_monitor = \<lparr>mo_type = DeploymentMonitor, mo_clusterId = ''c1'',
     mo_client = Some \<lparr>kc_CoreClient = Some 0, kc_APIRegClientV1beta1 = None\<rparr>,
     mo_cache = None, mo_stopChan = True, mo_alive = True\<rparr>"

theorem deployment_poll_witness:
  "GetWatchPoints (snd (monitor_tick sim_kube (\<lambda>i. 0) sample_monitor sim_world)) = Inr []"
  using deployment_poll [of sample_monitor _ 0 sim_kube sim_world sim_world "[]" "\<lambda>i. 0"]
  by (simp add: sim_kube_def sample_monitor_def)

end
