(* ===== verification/Keys.thy ===== *)
theory Keys
  imports Storage
begin

text \<open>
  The key classifiers at the end of \<open>pkg/cache/cluster_manager.go\<close>: they decide from the segments
  of an etcd key whether it is an agent's, a cluster's or a certificate's. A Go result
  \<open>(string, bool)\<close> is an option, and an index out of range is a crash.
\<close>

definition idx :: "'a list \<Rightarrow> int \<Rightarrow> crash + 'a" where
  "idx xs i = (if 0 \<le> i \<and> i < int (length xs) then Inr (xs ! nat i) else Inl IndexOutOfRange)"

definition key_at :: "string list \<Rightarrow> int \<Rightarrow> string \<Rightarrow> crash + bool" where
  "key_at ks i s = bindC (idx ks i) (\<lambda>x. Inr (x = s))"

text \<open>The short-circuit conjunction.\<close>

definition andC :: "crash + bool \<Rightarrow> crash + bool \<Rightarrow> crash + bool" where
  "andC a b = bindC a (\<lambda>x. if x then b else Inr False)"

text \<open>\<open>subKeys[len(subKeys) - n]\<close>.\<close>

definition from_end :: "string list \<Rightarrow> int \<Rightarrow> int" where
  "from_end ks n = int (length ks) - n"

definition isAgentChanged :: "string list \<Rightarrow> crash + string option" where
  "isAgentChanged ks =
     bindC (andC (key_at ks 0 ''lightning-monkey'')
             (andC (key_at ks 1 ''clusters'') (key_at ks 3 ''agents''))) (\<lambda>b.
       if \<not> b then Inr None
       else bindC (idx ks (from_end ks 1)) (\<lambda>leaf.
         if leaf = ''settings'' \<or> leaf = ''state''
         then bindC (idx ks (from_end ks 2)) (\<lambda>a. Inr (Some a))
         else Inr None))"

definition isAgentSettingsChanged :: "string list \<Rightarrow> crash + string option" where
  "isAgentSettingsChanged ks =
     bindC (andC (key_at ks 0 ''lightning-monkey'')
             (andC (key_at ks 1 ''clusters'') (key_at ks 3 ''agents''))) (\<lambda>b.
       if \<not> b then Inr None
       else bindC (idx ks (from_end ks 1)) (\<lambda>leaf.
         if leaf = ''settings'' then bindC (idx ks (from_end ks 2)) (\<lambda>a. Inr (Some a))
         else Inr None))"

definition isClusterChanged :: "string list \<Rightarrow> crash + string option" where
  "isClusterChanged ks =
     bindC (andC (key_at ks 0 ''lightning-monkey'')
             (andC (key_at ks 1 ''clusters'') (key_at ks (from_end ks 1) ''metadata''))) (\<lambda>b.
       if b then bindC (idx ks (from_end ks 2)) (\<lambda>c. Inr (Some c)) else Inr None)"

definition isCertificatesChanged :: "string list \<Rightarrow> crash + string option" where
  "isCertificatesChanged ks =
     bindC (andC (key_at ks 0 ''lightning-monkey'')
             (andC (key_at ks 1 ''clusters'') (key_at ks (from_end ks 2) ''certificates''))) (\<lambda>b.
       if b then bindC (idx ks (from_end ks 1)) (\<lambda>c. Inr (Some c)) else Inr None)"

lemmas classify_defs = isAgentChanged_def isAgentSettingsChanged_def isClusterChanged_def
  isCertificatesChanged_def key_at_def andC_def from_end_def idx_def

text \<open>An identifier that a path can carry.\<close>

definition seg :: "string \<Rightarrow> bool" where
  "seg s \<longleftrightarrow> s \<noteq> [] \<and> CHR ''/'' \<notin> set s"

lemma seg_simps [simp]: "seg s \<Longrightarrow> slash_fields (s @ CHR ''/'' # t) = s # slash_fields t"
    "seg s \<Longrightarrow> slash_fields s = [s]"
  by (simp_all add: seg_def)

lemma slash_fields_cluster:
  "slash_fields (clusters_prefix @ s) = ''lightning-monkey'' # ''clusters'' # slash_fields s"
proof -
  have "slash_fields (''lightning-monkey'' @ CHR ''/'' # ''clusters'' @ CHR ''/'' # s) =
      ''lightning-monkey'' # ''clusters'' # slash_fields s"
    by (simp del: append.simps)
  then show ?thesis by (simp add: clusters_prefix_def)
qed

lemma slash_fields_settings: "seg cid \<Longrightarrow> seg aid \<Longrightarrow>
    slash_fields (agent_settings_path cid aid) =
      [''lightning-monkey'', ''clusters'', cid, ''agents'', aid, ''settings'']"
  using slash_fields_agent_path [of cid aid "''settings''"]
  by (simp add: agent_settings_path_def seg_def)

lemma slash_fields_state: "seg cid \<Longrightarrow> seg aid \<Longrightarrow>
    slash_fields (agent_state_path cid aid) =
      [''lightning-monkey'', ''clusters'', cid, ''agents'', aid, ''state'']"
  using slash_fields_agent_path [of cid aid "''state''"]
  by (simp add: agent_state_path_def seg_def)

lemma slash_fields_metadata: "seg cid \<Longrightarrow>
    slash_fields (metadata_path cid) = [''lightning-monkey'', ''clusters'', cid, ''metadata'']"
proof -
  assume c: "seg cid"
  have "metadata_path cid = clusters_prefix @ cid @ CHR ''/'' # ''metadata''"
    by (simp add: metadata_path_def cluster_path_def)
  with c show ?thesis by (simp only: slash_fields_cluster seg_simps) simp
qed

lemma seg_replace: "n \<noteq> [] \<Longrightarrow> seg (replace_char CHR ''/'' CHR ''_'' n)"
  by (auto simp: seg_def replace_char_def)

lemma slash_fields_certificate: "seg cid \<Longrightarrow> n \<noteq> [] \<Longrightarrow>
    slash_fields (certificate_path cid n) =
      [''lightning-monkey'', ''clusters'', cid, ''certificates'', replace_char CHR ''/'' CHR ''_'' n]"
proof -
  assume c: "seg cid" "n \<noteq> []"
  have "certificate_path cid n = clusters_prefix @ cid @ CHR ''/'' # ''certificates'' @ CHR ''/'' #
      replace_char CHR ''/'' CHR ''_'' n"
    by (simp add: certificate_path_def cluster_path_def)
  moreover have "seg ''certificates''" by (simp add: seg_def)
  ultimately show ?thesis
    using c(1) seg_replace [OF c(2)] by (simp only: slash_fields_cluster seg_simps)
qed

section \<open>Properties\<close>

text \<open>
  C35: the watchers read back what the writers wrote: a settings or state key of an agent is
  recognised as a change of that agent, a metadata key as a change of that cluster, and a
  certificate key as a change of that certificate, under the name with slashes turned into
  underscores; and no classifier crashes on them or mistakes an agent's key for a cluster's.
\<close>

theorem keys_roundtrip:
  assumes "seg cid" and "seg aid" and "name \<noteq> []"
  shows "isAgentChanged (slash_fields (agent_settings_path cid aid)) = Inr (Some aid) \<and>
     isAgentChanged (slash_fields (agent_state_path cid aid)) = Inr (Some aid) \<and>
     isAgentSettingsChanged (slash_fields (agent_settings_path cid aid)) = Inr (Some aid) \<and>
     isAgentSettingsChanged (slash_fields (agent_state_path cid aid)) = Inr None \<and>
     isClusterChanged (slash_fields (agent_settings_path cid aid)) = Inr None \<and>
     isClusterChanged (slash_fields (metadata_path cid)) = Inr (Some cid) \<and>
     isAgentChanged (slash_fields (metadata_path cid)) = Inr None \<and>
     isAgentChanged (slash_fields (certificate_path cid name)) = Inr None \<and>
     isCertificatesChanged (slash_fields (certificate_path cid name)) =
       Inr (Some (replace_char CHR ''/'' CHR ''_'' name))"
  using assms
  by (simp add: slash_fields_settings slash_fields_state slash_fields_metadata slash_fields_certificate
      classify_defs)

theorem keys_roundtrip_witness:
  "isAgentChanged (slash_fields (agent_settings_path ''c1'' ''a1'')) = Inr (Some ''a1'') \<and>
   isCertificatesChanged (slash_fields (certificate_path ''c1'' ''etcd/ca.crt'')) = Inr (Some ''etcd_ca.crt'')"
  using keys_roundtrip [of "''c1''" "''a1''" "''etcd/ca.crt''"]
  by (simp add: seg_def replace_char_def)

text \<open>
  On a key under the prefix of a cluster, the classifiers that a watcher runs crash exactly if
  the key has no segment behind the cluster identifier; and a key is taken for a certificate as
  well as for an agent only if the agent is called "certificates".
\<close>

theorem watched_keys_safe:
  assumes "seg cid"
    and "ks = slash_fields (cluster_path cid @ CHR ''/'' # rest)"
  shows "(isAgentChanged ks = Inl IndexOutOfRange \<longleftrightarrow> slash_fields rest = []) \<and>
     isCertificatesChanged ks \<noteq> Inl c \<and>
     (isAgentChanged ks = Inr (Some a) \<and> isCertificatesChanged ks = Inr (Some b) \<longrightarrow> a = ''certificates'')"
proof -
  have s: "ks = ''lightning-monkey'' # ''clusters'' # cid # slash_fields rest"
    using assms by (simp add: cluster_path_def slash_fields_cluster)
  have "isAgentChanged ks = Inl IndexOutOfRange \<longleftrightarrow> slash_fields rest = []"
    unfolding s by (cases "slash_fields rest") (auto simp: classify_defs nth_Cons')
  moreover have "isCertificatesChanged ks \<noteq> Inl c"
    unfolding s by (auto simp: classify_defs)
  moreover have "isAgentChanged ks = Inr (Some a) \<Longrightarrow> isCertificatesChanged ks = Inr (Some b) \<Longrightarrow>
       a = ''certificates''"
    unfolding s by (auto simp: classify_defs split: if_splits)
  ultimately show ?thesis by blast
qed

theorem watched_keys_safe_witness:
  "isAgentChanged (slash_fields (cluster_path ''c1'' @ ''/'')) = Inl IndexOutOfRange"
  using watched_keys_safe [of "''c1''" _ "[]", OF _ refl] by (simp add: seg_def)

end
