(* ===== verification/ClusterController.thy ===== *)
theory ClusterController
  imports AgentCache Deployments Monitors Keys
begin

text \<open>
  \<open>pkg/cache/cluster_controller.go\<close>: the state that the API server keeps for one cluster, and its
  operations.

  What lies outside the process is the record \<open>'w env\<close>: the etcd driver and the JSON codec of
  \<open>Storage\<close>, the Kubernetes API of \<open>Kubernetes\<close>, the file system calls, the constructors of the
  Kubernetes clients, the HTTP client, the clock, and \<open>en_visit\<close>, the order in which Go happens to
  range over a map of agents. The mutexes are left out: an operation is one
  step, which is how the callers that lock use it. A nil pointer or interface is \<open>None\<close>; the
  fields \<open>nsc\<close> and \<open>ddc\<close> are interfaces that may hold a nil pointer of a concrete type, hence the
  double option (\<open>Some None\<close> is not equal to nil).
\<close>

section \<open>State\<close>

record http_response =
  hr_StatusCode :: int
  hr_Body :: "error + string"

record 'w env =
  en_driver :: "'w driver"
  en_codec :: codec
  en_kube :: "'w kube"
  en_MkdirAll :: "'w \<Rightarrow> string \<Rightarrow> 'w"
  en_RemoveAll :: "'w \<Rightarrow> string \<Rightarrow> 'w"
  en_WriteFile :: "'w \<Rightarrow> string \<Rightarrow> string \<Rightarrow> 'w \<times> error option"
  en_BuildConfig :: "'w \<Rightarrow> string \<Rightarrow> error + string"
  en_NewCoreClient :: "string \<Rightarrow> error + nat"
  en_NewAPIRegClient :: "string \<Rightarrow> error + nat"
  en_PostJson :: "'w \<Rightarrow> string \<Rightarrow> string \<Rightarrow> 'w \<times> (error + http_response)"
  en_UnmarshalResponse :: "string \<Rightarrow> error + int \<times> string"
  en_now :: "'w \<Rightarrow> int"
  en_visit :: "(string, agent) gomap \<Rightarrow> (string, agent) gomap"

datatype strategy =
    ClusterETCDJobStrategy | ClusterKubernetesMasterJobStrategy | HAJobStrategy
  | ClusterKubernetesMinionJobStrategy | ClusterKubernetesNetworkStackJobStrategy
  | ClusterKubernetesDNSJobStrategy | EnableMonitorsJobStrategy
  | ExtensibilityDeploymentJobStrategy | MetricsServerAddStaticRouteStrategy

text \<open>The goroutine that watches the cluster: not started, running, or told to stop.\<close>

datatype watch_state = NoWatch | Watching | WatchCancelled

record cluster_controller =
  cc_cs :: "client_set option"
  cc_k8sClientIP :: string
  cc_cache :: "agent_cache option"
  cc_certs :: "(string, string) gomap"
  cc_watch :: watch_state
  cc_monitors :: "monitor list"
  cc_strategies :: "strategy list"
  cc_isDisposed :: bool
  cc_nsc :: "deployment_controller option option"
  cc_ddc :: "deployment_controller option option"
  cc_edc :: "extension_controller option"
  cc_settings :: cluster_settings
  cc_synchronizedRevision :: int

definition new_controller :: cluster_controller where
  "new_controller = \<lparr>cc_cs = None, cc_k8sClientIP = [], cc_cache = None, cc_certs = [],
     cc_watch = NoWatch, cc_monitors = [], cc_strategies = [], cc_isDisposed = False,
     cc_nsc = None, cc_ddc = None, cc_edc = None, cc_settings = zero_settings,
     cc_synchronizedRevision = 0\<rparr>"

section \<open>Simple methods\<close>

definition GetSettings :: "cluster_controller \<Rightarrow> cluster_settings" where
  "GetSettings cc = cc_settings cc"

definition CC_GetTotalCountByRole :: "string \<Rightarrow> cluster_controller \<Rightarrow> crash + int" where
  "CC_GetTotalCountByRole role cc =
     (case cc_cache cc of None \<Rightarrow> Inl NilDeref | Some ac \<Rightarrow> Inr (GetTotalCountByRole role ac))"

definition CC_GetTotalProvisionedCountByRole :: "string \<Rightarrow> cluster_controller \<Rightarrow> crash + int" where
  "CC_GetTotalProvisionedCountByRole role cc =
     (case cc_cache cc of None \<Rightarrow> Inl NilDeref | Some ac \<Rightarrow> Inr (GetTotalProvisionedCountByRole role ac))"

definition Dispose :: "cluster_controller \<Rightarrow> cluster_controller" where
  "Dispose cc = cc\<lparr>cc_isDisposed := True,
     cc_watch := (if cc_watch cc = NoWatch then NoWatch else WatchCancelled), cc_cache := None\<rparr>"

definition GetSynchronizedRevision :: "cluster_controller \<Rightarrow> int" where
  "GetSynchronizedRevision cc = cc_synchronizedRevision cc"

definition GetStatus :: "cluster_controller \<Rightarrow> string" where
  "GetStatus cc = ClusterReady"

definition GetClusterId :: "cluster_controller \<Rightarrow> string" where
  "GetClusterId cc = cs_Id (cc_settings cc)"

definition GetCertificates :: "cluster_controller \<Rightarrow> cert_pair list" where
  "GetCertificates cc =
     map (\<lambda>(k, v). \<lparr>ck_Name = replace_char CHR ''_'' CHR ''/'' k, ck_Value = v\<rparr>) (cc_certs cc)"

definition SetSynchronizedRevision :: "int \<Rightarrow> cluster_controller \<Rightarrow> cluster_controller" where
  "SetSynchronizedRevision i cc = cc\<lparr>cc_synchronizedRevision := i\<rparr>"

definition SetCancellationFunc :: "cluster_controller \<Rightarrow> cluster_controller" where
  "SetCancellationFunc cc = cc\<lparr>cc_watch := Watching\<rparr>"

definition UpdateClusterSettings :: "cluster_settings \<Rightarrow> cluster_controller \<Rightarrow> cluster_controller" where
  "UpdateClusterSettings settings cc = cc\<lparr>cc_settings := settings\<rparr>"

text \<open>Methods that may fail with an error return the new state and the error.\<close>

definition OnAgentChanged ::
  "agent \<Rightarrow> bool \<Rightarrow> cluster_controller \<Rightarrow> crash + cluster_controller \<times> error option" where
  "OnAgentChanged agent isDeleted cc =
     (if cc_isDisposed cc then Inr (cc, Some (EDisposed (cs_Id (cc_settings cc))))
      else case cc_cache cc of
             None \<Rightarrow> Inl NilDeref
           | Some ac \<Rightarrow>
             Inr (cc\<lparr>cc_cache := Some (if isDeleted \<or> ag_State agent = None then Offline agent ac
                                       else Online agent ac)\<rparr>, None))"

definition OnCertificateChanged ::
  "string \<Rightarrow> string \<Rightarrow> bool \<Rightarrow> cluster_controller \<Rightarrow> cluster_controller \<times> error option" where
  "OnCertificateChanged name cert isDeleted cc =
     (if cc_isDisposed cc then (cc, Some (EDisposed (cs_Id (cc_settings cc))))
      else if isDeleted then (cc\<lparr>cc_certs := gm_del name (cc_certs cc)\<rparr>, None)
      else (cc\<lparr>cc_certs := gm_put name cert (cc_certs cc)\<rparr>, None))"

text \<open>The agent is returned as a reference into the cache.\<close>

definition GetCachedAgent :: "string \<Rightarrow> cluster_controller \<Rightarrow> crash + (error + nat option)" where
  "GetCachedAgent agentId cc =
     (if cc_isDisposed cc then Inr (Inl (EDisposed (cs_Id (cc_settings cc))))
      else case cc_cache cc of
             None \<Rightarrow> Inl NilDeref
           | Some ac \<Rightarrow> Inr (Inr (find_cached agentId ac)))"

definition GetRandomAdminConfFromMasterAgents :: "cluster_controller \<Rightarrow> crash + string" where
  "GetRandomAdminConfFromMasterAgents cc =
     (case cc_cache cc of None \<Rightarrow> Inl NilDeref | Some ac \<Rightarrow> Inr (GetAdminConfFromMasterAgents ac))"

section \<open>Initialisation and full synchronisation\<close>

definition InitializeStrategies :: "strategy list" where
  "InitializeStrategies = [ClusterETCDJobStrategy, ClusterKubernetesMasterJobStrategy, HAJobStrategy,
     ClusterKubernetesMinionJobStrategy, ClusterKubernetesNetworkStackJobStrategy,
     ClusterKubernetesDNSJobStrategy, EnableMonitorsJobStrategy, ExtensibilityDeploymentJobStrategy,
     MetricsServerAddStaticRouteStrategy]"

text \<open>The loop over the keys of the cluster: only certificates are taken.\<close>

fun sync_certificates ::
  "(string \<times> string) list \<Rightarrow> cluster_controller \<Rightarrow> crash + cluster_controller" where
  "sync_certificates [] cc = Inr cc"
| "sync_certificates ((key, value) # kvs) cc =
     bindC (isCertificatesChanged (slash_fields key)) (\<lambda>r.
       case r of
         None \<Rightarrow> sync_certificates kvs cc
       | Some certKey \<Rightarrow>
         (if value = [] then sync_certificates kvs cc
          else sync_certificates kvs (fst (OnCertificateChanged certKey value False cc))))"

definition CC_fullSync ::
  "'w env \<Rightarrow> cluster_controller \<Rightarrow> 'w \<Rightarrow> crash + 'w \<times> cluster_controller \<times> error option" where
  "CC_fullSync E cc w =
     (case sd_Get (en_driver E) w (cluster_path (GetClusterId cc) @ ''/'') True of
        (w', Inl e) \<Rightarrow> Inr (w', cc, Some e)
      | (w', Inr rsp) \<Rightarrow>
        (if gr_Count rsp = 0 then Inr (w', cc, None)
         else bindC (sync_certificates (gr_Kvs rsp) cc) (\<lambda>cc'. Inr (w', cc', None))))"

definition CC_Initialize :: "'w env \<Rightarrow> cluster_controller \<Rightarrow> 'w \<Rightarrow> crash + 'w \<times> cluster_controller" where
  "CC_Initialize E cc w =
     bindC (CC_fullSync E (cc\<lparr>cc_certs := [], cc_cache := Some Initialize,
              cc_strategies := InitializeStrategies\<rparr>) w) (\<lambda>(w', cc', r).
       case r of Some e \<Rightarrow> Inl FatalExit | None \<Rightarrow> Inr (w', cc'))"

section \<open>The Kubernetes client and the controllers, initialised on first use\<close>

definition admin_conf_path :: "cluster_controller \<Rightarrow> string" where
  "admin_conf_path cc = ''/etc/kubernetes/admin/'' @ GetClusterId cc @ ''.yml''"

text \<open>The two clients are assigned one after the other, an error of the second leaves the first.\<close>

definition new_clients ::
  "'w env \<Rightarrow> string \<Rightarrow> agent \<Rightarrow> cluster_controller \<Rightarrow> crash + cluster_controller \<times> error option" where
  "new_clients E config agent cc =
     (case en_NewCoreClient E config of
        Inl e \<Rightarrow> Inr (cc, Some (EWrap ''core client'' e))
      | Inr core \<Rightarrow>
        (case en_NewAPIRegClient E config of
           Inl e \<Rightarrow>
             Inr (cc\<lparr>cc_cs := Some \<lparr>kc_CoreClient = Some core, kc_APIRegClientV1beta1 = None\<rparr>\<rparr>,
                  Some (EWrap ''API reg client'' e))
         | Inr reg \<Rightarrow>
           (case ag_State agent of
              None \<Rightarrow> Inl NilDeref
            | Some st \<Rightarrow>
              Inr (cc\<lparr>cc_cs := Some \<lparr>kc_CoreClient = Some core, kc_APIRegClientV1beta1 = Some reg\<rparr>,
                      cc_k8sClientIP := as_LastReportIP st\<rparr>, None))))"

text \<open>From writing the certificate to the clients.\<close>

definition connect_client ::
  "'w env \<Rightarrow> agent \<Rightarrow> cluster_controller \<Rightarrow> 'w \<Rightarrow> crash + 'w \<times> cluster_controller \<times> error option" where
  "connect_client E agent cc w =
     (let w1 = en_RemoveAll E (en_MkdirAll E w ''/etc/kubernetes/admin'') (admin_conf_path cc);
          (w2, written) = en_WriteFile E w1 (admin_conf_path cc) (ag_AdminCertificate agent) in
      case written of
        Some e \<Rightarrow> Inr (w2, cc, Some (EWrap ''write client configuration'' e))
      | None \<Rightarrow>
        (case en_BuildConfig E w2 (admin_conf_path cc) of
           Inl e \<Rightarrow> Inr (w2, cc, Some (EWrap ''build client configuration'' e))
         | Inr config \<Rightarrow> bindC (new_clients E config agent cc) (\<lambda>(cc', r). Inr (w2, cc', r))))"

text \<open>\<open>if cc.cs == nil { cc.cs = &k8s.KubernetesClientSet{} }\<close>, and \<open>cc.cs.CoreClient\<close>.\<close>

definition with_client_set :: "cluster_controller \<Rightarrow> cluster_controller" where
  "with_client_set cc =
     (if cc_cs cc = None
      then cc\<lparr>cc_cs := Some \<lparr>kc_CoreClient = None, kc_APIRegClientV1beta1 = None\<rparr>\<rparr> else cc)"

definition core_client :: "cluster_controller \<Rightarrow> nat option" where
  "core_client cc = Option.bind (cc_cs cc) kc_CoreClient"

definition InitializeKubernetesClient ::
  "'w env \<Rightarrow> cluster_controller \<Rightarrow> 'w \<Rightarrow> crash + 'w \<times> cluster_controller \<times> error option" where
  "InitializeKubernetesClient E cc0 w =
     (let cc = with_client_set cc0 in
      if core_client cc \<noteq> None then Inr (w, cc, None)
      else case cc_cache cc of
             None \<Rightarrow> Inl NilDeref
           | Some ac \<Rightarrow>
             (case GetFirstProvisionedKubernetesMasterAgent ac of
                None \<Rightarrow> Inr (w, cc, Some (ENoProvisionedMaster (GetClusterId cc)))
              | Some agent \<Rightarrow>
                (if ag_AdminCertificate agent = []
                 then Inr (w, cc, Some (EEmptyAdminCertificate (ag_Id agent)))
                 else connect_client E agent cc w)))"

definition InitializeNetworkController ::
  "'w env \<Rightarrow> cluster_controller \<Rightarrow> crash + cluster_controller \<times> error option" where
  "InitializeNetworkController E cc =
     (if cc_nsc cc \<noteq> None then Inr (cc, None)
      else case CreateNetworkStackController (en_kube E) (cc_cs cc) (cc_k8sClientIP cc) (GetSettings cc) of
             (c, err) \<Rightarrow>
               Inr (cc\<lparr>cc_nsc := Some c\<rparr>, map_option (EWrap ''network stack controller'') err))"

definition GetNetworkController :: "cluster_controller \<Rightarrow> deployment_controller option option" where
  "GetNetworkController cc = cc_nsc cc"

definition InitializeDNSController ::
  "'w env \<Rightarrow> cluster_controller \<Rightarrow> crash + cluster_controller \<times> error option" where
  "InitializeDNSController E cc =
     (if cc_ddc cc \<noteq> None then Inr (cc, None)
      else bindC (CreateDNSDeploymentController (en_kube E) (cc_cs cc) (cc_k8sClientIP cc) (GetSettings cc))
             (\<lambda>(c, err). Inr (cc\<lparr>cc_ddc := Some c\<rparr>, map_option (EWrap ''DNS deployment controller'') err)))"

definition GetDNSController :: "cluster_controller \<Rightarrow> deployment_controller option option" where
  "GetDNSController cc = cc_ddc cc"

definition InitializeExtensionDeploymentController ::
  "'w env \<Rightarrow> cluster_controller \<Rightarrow> crash + cluster_controller \<times> error option" where
  "InitializeExtensionDeploymentController E cc =
     (if cc_edc cc \<noteq> None then Inr (cc, None)
      else case CreateExtensionDeploymentController (en_kube E) (cc_cs cc) (cc_k8sClientIP cc) (GetSettings cc) of
             (c, err) \<Rightarrow>
               Inr (cc\<lparr>cc_edc := c\<rparr>, map_option (EWrap ''extension deployment controller'') err))"

definition GetExtensionDeploymentController :: "cluster_controller \<Rightarrow> extension_controller option" where
  "GetExtensionDeploymentController cc = cc_edc cc"

section \<open>Monitors\<close>

fun collect_watch_points :: "monitor list \<Rightarrow> crash + watch_point list" where
  "collect_watch_points [] = Inr []"
| "collect_watch_points (m # ms) =
     bindC (GetWatchPoints m) (\<lambda>wpl. bindC (collect_watch_points ms) (\<lambda>wps. Inr (wpl @ wps)))"

definition GetWachPoints :: "cluster_controller \<Rightarrow> crash + watch_point list" where
  "GetWachPoints cc = collect_watch_points (cc_monitors cc)"

text \<open>Make, start and append one monitor after the other; an error of \<open>Start\<close> ends the method.\<close>

fun start_monitors :: "string list \<Rightarrow> cluster_controller \<Rightarrow> crash + cluster_controller" where
  "start_monitors [] cc = Inr cc"
| "start_monitors (t # ts) cc =
     (case NewMonitor t (cc_cs cc) (GetClusterId cc) of
        None \<Rightarrow> Inl NilDeref
      | Some m \<Rightarrow>
        (case Monitor_Start m of
           (m', Some e) \<Rightarrow> Inr cc
         | (m', None) \<Rightarrow> start_monitors ts (cc\<lparr>cc_monitors := cc_monitors cc @ [m']\<rparr>)))"

definition EnableMonitors :: "cluster_controller \<Rightarrow> crash + cluster_controller" where
  "EnableMonitors cc =
     (if cc_monitors cc \<noteq> [] then Inr cc
      else start_monitors [''sys'', ''deployment'', ''daemonset''] cc)"

section \<open>Listings\<close>

fun internal_ip :: "(string \<times> string) list \<Rightarrow> string" where
  "internal_ip [] = []"
| "internal_ip ((ty, addr) # rest) = (if ty = ''InternalIP'' then addr else internal_ip rest)"

fun node_infos :: "listed_node list \<Rightarrow> node_info list" where
  "node_infos [] = []"
| "node_infos (n # ns) =
     (if ln_Addresses n = [] then node_infos ns
      else if internal_ip (ln_Addresses n) = [] then node_infos ns
      else \<lparr>ni_NodeIP = internal_ip (ln_Addresses n), ni_PodCIDR = ln_PodCIDR n\<rparr> # node_infos ns)"

definition GetNodesInformation ::
  "'w env \<Rightarrow> cluster_controller \<Rightarrow> 'w \<Rightarrow> 'w \<times> (error + node_info list)" where
  "GetNodesInformation E cc w =
     (case cc_cs cc of
        None \<Rightarrow> (w, Inl (EClientNotInitialized (cs_Id (GetSettings cc))))
      | Some cs \<Rightarrow>
        (case kc_CoreClient cs of
           None \<Rightarrow> (w, Inl (EClientNotInitialized (cs_Id (GetSettings cc))))
         | Some c \<Rightarrow>
           (case ka_ListNodes (en_kube E) w c of
              (w', Inl e) \<Rightarrow> (w', Inl (EWrap ''list nodes'' e))
            | (w', Inr ns) \<Rightarrow> (w', Inr (node_infos ns)))))"

text \<open>\<open>rsp.Kvs[0].Value\<close>.\<close>

definition first_value :: "get_response \<Rightarrow> crash + string" where
  "first_value rsp = (case gr_Kvs rsp of [] \<Rightarrow> Inl IndexOutOfRange | (k, v) # kvs \<Rightarrow> Inr v)"

definition CC_GetAgentFromETCD ::
  "'w env \<Rightarrow> string \<Rightarrow> string \<Rightarrow> 'w \<Rightarrow> crash + 'w \<times> (error + agent option)" where
  "CC_GetAgentFromETCD E clusterId agentId w =
     (if agentId = [] then Inr (w, Inr None)
      else case sd_Get (en_driver E) w (agent_settings_path clusterId agentId) False of
        (w1, Inl e) \<Rightarrow> Inr (w1, Inl e)
      | (w1, Inr rsp) \<Rightarrow>
        (if gr_Count rsp = 0 then Inr (w1, Inr None)
         else bindC (first_value rsp) (\<lambda>v.
           case unm_agent (en_codec E) v of
             Inl e \<Rightarrow> Inr (w1, Inl e)
           | Inr agent \<Rightarrow>
             (case sd_Get (en_driver E) w1 (agent_state_path clusterId agentId) False of
                (w2, Inl e) \<Rightarrow> Inr (w2, Inl e)
              | (w2, Inr rsp2) \<Rightarrow>
                (if gr_Count rsp2 = 0 then Inr (w2, Inr (Some agent))
                 else bindC (first_value rsp2) (\<lambda>v2.
                   case unm_state (en_codec E) v2 of
                     Inl e \<Rightarrow> Inr (w2, Inl e)
                   | Inr state \<Rightarrow> Inr (w2, Inr (Some (agent\<lparr>ag_State := Some state\<rparr>)))))))))"

definition brief_agent :: "agent \<Rightarrow> brief_information" where
  "brief_agent a = \<lparr>bi_HostInformation = ag_HostInformation a, bi_Id = ag_Id a,
     bi_HasETCDRole = ag_HasETCDRole a, bi_HasMasterRole = ag_HasMasterRole a,
     bi_HasMinionRole = ag_HasMinionRole a, bi_HasHARole = ag_HasHARole a, bi_Hostname = ag_Hostname a,
     bi_State = ag_State a, bi_DeploymentPhase = ag_DeploymentPhase a\<rparr>"

text \<open>An agent that cannot be read is logged and left out of the list.\<close>

fun list_agents ::
  "'w env \<Rightarrow> string \<Rightarrow> (string \<times> string) list \<Rightarrow> 'w \<Rightarrow> crash + 'w \<times> brief_information list" where
  "list_agents E clusterId [] w = Inr (w, [])"
| "list_agents E clusterId ((key, value) # kvs) w =
     bindC (isAgentSettingsChanged (slash_fields key)) (\<lambda>r.
       case r of
         None \<Rightarrow> list_agents E clusterId kvs w
       | Some agentId \<Rightarrow>
         bindC (CC_GetAgentFromETCD E clusterId agentId w) (\<lambda>(w1, g).
           case g of
             Inl e \<Rightarrow> list_agents E clusterId kvs w1
           | Inr None \<Rightarrow> list_agents E clusterId kvs w1
           | Inr (Some agent) \<Rightarrow>
             bindC (list_agents E clusterId kvs w1) (\<lambda>(w2, as). Inr (w2, brief_agent agent # as))))"

definition GetAgentList ::
  "'w env \<Rightarrow> bool \<Rightarrow> cluster_controller \<Rightarrow> 'w \<Rightarrow> crash + 'w \<times> (error + brief_information list)" where
  "GetAgentList E onlineOnly cc w =
     (if onlineOnly then Inr (w, Inl (EOnlineOnly (cs_Id (GetSettings cc))))
      else case sd_Get (en_driver E) w (cluster_path (GetClusterId cc) @ ''/'') True of
        (w1, Inl e) \<Rightarrow> Inr (w1, Inl e)
      | (w1, Inr rsp) \<Rightarrow>
        (if gr_Count rsp = 0 then Inr (w1, Inr [])
         else bindC (list_agents E (GetClusterId cc) (gr_Kvs rsp) w1) (\<lambda>(w2, as). Inr (w2, Inr as))))"

section \<open>Invariant\<close>

text \<open>
  A controller that is not disposed has a cache, the cache keeps its invariant, and the
  certificate map has distinct keys.
\<close>

definition controller_inv :: "cluster_controller \<Rightarrow> bool" where
  "controller_inv cc \<longleftrightarrow> (cc_isDisposed cc \<longleftrightarrow> cc_cache cc = None) \<and>
     (\<forall>ac. cc_cache cc = Some ac \<longrightarrow> cache_inv ac) \<and> gm_wf (cc_certs cc)"

text \<open>
  What other goroutines may do to a controller between two of its operations. The write of a
  deployment phase goes through a reference into the cache.
\<close>

inductive controller_step :: "'w env \<Rightarrow> cluster_controller \<Rightarrow> cluster_controller \<Rightarrow> bool"
  for E where
  agent: "OnAgentChanged a del cc = Inr (cc', e) \<Longrightarrow> controller_step E cc cc'"
| certificate: "OnCertificateChanged name cert del cc = (cc', e) \<Longrightarrow> controller_step E cc cc'"
| settings: "controller_step E cc (UpdateClusterSettings settings cc)"
| revision: "controller_step E cc (SetSynchronizedRevision i cc)"
| watch: "controller_step E cc (SetCancellationFunc cc)"
| dispose: "controller_step E cc (Dispose cc)"
| phase: "cc_cache cc = Some ac \<Longrightarrow> controller_step E cc (cc\<lparr>cc_cache := Some (set_phase r p ac)\<rparr>)"
| client: "InitializeKubernetesClient E cc w = Inr (w', cc', e) \<Longrightarrow> controller_step E cc cc'"
| network: "InitializeNetworkController E cc = Inr (cc', e) \<Longrightarrow> controller_step E cc cc'"
| dns: "InitializeDNSController E cc = Inr (cc', e) \<Longrightarrow> controller_step E cc cc'"
| extension: "InitializeExtensionDeploymentController E cc = Inr (cc', e) \<Longrightarrow> controller_step E cc cc'"
| monitors: "EnableMonitors cc = Inr cc' \<Longrightarrow> controller_step E cc cc'"

text \<open>A controller as \<open>doClusterChange\<close> makes it.\<close>

definition controller_start :: "cluster_controller \<Rightarrow> bool" where
  "controller_start cc \<longleftrightarrow> cc_cache cc = Some Initialize \<and> \<not> cc_isDisposed cc \<and> gm_wf (cc_certs cc)"

text \<open>The fields that the invariant reads are left alone by the lazy initialisers.\<close>

definition same_core :: "cluster_controller \<Rightarrow> cluster_controller \<Rightarrow> bool" where
  "same_core cc cc' \<longleftrightarrow> cc_cache cc' = cc_cache cc \<and> cc_isDisposed cc' = cc_isDisposed cc \<and>
     cc_certs cc' = cc_certs cc \<and> cc_settings cc' = cc_settings cc"

lemma same_core_inv: "same_core cc cc' \<Longrightarrow> controller_inv cc \<Longrightarrow> controller_inv cc'"
  by (simp add: same_core_def controller_inv_def)

lemma new_clients_core: "new_clients E config a cc = Inr (cc', e) \<Longrightarrow> same_core cc cc'"
  by (auto simp: new_clients_def same_core_def split: sum.splits option.splits)

lemma connect_client_core: "connect_client E a cc w = Inr (w', cc', e) \<Longrightarrow> same_core cc cc'"
  by (auto simp: connect_client_def Let_def bindC_Inr_iff dest: new_clients_core
      split: prod.splits option.splits sum.splits)
     (simp_all add: same_core_def)

lemma with_client_set_core: "same_core cc (with_client_set cc)"
  by (simp add: same_core_def with_client_set_def)

lemma same_core_refl [simp]: "same_core cc cc"
  by (simp add: same_core_def)

lemma same_core_trans: "same_core a b \<Longrightarrow> same_core b c \<Longrightarrow> same_core a c"
  by (simp add: same_core_def)

lemma InitializeKubernetesClient_core:
  assumes "InitializeKubernetesClient E cc w = Inr (w', cc', e)"
  shows "same_core cc cc'"
proof -
  have "same_core (with_client_set cc) cc'"
    using assms
    by (auto simp: InitializeKubernetesClient_def Let_def dest: connect_client_core
        split: if_splits option.splits)
  with with_client_set_core show ?thesis by (rule same_core_trans)
qed

lemma start_monitors_core: "start_monitors ts cc = Inr cc' \<Longrightarrow> same_core cc cc'"
proof (induction ts arbitrary: cc)
  case (Cons t ts)
  have "same_core cc (cc\<lparr>cc_monitors := x\<rparr>)" for x by (simp add: same_core_def)
  with Cons show ?case
    by (auto split: option.splits prod.splits dest!: Cons.IH intro: same_core_trans)
qed simp

lemma lazy_core:
  "InitializeNetworkController E cc = Inr (cc', e) \<Longrightarrow> same_core cc cc'"
  "InitializeDNSController E cc = Inr (cc', e) \<Longrightarrow> same_core cc cc'"
  "InitializeExtensionDeploymentController E cc = Inr (cc', e) \<Longrightarrow> same_core cc cc'"
  by (auto simp: InitializeNetworkController_def InitializeDNSController_def bindC_Inr_iff
      InitializeExtensionDeploymentController_def same_core_def split: if_splits prod.splits)

lemma EnableMonitors_core: "EnableMonitors cc = Inr cc' \<Longrightarrow> same_core cc cc'"
  by (auto simp: EnableMonitors_def simp del: start_monitors.simps split: if_splits
      dest: start_monitors_core)

lemma OnAgentChanged_inv:
  "controller_inv cc \<Longrightarrow> OnAgentChanged a del cc = Inr (cc', e) \<Longrightarrow> controller_inv cc'"
  by (auto simp: OnAgentChanged_def controller_inv_def cache_inv_Offline cache_inv_Online
      split: if_splits option.splits)

lemma OnCertificateChanged_inv:
  "controller_inv cc \<Longrightarrow> OnCertificateChanged n c del cc = (cc', e) \<Longrightarrow> controller_inv cc'"
  by (auto simp: OnCertificateChanged_def controller_inv_def split: if_splits)

lemma simple_inv:
  assumes "controller_inv cc"
  shows "controller_inv (UpdateClusterSettings settings cc)" "controller_inv (SetSynchronizedRevision i cc)"
    "controller_inv (SetCancellationFunc cc)" "controller_inv (Dispose cc)"
    "cc_cache cc = Some ac \<Longrightarrow> controller_inv (cc\<lparr>cc_cache := Some (set_phase r p ac)\<rparr>)"
  using assms
  by (simp_all add: controller_inv_def UpdateClusterSettings_def SetSynchronizedRevision_def
      SetCancellationFunc_def Dispose_def cache_inv_set_phase)

lemma controller_step_inv: "controller_step E cc cc' \<Longrightarrow> controller_inv cc \<Longrightarrow> controller_inv cc'"
proof (induction rule: controller_step.induct)
  case (client cc w w' cc' e)
  then show ?case by (blast intro: same_core_inv InitializeKubernetesClient_core)
next
  case (network cc cc' e)
  then show ?case by (blast intro: same_core_inv lazy_core)
next
  case (dns cc cc' e)
  then show ?case by (blast intro: same_core_inv lazy_core)
next
  case (extension cc cc' e)
  then show ?case by (blast intro: same_core_inv lazy_core)
next
  case (monitors cc cc')
  then show ?case by (blast intro: same_core_inv EnableMonitors_core)
qed (blast intro: OnAgentChanged_inv OnCertificateChanged_inv simple_inv)+

lemma controller_start_inv: "controller_start cc \<Longrightarrow> controller_inv cc"
  by (simp add: controller_start_def controller_inv_def cache_inv_Initialize)

interpretation controller: invariant_system controller_start "controller_step E" controller_inv for E
  by unfold_locales (auto intro: controller_start_inv controller_step_inv)

text \<open>The certificates that a listing of the cluster's keys carries, in its order.\<close>

fun cert_entries :: "(string \<times> string) list \<Rightarrow> (string \<times> string) list" where
  "cert_entries [] = []"
| "cert_entries ((key, value) # kvs) =
     (if value \<noteq> [] then (case isCertificatesChanged (slash_fields key) of
          Inr (Some n) \<Rightarrow> (n, value) # cert_entries kvs | _ \<Rightarrow> cert_entries kvs)
      else cert_entries kvs)"

definition put_all :: "('k \<times> 'v) list \<Rightarrow> ('k, 'v) gomap \<Rightarrow> ('k, 'v) gomap" where
  "put_all xs m = fold (\<lambda>(k, v). gm_put k v) xs m"

lemma put_all_simps [simp]: "put_all [] m = m" "put_all ((k, v) # xs) m = put_all xs (gm_put k v m)"
  by (simp_all add: put_all_def)

lemma gm_wf_put_all [simp]: "gm_wf m \<Longrightarrow> gm_wf (put_all xs m)"
  by (induction xs arbitrary: m) auto

lemma gm_get_put_all: "gm_get (put_all xs m) k = (case map_of (rev xs) k of Some v \<Rightarrow> Some v | None \<Rightarrow> gm_get m k)"
  by (induction xs arbitrary: m) (auto simp: map_add_def split: option.splits)

lemma sync_certificates_entries:
  assumes "sync_certificates kvs cc = Inr cc'" and "\<not> cc_isDisposed cc"
  shows "cc' = cc\<lparr>cc_certs := put_all (cert_entries kvs) (cc_certs cc)\<rparr>"
  using assms
proof (induction kvs arbitrary: cc)
  case (Cons kv kvs)
  obtain k v where kv: "kv = (k, v)" by (cases kv)
  with Cons.prems(1) obtain r where r: "isCertificatesChanged (slash_fields k) = Inr r"
    by (auto simp: bindC_Inr_iff)
  show ?case
  proof (cases "r = None \<or> v = []")
    case True
    with Cons.prems kv r have "sync_certificates kvs cc = Inr cc'" by (auto split: option.splits)
    with Cons.IH Cons.prems(2) kv r True show ?thesis by (auto split: option.splits)
  next
    case False
    then obtain n where n: "r = Some n" by auto
    let ?c = "cc\<lparr>cc_certs := gm_put n v (cc_certs cc)\<rparr>"
    from Cons.prems kv r n False have "sync_certificates kvs ?c = Inr cc'"
      by (simp add: OnCertificateChanged_def)
    from Cons.IH [OF this] Cons.prems(2) kv r n False show ?thesis by simp
  qed
qed simp

lemma CC_fullSync_cases:
  assumes "CC_fullSync E cc w = Inr (w', cc', None)" and "\<not> cc_isDisposed cc"
  obtains rsp where "sd_Get (en_driver E) w (cluster_path (GetClusterId cc) @ ''/'') True = (w', Inr rsp)"
    "cc' = (if gr_Count rsp = 0 then cc
            else cc\<lparr>cc_certs := put_all (cert_entries (gr_Kvs rsp)) (cc_certs cc)\<rparr>)"
proof -
  obtain w1 r where g: "sd_Get (en_driver E) w (cluster_path (GetClusterId cc) @ ''/'') True = (w1, r)"
    by (cases "sd_Get (en_driver E) w (cluster_path (GetClusterId cc) @ ''/'') True")
  with assms obtain rsp where "r = Inr rsp" "w1 = w'"
    by (auto simp: CC_fullSync_def bindC_Inr_iff split: sum.splits if_splits)
  with g assms show thesis
    by (intro that) (auto simp: CC_fullSync_def bindC_Inr_iff sync_certificates_entries split: if_splits)
qed

lemma CC_Initialize_cases:
  assumes "CC_Initialize E cc w = Inr (w', cc')" and "\<not> cc_isDisposed cc"
  obtains rsp where "sd_Get (en_driver E) w (cluster_path (GetClusterId cc) @ ''/'') True = (w', Inr rsp)"
    "cc' = cc\<lparr>cc_certs := (if gr_Count rsp = 0 then [] else put_all (cert_entries (gr_Kvs rsp)) []),
       cc_cache := Some Initialize, cc_strategies := InitializeStrategies\<rparr>"
proof -
  let ?c = "cc\<lparr>cc_certs := [], cc_cache := Some Initialize, cc_strategies := InitializeStrategies\<rparr>"
  from assms(1) have "CC_fullSync E ?c w = Inr (w', cc', None)"
    by (auto simp: CC_Initialize_def bindC_Inr_iff split: option.splits)
  then show thesis
  proof (rule CC_fullSync_cases)
    show "\<not> cc_isDisposed ?c" using assms(2) by simp
  qed (rule that, auto simp: GetClusterId_def)
qed

lemma CC_Initialize_start:
  assumes "CC_Initialize E cc w = Inr (w', cc')" and "\<not> cc_isDisposed cc"
  shows "controller_start cc'"
  using assms by (rule CC_Initialize_cases) (auto simp: controller_start_def assms(2))

section \<open>An environment for the witnesses\<close>

definition sim_codec :: codec where
  "sim_codec = \<lparr>mar_agent = (\<lambda>a. Inr (ag_Id a)),
     unm_agent = (\<lambda>s. Inr (zero_agent\<lparr>ag_Id := s, ag_ClusterId := ''c1'', ag_HasETCDRole := True\<rparr>)),
     mar_state = (\<lambda>st. Inr (case st of None \<Rightarrow> [] | Some s \<Rightarrow> as_LastReportIP s)),
     unm_state = (\<lambda>s. Inr (sample_state s)),
     mar_settings = (\<lambda>x. Inr (cs_Id x)),
     unm_settings = (\<lambda>s. Inr (zero_settings\<lparr>cs_Id := s\<rparr>))\<rparr>"

definition sim_env :: "sim_world env" where
  "sim_env = \<lparr>en_driver = mem_driver, en_codec = sim_codec, en_kube = sim_kube,
     en_MkdirAll = (\<lambda>w p. w), en_RemoveAll = (\<lambda>w p. w), en_WriteFile = (\<lambda>w p c. (w, None)),
     en_BuildConfig = (\<lambda>w p. Inr p), en_NewCoreClient = (\<lambda>c. Inr 0),
     en_NewAPIRegClient = (\<lambda>c. Inr 1),
     en_PostJson = (\<lambda>w u b. (w, Inr \<lparr>hr_StatusCode = 200, hr_Body = Inr b\<rparr>)),
     en_UnmarshalResponse = (\<lambda>s. Inr (0, [])), en_now = (\<lambda>w. 0),
     en_visit = rev\<rparr>"

definition sample_agent :: agent where
  "sample_agent = (sample_etcd ''n1'' ''10.0.0.1'')\<lparr>ag_ClusterId := ''c1''\<rparr>"

lemma sample_agent_codec: "codec_agent (en_codec sim_env) sample_agent"
    "codec_state (en_codec sim_env) (sample_state ''10.0.0.1'')"
  by (simp_all add: codec_agent_def codec_state_def sim_env_def sim_codec_def sample_agent_def sample_defs)

section \<open>Properties\<close>

text \<open>
  An agent that was saved can be read back: after \<open>SaveAgent\<close> succeeded, reading the agent
  from etcd does not crash, and if it succeeds it returns the agent that was saved, with its
  state.
\<close>

theorem save_then_get:
  assumes "kv_driver (en_driver E) kv" and "ag_Id a \<noteq> []" and "ag_State a = Some st"
    and "codec_agent (en_codec E) a" and "codec_state (en_codec E) st"
    and "SaveAgent (en_driver E) (en_codec E) a w = (w', l, None)"
  shows "\<exists>w'' r. CC_GetAgentFromETCD E (ag_ClusterId a) (ag_Id a) w' = Inr (w'', r) \<and>
     (\<forall>x. r = Inr x \<longrightarrow> x = Some a)"
proof -
  let ?sp = "agent_settings_path (ag_ClusterId a) (ag_Id a)"
    and ?tp = "agent_state_path (ag_ClusterId a) (ag_Id a)"
  obtain d d' where data: "mar_agent (en_codec E) a = Inr d" "mar_state (en_codec E) (Some st) = Inr d'"
    and kv: "kv w' = (kv w)(?sp \<mapsto> d, ?tp \<mapsto> d')"
    using SaveAgent_kv [OF assms(1,6)] assms(3) by auto
  have unm: "unm_agent (en_codec E) d = Inr (a\<lparr>ag_State := None\<rparr>)" "unm_state (en_codec E) d' = Inr st"
    using assms(4,5) data by (simp_all add: codec_agent_def codec_state_def)
  obtain w1 r1 where g1: "sd_Get (en_driver E) w' ?sp False = (w1, r1)"
    by (cases "sd_Get (en_driver E) w' ?sp False")
  obtain w2 r2 where g2: "sd_Get (en_driver E) w1 ?tp False = (w2, r2)"
    by (cases "sd_Get (en_driver E) w1 ?tp False")
  show ?thesis
  proof (cases r1)
    case (Inl e)
    with g1 assms(2) show ?thesis by (simp add: CC_GetAgentFromETCD_def)
  next
    case (Inr rsp1)
    note k1 = kv_get [OF assms(1) g1 [unfolded Inr]]
    show ?thesis
    proof (cases r2)
      case (Inl e)
      with Inr g1 g2 k1 kv unm assms(2) show ?thesis
        by (simp add: CC_GetAgentFromETCD_def first_value_def settings_not_state)
    next
      case r2: (Inr rsp2)
      note k2 = kv_get [OF assms(1) g2 [unfolded r2]]
      from Inr r2 g1 g2 k1 k2 kv unm assms(2,3) show ?thesis
        by (simp add: CC_GetAgentFromETCD_def first_value_def settings_not_state)
    qed
  qed
qed

theorem save_then_get_witness:
  "\<exists>w' l. SaveAgent (en_driver sim_env) (en_codec sim_env) sample_agent sim_world = (w', l, None) \<and>
     (\<exists>w'' r. CC_GetAgentFromETCD sim_env ''c1'' ''n1'' w' = Inr (w'', r) \<and>
        (\<forall>x. r = Inr x \<longrightarrow> x = Some sample_agent))"
proof -
  have id: "ag_Id sample_agent = ''n1''" "ag_ClusterId sample_agent = ''c1''"
    "ag_State sample_agent = Some (sample_state ''10.0.0.1'')"
    by (simp_all add: sample_agent_def sample_etcd_def)
  obtain w' l where s: "SaveAgent (en_driver sim_env) (en_codec sim_env) sample_agent sim_world = (w', l, None)"
    by (simp add: SaveAgent_def SaveAgentSettingsOnly_def SaveAgentStateOnlyWithTTL_def newETCDLease_def
        sim_env_def sim_codec_def mem_driver_def)
  have kv: "kv_driver (en_driver sim_env) mem_kv" by (simp add: sim_env_def mem_driver_kv)
  from save_then_get [OF kv _ id(3) sample_agent_codec s] s id show ?thesis by auto
qed

text \<open>
  A controller that was disposed accepts no more changes: agent and certificate events
  return an error and leave it as it is, and so does the lookup of a cached agent; the queries
  that do not look at the flag dereference the cache that is gone.
\<close>

theorem disposed_controller:
  "OnAgentChanged a del (Dispose cc) = Inr (Dispose cc, Some (EDisposed (GetClusterId cc))) \<and>
   OnCertificateChanged n c del (Dispose cc) = (Dispose cc, Some (EDisposed (GetClusterId cc))) \<and>
   GetCachedAgent i (Dispose cc) = Inr (Inl (EDisposed (GetClusterId cc))) \<and>
   CC_GetTotalCountByRole role (Dispose cc) = Inl NilDeref \<and>
   GetRandomAdminConfFromMasterAgents (Dispose cc) = Inl NilDeref"
  by (simp add: Dispose_def OnAgentChanged_def OnCertificateChanged_def GetCachedAgent_def
      CC_GetTotalCountByRole_def GetRandomAdminConfFromMasterAgents_def GetClusterId_def)

text \<open>
  In every state that a controller can reach from its initialisation, through any sequence of
  events, settings updates, lazy initialisations and phase writes, applying an agent event and
  looking up a cached agent do not crash; and as long as the controller is not disposed, its
  cache keeps the invariant under which listing addresses is total.
\<close>

theorem reachable_controller_safe:
  assumes "CC_Initialize E cc0 w = Inr (w', cc1)" and "\<not> cc_isDisposed cc0"
    and "(controller_step E)\<^sup>*\<^sup>* cc1 cc"
  shows "(\<exists>r. OnAgentChanged a del cc = Inr r) \<and> (\<exists>r. GetCachedAgent i cc = Inr r) \<and>
     (\<not> cc_isDisposed cc \<longrightarrow> (\<exists>ac. cc_cache cc = Some ac \<and> cache_inv ac))"
proof -
  have "controller_inv cc"
    using controller.inv_reachable [OF CC_Initialize_start [OF assms(1,2)] assms(3)] .
  then show ?thesis
    by (cases "cc_cache cc") (auto simp: controller_inv_def OnAgentChanged_def GetCachedAgent_def)
qed

theorem reachable_controller_safe_witness:
  "\<exists>w' cc1. CC_Initialize sim_env new_controller sim_world = Inr (w', cc1) \<and>
     (\<exists>r. GetCachedAgent ''n1'' (Dispose cc1) = Inr r)"
proof -
  obtain w' cc1 where i: "CC_Initialize sim_env new_controller sim_world = Inr (w', cc1)"
    by (simp add: CC_Initialize_def CC_fullSync_def sim_env_def mem_driver_def mem_response_def
        mem_entries_def sim_world_def)
  have "\<not> cc_isDisposed new_controller" by (simp add: new_controller_def)
  moreover have "(controller_step sim_env)\<^sup>*\<^sup>* cc1 (Dispose cc1)"
    by (blast intro: r_into_rtranclp controller_step.dispose)
  ultimately show ?thesis using reachable_controller_safe [OF i] i by blast
qed

text \<open>
  After its initialisation a controller holds exactly the certificates that the listing of its
  keys carries: under each name the last non-empty value in the order of the listing.
\<close>

theorem full_sync_certificates:
  assumes "CC_Initialize E cc w = Inr (w', cc')" and "\<not> cc_isDisposed cc"
    and "sd_Get (en_driver E) w (cluster_path (GetClusterId cc) @ ''/'') True = (w1, Inr rsp)"
    and "gr_Count rsp = int (length (gr_Kvs rsp))"
  shows "gm_get (cc_certs cc') name = map_of (rev (cert_entries (gr_Kvs rsp))) name"
  using assms(1,2)
proof (rule CC_Initialize_cases)
  fix rsp'
  assume "sd_Get (en_driver E) w (cluster_path (GetClusterId cc) @ ''/'') True = (w', Inr rsp')"
    and c: "cc' = cc\<lparr>cc_certs := (if gr_Count rsp' = 0 then [] else put_all (cert_entries (gr_Kvs rsp')) []),
       cc_cache := Some Initialize, cc_strategies := InitializeStrategies\<rparr>"
  with assms(3) have "rsp' = rsp" by simp
  with c assms(4) show ?thesis by (auto simp: gm_get_put_all split: option.splits)
qed

theorem full_sync_certificates_witness:
  "\<exists>w' cc'. CC_Initialize sim_env (UpdateClusterSettings (zero_settings\<lparr>cs_Id := ''c1''\<rparr>) new_controller)
       (sim_world\<lparr>mw_kvs := [(certificate_path ''c1'' ''ca'', ''x'')]\<rparr>) = Inr (w', cc') \<and>
     gm_get (cc_certs cc') ''ca'' = Some ''x''"
proof -
  let ?w = "sim_world\<lparr>mw_kvs := [(certificate_path ''c1'' ''ca'', ''x'')]\<rparr>"
    and ?cc = "UpdateClusterSettings (zero_settings\<lparr>cs_Id := ''c1''\<rparr>) new_controller"
  let ?kvs = "[(certificate_path ''c1'' ''ca'', ''x'')]"
  have id: "GetClusterId ?cc = ''c1''" by (simp add: GetClusterId_def UpdateClusterSettings_def)
  have g: "sd_Get (en_driver sim_env) ?w (cluster_path ''c1'' @ ''/'') True = (?w, Inr (mem_response ?kvs))"
    by (simp add: sim_env_def mem_driver_def mem_entries_def path_defs replace_char_def gm_str_def)
  have k: "isCertificatesChanged (slash_fields (certificate_path ''c1'' ''ca'')) = Inr (Some ''ca'')"
    by (simp add: slash_fields_certificate seg_def classify_defs replace_char_def)
  have e: "cert_entries ?kvs = [(''ca'', ''x'')]" using k by simp
  have d: "\<not> cc_isDisposed ?cc" by (simp add: UpdateClusterSettings_def new_controller_def)
  obtain w' cc' where i: "CC_Initialize sim_env ?cc ?w = Inr (w', cc')"
    using g id k by (simp add: CC_Initialize_def CC_fullSync_def GetClusterId_def mem_response_def
        OnCertificateChanged_def UpdateClusterSettings_def new_controller_def)
  have "gm_get (cc_certs cc') ''ca'' = map_of (rev (cert_entries (gr_Kvs (mem_response ?kvs)))) ''ca''"
    by (rule full_sync_certificates [OF i d]) (use g id in \<open>simp_all add: mem_response_def\<close>)
  with i e show ?thesis by (auto simp: mem_response_def)
qed

text \<open>
  A certificate can be found under its name after its event was applied: the key has slashes
  turned into underscores, the lookup turns them back and ignores case. This holds for a name
  without underscores that no other certificate of the cluster shares up to case.
\<close>

theorem certificate_lookup:
  assumes "\<not> cc_isDisposed cc" and "gm_wf (cc_certs cc)" and "CHR ''_'' \<notin> set name"
    and "\<And>k v. gm_get (cc_certs cc) k = Some v \<Longrightarrow>
       to_lower (replace_char CHR ''_'' CHR ''/'' k) = to_lower name \<Longrightarrow> k = replace_char CHR ''/'' CHR ''_'' name"
  shows "GetCertificateContent (GetCertificates (fst (OnCertificateChanged
     (replace_char CHR ''/'' CHR ''_'' name) cert False cc))) name = cert"
proof -
  let ?key = "replace_char CHR ''/'' CHR ''_'' name"
  let ?certs = "gm_put ?key cert (cc_certs cc)"
  let ?pair = "\<lambda>(k, v). \<lparr>ck_Name = replace_char CHR ''_'' CHR ''/'' k, ck_Value = v\<rparr>"
  have inverse: "replace_char CHR ''_'' CHR ''/'' ?key = name"
    using assms(3) by (rule replace_char_inverse)
  have wf: "gm_wf ?certs" using assms(2) by simp
  have "GetCertificateContent (map ?pair ?certs) name = ck_Value (?pair (?key, cert))"
  proof (rule GetCertificateContent_unique)
    have "(?key, cert) \<in> set ?certs" using wf by (simp add: gm_get_in)
    then show "?pair (?key, cert) \<in> set (map ?pair ?certs)" by force
    show "to_lower (ck_Name (?pair (?key, cert))) = to_lower name" by (simp add: inverse)
    fix d assume "d \<in> set (map ?pair ?certs)" and eq: "to_lower (ck_Name d) = to_lower name"
    then obtain k v where d: "d = ?pair (k, v)" and kv: "(k, v) \<in> set ?certs" by auto
    from kv wf have g: "gm_get ?certs k = Some v" by (simp add: gm_get_in)
    have "k = ?key"
    proof (rule ccontr)
      assume "k \<noteq> ?key"
      with g have "gm_get (cc_certs cc) k = Some v" by simp
      with assms(4) [of k v] eq d \<open>k \<noteq> ?key\<close> show False by simp
    qed
    with g d show "d = ?pair (?key, cert)" by simp
  qed
  then show ?thesis using assms(1) by (simp add: GetCertificates_def OnCertificateChanged_def)
qed

theorem certificate_lookup_witness:
  "GetCertificateContent (GetCertificates (fst (OnCertificateChanged
     (replace_char CHR ''/'' CHR ''_'' ''etcd/ca.crt'') ''x'' False new_controller))) ''etcd/ca.crt'' = ''x''"
  by (rule certificate_lookup) (simp_all add: new_controller_def)

text \<open>
  A failed attempt to make the network controller is taken for a success by the next attempt:
  the field then holds a nil pointer or a half-initialised controller, which is not the nil
  interface. Where the settings name no supported network, using the controller dereferences nil.
\<close>

theorem network_controller_not_retried:
  assumes "InitializeNetworkController E cc = Inr (cc', Some e)"
  shows "InitializeNetworkController E cc' = Inr (cc', None) \<and>
     ((\<forall>ns. cs_NetworkStack (cc_settings cc) = Some ns \<longrightarrow> ts_Type ns \<noteq> NetworkStack_KubeRouter) \<longrightarrow>
        GetNetworkController cc' = Some None)"
  using assms
  by (auto simp: InitializeNetworkController_def CreateNetworkStackController_def GetNetworkController_def
      GetSettings_def split: if_splits option.splits prod.splits)

theorem network_controller_not_retried_witness:
  "\<exists>cc' e. InitializeNetworkController sim_env new_controller = Inr (cc', Some e) \<and>
     InitializeNetworkController sim_env cc' = Inr (cc', None) \<and> GetNetworkController cc' = Some None"
proof -
  obtain cc' e where i: "InitializeNetworkController sim_env new_controller = Inr (cc', Some e)"
    by (simp add: InitializeNetworkController_def CreateNetworkStackController_def GetSettings_def
        new_controller_def zero_settings_def)
  from network_controller_not_retried [OF i] i show ?thesis
    by (auto simp: new_controller_def zero_settings_def)
qed

text \<open>
  If the client for the aggregation API cannot be made, the first attempt fails and the
  second one reports success without doing anything: the controller keeps running without that
  client, and without the address of the API server that its payloads are rendered with.
\<close>

theorem half_initialised_client:
  assumes "core_client cc = None" and "cc_cache cc = Some ac"
    and "GetFirstProvisionedKubernetesMasterAgent ac = Some a" and "ag_AdminCertificate a \<noteq> []"
    and "\<And>w p c. en_WriteFile E w p c = (w, None)" and "\<And>w p. en_BuildConfig E w p = Inr config"
    and "en_NewCoreClient E config = Inr core" and "en_NewAPIRegClient E config = Inl e"
  shows "\<exists>w1 cc1. InitializeKubernetesClient E cc w = Inr (w1, cc1, Some (EWrap ''API reg client'' e)) \<and>
     InitializeKubernetesClient E cc1 v = Inr (v, cc1, None) \<and>
     cc_cs cc1 = Some \<lparr>kc_CoreClient = Some core, kc_APIRegClientV1beta1 = None\<rparr> \<and>
     cc_k8sClientIP cc1 = cc_k8sClientIP cc"
proof -
  have w: "core_client (with_client_set cc) = None" "cc_cache (with_client_set cc) = Some ac"
    "cc_k8sClientIP (with_client_set cc) = cc_k8sClientIP cc"
    using assms(1,2) by (auto simp: with_client_set_def core_client_def)
  then show ?thesis
    using assms(3-8)
    by (simp add: InitializeKubernetesClient_def Let_def connect_client_def new_clients_def
        with_client_set_def core_client_def)
qed

definition sample_master_agent :: agent where
  "sample_master_agent = (sample_master ''m1'' ''10.0.0.3'')\<lparr>ag_ClusterId := ''c1'', ag_AdminCertificate := ''conf'',
     ag_State := Some (zero_state\<lparr>as_LastReportIP := ''10.0.0.3'', as_HasProvisionedMasterComponents := True\<rparr>)\<rparr>"

theorem half_initialised_client_witness:
  "\<exists>w1 cc1 e. InitializeKubernetesClient (sim_env\<lparr>en_NewAPIRegClient := \<lambda>c. Inl EDirtyAgent,
       en_BuildConfig := \<lambda>w p. Inr ''conf''\<rparr>)
     (new_controller\<lparr>cc_cache := Some (Online sample_master_agent Initialize)\<rparr>) sim_world =
       Inr (w1, cc1, Some e) \<and>
     cc_k8sClientIP cc1 = []"
  using half_initialised_client [of "new_controller\<lparr>cc_cache := Some (Online sample_master_agent Initialize)\<rparr>"
      "Online sample_master_agent Initialize" sample_master_agent
      "sim_env\<lparr>en_NewAPIRegClient := \<lambda>c. Inl EDirtyAgent, en_BuildConfig := \<lambda>w p. Inr ''conf''\<rparr>" "''conf''" 0
      EDirtyAgent sim_world]
  by (fastforce simp: new_controller_def core_client_def sample_master_agent_def sample_master_def
      zero_agent_def zero_state_def sim_env_def Online_def store_agent_def Initialize_def
      GetFirstProvisionedKubernetesMasterAgent_def range_agents_def state_flag_def Let_def)

end
