(* ===== verification/Scheduler.thy ===== *)
theory Scheduler
  imports ClusterController
begin

text \<open>
  The job scheduler of a cluster: \<open>pkg/cache/job_scheduler.go\<close> and the nine strategies of
  \<open>pkg/cache/strategy_*.go\<close>.

  \<open>CanDeploy s\<close> is the dispatch of the interface \<open>ClusterJobStrategy\<close>. A strategy may change the
  cluster controller (it initialises clients, controllers and monitors on first use) and the
  world. Its result is the flag, the reason, the arguments and the error of the Go function.
  \<open>GetNextJob\<close> returns the job, the error, and the argument of the one call of the callback
  \<open>updateAgentDeploymentPhase\<close>, if it was called. The locale \<open>job_strategies\<close> is the contract of the
  interface.
\<close>

section \<open>Strategies without requests\<close>

type_synonym verdict = "condition_checked_result \<times> string \<times> (string, string) gomap \<times> error option"

definition inapplicable :: verdict where
  "inapplicable = (ConditionInapplicable, [], [], None)"

definition waiting :: "string \<Rightarrow> verdict" where
  "waiting reason = (ConditionNotConfirmed, reason, [], None)"

definition confirmed :: "(string, string) gomap \<Rightarrow> verdict" where
  "confirmed args = (ConditionConfirmed, [], args, None)"

definition failed :: "error \<Rightarrow> verdict" where
  "failed e = (ConditionNotConfirmed, [], [], Some e)"

lemmas verdict_defs = inapplicable_def waiting_def confirmed_def failed_def

text \<open>\<open>agent.State.F\<close>, and a method call on the cache: nil panics.\<close>

definition state_field :: "agent \<Rightarrow> (agent_state \<Rightarrow> 'x) \<Rightarrow> crash + 'x" where
  "state_field a f = (case ag_State a of None \<Rightarrow> Inl NilDeref | Some s \<Rightarrow> Inr (f s))"

definition deref :: "'x option \<Rightarrow> crash + 'x" where
  "deref p = (case p of None \<Rightarrow> Inl NilDeref | Some x \<Rightarrow> Inr x)"

definition ETCD_CanDeploy :: "int \<Rightarrow> cluster_controller \<Rightarrow> agent \<Rightarrow> agent_cache option \<Rightarrow> crash + verdict" where
  "ETCD_CanDeploy now cc agent cache =
     (let clusterSettings = GetSettings cc in
      bindC (deref cache) (\<lambda>ac.
      if GetTotalProvisionedCountByRole AgentRole_ETCD ac \<ge> cs_ExpectedETCDCount clusterSettings
      then Inr inapplicable
      else if ag_HasETCDRole agent
      then bindC (state_field agent as_HasProvisionedETCD) (\<lambda>provisioned.
             if \<not> provisioned
             then (if GetTotalCountByRole AgentRole_ETCD ac < cs_ExpectedETCDCount clusterSettings
                   then Inr (waiting ''Waiting, Not equals required minimum count of ETCD nodes.'')
                   else bindC (GetAgentsAddress now AgentRole_ETCD AgentStatusFlag_Whatever ac) (\<lambda>ips.
                          Inr (confirmed [(''addresses'', join '','' ips)])))
             else Inr (waiting ''Waiting, All of agents of ETCD role are not ready yet.''))
      else Inr (waiting ''Waiting, All of agents of ETCD role are not ready yet.'')))"

definition Master_CanDeploy :: "cluster_controller \<Rightarrow> agent \<Rightarrow> agent_cache option \<Rightarrow> crash + verdict" where
  "Master_CanDeploy cc agent cache =
     bindC (if ag_HasMasterRole agent
            then bindC (state_field agent as_HasProvisionedMasterComponents) (\<lambda>p. Inr (\<not> p))
            else Inr False) (\<lambda>b.
     if b then Inr (confirmed [])
     else bindC (deref cache) (\<lambda>ac.
       if GetTotalProvisionedCountByRole AgentRole_Master ac \<le> 0
       then Inr (waiting ''Waiting, All of agents of Kubernetes master role are not ready yet.'')
       else Inr inapplicable))"

fun indexOf_from :: "int \<Rightarrow> string \<Rightarrow> string list \<Rightarrow> int" where
  "indexOf_from i word [] = - 1"
| "indexOf_from i word (v # vs) = (if word = v then i else indexOf_from (i + 1) word vs)"

definition indexOf :: "string \<Rightarrow> string list \<Rightarrow> int" where
  "indexOf word dat = indexOf_from 0 word dat"

definition ha_arguments :: "ha_settings \<Rightarrow> string \<Rightarrow> string list \<Rightarrow> string list \<Rightarrow> (string, string) gomap" where
  "ha_arguments hs lastIP masterIps haIps0 =
     (let haIps = sort haIps0 in
      [(''master-addresses'', join '','' masterIps),
       (''ha-addresses'', join '','' haIps),
       (''state'', ''BACKUP''),
       (''router-id'', if hs_RouterID hs \<noteq> [] then hs_RouterID hs else ''40''),
       (''priority'', itoa (indexOf lastIP haIps + 100)),
       (''vip'', hs_VIP hs)])"

definition HA_CanDeploy :: "int \<Rightarrow> cluster_controller \<Rightarrow> agent \<Rightarrow> agent_cache option \<Rightarrow> crash + verdict" where
  "HA_CanDeploy now cc agent cache =
     (case cs_HASettings (GetSettings cc) of
        None \<Rightarrow> Inr inapplicable
      | Some hs \<Rightarrow>
        bindC (deref cache) (\<lambda>ac.
        bindC (GetAgentsAddress now AgentRole_HA AgentStatusFlag_Whatever ac) (\<lambda>haIps.
        if int (length haIps) < hs_NodeCount hs
        then Inr (waiting ''HAProxy & KeepAlived deployments are postponed, Waiting for enough nodes status to online...'')
        else
          bindC (if ag_HasHARole agent
                 then bindC (state_field agent as_HasProvisionedHA) (\<lambda>p. Inr (\<not> p))
                 else Inr False) (\<lambda>b.
          if b
          then bindC (GetAgentsAddress now AgentRole_Master AgentStatusFlag_Whatever ac) (\<lambda>masterIps.
               bindC (state_field agent as_LastReportIP) (\<lambda>ip.
                 Inr (confirmed (ha_arguments hs ip masterIps haIps))))
          else if GetTotalProvisionedCountByRole AgentRole_HA ac = 0
          then Inr (waiting ''Waiting, Not equals required minimum count of HAProxy & KeepAlived nodes.'')
          else Inr inapplicable))))"

definition Minion_CanDeploy :: "int \<Rightarrow> cluster_controller \<Rightarrow> agent \<Rightarrow> agent_cache option \<Rightarrow> crash + verdict" where
  "Minion_CanDeploy now cc agent cache =
     bindC (if ag_HasMinionRole agent
            then bindC (state_field agent as_HasProvisionedMinion) (\<lambda>p. Inr (\<not> p))
            else Inr False) (\<lambda>b.
     if b
     then bindC (deref cache) (\<lambda>ac.
          bindC (GetAgentsAddress now AgentRole_Master AgentStatusFlag_Provisioned ac) (\<lambda>masterIps.
            let vip = (case cs_HASettings (GetSettings cc) of None \<Rightarrow> [] | Some hs \<Rightarrow> hs_VIP hs) in
            Inr (confirmed [(''addresses'', join '','' masterIps), (''ha_address'', vip)])))
     else Inr inapplicable)"

section \<open>Strategies that talk to the Kubernetes API\<close>

text \<open>A method call on an interface value that may hold a nil pointer.\<close>

definition deref2 :: "'x option option \<Rightarrow> crash + 'x" where
  "deref2 p = (case p of Some (Some x) \<Rightarrow> Inr x | _ \<Rightarrow> Inl NilDeref)"

definition Network_CanDeploy ::
  "'w env \<Rightarrow> cluster_controller \<Rightarrow> 'w \<Rightarrow> crash + 'w \<times> cluster_controller \<times> verdict" where
  "Network_CanDeploy E cc w =
     bindC (InitializeKubernetesClient E cc w) (\<lambda>(w1, cc1, r1).
     case r1 of
       Some e \<Rightarrow> Inr (w1, cc1, failed (EWrap ''initialize Kubernetes client'' e))
     | None \<Rightarrow>
       bindC (InitializeNetworkController E cc1) (\<lambda>(cc2, r2).
       case r2 of
         Some e \<Rightarrow> Inr (w1, cc2, failed (EWrap ''initialize network controller'' e))
       | None \<Rightarrow>
         bindC (deref2 (GetNetworkController cc2)) (\<lambda>nc.
         bindC (ensure_installed KubeRouter_HasInstalled KubeRouter_Install
                  ''deploy Kubernetes network stack'' (en_kube E) nc w1) (\<lambda>(w3, nc', r3).
           let cc3 = cc2\<lparr>cc_nsc := Some (Some nc')\<rparr> in
           Inr (w3, cc3, case r3 of Some e \<Rightarrow> failed e | None \<Rightarrow> inapplicable)))))"

definition DNS_CanDeploy ::
  "'w env \<Rightarrow> cluster_controller \<Rightarrow> 'w \<Rightarrow> crash + 'w \<times> cluster_controller \<times> verdict" where
  "DNS_CanDeploy E cc w =
     bindC (InitializeKubernetesClient E cc w) (\<lambda>(w1, cc1, r1).
     case r1 of
       Some e \<Rightarrow> Inr (w1, cc1, failed (EWrap ''initialize Kubernetes client'' e))
     | None \<Rightarrow>
       bindC (InitializeDNSController E cc1) (\<lambda>(cc2, r2).
       case r2 of
         Some e \<Rightarrow> Inr (w1, cc2, failed (EWrap ''initialize DNS deployment controller'' e))
       | None \<Rightarrow>
         bindC (deref2 (GetDNSController cc2)) (\<lambda>dc.
         bindC (ensure_installed CoreDNS_HasInstalled CoreDNS_Install
                  ''deploy Kubernetes DNS'' (en_kube E) dc w1) (\<lambda>(w3, dc', r3).
           let cc3 = cc2\<lparr>cc_ddc := Some (Some dc')\<rparr> in
           Inr (w3, cc3, case r3 of Some e \<Rightarrow> failed e | None \<Rightarrow> inapplicable)))))"

definition EnableMonitors_CanDeploy :: "cluster_controller \<Rightarrow> crash + cluster_controller \<times> verdict" where
  "EnableMonitors_CanDeploy cc = bindC (EnableMonitors cc) (\<lambda>cc'. Inr (cc', inapplicable))"

definition Extensibility_CanDeploy ::
  "'w env \<Rightarrow> cluster_controller \<Rightarrow> 'w \<Rightarrow> crash + 'w \<times> cluster_controller \<times> verdict" where
  "Extensibility_CanDeploy E cc w =
     bindC (InitializeKubernetesClient E cc w) (\<lambda>(w1, cc1, r1).
     case r1 of
       Some e \<Rightarrow> Inr (w1, cc1, failed (EWrap ''initialize Kubernetes client'' e))
     | None \<Rightarrow>
       bindC (InitializeExtensionDeploymentController E cc1) (\<lambda>(cc2, r2).
       case r2 of
         Some e \<Rightarrow> Inr (w1, cc2, failed (EWrap ''initialize extensional deployment controller'' e))
       | None \<Rightarrow>
         bindC (deref (GetExtensionDeploymentController cc2)) (\<lambda>ec.
         bindC (ensure_installed Extension_HasInstalled Extension_Install
                  ''deploy extensional resource'' (en_kube E) ec w1) (\<lambda>(w3, ec', r3).
           let cc3 = cc2\<lparr>cc_edc := Some ec'\<rparr> in
           Inr (w3, cc3, case r3 of Some e \<Rightarrow> failed e | None \<Rightarrow> inapplicable)))))"

section \<open>The static routes for the metrics server\<close>

fun checkMetricsServerHealthy :: "watch_point list \<Rightarrow> bool" where
  "checkMetricsServerHealthy [] = False"
| "checkMetricsServerHealthy (v # wps) =
     (if wp_Name v = ''metrics-server'' \<and> wp_Status v = Healthy then True
      else checkMetricsServerHealthy wps)"

text \<open>
  Posting a JSON document to the web server of an agent. \<open>en_PostJson\<close> answers with the error of
  making or sending the request, or with the response.
\<close>

definition post_to_agent :: "'w env \<Rightarrow> agent_state \<Rightarrow> int \<Rightarrow> string \<Rightarrow> string \<Rightarrow> 'w \<Rightarrow> 'w \<times> error option" where
  "post_to_agent E st port path body w =
     (case en_PostJson E w (''http://'' @ as_LastReportIP st @ '':'' @ itoa port @ path) body of
        (w', Inl e) \<Rightarrow> (w', Some e)
      | (w', Inr rsp) \<Rightarrow>
        (w', if hr_StatusCode rsp \<noteq> 200 then Some (EHTTPStatus (hr_StatusCode rsp))
             else case hr_Body rsp of
                    Inl e \<Rightarrow> Some e
                  | Inr text \<Rightarrow>
                    (case en_UnmarshalResponse E text of
                       Inl e \<Rightarrow> Some e
                     | Inr (errorId, reason) \<Rightarrow>
                         if errorId \<noteq> 0 then Some (EBiz errorId reason) else None)))"

definition node_json :: "node_info \<Rightarrow> string" where
  "node_json n = json_object [(''node_ip'', json_string (ni_NodeIP n)), (''node_cidr'', json_string (ni_PodCIDR n))]"

definition generateSystemRoutingRules ::
  "'w env \<Rightarrow> agent \<Rightarrow> node_info list \<Rightarrow> 'w \<Rightarrow> crash + 'w \<times> error option" where
  "generateSystemRoutingRules E agent nodes w =
     bindC (deref (ag_State agent)) (\<lambda>st.
       Inr (post_to_agent E st (ag_ListenPort agent) ''/system/routes''
              (json_object [(''nodes'', ''['' @ join '','' (map node_json nodes) @ '']'')]) w))"

definition Metrics_CanDeploy ::
  "'w env \<Rightarrow> cluster_controller \<Rightarrow> agent \<Rightarrow> 'w \<Rightarrow> crash + 'w \<times> cluster_controller \<times> verdict" where
  "Metrics_CanDeploy E cc agent w =
     bindC (if ag_HasMasterRole agent then state_field agent as_HasProvisionedMasterComponents
            else Inr False) (\<lambda>b.
     if \<not> b then Inr (w, cc, inapplicable)
     else let cs = GetSettings cc in
     if cs_ExtensionalDeployments cs = [] then Inr (w, cc, inapplicable)
     else if gm_get (cs_ExtensionalDeployments cs) EXT_DEPLOYMENT_METRICSERVER = None
     then Inr (w, cc, inapplicable)
     else bindC (GetWachPoints cc) (\<lambda>wps.
     if \<not> checkMetricsServerHealthy wps
     then Inr (w, cc, failed (EUnhealthy (cs_Id cs) EXT_DEPLOYMENT_METRICSERVER))
     else bindC (InitializeKubernetesClient E cc w) (\<lambda>(w1, cc1, r1).
     case r1 of
       Some e \<Rightarrow> Inr (w1, cc1, failed (EWrap ''initialize Kubernetes client'' e))
     | None \<Rightarrow>
       (case GetNodesInformation E cc1 w1 of
          (w2, Inl e) \<Rightarrow> Inr (w2, cc1, failed (EWrap ''list Kubernetes cluster nodes'' e))
        | (w2, Inr nsi) \<Rightarrow>
          (if nsi = [] then Inr (w2, cc1, inapplicable)
           else bindC (generateSystemRoutingRules E agent nsi w2) (\<lambda>(w3, r3).
                  Inr (w3, cc1, inapplicable)))))))"

section \<open>The scheduler\<close>

fun GetStrategyName :: "strategy \<Rightarrow> string" where
  "GetStrategyName ClusterETCDJobStrategy = AgentJob_Deploy_ETCD"
| "GetStrategyName ClusterKubernetesMasterJobStrategy = AgentJob_Deploy_Master"
| "GetStrategyName HAJobStrategy = ''HA''"
| "GetStrategyName ClusterKubernetesMinionJobStrategy = AgentJob_Deploy_Minion"
| "GetStrategyName ClusterKubernetesNetworkStackJobStrategy = ''NETWORK''"
| "GetStrategyName ClusterKubernetesDNSJobStrategy = ''DNS''"
| "GetStrategyName EnableMonitorsJobStrategy = ''Enable Cluster Monitors''"
| "GetStrategyName ExtensibilityDeploymentJobStrategy = ''Extensibility''"
| "GetStrategyName MetricsServerAddStaticRouteStrategy = ''Metrics-Server Static Routing''"

text \<open>A strategy that only looks leaves the world and the controller alone.\<close>

definition looking ::
  "crash + verdict \<Rightarrow> cluster_controller \<Rightarrow> 'w \<Rightarrow> crash + 'w \<times> cluster_controller \<times> verdict" where
  "looking v cc w = bindC v (\<lambda>r. Inr (w, cc, r))"

fun CanDeploy ::
  "'w env \<Rightarrow> strategy \<Rightarrow> cluster_controller \<Rightarrow> agent \<Rightarrow> 'w
     \<Rightarrow> crash + 'w \<times> cluster_controller \<times> verdict" where
  "CanDeploy E ClusterETCDJobStrategy cc a w =
     looking (ETCD_CanDeploy (en_now E w) cc a (cc_cache cc)) cc w"
| "CanDeploy E ClusterKubernetesMasterJobStrategy cc a w =
     looking (Master_CanDeploy cc a (cc_cache cc)) cc w"
| "CanDeploy E HAJobStrategy cc a w = looking (HA_CanDeploy (en_now E w) cc a (cc_cache cc)) cc w"
| "CanDeploy E ClusterKubernetesMinionJobStrategy cc a w =
     looking (Minion_CanDeploy (en_now E w) cc a (cc_cache cc)) cc w"
| "CanDeploy E ClusterKubernetesNetworkStackJobStrategy cc a w = Network_CanDeploy E cc w"
| "CanDeploy E ClusterKubernetesDNSJobStrategy cc a w = DNS_CanDeploy E cc w"
| "CanDeploy E EnableMonitorsJobStrategy cc a w =
     bindC (EnableMonitors_CanDeploy cc) (\<lambda>(cc', v). Inr (w, cc', v))"
| "CanDeploy E ExtensibilityDeploymentJobStrategy cc a w = Extensibility_CanDeploy E cc w"
| "CanDeploy E MetricsServerAddStaticRouteStrategy cc a w = Metrics_CanDeploy E cc a w"

definition nop_job :: "string \<Rightarrow> agent_job" where
  "nop_job reason = \<lparr>aj_Name = AgentJob_NOP, aj_Arguments = [], aj_Reason = reason\<rparr>"

record decision =
  de_Job :: agent_job
  de_Error :: "error option"
  de_Phase :: "int option"

text \<open>The loop over the strategies, for any implementation of the interface.\<close>

fun run_strategies ::
  "('s \<Rightarrow> cluster_controller \<Rightarrow> agent \<Rightarrow> 'w \<Rightarrow> crash + 'w \<times> cluster_controller \<times> verdict)
     \<Rightarrow> ('s \<Rightarrow> string) \<Rightarrow> agent \<Rightarrow> 's list \<Rightarrow> cluster_controller \<Rightarrow> 'w
     \<Rightarrow> crash + 'w \<times> cluster_controller \<times> decision" where
  "run_strategies can_deploy name agent [] cc w =
     Inr (w, cc, \<lparr>de_Job = nop_job ''Waiting, no any operations should perform.'', de_Error = None,
                  de_Phase = Some AgentDeploymentPhase_Deployed\<rparr>)"
| "run_strategies can_deploy name agent (s # ss) cc w =
     bindC (can_deploy s cc agent w) (\<lambda>(w1, cc1, flag, reason, args, err).
       if err \<noteq> None
       then Inr (w1, cc1, \<lparr>de_Job = nop_job ''Occurred internal error!'', de_Error = err, de_Phase = None\<rparr>)
       else if flag = ConditionInapplicable
       then run_strategies can_deploy name agent ss cc1 w1
       else if flag = ConditionNotConfirmed
       then Inr (w1, cc1, \<lparr>de_Job = nop_job reason, de_Error = None,
                           de_Phase = Some AgentDeploymentPhase_Deploying\<rparr>)
       else Inr (w1, cc1, \<lparr>de_Job = \<lparr>aj_Name = name s, aj_Arguments = args, aj_Reason = []\<rparr>,
                           de_Error = None, de_Phase = Some AgentDeploymentPhase_Deploying\<rparr>))"

definition GetNextJob ::
  "'w env \<Rightarrow> cluster_controller \<Rightarrow> agent \<Rightarrow> 'w \<Rightarrow> crash + 'w \<times> cluster_controller \<times> decision" where
  "GetNextJob E cc agent w =
     (if cc_strategies cc = []
      then Inr (w, cc, \<lparr>de_Job = nop_job ''Skipped, No any cluster job strategies being found.'',
                        de_Error = None, de_Phase = Some AgentDeploymentPhase_Deployed\<rparr>)
      else if ag_State agent = None
      then Inr (w, cc, \<lparr>de_Job = nop_job ''Occurred internal exceptions!'',
                        de_Error = Some (EStateNotOnline (ag_Id agent)), de_Phase = None\<rparr>)
      else run_strategies (CanDeploy E) GetStrategyName agent (cc_strategies cc) cc w)"

section \<open>The contract of the strategies\<close>

text \<open>Strategy \<open>s\<close> was asked about a controller that agrees with \<open>cc\<close>, with this verdict.\<close>

definition asked ::
  "('w env \<Rightarrow> 's \<Rightarrow> cluster_controller \<Rightarrow> agent \<Rightarrow> 'w \<Rightarrow> crash + 'w \<times> cluster_controller \<times> verdict)
     \<Rightarrow> 'w env \<Rightarrow> cluster_controller \<Rightarrow> agent \<Rightarrow> 's \<Rightarrow> verdict \<Rightarrow> bool" where
  "asked can_deploy E cc a s v \<longleftrightarrow>
     (\<exists>cc1 w1 w2 cc2. same_core cc cc1 \<and> can_deploy E s cc1 a w1 = Inr (w2, cc2, v))"

lemma asked_core: "same_core cc cc1 \<Longrightarrow> asked can_deploy E cc1 a s v \<Longrightarrow> asked can_deploy E cc a s v"
  unfolding asked_def by (blast intro: same_core_trans)

definition passes ::
  "('w env \<Rightarrow> 's \<Rightarrow> cluster_controller \<Rightarrow> agent \<Rightarrow> 'w \<Rightarrow> crash + 'w \<times> cluster_controller \<times> verdict)
     \<Rightarrow> 'w env \<Rightarrow> cluster_controller \<Rightarrow> agent \<Rightarrow> 's \<Rightarrow> bool" where
  "passes can_deploy E cc a s \<longleftrightarrow>
     (\<exists>reason args. asked can_deploy E cc a s (ConditionInapplicable, reason, args, None))"

lemma passes_core: "same_core cc cc1 \<Longrightarrow> passes can_deploy E cc1 a s \<Longrightarrow> passes can_deploy E cc a s"
  unfolding passes_def by (blast intro: asked_core)

locale job_strategies =
  fixes can_deploy :: "'w env \<Rightarrow> 's \<Rightarrow> cluster_controller \<Rightarrow> agent \<Rightarrow> 'w
      \<Rightarrow> crash + 'w \<times> cluster_controller \<times> verdict"
    and name :: "'s \<Rightarrow> string"
  assumes can_deploy_core: "can_deploy E s cc a w = Inr (w', cc', v) \<Longrightarrow> same_core cc cc'"
begin

lemma run_core:
  "run_strategies (can_deploy E) name a ss cc w = Inr (w', cc', d) \<Longrightarrow> same_core cc cc'"
proof (induction ss arbitrary: cc w)
  case (Cons s ss)
  then obtain w1 cc1 flag reason args err where c: "can_deploy E s cc a w = Inr (w1, cc1, flag, reason, args, err)"
    by (auto simp: bindC_Inr_iff)
  note core = can_deploy_core [OF c]
  show ?case
  proof (cases "err = None \<and> flag = ConditionInapplicable")
    case True
    with Cons c have "same_core cc1 cc'" by simp
    with core show ?thesis by (rule same_core_trans)
  next
    case False
    with Cons.prems c core show ?thesis by (auto split: if_splits)
  qed
qed simp

text \<open>
  The loop passes over strategies that are inapplicable, and stops at the first one that fails,
  waits or has a job.
\<close>

lemma run_cases:
  assumes "run_strategies (can_deploy E) name a ss cc w = Inr (w', cc', d)"
  obtains (stop) pre s post flag reason args err where "ss = pre @ s # post"
      "\<forall>p \<in> set pre. passes can_deploy E cc a p"
      "asked can_deploy E cc a s (flag, reason, args, err)"
      "err \<noteq> None \<and> d = \<lparr>de_Job = nop_job ''Occurred internal error!'', de_Error = err, de_Phase = None\<rparr> \<or>
       err = None \<and> flag = ConditionNotConfirmed \<and> d = \<lparr>de_Job = nop_job reason, de_Error = None,
                           de_Phase = Some AgentDeploymentPhase_Deploying\<rparr> \<or>
       err = None \<and> flag = ConditionConfirmed \<and> d = \<lparr>de_Job = \<lparr>aj_Name = name s, aj_Arguments = args, aj_Reason = []\<rparr>,
                           de_Error = None, de_Phase = Some AgentDeploymentPhase_Deploying\<rparr>"
  | (finished) "\<forall>p \<in> set ss. passes can_deploy E cc a p"
      "d = \<lparr>de_Job = nop_job ''Waiting, no any operations should perform.'', de_Error = None,
                  de_Phase = Some AgentDeploymentPhase_Deployed\<rparr>"
  using assms
proof (induction ss arbitrary: cc w thesis)
  case Nil
  then show ?case by simp
next
  case (Cons s ss)
  from Cons.prems(3) obtain w1 cc1 flag reason args err
    where c: "can_deploy E s cc a w = Inr (w1, cc1, flag, reason, args, err)"
    by (auto simp: bindC_Inr_iff)
  then have ask: "asked can_deploy E cc a s (flag, reason, args, err)"
    unfolding asked_def using same_core_refl by blast
  note core = can_deploy_core [OF c]
  show ?case
  proof (cases "err = None \<and> flag = ConditionInapplicable")
    case True
    with Cons.prems(3) c have run: "run_strategies (can_deploy E) name a ss cc1 w1 = Inr (w', cc', d)" by simp
    from True ask have askd: "passes can_deploy E cc a s" unfolding passes_def by blast
    show ?thesis
    proof (rule Cons.IH [OF _ _ run])
      fix pre s' post flag reason args err
      assume "ss = pre @ s' # post"
        and "\<forall>p \<in> set pre. passes can_deploy E cc1 a p"
        and "asked can_deploy E cc1 a s' (flag, reason, args, err)"
        and d: "err \<noteq> None \<and> d = \<lparr>de_Job = nop_job ''Occurred internal error!'', de_Error = err, de_Phase = None\<rparr> \<or>
       err = None \<and> flag = ConditionNotConfirmed \<and> d = \<lparr>de_Job = nop_job reason, de_Error = None,
                           de_Phase = Some AgentDeploymentPhase_Deploying\<rparr> \<or>
       err = None \<and> flag = ConditionConfirmed \<and> d = \<lparr>de_Job = \<lparr>aj_Name = name s', aj_Arguments = args, aj_Reason = []\<rparr>,
                           de_Error = None, de_Phase = Some AgentDeploymentPhase_Deploying\<rparr>"
      then have "s # ss = (s # pre) @ s' # post" "\<forall>p \<in> set (s # pre). passes can_deploy E cc a p"
        "asked can_deploy E cc a s' (flag, reason, args, err)"
        using askd by (auto intro: asked_core [OF core] passes_core [OF core])
      from this d show thesis by (rule Cons.prems(1))
    next
      assume "\<forall>p \<in> set ss. passes can_deploy E cc1 a p"
        and "d = \<lparr>de_Job = nop_job ''Waiting, no any operations should perform.'', de_Error = None,
                  de_Phase = Some AgentDeploymentPhase_Deployed\<rparr>"
      then show thesis using askd by (intro Cons.prems(2)) (auto intro: passes_core [OF core])
    qed
  next
    case False
    with Cons.prems(3) c ask show ?thesis
      by (intro Cons.prems(1) [of "[]" s ss flag reason args err], simp_all split: if_splits)
         (cases flag; simp)+
  qed
qed

end

lemma looking_iff: "looking v cc w = Inr (w', cc', r) \<longleftrightarrow> v = Inr r \<and> w' = w \<and> cc' = cc"
  by (cases r) (auto simp: looking_def bindC_Inr_iff)

lemma same_core_fields [simp]:
  "same_core cc (cc'\<lparr>cc_nsc := x\<rparr>) \<longleftrightarrow> same_core cc cc'"
  "same_core cc (cc'\<lparr>cc_ddc := x\<rparr>) \<longleftrightarrow> same_core cc cc'"
  "same_core cc (cc'\<lparr>cc_edc := y\<rparr>) \<longleftrightarrow> same_core cc cc'"
  by (simp_all add: same_core_def)

lemma request_core:
  "Network_CanDeploy E cc w = Inr (w', cc', v) \<Longrightarrow> same_core cc cc'"
  "DNS_CanDeploy E cc w = Inr (w', cc', v) \<Longrightarrow> same_core cc cc'"
  "Extensibility_CanDeploy E cc w = Inr (w', cc', v) \<Longrightarrow> same_core cc cc'"
  by (auto simp: Network_CanDeploy_def DNS_CanDeploy_def Extensibility_CanDeploy_def bindC_Inr_iff
      Let_def split: option.splits prod.splits
      intro: same_core_trans [OF InitializeKubernetesClient_core] lazy_core
      dest!: InitializeKubernetesClient_core lazy_core dest: same_core_trans)

lemma Metrics_core:
  assumes "Metrics_CanDeploy E cc a w = Inr (w', cc', v)"
  shows "same_core cc cc'"
  using assms
  by (auto simp: Metrics_CanDeploy_def Let_def elim!: bindC_InrE
      split: if_splits option.splits prod.splits sum.splits dest!: InitializeKubernetesClient_core)

lemma CanDeploy_core: "CanDeploy E s cc a w = Inr (w', cc', v) \<Longrightarrow> same_core cc cc'"
  by (cases s) (auto simp: looking_iff EnableMonitors_CanDeploy_def bindC_Inr_iff
      intro: request_core Metrics_core EnableMonitors_core)

interpretation scheduler: job_strategies CanDeploy GetStrategyName
  by unfold_locales (rule CanDeploy_core)

section \<open>What the verdicts mean\<close>

lemma asked_looking:
  assumes "asked CanDeploy E cc a s v"
  shows "s = ClusterETCDJobStrategy \<Longrightarrow> \<exists>cc1 now. same_core cc cc1 \<and> ETCD_CanDeploy now cc1 a (cc_cache cc) = Inr v"
    and "s = ClusterKubernetesMasterJobStrategy \<Longrightarrow> \<exists>cc1. same_core cc cc1 \<and> Master_CanDeploy cc1 a (cc_cache cc) = Inr v"
    and "s = HAJobStrategy \<Longrightarrow> \<exists>cc1 now. same_core cc cc1 \<and> HA_CanDeploy now cc1 a (cc_cache cc) = Inr v"
    and "s = ClusterKubernetesMinionJobStrategy \<Longrightarrow> \<exists>cc1 now. same_core cc cc1 \<and> Minion_CanDeploy now cc1 a (cc_cache cc) = Inr v"
proof -
  from assms obtain cc1 w1 w2 cc2 where c: "same_core cc cc1" "CanDeploy E s cc1 a w1 = Inr (w2, cc2, v)"
    by (auto simp: asked_def)
  then have e: "cc_cache cc1 = cc_cache cc" by (simp add: same_core_def)
  { assume "s = ClusterETCDJobStrategy"
    with c e have "ETCD_CanDeploy (en_now E w1) cc1 a (cc_cache cc) = Inr v" by (simp add: looking_iff)
    with c(1) show "\<exists>cc1 now. same_core cc cc1 \<and> ETCD_CanDeploy now cc1 a (cc_cache cc) = Inr v" by blast }
  { assume "s = ClusterKubernetesMasterJobStrategy"
    with c e have "Master_CanDeploy cc1 a (cc_cache cc) = Inr v" by (simp add: looking_iff)
    with c(1) show "\<exists>cc1. same_core cc cc1 \<and> Master_CanDeploy cc1 a (cc_cache cc) = Inr v" by blast }
  { assume "s = HAJobStrategy"
    with c e have "HA_CanDeploy (en_now E w1) cc1 a (cc_cache cc) = Inr v" by (simp add: looking_iff)
    with c(1) show "\<exists>cc1 now. same_core cc cc1 \<and> HA_CanDeploy now cc1 a (cc_cache cc) = Inr v" by blast }
  { assume "s = ClusterKubernetesMinionJobStrategy"
    with c e have "Minion_CanDeploy (en_now E w1) cc1 a (cc_cache cc) = Inr v" by (simp add: looking_iff)
    with c(1) show "\<exists>cc1 now. same_core cc cc1 \<and> Minion_CanDeploy now cc1 a (cc_cache cc) = Inr v" by blast }
qed

lemma same_core_settings: "same_core cc cc1 \<Longrightarrow> GetSettings cc1 = GetSettings cc"
  by (simp add: same_core_def GetSettings_def)

definition enough_etcd :: "cluster_controller \<Rightarrow> bool" where
  "enough_etcd cc \<longleftrightarrow> (\<exists>ac. cc_cache cc = Some ac \<and>
     cs_ExpectedETCDCount (cc_settings cc) \<le> GetTotalProvisionedCountByRole AgentRole_ETCD ac)"

definition some_master :: "cluster_controller \<Rightarrow> bool" where
  "some_master cc \<longleftrightarrow> (\<exists>ac. cc_cache cc = Some ac \<and> 0 < GetTotalProvisionedCountByRole AgentRole_Master ac)"

text \<open>The agent has the role and its last report does not say that the role is provisioned.\<close>

definition outstanding :: "role \<Rightarrow> agent \<Rightarrow> bool" where
  "outstanding \<rho> a \<longleftrightarrow> has_role \<rho> a \<and> \<not> state_flag (provisioned \<rho>) a"

lemma state_field_iff: "state_field a f = Inr x \<longleftrightarrow> (\<exists>s. ag_State a = Some s \<and> f s = x)"
  by (auto simp: state_field_def split: option.splits)

lemma deref_iff: "deref p = Inr x \<longleftrightarrow> p = Some x"
  by (auto simp: deref_def split: option.splits)

lemma ETCD_verdicts:
  assumes "ETCD_CanDeploy now cc a cache = Inr (flag, reason, args, err)"
  shows "err = None"
    and "flag = ConditionInapplicable \<Longrightarrow> \<exists>ac. cache = Some ac \<and>
       cs_ExpectedETCDCount (GetSettings cc) \<le> GetTotalProvisionedCountByRole AgentRole_ETCD ac"
    and "flag = ConditionConfirmed \<Longrightarrow> outstanding RoleETCD a \<and> (\<exists>ac ips. cache = Some ac \<and>
       cs_ExpectedETCDCount (GetSettings cc) \<le> GetTotalCountByRole AgentRole_ETCD ac \<and>
       GetTotalProvisionedCountByRole AgentRole_ETCD ac < cs_ExpectedETCDCount (GetSettings cc) \<and>
       GetAgentsAddress now AgentRole_ETCD AgentStatusFlag_Whatever ac = Inr ips \<and>
       args = [(''addresses'', join '','' ips)])"
  using assms
  by (auto simp: ETCD_CanDeploy_def Let_def verdict_defs deref_iff state_field_iff outstanding_def
      provisioned_def state_flag_def elim!: bindC_InrE split: if_splits)

lemma Master_verdicts:
  assumes "Master_CanDeploy cc a cache = Inr (flag, reason, args, err)"
  shows "err = None"
    and "flag = ConditionInapplicable \<Longrightarrow> \<not> outstanding RoleMaster a \<and>
       (\<exists>ac. cache = Some ac \<and> 0 < GetTotalProvisionedCountByRole AgentRole_Master ac)"
    and "flag = ConditionConfirmed \<Longrightarrow> outstanding RoleMaster a"
  using assms
  by (auto simp: Master_CanDeploy_def Let_def verdict_defs deref_iff state_field_iff outstanding_def
      provisioned_def state_flag_def elim!: bindC_InrE split: if_splits)

lemma HA_verdicts:
  assumes "HA_CanDeploy now cc a cache = Inr (flag, reason, args, err)"
  shows "err = None"
    and "flag = ConditionInapplicable \<Longrightarrow> cs_HASettings (GetSettings cc) = None \<or> \<not> outstanding RoleHA a"
    and "flag = ConditionConfirmed \<Longrightarrow> outstanding RoleHA a \<and> cs_HASettings (GetSettings cc) \<noteq> None"
  using assms
  by (auto simp: HA_CanDeploy_def Let_def verdict_defs deref_iff state_field_iff outstanding_def
      provisioned_def state_flag_def elim!: bindC_InrE split: if_splits option.splits)

lemma Minion_verdicts:
  assumes "Minion_CanDeploy now cc a cache = Inr (flag, reason, args, err)"
  shows "err = None"
    and "flag = ConditionInapplicable \<Longrightarrow> \<not> outstanding RoleMinion a"
    and "flag = ConditionConfirmed \<Longrightarrow> outstanding RoleMinion a"
  using assms
  by (auto simp: Minion_CanDeploy_def Let_def verdict_defs deref_iff state_field_iff outstanding_def
      provisioned_def state_flag_def elim!: bindC_InrE split: if_splits option.splits)

lemma passes_ETCD: "passes CanDeploy E cc a ClusterETCDJobStrategy \<Longrightarrow> enough_etcd cc"
  unfolding passes_def enough_etcd_def
  using ETCD_verdicts(2) asked_looking(1) same_core_settings by (metis GetSettings_def)

lemma passes_Master: "passes CanDeploy E cc a ClusterKubernetesMasterJobStrategy \<Longrightarrow>
    some_master cc \<and> \<not> outstanding RoleMaster a"
  unfolding passes_def some_master_def
  using Master_verdicts(2) asked_looking(2) by metis

lemma passes_HA: "passes CanDeploy E cc a HAJobStrategy \<Longrightarrow>
    cs_HASettings (cc_settings cc) = None \<or> \<not> outstanding RoleHA a"
  unfolding passes_def
  using HA_verdicts(2) asked_looking(3) same_core_settings by (metis GetSettings_def)

lemma passes_Minion: "passes CanDeploy E cc a ClusterKubernetesMinionJobStrategy \<Longrightarrow> \<not> outstanding RoleMinion a"
  unfolding passes_def using Minion_verdicts(2) asked_looking(4) by metis

text \<open>The strategies that send requests never hand out a job.\<close>

lemma Network_no_job: "Network_CanDeploy E cc w = Inr (w', cc', flag, v) \<Longrightarrow> flag \<noteq> ConditionConfirmed"
  by (auto simp: Network_CanDeploy_def verdict_defs Let_def elim!: bindC_InrE split: option.splits prod.splits)

lemma DNS_no_job: "DNS_CanDeploy E cc w = Inr (w', cc', flag, v) \<Longrightarrow> flag \<noteq> ConditionConfirmed"
  by (auto simp: DNS_CanDeploy_def verdict_defs Let_def elim!: bindC_InrE split: option.splits prod.splits)

lemma Extensibility_no_job:
  "Extensibility_CanDeploy E cc w = Inr (w', cc', flag, v) \<Longrightarrow> flag \<noteq> ConditionConfirmed"
  by (auto simp: Extensibility_CanDeploy_def verdict_defs Let_def elim!: bindC_InrE
      split: option.splits prod.splits)

lemma Metrics_no_job: "Metrics_CanDeploy E cc a w = Inr (w', cc', flag, v) \<Longrightarrow> flag \<noteq> ConditionConfirmed"
  by (auto simp: Metrics_CanDeploy_def verdict_defs Let_def elim!: bindC_InrE
      split: option.splits prod.splits sum.splits if_splits)

lemma EnableMonitors_no_job: "EnableMonitors_CanDeploy cc = Inr (cc', flag, v) \<Longrightarrow> flag \<noteq> ConditionConfirmed"
  by (auto simp: EnableMonitors_CanDeploy_def verdict_defs elim!: bindC_InrE)

lemma asked_confirmed:
  assumes "asked CanDeploy E cc a s (ConditionConfirmed, reason, args, None)"
  shows "s = ClusterETCDJobStrategy \<and> outstanding RoleETCD a \<or>
     s = ClusterKubernetesMasterJobStrategy \<and> outstanding RoleMaster a \<or>
     s = HAJobStrategy \<and> outstanding RoleHA a \<and> cs_HASettings (cc_settings cc) \<noteq> None \<or>
     s = ClusterKubernetesMinionJobStrategy \<and> outstanding RoleMinion a"
proof -
  consider "s \<in> {ClusterETCDJobStrategy, ClusterKubernetesMasterJobStrategy, HAJobStrategy,
      ClusterKubernetesMinionJobStrategy}"
    | "s \<in> {ClusterKubernetesNetworkStackJobStrategy, ClusterKubernetesDNSJobStrategy,
      EnableMonitorsJobStrategy, ExtensibilityDeploymentJobStrategy, MetricsServerAddStaticRouteStrategy}"
    by (cases s) simp_all
  then show ?thesis
  proof cases
    case 1
    then show ?thesis
    proof (elim insertE emptyE)
      assume s: "s = ClusterETCDJobStrategy"
      with asked_looking(1) [OF assms s] show ?thesis by (auto dest: ETCD_verdicts(3))
    next
      assume s: "s = ClusterKubernetesMasterJobStrategy"
      with asked_looking(2) [OF assms s] show ?thesis by (auto dest: Master_verdicts(3))
    next
      assume s: "s = HAJobStrategy"
      with asked_looking(3) [OF assms s] show ?thesis
        by (auto simp: GetSettings_def same_core_def dest!: HA_verdicts(3))
    next
      assume s: "s = ClusterKubernetesMinionJobStrategy"
      with asked_looking(4) [OF assms s] show ?thesis by (auto dest: Minion_verdicts(3))
    qed
  next
    case 2
    with assms show ?thesis
      by (auto simp: asked_def elim!: bindC_InrE dest!: Network_no_job DNS_no_job Extensibility_no_job
          Metrics_no_job EnableMonitors_no_job)
  qed
qed

lemma strategy_before:
  assumes "InitializeStrategies = pre @ s # post"
  shows "s \<noteq> ClusterETCDJobStrategy \<Longrightarrow> ClusterETCDJobStrategy \<in> set pre"
    and "s \<noteq> ClusterETCDJobStrategy \<Longrightarrow> s \<noteq> ClusterKubernetesMasterJobStrategy \<Longrightarrow>
      ClusterKubernetesMasterJobStrategy \<in> set pre"
  using assms by (cases pre; cases "tl pre"; auto simp: InitializeStrategies_def)+

text \<open>The four outcomes of \<open>GetNextJob\<close> with the standard list of strategies.\<close>

lemma GetNextJob_cases:
  assumes "GetNextJob E cc a w = Inr (w', cc', d)" and "cc_strategies cc = InitializeStrategies"
  obtains (error) "de_Error d \<noteq> None" "de_Phase d = None" "aj_Name (de_Job d) = AgentJob_NOP"
  | (wait) "de_Error d = None" "de_Phase d = Some AgentDeploymentPhase_Deploying"
      "aj_Name (de_Job d) = AgentJob_NOP"
  | (job) pre s post reason args where "InitializeStrategies = pre @ s # post"
      "\<forall>p \<in> set pre. passes CanDeploy E cc a p"
      "asked CanDeploy E cc a s (ConditionConfirmed, reason, args, None)"
      "d = \<lparr>de_Job = \<lparr>aj_Name = GetStrategyName s, aj_Arguments = args, aj_Reason = []\<rparr>,
            de_Error = None, de_Phase = Some AgentDeploymentPhase_Deploying\<rparr>"
  | (finished) "\<forall>p \<in> set InitializeStrategies. passes CanDeploy E cc a p"
      "de_Error d = None" "de_Phase d = Some AgentDeploymentPhase_Deployed"
      "aj_Name (de_Job d) = AgentJob_NOP"
proof (cases "ag_State a")
  case None
  with assms show ?thesis
    by (intro error) (auto simp: GetNextJob_def InitializeStrategies_def nop_job_def)
next
  case (Some st)
  with assms have "run_strategies (CanDeploy E) GetStrategyName a InitializeStrategies cc w = Inr (w', cc', d)"
    by (simp add: GetNextJob_def InitializeStrategies_def)
  then show ?thesis
  proof (cases rule: scheduler.run_cases)
    case (stop pre s post flag reason args err)
    from stop(4) show ?thesis
    proof (elim disjE conjE)
      assume "flag = ConditionConfirmed" "err = None"
        and "d = \<lparr>de_Job = \<lparr>aj_Name = GetStrategyName s, aj_Arguments = args, aj_Reason = []\<rparr>,
            de_Error = None, de_Phase = Some AgentDeploymentPhase_Deploying\<rparr>"
      with stop(1-3) show ?thesis by (intro job) auto
    qed (rule error wait, auto simp: nop_job_def)+
  next
    case finished
    then show ?thesis by (intro that(4)) (auto simp: nop_job_def)
  qed
qed

section \<open>Properties\<close>

text \<open>
  C1: components are installed in order: no agent is told to deploy a Kubernetes master, a load
  balancer or a node before the expected number of etcd members is provisioned, and no load
  balancer or node before some master is.
\<close>

theorem job_order:
  assumes "GetNextJob E cc a w = Inr (w', cc', d)" and "cc_strategies cc = InitializeStrategies"
  shows "(aj_Name (de_Job d) \<in> {AgentJob_Deploy_Master, AgentJob_Deploy_HA, AgentJob_Deploy_Minion} \<longrightarrow>
       enough_etcd cc) \<and>
     (aj_Name (de_Job d) \<in> {AgentJob_Deploy_HA, AgentJob_Deploy_Minion} \<longrightarrow>
       some_master cc \<and> \<not> outstanding RoleMaster a)"
  using assms
proof (cases rule: GetNextJob_cases)
  case (job pre s post reason args)
  from asked_confirmed [OF job(3)] show ?thesis
    using strategy_before [OF job(1)] job(2,4) passes_ETCD [of E cc a] passes_Master [of E cc a] by auto
qed simp_all

text \<open>
  C34: an agent only ever receives one of four jobs, each only if it has the role and its last
  report does not say that the role is provisioned; every other decision is to do nothing.
\<close>

theorem job_for_role:
  assumes "GetNextJob E cc a w = Inr (w', cc', d)" and "cc_strategies cc = InitializeStrategies"
  shows "aj_Name (de_Job d) = AgentJob_NOP \<or>
     aj_Name (de_Job d) = AgentJob_Deploy_ETCD \<and> outstanding RoleETCD a \<or>
     aj_Name (de_Job d) = AgentJob_Deploy_Master \<and> outstanding RoleMaster a \<or>
     aj_Name (de_Job d) = AgentJob_Deploy_HA \<and> outstanding RoleHA a \<and> cs_HASettings (cc_settings cc) \<noteq> None \<or>
     aj_Name (de_Job d) = AgentJob_Deploy_Minion \<and> outstanding RoleMinion a"
  using assms
proof (cases rule: GetNextJob_cases)
  case (job pre s post reason args)
  from asked_confirmed [OF job(3)] job(4) show ?thesis by auto
qed simp_all

text \<open>
  The phase Deployed is reported only when there is nothing left to do: the cluster has its
  etcd members and a master, and none of the roles master, node and (with load balancer
  settings) load balancer of this agent is outstanding.
\<close>

theorem deployed_means_done:
  assumes "GetNextJob E cc a w = Inr (w', cc', d)" and "cc_strategies cc = InitializeStrategies"
    and "de_Phase d = Some AgentDeploymentPhase_Deployed"
  shows "enough_etcd cc \<and> some_master cc \<and> \<not> outstanding RoleMaster a \<and> \<not> outstanding RoleMinion a \<and>
     (cs_HASettings (cc_settings cc) \<noteq> None \<longrightarrow> \<not> outstanding RoleHA a) \<and> de_Error d = None"
  using assms(1,2)
proof (cases rule: GetNextJob_cases)
  case finished
  then show ?thesis
    using passes_ETCD [of E cc a] passes_Master [of E cc a] passes_HA [of E cc a] passes_Minion [of E cc a]
    by (auto simp: InitializeStrategies_def)
qed (use assms(3) in \<open>auto simp: phase_defs\<close>)

text \<open>
  Asking for a job never changes the agents, the certificates or the settings that the
  controller holds, and an error never moves the deployment phase.
\<close>

theorem next_job_frame:
  assumes "GetNextJob E cc a w = Inr (w', cc', d)"
  shows "cc_cache cc' = cc_cache cc \<and> cc_certs cc' = cc_certs cc \<and> cc_settings cc' = cc_settings cc \<and>
     cc_isDisposed cc' = cc_isDisposed cc \<and> (de_Error d \<noteq> None \<longrightarrow> de_Phase d = None)"
proof -
  have err: "de_Error d \<noteq> None \<longrightarrow> de_Phase d = None"
    if "run_strategies (CanDeploy E) GetStrategyName a ss cc w = Inr (w', cc', d)" for ss
    using that by (cases rule: scheduler.run_cases) auto
  have "same_core cc cc'"
    using assms scheduler.run_core by (auto simp: GetNextJob_def split: if_splits)
  with assms err show ?thesis
    by (auto simp: GetNextJob_def same_core_def split: if_splits)
qed

lemma indexOf_from_nth:
  "i < length xs \<Longrightarrow> distinct xs \<Longrightarrow> indexOf_from k (xs ! i) xs = k + int i"
proof (induction xs arbitrary: i k)
  case (Cons x xs)
  then show ?case by (cases i) auto
qed simp

lemma indexOf_inj:
  assumes "distinct xs" and "x \<in> set xs" and "y \<in> set xs" and "indexOf x xs = indexOf y xs"
  shows "x = y"
proof -
  from assms(2,3) obtain i j where "i < length xs" "x = xs ! i" "j < length xs" "y = xs ! j"
    by (auto simp: in_set_conv_nth)
  with assms(1,4) show ?thesis by (simp add: indexOf_def indexOf_from_nth)
qed

text \<open>
  The load balancers of a cluster get different priorities, in the range from 100 up, as long
  as no two of them report the same address: the priority is 100 plus the position of the agent's
  own address among the sorted addresses.
\<close>

theorem ha_priorities_distinct:
  assumes "distinct haIps" and "x \<in> set haIps" and "y \<in> set haIps" and "x \<noteq> y"
  shows "\<exists>i j. gm_get (ha_arguments hs x ms haIps) ''priority'' = Some (itoa i) \<and>
     gm_get (ha_arguments hs y ms haIps) ''priority'' = Some (itoa j) \<and>
     i \<noteq> j \<and> {i, j} \<subseteq> {100 ..< 100 + int (length haIps)}"
proof -
  have d: "distinct (sort haIps)" "x \<in> set (sort haIps)" "y \<in> set (sort haIps)"
    using assms by simp_all
  have r: "0 \<le> indexOf z (sort haIps) \<and> indexOf z (sort haIps) < int (length haIps)"
    if "z \<in> set haIps" for z
  proof -
    from that have "z \<in> set (sort haIps)" by simp
    then obtain i where "i < length (sort haIps)" "z = sort haIps ! i" by (metis in_set_conv_nth)
    with d(1) show ?thesis by (simp add: indexOf_def indexOf_from_nth)
  qed
  have "indexOf x (sort haIps) \<noteq> indexOf y (sort haIps)"
    using indexOf_inj [OF d] assms(4) by blast
  moreover have "gm_get (ha_arguments hs z ms haIps) ''priority'' = Some (itoa (100 + indexOf z (sort haIps)))" for z
    by (simp add: ha_arguments_def Let_def add.commute)
  ultimately show ?thesis using r [OF assms(2)] r [OF assms(3)]
    by (intro exI [of _ "100 + indexOf x (sort haIps)"] exI [of _ "100 + indexOf y (sort haIps)"]) simp
qed

theorem ha_priorities_distinct_witness:
  "\<exists>i j. gm_get (ha_arguments \<lparr>hs_VIP = ''10.0.0.9'', hs_RouterID = [], hs_NodeCount = 2\<rparr> ''10.0.0.2'' []
       [''10.0.0.2'', ''10.0.0.1'']) ''priority'' = Some (itoa i) \<and>
     gm_get (ha_arguments \<lparr>hs_VIP = ''10.0.0.9'', hs_RouterID = [], hs_NodeCount = 2\<rparr> ''10.0.0.1'' []
       [''10.0.0.2'', ''10.0.0.1'']) ''priority'' = Some (itoa j) \<and>
     i \<noteq> j \<and> {i, j} \<subseteq> {100 ..< 100 + int (length [''10.0.0.2'', ''10.0.0.1''])}"
  by (rule ha_priorities_distinct) simp_all

text \<open>
  An agent that is told to deploy etcd gets the addresses of all etcd agents of the cluster,
  sorted and separated by commas, so that splitting the argument at the commas gives them back;
  and there are at least as many as the cluster expects members.
\<close>

theorem etcd_job_addresses:
  assumes "GetNextJob E cc a w = Inr (w', cc', d)" and "cc_strategies cc = InitializeStrategies"
    and "aj_Name (de_Job d) = AgentJob_Deploy_ETCD" and "cc_cache cc = Some ac" and "cache_inv ac"
    and "\<And>b. view ac RoleETCD (ag_Id b) = Some b \<Longrightarrow> CHR '','' \<notin> set (last_ip b)"
    and "0 < cs_ExpectedETCDCount (cc_settings cc)"
  shows "\<exists>ips. aj_Arguments (de_Job d) = [(''addresses'', join '','' ips)] \<and> split_on CHR '','' (join '','' ips) = ips \<and>
     sorted ips \<and> set ips = {last_ip b | b. view ac RoleETCD (ag_Id b) = Some b} \<and>
     cs_ExpectedETCDCount (cc_settings cc) \<le> int (length ips)"
  using assms(1,2)
proof (cases rule: GetNextJob_cases)
  case (job pre s post reason args)
  then have s: "s = ClusterETCDJobStrategy" using assms(3) by (cases s) simp_all
  from asked_looking(1) [OF job(3) s] obtain cc1 now where c: "same_core cc cc1"
    "ETCD_CanDeploy now cc1 a (cc_cache cc) = Inr (ConditionConfirmed, reason, args, None)" by blast
  note v = ETCD_verdicts(3) [OF c(2) refl]
  then obtain ips where ips: "GetAgentsAddress now AgentRole_ETCD AgentStatusFlag_Whatever ac = Inr ips"
    "args = [(''addresses'', join '','' ips)]"
    and enough: "cs_ExpectedETCDCount (cc_settings cc) \<le> GetTotalCountByRole AgentRole_ETCD ac"
    using assms(4) same_core_settings [OF c(1)] by (auto simp: GetSettings_def)
  let ?as = "range_agents ac (ac_etcd ac)"
  have all: "\<forall>b \<in> set ?as. expFunc now AgentStatusFlag_Whatever RoleETCD b"
    using range_agents_in [OF assms(5), of _ RoleETCD]
    by (fastforce simp: expFunc_def expFunc_ETCD_def entry_ok_def)
  have ips': "ips = sort (map last_ip ?as)"
    using GetAgentsAddress_ok [OF assms(5), of AgentRole_ETCD RoleETCD now AgentStatusFlag_Whatever] ips(1) all
    by (simp add: filter_id_conv [THEN iffD2])
  have mem: "set ?as = {b. view ac RoleETCD (ag_Id b) = Some b}"
    using range_agents_iff [OF assms(5), of _ RoleETCD] by auto
  have len: "int (length ips) = GetTotalCountByRole AgentRole_ETCD ac"
    by (simp add: ips' GetTotalCountByRole_def)
  have ne: "ips \<noteq> []" using enough assms(7) len by auto
  have "split_on CHR '','' (join '','' ips) = ips"
    using ne assms(6) mem by (intro split_join) (auto simp: ips')
  with job(4) ips(2) ips' mem enough len show ?thesis by (intro exI [of _ ips]) auto
qed (use assms(3) in simp_all)

section \<open>Witnesses\<close>

definition sample_settings :: cluster_settings where
  "sample_settings = zero_settings\<lparr>cs_Id := ''c1'', cs_ExpectedETCDCount := 1,
     cs_NetworkStack := Some \<lparr>ts_Type = NetworkStack_KubeRouter, ts_Attributes = []\<rparr>,
     cs_DNSSettings := Some \<lparr>ts_Type = DNS_CoreDNS, ts_Attributes = []\<rparr>\<rparr>"

text \<open>
  A cluster with a provisioned etcd agent and a provisioned master, whose network and DNS were
  found installed, and one with neither.
\<close>

definition installed_dc :: deployment_controller where
  "installed_dc = new_dc\<lparr>dc_hasInstalled := True\<rparr>"

definition ready_cluster :: cluster_controller where
  "ready_cluster = new_controller\<lparr>cc_strategies := InitializeStrategies, cc_settings := sample_settings,
     cc_nsc := Some (Some installed_dc), cc_ddc := Some (Some installed_dc),
     cc_edc := Some \<lparr>ec_client = None, ec_settings = sample_settings, ec_controllers = []\<rparr>,
     cc_cache := Some (Online sample_master_agent (Online (sample_etcd ''n1'' ''10.0.0.1'') Initialize))\<rparr>"

definition fresh_etcd :: agent where
  "fresh_etcd = (sample_etcd ''n1'' ''10.0.0.1'')\<lparr>ag_State := Some (zero_state\<lparr>as_LastReportIP := ''10.0.0.1''\<rparr>)\<rparr>"

definition fresh_cluster :: cluster_controller where
  "fresh_cluster = new_controller\<lparr>cc_strategies := InitializeStrategies, cc_settings := sample_settings,
     cc_cache := Some (Online fresh_etcd Initialize)\<rparr>"

definition outcome :: "crash + 'w \<times> cluster_controller \<times> decision \<Rightarrow> (string \<times> int option) option" where
  "outcome r = (case r of Inl c \<Rightarrow> None | Inr (w, cc, d) \<Rightarrow> Some (aj_Name (de_Job d), de_Phase d))"

lemma outcome_Some: "outcome r = Some (n, p) \<longleftrightarrow>
    (\<exists>w cc d. r = Inr (w, cc, d) \<and> aj_Name (de_Job d) = n \<and> de_Phase d = p)"
  by (auto simp: outcome_def split: sum.splits)

definition new_master :: agent where
  "new_master = sample_master ''m2'' ''10.0.0.4''"

lemma run_new_master:
  "outcome (GetNextJob sim_env ready_cluster new_master sim_world) = Some (AgentJob_Deploy_Master, Some 1)"
  by code_simp

lemma run_ready:
  "outcome (GetNextJob sim_env ready_cluster (sample_etcd ''n1'' ''10.0.0.1'') sim_world) =
     Some (AgentJob_NOP, Some 2)"
  by code_simp

lemma run_fresh:
  "outcome (GetNextJob sim_env fresh_cluster fresh_etcd sim_world) = Some (AgentJob_Deploy_ETCD, Some 1)"
  by code_simp

lemma sample_strategies: "cc_strategies ready_cluster = InitializeStrategies"
    "cc_strategies fresh_cluster = InitializeStrategies"
  by (simp_all add: ready_cluster_def fresh_cluster_def)

theorem job_order_witness: "enough_etcd ready_cluster"
proof -
  obtain w cc d where g: "GetNextJob sim_env ready_cluster new_master sim_world = Inr (w, cc, d)"
    "aj_Name (de_Job d) = AgentJob_Deploy_Master"
    using run_new_master by (auto simp: outcome_Some)
  from job_order [OF g(1) sample_strategies(1)] g(2) show ?thesis by simp
qed

theorem job_for_role_witness: "outstanding RoleMaster new_master"
proof -
  obtain w cc d where "GetNextJob sim_env ready_cluster new_master sim_world = Inr (w, cc, d)"
    "aj_Name (de_Job d) = AgentJob_Deploy_Master"
    using run_new_master by (auto simp: outcome_Some)
  with job_for_role [OF _ sample_strategies(1)] show ?thesis by fastforce
qed

theorem deployed_means_done_witness: "enough_etcd ready_cluster \<and> some_master ready_cluster"
proof -
  obtain w cc d where g: "GetNextJob sim_env ready_cluster (sample_etcd ''n1'' ''10.0.0.1'') sim_world = Inr (w, cc, d)"
    "de_Phase d = Some AgentDeploymentPhase_Deployed"
    using run_ready by (auto simp: outcome_Some phase_defs)
  from deployed_means_done [OF g(1) sample_strategies(1) g(2)] show ?thesis by simp
qed

theorem next_job_frame_witness:
  "\<exists>w cc d. GetNextJob sim_env ready_cluster new_master sim_world = Inr (w, cc, d) \<and>
     cc_cache cc = cc_cache ready_cluster"
proof -
  obtain w cc d where g: "GetNextJob sim_env ready_cluster new_master sim_world = Inr (w, cc, d)"
    using run_new_master by (auto simp: outcome_Some)
  from next_job_frame [OF g] g show ?thesis by blast
qed

theorem etcd_job_addresses_witness:
  "\<exists>w cc d. GetNextJob sim_env fresh_cluster fresh_etcd sim_world = Inr (w, cc, d) \<and>
     (\<exists>ips. aj_Arguments (de_Job d) = [(''addresses'', join '','' ips)] \<and> 1 \<le> length ips)"
proof -
  obtain w cc d where g: "GetNextJob sim_env fresh_cluster fresh_etcd sim_world = Inr (w, cc, d)"
    "aj_Name (de_Job d) = AgentJob_Deploy_ETCD"
    using run_fresh by (auto simp: outcome_Some)
  let ?ac = "Online fresh_etcd Initialize"
  have st: "ag_State fresh_etcd \<noteq> None" by (simp add: fresh_etcd_def)
  have inv: "cache_inv ?ac" by (intro cache_inv_Online cache_inv_Initialize st)
  have "b = fresh_etcd" if "view ?ac RoleETCD (ag_Id b) = Some b" for b
    using that by (auto simp: view_Online cache_inv_Initialize split: if_splits) (simp_all add: view_def)
  moreover have "CHR '','' \<notin> set (last_ip fresh_etcd)" by (simp add: last_ip_def fresh_etcd_def)
  ultimately have ips: "CHR '','' \<notin> set (last_ip b)" if "view ?ac RoleETCD (ag_Id b) = Some b" for b
    using that by metis
  have cache: "cc_cache fresh_cluster = Some ?ac"
    and n: "cs_ExpectedETCDCount (cc_settings fresh_cluster) = 1"
    by (simp_all add: fresh_cluster_def sample_settings_def)
  from etcd_job_addresses [OF g(1) sample_strategies(2) g(2) cache inv ips] n g(1)
  show ?thesis by fastforce
qed

end
