(* ===== verification/ClusterManager.thy ===== *)
theory ClusterManager
  imports Scheduler
begin

text \<open>
  \<open>pkg/cache/cluster_manager.go\<close> and \<open>transfer_agent.go\<close>: the map of all clusters of an API server
  and the goroutines that follow etcd.

  Cluster controllers are shared by pointer: the map \<open>clusters\<close> holds one, the goroutine
  \<open>watchChanges\<close> of the cluster holds it too, also after the cluster left the map. \<open>cm_heap\<close> holds
  the controllers under their references. One turn of a watching goroutine is one function over
  the response it received (\<open>watchChanges_turn\<close>, \<open>watchClusterChanges_turn\<close>); logging is dropped.
  \<open>cm_watchFrom\<close> is the revision from which the watch on all clusters was opened.
\<close>

section \<open>State\<close>

record cluster_manager =
  cm_clusters :: "(string, nat) gomap"
  cm_heap :: "nat \<Rightarrow> cluster_controller"
  cm_next :: nat
  cm_watchFrom :: "int option"

datatype event_type = EventTypePut | EventTypeDelete

record watch_event =
  ev_Type :: event_type
  ev_Key :: string
  ev_Value :: string

definition new_manager :: cluster_manager where
  "new_manager = \<lparr>cm_clusters = [], cm_heap = (\<lambda>_. new_controller), cm_next = 0, cm_watchFrom = None\<rparr>"

text \<open>\<open>&ClusterControllerImple{}\<close>, and writing through a reference.\<close>

definition alloc :: "cluster_controller \<Rightarrow> cluster_manager \<Rightarrow> nat \<times> cluster_manager" where
  "alloc cc cm = (cm_next cm, cm\<lparr>cm_heap := (cm_heap cm)(cm_next cm := cc), cm_next := cm_next cm + 1\<rparr>)"

definition store_cc :: "nat \<Rightarrow> cluster_controller \<Rightarrow> cluster_manager \<Rightarrow> cluster_manager" where
  "store_cc r cc cm = cm\<lparr>cm_heap := (cm_heap cm)(r := cc)\<rparr>"

section \<open>Lookups\<close>

definition GetClusterById :: "string \<Rightarrow> cluster_manager \<Rightarrow> error + nat" where
  "GetClusterById clusterId cm =
     (case gm_get (cm_clusters cm) clusterId of
        None \<Rightarrow> Inl (ENotFound clusterId)
      | Some r \<Rightarrow> Inr r)"

definition GetClusterCertificates :: "string \<Rightarrow> cluster_manager \<Rightarrow> error + cert_pair list" where
  "GetClusterCertificates clusterId cm =
     (case gm_get (cm_clusters cm) clusterId of
        None \<Rightarrow> Inl (ENotFound clusterId)
      | Some r \<Rightarrow> Inr (GetCertificates (cm_heap cm r)))"

definition GetClusterCertificateByName :: "string \<Rightarrow> string \<Rightarrow> cluster_manager \<Rightarrow> error + string" where
  "GetClusterCertificateByName clusterId certName cm =
     (case gm_get (cm_clusters cm) clusterId of
        None \<Rightarrow> Inl (ENotFound clusterId)
      | Some r \<Rightarrow> Inr (GetCertificateContent (GetCertificates (cm_heap cm r)) certName))"

definition CM_GetAgentFromETCD ::
  "'w env \<Rightarrow> string \<Rightarrow> string \<Rightarrow> cluster_manager \<Rightarrow> 'w \<Rightarrow> crash + 'w \<times> (error + agent option)" where
  "CM_GetAgentFromETCD E clusterId agentId cm w =
     (if agentId = [] then Inr (w, Inr None)
      else case GetClusterById clusterId cm of
             Inl e \<Rightarrow> Inr (w, Inl e)
           | Inr r \<Rightarrow> CC_GetAgentFromETCD E (GetClusterId (cm_heap cm r)) agentId w)"

section \<open>Registration of a cluster\<close>

definition createKeyIfNotExists :: "'w env \<Rightarrow> string \<Rightarrow> string \<Rightarrow> 'w \<Rightarrow> 'w \<times> error option" where
  "createKeyIfNotExists E path v w = sd_TxnCreate (en_driver E) w path v"

fun create_keys :: "'w env \<Rightarrow> string list \<Rightarrow> 'w \<Rightarrow> 'w \<times> error option" where
  "create_keys E [] w = (w, None)"
| "create_keys E (k # ks) w =
     (case createKeyIfNotExists E k [] w of
        (w', Some e) \<Rightarrow> (w', Some (EWrap k e))
      | (w', None) \<Rightarrow> create_keys E ks w')"

text \<open>
  The loop that gathers the agents of a cluster from the listing of their keys. A value that does
  not parse is skipped, and so is a state whose settings were not seen before it.
\<close>

definition collect_key :: "codec \<Rightarrow> string list \<Rightarrow> string \<Rightarrow> (string, agent) gomap \<Rightarrow> crash + (string, agent) gomap" where
  "collect_key c ks v agents =
     bindC (andC (key_at ks 0 ''lightning-monkey'')
             (andC (key_at ks 1 ''clusters'') (key_at ks 3 ''agents''))) (\<lambda>b.
       if \<not> b then Inr agents
       else bindC (idx ks (from_end ks 1)) (\<lambda>leaf.
         if leaf = ''settings''
         then (case unm_agent c v of
                 Inl e \<Rightarrow> Inr agents
               | Inr a \<Rightarrow> bindC (idx ks 4) (\<lambda>aid. Inr (gm_put aid a agents)))
         else if leaf = ''state''
         then (case unm_state c v of
                 Inl e \<Rightarrow> Inr agents
               | Inr s \<Rightarrow> bindC (idx ks 4) (\<lambda>aid.
                   case gm_get agents aid of
                     None \<Rightarrow> Inr agents
                   | Some a \<Rightarrow> Inr (gm_put aid (a\<lparr>ag_State := Some s\<rparr>) agents)))
         else Inr agents))"

fun collect_agents ::
  "codec \<Rightarrow> (string \<times> string) list \<Rightarrow> (string, agent) gomap \<Rightarrow> crash + (string, agent) gomap" where
  "collect_agents c [] agents = Inr agents"
| "collect_agents c ((k, v) # kvs) agents =
     bindC (collect_key c (slash_fields k) v agents) (collect_agents c kvs)"

text \<open>\<open>for _, agent := range agents { _ = cc.OnAgentChanged(*agent, false) }\<close>.\<close>

fun announce :: "agent list \<Rightarrow> cluster_controller \<Rightarrow> crash + cluster_controller" where
  "announce [] cc = Inr cc"
| "announce (a # as) cc = bindC (OnAgentChanged a False cc) (\<lambda>(cc', e). announce as cc')"

definition doRegister ::
  "'w env \<Rightarrow> cluster_controller \<Rightarrow> 'w \<Rightarrow> crash + 'w \<times> cluster_controller \<times> error option" where
  "doRegister E cc w =
     (let clusterPath = cluster_path (GetClusterId cc);
          agentsPath = clusterPath @ ''/agents'' in
      case create_keys E [clusterPath, agentsPath, clusterPath @ ''/certificates''] w of
        (w1, Some e) \<Rightarrow> Inr (w1, cc, Some e)
      | (w1, None) \<Rightarrow>
        (case sd_Get (en_driver E) w1 (agentsPath @ ''/'') True of
           (w2, Inl e) \<Rightarrow> Inr (w2, cc, Some (EWrap agentsPath e))
         | (w2, Inr rsp) \<Rightarrow>
           bindC (if gr_Count rsp > 0 then collect_agents (en_codec E) (gr_Kvs rsp) [] else Inr []) (\<lambda>agents.
           bindC (announce (map snd (en_visit E agents)) (SetSynchronizedRevision (gr_Revision rsp) cc)) (\<lambda>cc1.
             Inr (sd_Watch (en_driver E) w2 (clusterPath @ ''/''), SetCancellationFunc cc1, None)))))"

definition Register ::
  "'w env \<Rightarrow> nat \<Rightarrow> cluster_manager \<Rightarrow> 'w \<Rightarrow> crash + 'w \<times> cluster_manager \<times> error option" where
  "Register E r cm w =
     (let clusterId = GetClusterId (cm_heap cm r) in
      if clusterId = [] then Inr (w, cm, Some (ERequiredField ''cluster identity''))
      else bindC (doRegister E (cm_heap cm r) w) (\<lambda>(w', cc', e).
             let cm' = store_cc r cc' cm in
             case e of
               Some err \<Rightarrow> Inr (w', cm', Some err)
             | None \<Rightarrow> Inr (w', cm'\<lparr>cm_clusters := gm_put clusterId r (cm_clusters cm')\<rparr>, None)))"

section \<open>Changes of clusters\<close>

definition new_cluster :: "cluster_settings \<Rightarrow> cluster_controller" where
  "new_cluster settings = UpdateClusterSettings settings new_controller"

definition doClusterChange ::
  "'w env \<Rightarrow> string \<Rightarrow> string \<Rightarrow> bool \<Rightarrow> cluster_manager \<Rightarrow> 'w \<Rightarrow> crash + 'w \<times> cluster_manager \<times> error option" where
  "doClusterChange E clusterId v isDeleted cm w =
     (if isDeleted
      then (case gm_get (cm_clusters cm) clusterId of
              None \<Rightarrow> Inr (w, cm, None)
            | Some r \<Rightarrow> Inr (w, (store_cc r (Dispose (cm_heap cm r)) cm)
                                  \<lparr>cm_clusters := gm_del clusterId (cm_clusters cm)\<rparr>, None))
      else case unm_settings (en_codec E) v of
             Inl e \<Rightarrow> Inr (w, cm, Some e)
           | Inr settings \<Rightarrow>
             (case gm_get (cm_clusters cm) clusterId of
                Some r \<Rightarrow> Inr (w, store_cc r (UpdateClusterSettings settings (cm_heap cm r)) cm, None)
              | None \<Rightarrow>
                bindC (CC_Initialize E (new_cluster settings) w) (\<lambda>(w1, cc1).
                bindC (doRegister E cc1 w1) (\<lambda>(w2, cc2, e).
                  let (r, cm2) = alloc cc2 cm in
                  case e of
                    Some err \<Rightarrow> Inr (w2, cm2, Some err)
                  | None \<Rightarrow> Inr (w2, cm2\<lparr>cm_clusters := gm_put clusterId r (cm_clusters cm2)\<rparr>, None)))))"

fun sync_clusters ::
  "'w env \<Rightarrow> (string \<times> string) list \<Rightarrow> cluster_manager \<Rightarrow> 'w \<Rightarrow> crash + 'w \<times> cluster_manager \<times> error option" where
  "sync_clusters E [] cm w = Inr (w, cm, None)"
| "sync_clusters E ((k, v) # kvs) cm w =
     bindC (isClusterChanged (slash_fields k)) (\<lambda>r.
       case r of
         None \<Rightarrow> sync_clusters E kvs cm w
       | Some clusterId \<Rightarrow>
         bindC (doClusterChange E clusterId v False cm w) (\<lambda>(w1, cm1, e).
           case e of
             Some err \<Rightarrow> Inr (w1, cm1, Some (EWrap k err))
           | None \<Rightarrow> sync_clusters E kvs cm1 w1))"

definition CM_fullSync ::
  "'w env \<Rightarrow> cluster_manager \<Rightarrow> 'w \<Rightarrow> crash + 'w \<times> cluster_manager \<times> (error + int)" where
  "CM_fullSync E cm w =
     (case sd_Get (en_driver E) w clusters_prefix True of
        (w1, Inl e) \<Rightarrow> Inr (w1, cm, Inl e)
      | (w1, Inr rsp) \<Rightarrow>
        (if gr_Count rsp = 0 then Inr (w1, cm, Inr (gr_Revision rsp))
         else bindC (sync_clusters E (gr_Kvs rsp) cm w1) (\<lambda>(w2, cm2, e).
                case e of
                  Some err \<Rightarrow> Inr (w2, cm2, Inl err)
                | None \<Rightarrow> Inr (w2, cm2, Inr (gr_Revision rsp)))))"

definition watchClusterChanges :: "'w env \<Rightarrow> int \<Rightarrow> cluster_manager \<Rightarrow> 'w \<Rightarrow> 'w \<times> cluster_manager" where
  "watchClusterChanges E revision cm w =
     (sd_Watch (en_driver E) w clusters_prefix, cm\<lparr>cm_watchFrom := Some revision\<rparr>)"

definition CM_Initialize :: "'w env \<Rightarrow> cluster_manager \<Rightarrow> 'w \<Rightarrow> crash + 'w \<times> cluster_manager \<times> error option" where
  "CM_Initialize E cm w =
     bindC (CM_fullSync E (cm\<lparr>cm_clusters := []\<rparr>) w) (\<lambda>(w1, cm1, r).
       case r of
         Inl e \<Rightarrow> Inr (w1, cm1, Some (EWrap ''fully sync'' e))
       | Inr revision \<Rightarrow> (case watchClusterChanges E revision cm1 w1 of (w2, cm2) \<Rightarrow> Inr (w2, cm2, None)))"

text \<open>What the goroutine that \<open>watchClusterChanges\<close> starts does with one response.\<close>

fun watchClusterChanges_turn ::
  "'w env \<Rightarrow> watch_event list \<Rightarrow> cluster_manager \<Rightarrow> 'w \<Rightarrow> crash + 'w \<times> cluster_manager" where
  "watchClusterChanges_turn E [] cm w = Inr (w, cm)"
| "watchClusterChanges_turn E (ev # evs) cm w =
     bindC (isClusterChanged (slash_fields (ev_Key ev))) (\<lambda>r.
       case r of
         None \<Rightarrow> watchClusterChanges_turn E evs cm w
       | Some clusterId \<Rightarrow>
         bindC (doClusterChange E clusterId (ev_Value ev) (ev_Type ev = EventTypeDelete) cm w)
           (\<lambda>(w1, cm1, e). watchClusterChanges_turn E evs cm1 w1))"

section \<open>Changes of agents and certificates\<close>

text \<open>
  The agent half of the body of the event loop of \<open>watchChanges\<close>. The Boolean tells whether the
  certificate half is reached, which a \<open>continue\<close> skips.
\<close>

definition agent_event ::
  "'w env \<Rightarrow> nat \<Rightarrow> watch_event \<Rightarrow> cluster_manager \<Rightarrow> 'w \<Rightarrow> crash + 'w \<times> cluster_manager \<times> bool" where
  "agent_event E r ev cm w =
     bindC (isAgentChanged (slash_fields (ev_Key ev))) (\<lambda>ch.
       case ch of
         None \<Rightarrow> Inr (w, cm, True)
       | Some agentId \<Rightarrow>
         bindC (CM_GetAgentFromETCD E (GetClusterId (cm_heap cm r)) agentId cm w) (\<lambda>(w1, g).
           case g of
             Inl e \<Rightarrow> Inr (w1, cm, False)
           | Inr None \<Rightarrow> Inr (w1, cm, False)
           | Inr (Some agent) \<Rightarrow>
             bindC (OnAgentChanged agent (ev_Type ev = EventTypeDelete) (cm_heap cm r)) (\<lambda>(cc', e).
               Inr (w1, store_cc r cc' cm, e = None))))"

definition certificate_event :: "nat \<Rightarrow> watch_event \<Rightarrow> cluster_manager \<Rightarrow> crash + cluster_manager" where
  "certificate_event r ev cm =
     bindC (isCertificatesChanged (slash_fields (ev_Key ev))) (\<lambda>ch.
       case ch of
         None \<Rightarrow> Inr cm
       | Some certKey \<Rightarrow>
         (if ev_Value ev = [] then Inr cm
          else Inr (store_cc r (fst (OnCertificateChanged certKey (ev_Value ev)
                     (ev_Type ev = EventTypeDelete) (cm_heap cm r))) cm)))"

fun handle_events ::
  "'w env \<Rightarrow> nat \<Rightarrow> watch_event list \<Rightarrow> cluster_manager \<Rightarrow> 'w \<Rightarrow> crash + 'w \<times> cluster_manager" where
  "handle_events E r [] cm w = Inr (w, cm)"
| "handle_events E r (ev # evs) cm w =
     bindC (agent_event E r ev cm w) (\<lambda>(w1, cm1, go_on).
       if go_on then bindC (certificate_event r ev cm1) (\<lambda>cm2. handle_events E r evs cm2 w1)
       else handle_events E r evs cm1 w1)"

definition watchChanges_turn ::
  "'w env \<Rightarrow> nat \<Rightarrow> int \<Rightarrow> watch_event list \<Rightarrow> cluster_manager \<Rightarrow> 'w \<Rightarrow> crash + 'w \<times> cluster_manager" where
  "watchChanges_turn E r revision evs cm w =
     (if evs = [] then Inr (w, cm)
      else if revision \<le> GetSynchronizedRevision (cm_heap cm r) then Inr (w, cm)
      else handle_events E r evs cm w)"

section \<open>Moving an agent: transfer\_agent.go\<close>

definition RemoveAgentFromETCD :: "'w env \<Rightarrow> string \<Rightarrow> string \<Rightarrow> 'w \<Rightarrow> 'w \<times> error option" where
  "RemoveAgentFromETCD E clusterId agentId w =
     (case sd_Delete (en_driver E) w (agent_state_path clusterId agentId) of
        (w1, Some e) \<Rightarrow> (w1, Some e)
      | (w1, None) \<Rightarrow>
        (case sd_Delete (en_driver E) w1 (agent_settings_path clusterId agentId) of
           (w2, Some e) \<Rightarrow> (w2, Some e)
         | (w2, None) \<Rightarrow> sd_Delete (en_driver E) w2 (agent_path clusterId agentId)))"

definition bool_json :: "bool \<Rightarrow> string" where
  "bool_json b = (if b then ''true'' else ''false'')"

definition change_json :: "change_request \<Rightarrow> string" where
  "change_json gr = json_object [(''old_cluster_id'', json_string (cr_OldClusterId gr)),
     (''new_cluster_id'', json_string (cr_NewClusterId gr)), (''is_etcd_role'', bool_json (cr_IsETCDRole gr)),
     (''is_master_role'', bool_json (cr_IsMasterRole gr)), (''is_minion_role'', bool_json (cr_IsMinionRole gr)),
     (''is_ha_role'', bool_json (cr_IsHARole gr))]"

definition changeAgentCluster :: "'w env \<Rightarrow> agent \<Rightarrow> change_request \<Rightarrow> 'w \<Rightarrow> crash + 'w \<times> error option" where
  "changeAgentCluster E agent gr w =
     bindC (deref (ag_State agent)) (\<lambda>st.
       Inr (post_to_agent E st (ag_ListenPort agent) ''/registration/change'' (change_json gr) w))"

definition TransferAgentToCluster :: "'w env \<Rightarrow> agent \<Rightarrow> change_request \<Rightarrow> 'w \<Rightarrow> crash + 'w \<times> error option" where
  "TransferAgentToCluster E agent gr w =
     (case RemoveAgentFromETCD E (cr_OldClusterId gr) (ag_Id agent) w of
        (w1, Some e) \<Rightarrow> Inr (w1, Some (EWrap (ag_Id agent) e))
      | (w1, None) \<Rightarrow>
        bindC (changeAgentCluster E agent gr w1) (\<lambda>(w2, r).
          Inr (w2, map_option (EWrap (ag_Id agent)) r)))"

section \<open>The listing of the agents\<close>

text \<open>
  What the store says about an agent: its settings, with the state if there is one that parses.
\<close>

definition with_state :: "codec \<Rightarrow> string option \<Rightarrow> agent \<Rightarrow> agent" where
  "with_state c t a = (case t of None \<Rightarrow> a
     | Some v \<Rightarrow> (case unm_state c v of Inl e \<Rightarrow> a | Inr st \<Rightarrow> a\<lparr>ag_State := Some st\<rparr>))"

definition stored_agent :: "codec \<Rightarrow> (string \<rightharpoonup> string) \<Rightarrow> string \<Rightarrow> string \<Rightarrow> agent option" where
  "stored_agent c kv cid aid =
     (case kv (agent_settings_path cid aid) of
        None \<Rightarrow> None
      | Some s \<Rightarrow> (case unm_agent c s of
          Inl e \<Rightarrow> None
        | Inr a \<Rightarrow> Some (with_state c (kv (agent_state_path cid aid)) a)))"

text \<open>A key below the agents of a cluster that the API servers and agents write.\<close>

definition agents_prefix :: "string \<Rightarrow> string" where
  "agents_prefix cid = cluster_path cid @ ''/agents/''"

definition agent_key :: "string \<Rightarrow> string \<Rightarrow> bool" where
  "agent_key cid k \<longleftrightarrow> is_prefix (agents_prefix cid) k \<and>
     ((\<exists>aid. seg aid \<and> (k = agent_settings_path cid aid \<or> k = agent_state_path cid aid)) \<or>
      last (slash_fields k) \<notin> {''settings'', ''state''})"

text \<open>The effect of one key on the entry of one agent.\<close>

definition key_effect :: "codec \<Rightarrow> string \<Rightarrow> string \<Rightarrow> string \<times> string \<Rightarrow> agent option \<Rightarrow> agent option" where
  "key_effect c cid aid kv cur =
     (if fst kv = agent_settings_path cid aid
      then (case unm_agent c (snd kv) of Inl e \<Rightarrow> cur | Inr a \<Rightarrow> Some a)
      else if fst kv = agent_state_path cid aid then map_option (with_state c (Some (snd kv))) cur
      else cur)"

lemma path_inj [simp]:
  "agent_settings_path cid a = agent_settings_path cid b \<longleftrightarrow> a = b"
  "agent_state_path cid a = agent_state_path cid b \<longleftrightarrow> a = b"
  by (simp_all add: path_defs)

lemma path_leaf:
  assumes "seg cid" "seg a" "seg b"
  shows "agent_settings_path cid a \<noteq> agent_state_path cid b" "agent_state_path cid b \<noteq> agent_settings_path cid a"
  using slash_fields_settings [OF assms(1,2)] slash_fields_state [OF assms(1,3)] by auto

lemma collect_settings:
  assumes "seg cid" "seg aid"
  shows "collect_key c (slash_fields (agent_settings_path cid aid)) v m =
     (case unm_agent c v of Inl e \<Rightarrow> Inr m | Inr a \<Rightarrow> Inr (gm_put aid a m))"
  using assms by (simp add: collect_key_def slash_fields_settings classify_defs split: sum.splits)

lemma collect_state:
  assumes "seg cid" "seg aid"
  shows "collect_key c (slash_fields (agent_state_path cid aid)) v m =
     (case unm_state c v of Inl e \<Rightarrow> Inr m | Inr s \<Rightarrow>
        (case gm_get m aid of None \<Rightarrow> Inr m | Some a \<Rightarrow> Inr (gm_put aid (a\<lparr>ag_State := Some s\<rparr>) m)))"
  using assms by (simp add: collect_key_def slash_fields_state classify_defs split: sum.splits option.splits)

lemma idx_last: "ks \<noteq> [] \<Longrightarrow> idx ks (from_end ks 1) = Inr (last ks)"
proof -
  assume "ks \<noteq> []"
  then have "nat (int (length ks) - 1) = length ks - 1" and "0 \<le> int (length ks) - 1"
    by (simp_all add: Suc_le_eq)
  with \<open>ks \<noteq> []\<close> show ?thesis by (simp add: idx_def from_end_def last_conv_nth)
qed

lemma slash_fields_agents:
  assumes "seg cid" "is_prefix (agents_prefix cid) k"
  shows "\<exists>r. slash_fields k = ''lightning-monkey'' # ''clusters'' # cid # ''agents'' # r"
proof -
  obtain r where "k = agents_prefix cid @ r" using assms(2) by (auto simp: is_prefix_iff)
  then have "k = clusters_prefix @ cid @ CHR ''/'' # ''agents'' @ CHR ''/'' # r"
    by (simp add: agents_prefix_def cluster_path_def)
  moreover have "seg ''agents''" by (simp add: seg_def)
  ultimately show ?thesis using assms(1) by (simp only: slash_fields_cluster seg_simps) simp
qed

lemma collect_other:
  assumes "seg cid" "is_prefix (agents_prefix cid) k" "last (slash_fields k) \<notin> {''settings'', ''state''}"
  shows "collect_key c (slash_fields k) v m = Inr m"
proof -
  obtain r where r: "slash_fields k = ''lightning-monkey'' # ''clusters'' # cid # ''agents'' # r"
    using slash_fields_agents [OF assms(1,2)] by blast
  then have "idx (slash_fields k) (from_end (slash_fields k) 1) = Inr (last (slash_fields k))"
    by (intro idx_last) simp
  with assms(3) show ?thesis
    by (simp add: collect_key_def) (simp add: r andC_def key_at_def idx_def)
qed

lemma last_settings: "seg cid \<Longrightarrow> seg aid \<Longrightarrow> last (slash_fields (agent_settings_path cid aid)) = ''settings''"
    and last_state: "seg cid \<Longrightarrow> seg aid \<Longrightarrow> last (slash_fields (agent_state_path cid aid)) = ''state''"
  by (simp_all add: slash_fields_settings slash_fields_state)

lemma collect_key_effect:
  assumes "seg cid" and "agent_key cid k"
  shows "\<exists>m'. collect_key c (slash_fields k) v m = Inr m' \<and> (gm_wf m \<longrightarrow> gm_wf m') \<and>
     (\<forall>aid. seg aid \<longrightarrow> gm_get m' aid = key_effect c cid aid (k, v) (gm_get m aid)) \<and>
     fst ` set m' \<subseteq> fst ` set m \<union> {aid. seg aid}"
proof (cases "last (slash_fields k) \<notin> {''settings'', ''state''}")
  case True
  then have "k \<noteq> agent_settings_path cid aid \<and> k \<noteq> agent_state_path cid aid" if "seg aid" for aid
    using last_settings [OF assms(1) that] last_state [OF assms(1) that] by auto
  with True assms show ?thesis
    by (auto simp: collect_other agent_key_def key_effect_def)
next
  case False
  with assms(2) obtain aid where aid: "seg aid" "k = agent_settings_path cid aid \<or> k = agent_state_path cid aid"
    by (auto simp: agent_key_def)
  have ne: "agent_settings_path cid a \<noteq> agent_state_path cid b" "agent_state_path cid b \<noteq> agent_settings_path cid a"
    if "seg a" "seg b" for a b
    using path_leaf [OF assms(1) that] by blast+
  from aid(2) show ?thesis
  proof
    assume k: "k = agent_settings_path cid aid"
    show ?thesis
    proof (cases "unm_agent c v")
      case (Inl e)
      then show ?thesis using aid(1) assms(1) ne
        by (auto simp: k collect_settings key_effect_def)
    next
      case (Inr a)
      then show ?thesis using aid(1) assms(1) ne
        by (auto simp: k collect_settings key_effect_def dom_update)
    qed
  next
    assume k: "k = agent_state_path cid aid"
    show ?thesis
    proof (cases "unm_state c v")
      case (Inl e)
      then have "with_state c (Some v) = (\<lambda>a. a)" by (simp add: with_state_def fun_eq_iff)
      with Inl show ?thesis using aid(1) assms(1) ne
        by (auto simp: k collect_state key_effect_def option.map_ident)
    next
      case (Inr s)
      then have "with_state c (Some v) = (\<lambda>a. a\<lparr>ag_State := Some s\<rparr>)"
        by (simp add: with_state_def fun_eq_iff)
      with Inr show ?thesis using aid(1) assms(1) ne
        by (cases "gm_get m aid") (auto simp: k collect_state key_effect_def dom_update)
    qed
  qed
qed

lemma collect_agents_effect:
  assumes "seg cid" and "\<forall>(k, v) \<in> set kvs. agent_key cid k" and "gm_wf m" and "fst ` set m \<subseteq> {aid. seg aid}"
  shows "\<exists>m'. collect_agents c kvs m = Inr m' \<and> gm_wf m' \<and> fst ` set m' \<subseteq> {aid. seg aid} \<and>
     (\<forall>aid. seg aid \<longrightarrow> gm_get m' aid = fold (key_effect c cid aid) kvs (gm_get m aid))"
  using assms(2-)
proof (induction kvs arbitrary: m)
  case (Cons kv kvs)
  obtain k v where kv: "kv = (k, v)" by (cases kv)
  from Cons.prems(1) kv have "agent_key cid k" by simp
  from collect_key_effect [OF assms(1) this, of c v m] obtain m1 where
    m1: "collect_key c (slash_fields k) v m = Inr m1"
      "\<forall>aid. seg aid \<longrightarrow> gm_get m1 aid = key_effect c cid aid (k, v) (gm_get m aid)"
    and wf: "gm_wf m \<longrightarrow> gm_wf m1" and dom: "fst ` set m1 \<subseteq> fst ` set m \<union> {aid. seg aid}"
    by (elim exE conjE)
  have wf1: "gm_wf m1" and dom1: "fst ` set m1 \<subseteq> {aid. seg aid}"
    using wf dom Cons.prems(2,3) by auto
  have rest: "\<forall>(k, v) \<in> set kvs. agent_key cid k" using Cons.prems(1) by simp
  from Cons.IH [OF rest wf1 dom1] m1 show ?case by (simp add: kv)
qed simp

lemma append_less: "xs @ ys < xs @ zs \<longleftrightarrow> ys < (zs :: string)"
  by (induction xs) simp_all

lemma settings_before_state: "agent_settings_path cid aid < agent_state_path cid aid"
proof -
  have "''/settings'' < ''/state''" by simp
  then show ?thesis by (simp only: agent_settings_path_def agent_state_path_def append_less)
qed

lemma fold_skip: "\<forall>x \<in> set xs. \<forall>y. f x y = y \<Longrightarrow> fold f xs y = y"
  by (induction xs) auto

text \<open>In a sorted listing the settings come before the state, so no state is lost.\<close>

lemma fold_key_effect:
  assumes "sorted (map fst kvs)" and "distinct (map fst kvs)"
  shows "fold (key_effect c cid aid) kvs cur =
     (case map_of kvs (agent_settings_path cid aid) of
        None \<Rightarrow> (case map_of kvs (agent_state_path cid aid) of
                   None \<Rightarrow> cur | Some v \<Rightarrow> map_option (with_state c (Some v)) cur)
      | Some s \<Rightarrow> (case unm_agent c s of
          Inl e \<Rightarrow> (case map_of kvs (agent_state_path cid aid) of
                   None \<Rightarrow> cur | Some v \<Rightarrow> map_option (with_state c (Some v)) cur)
        | Inr a \<Rightarrow> Some (with_state c (map_of kvs (agent_state_path cid aid)) a)))"
  using assms
proof (induction kvs arbitrary: cur)
  case (Cons kv kvs)
  let ?s = "agent_settings_path cid aid" and ?t = "agent_state_path cid aid"
  obtain k v where kv: "kv = (k, v)" by (cases kv)
  note IH = Cons.IH [of "key_effect c cid aid kv cur"]
  consider "k = ?s" | "k = ?t" | "k \<noteq> ?s" "k \<noteq> ?t" by blast
  then show ?case
  proof cases
    case 1
    with Cons.prems kv have "map_of kvs ?s = None" by (auto simp: map_of_eq_None_iff)
    with 1 IH Cons.prems kv settings_not_state [of cid aid] show ?thesis
      by (cases "unm_agent c v"; cases "map_of kvs ?t")
        (simp_all add: key_effect_def, simp add: with_state_def)
  next
    case 2
    have "map_of kvs ?t = None" using 2 Cons.prems kv by (auto simp: map_of_eq_None_iff)
    moreover have "map_of kvs ?s = None"
      using 2 Cons.prems kv settings_before_state [of cid aid] by (force simp: map_of_eq_None_iff)
    ultimately show ?thesis
      using 2 IH Cons.prems kv settings_not_state [of cid aid] by (simp add: key_effect_def)
  next
    case 3
    then have e: "key_effect c cid aid (k, v) cur = cur" by (simp add: key_effect_def)
    have "map_of ((k, v) # kvs) ?s = map_of kvs ?s" "map_of ((k, v) # kvs) ?t = map_of kvs ?t"
      using 3 by simp_all
    with IH [unfolded kv e] Cons.prems show ?thesis unfolding kv fold_simps e by (simp only: list.map distinct.simps sorted_wrt.simps)
  qed
qed (simp add: with_state_def)

lemma collect_agents_stored:
  assumes "seg cid" and "\<forall>(k, v) \<in> set kvs. agent_key cid k"
    and "sorted (map fst kvs)" and "distinct (map fst kvs)"
  shows "\<exists>m. collect_agents c kvs [] = Inr m \<and> gm_wf m \<and> fst ` set m \<subseteq> {aid. seg aid} \<and>
     (\<forall>aid. seg aid \<longrightarrow> gm_get m aid = stored_agent c (map_of kvs) cid aid)"
proof -
  have "fold (key_effect c cid aid) kvs None = stored_agent c (map_of kvs) cid aid" for aid
    by (simp add: fold_key_effect [OF assms(3,4)] stored_agent_def split: option.splits sum.splits)
  with collect_agents_effect [OF assms(1,2), of "[]" c] show ?thesis by simp
qed


section \<open>The cache after the registration\<close>

definition put_agent :: "agent \<Rightarrow> agent_cache \<Rightarrow> agent_cache" where
  "put_agent a ac = (if ag_State a = None then Offline a ac else Online a ac)"

lemma cache_inv_put_agent: "cache_inv ac \<Longrightarrow> cache_inv (put_agent a ac)"
  by (simp add: put_agent_def cache_inv_Online cache_inv_Offline)

lemma announce_ok:
  "cc_cache cc = Some ac \<Longrightarrow> \<not> cc_isDisposed cc \<Longrightarrow>
     announce as cc = Inr (cc\<lparr>cc_cache := Some (fold put_agent as ac)\<rparr>)"
proof (induction as arbitrary: cc ac)
  case (Cons a as)
  then show ?case by (simp add: OnAgentChanged_def put_agent_def)
qed simp

lemma view_put_agent: "cache_inv ac \<Longrightarrow> view (put_agent a ac) \<rho> i =
    (if has_role \<rho> a \<and> i = ag_Id a then (if ag_State a = None then None else Some a) else view ac \<rho> i)"
  by (simp add: put_agent_def view_Online view_Offline)

lemma view_announced:
  assumes "cache_inv ac" and "distinct (map ag_Id as)"
  shows "view (fold put_agent as ac) \<rho> i = Some a \<longleftrightarrow>
     a \<in> set as \<and> ag_Id a = i \<and> ag_State a \<noteq> None \<and> has_role \<rho> a \<or>
     view ac \<rho> i = Some a \<and> (\<forall>b \<in> set as. ag_Id b = i \<longrightarrow> \<not> has_role \<rho> b)"
  using assms
proof (induction as arbitrary: ac)
  case (Cons b bs)
  then have nb: "\<forall>c \<in> set bs. ag_Id c \<noteq> ag_Id b" by (metis distinct.simps(2) image_eqI list.set_map list.simps(9))
  have "view (fold put_agent bs (put_agent b ac)) \<rho> i = Some a \<longleftrightarrow>
     a \<in> set bs \<and> ag_Id a = i \<and> ag_State a \<noteq> None \<and> has_role \<rho> a \<or>
     view (put_agent b ac) \<rho> i = Some a \<and> (\<forall>b \<in> set bs. ag_Id b = i \<longrightarrow> \<not> has_role \<rho> b)"
    using Cons by (intro Cons.IH) (simp_all add: cache_inv_put_agent)
  with nb show ?case
    by (cases "i = ag_Id b") (simp_all add: view_put_agent [OF Cons.prems(1)], (cases "a = b"; auto)+)
qed simp

lemma cache_inv_announced: "cache_inv ac \<Longrightarrow> cache_inv (fold put_agent as ac)"
  by (induction as arbitrary: ac) (simp_all add: cache_inv_put_agent)

lemma create_keys_kv:
  assumes "kv_driver (en_driver E) kv" and "create_keys E ks w = (w', None)" and "k \<notin> set ks"
  shows "kv w' k = kv w k"
  using assms(2,3)
proof (induction ks arbitrary: w)
  case (Cons x xs)
  then obtain w1 where "sd_TxnCreate (en_driver E) w x [] = (w1, None)" "create_keys E xs w1 = (w', None)"
    by (auto simp: createKeyIfNotExists_def split: prod.splits option.splits)
  with Cons kv_txn [OF assms(1)] show ?case by fastforce
qed simp

definition visit_law :: "'w env \<Rightarrow> bool" where
  "visit_law E \<longleftrightarrow> (\<forall>m. mset (en_visit E m) = mset m)"

lemma path_under_agents [simp]:
  "is_prefix (agents_prefix cid) (agent_settings_path cid aid)"
  "is_prefix (agents_prefix cid) (agent_state_path cid aid)"
  by (simp_all add: is_prefix_iff agents_prefix_def agent_settings_path_def agent_state_path_def agent_path_def)

lemma stored_agent_cong:
  assumes "\<And>k. is_prefix (agents_prefix cid) k \<Longrightarrow> f k = g k"
  shows "stored_agent c f cid aid = stored_agent c g cid aid"
proof -
  have "f (agent_settings_path cid aid) = g (agent_settings_path cid aid)"
    "f (agent_state_path cid aid) = g (agent_state_path cid aid)" by (simp_all add: assms)
  then show ?thesis by (simp only: stored_agent_def)
qed

lemma agents_prefix_not_created:
  assumes "is_prefix (agents_prefix cid) k"
  shows "k \<notin> set [cluster_path cid, cluster_path cid @ ''/agents'', cluster_path cid @ ''/certificates'']"
proof -
  obtain r where "k = cluster_path cid @ ''/agents/'' @ r"
    using assms by (auto simp: is_prefix_iff agents_prefix_def)
  then show ?thesis by simp
qed

text \<open>Only the identifiers of the agents matter, not the order in which the map is visited.\<close>

lemma visited_agents:
  assumes "visit_law E" and "gm_wf m" and "\<And>i a. gm_get m i = Some a \<Longrightarrow> ag_Id a = i"
  shows "distinct (map ag_Id (map snd (en_visit E m)))"
    and "a \<in> set (map snd (en_visit E m)) \<longleftrightarrow> gm_get m (ag_Id a) = Some a"
proof -
  have m: "mset (en_visit E m) = mset m" using assms(1) by (simp add: visit_law_def)
  then have "distinct (map fst (en_visit E m))"
    using assms(2) by (metis gm_wf_def mset_eq_imp_distinct_iff mset_map)
  moreover have "map ag_Id (map snd (en_visit E m)) = map fst (en_visit E m)"
    using assms(2,3) mset_eq_setD [OF m] by (auto simp: gm_get_in)
  ultimately show "distinct (map ag_Id (map snd (en_visit E m)))" by (simp only:)
  show "a \<in> set (map snd (en_visit E m)) \<longleftrightarrow> gm_get m (ag_Id a) = Some a"
  proof
    assume "a \<in> set (map snd (en_visit E m))"
    then obtain i where "(i, a) \<in> set m" using mset_eq_setD [OF m] by auto
    then have "gm_get m i = Some a" using assms(2) by (simp add: gm_get_in)
    with assms(3) show "gm_get m (ag_Id a) = Some a" by metis
  next
    assume "gm_get m (ag_Id a) = Some a"
    then have "(ag_Id a, a) \<in> set (en_visit E m)" using mset_eq_setD [OF m] by (simp add: map_of_SomeD)
    then show "a \<in> set (map snd (en_visit E m))" by force
  qed
qed

text \<open>The listing of a store in which all keys are well formed.\<close>

lemma listed_agents:
  assumes "kv_driver (en_driver E) kv" and "seg cid"
    and "sd_Get (en_driver E) w (agents_prefix cid) True = (w', Inr rsp)"
    and "\<And>k. is_prefix (agents_prefix cid) k \<Longrightarrow> kv w k \<noteq> None \<Longrightarrow> agent_key cid k"
  obtains m where
    "(if gr_Count rsp > 0 then collect_agents c (gr_Kvs rsp) [] else Inr []) = Inr m" "gm_wf m"
    "\<And>i a. gm_get m i = Some a \<longleftrightarrow> seg i \<and> stored_agent c (kv w) cid i = Some a"
proof -
  note k = kv_get_prefix [OF assms(1,3)]
  have keys: "\<forall>(k, v) \<in> set (gr_Kvs rsp). agent_key cid k"
  proof (intro ballI, clarify)
    fix x v assume "(x, v) \<in> set (gr_Kvs rsp)"
    then have "map_of (gr_Kvs rsp) x = Some v" using k(4) by simp
    with k(5) assms(4) [of x] show "agent_key cid x" by (auto split: if_splits)
  qed
  obtain m where m: "collect_agents c (gr_Kvs rsp) [] = Inr m" "gm_wf m" "fst ` set m \<subseteq> {aid. seg aid}"
    "\<forall>aid. seg aid \<longrightarrow> gm_get m aid = stored_agent c (map_of (gr_Kvs rsp)) cid aid"
    using collect_agents_stored [OF assms(2) keys k(3,4), of c] by blast
  have same: "stored_agent c (map_of (gr_Kvs rsp)) cid i = stored_agent c (kv w) cid i" for i
    by (rule stored_agent_cong) (simp add: k(5))
  show thesis
  proof (rule that [OF _ m(2)])
    show "(if gr_Count rsp > 0 then collect_agents c (gr_Kvs rsp) [] else Inr []) = Inr m"
      using m(1) k(2) by (cases "gr_Kvs rsp") simp_all
    show "gm_get m i = Some a \<longleftrightarrow> seg i \<and> stored_agent c (kv w) cid i = Some a" for i a
      using m(3,4) same by (metis (mono_tags, lifting) image_subset_iff map_of_SomeD mem_Collect_eq fst_conv)
  qed
qed

lemma announced_agents:
  assumes "visit_law E" and "gm_wf m" and "\<And>i a. gm_get m i = Some a \<longleftrightarrow> seg i \<and> f i = Some a"
    and "\<And>i a. seg i \<Longrightarrow> f i = Some a \<Longrightarrow> ag_Id a = i"
  shows "view (fold put_agent (map snd (en_visit E m)) Initialize) \<rho> i = Some a \<longleftrightarrow>
     seg i \<and> f i = Some a \<and> ag_State a \<noteq> None \<and> has_role \<rho> a"
proof -
  let ?as = "map snd (en_visit E m)"
  have ids: "gm_get m i = Some a \<Longrightarrow> ag_Id a = i" for i a using assms(3,4) by blast
  have d: "distinct (map ag_Id ?as)" by (rule visited_agents(1) [OF assms(1,2)]) (rule ids)
  have "a \<in> set ?as \<longleftrightarrow> gm_get m (ag_Id a) = Some a"
    by (rule visited_agents(2) [OF assms(1,2)]) (rule ids)
  then have in_as: "a \<in> set ?as \<longleftrightarrow> seg (ag_Id a) \<and> f (ag_Id a) = Some a" by (simp only: assms(3))
  have empty: "view Initialize \<rho> i = None" by (simp add: view_def)
  show ?thesis
    using view_announced [OF cache_inv_Initialize d, of \<rho> i a] assms(4) [of i a]
    unfolding in_as empty by auto
qed

lemma doRegister_fills:
  assumes "kv_driver (en_driver E) kv" and "visit_law E" and "seg (GetClusterId cc)"
    and "cc_cache cc = Some Initialize" and "\<not> cc_isDisposed cc"
    and "\<And>k. is_prefix (agents_prefix (GetClusterId cc)) k \<Longrightarrow> kv w k \<noteq> None \<Longrightarrow> agent_key (GetClusterId cc) k"
    and "\<And>i a. seg i \<Longrightarrow> stored_agent (en_codec E) (kv w) (GetClusterId cc) i = Some a \<Longrightarrow> ag_Id a = i"
  shows "\<exists>w' cc' e. doRegister E cc w = Inr (w', cc', e) \<and> (e = None \<longrightarrow>
     (\<forall>k. k \<notin> set [cluster_path (GetClusterId cc), cluster_path (GetClusterId cc) @ ''/agents'',
        cluster_path (GetClusterId cc) @ ''/certificates''] \<longrightarrow> kv w' k = kv w k) \<and>
     (\<exists>ac i. cc' = SetCancellationFunc ((SetSynchronizedRevision i cc)\<lparr>cc_cache := Some ac\<rparr>) \<and> cache_inv ac \<and>
        (\<forall>\<rho> i a. view ac \<rho> i = Some a \<longleftrightarrow>
        seg i \<and> stored_agent (en_codec E) (kv w) (GetClusterId cc) i = Some a \<and>
        ag_State a \<noteq> None \<and> has_role \<rho> a)))"
proof -
  let ?cid = "GetClusterId cc"
  let ?keys = "[cluster_path ?cid, cluster_path ?cid @ ''/agents'', cluster_path ?cid @ ''/certificates'']"
  have pre: "cluster_path ?cid @ ''/agents/'' = agents_prefix ?cid" by (simp add: agents_prefix_def)
  obtain w1 r1 where c: "create_keys E ?keys w = (w1, r1)" by (cases "create_keys E ?keys w")
  obtain w2 r2 where g: "sd_Get (en_driver E) w1 (agents_prefix ?cid) True = (w2, r2)"
    by (cases "sd_Get (en_driver E) w1 (agents_prefix ?cid) True")
  show ?thesis
  proof (cases r1; cases r2)
    fix rsp assume ok: "r1 = None" "r2 = Inr rsp"
    have kv1: "kv w1 k = kv w k" if "is_prefix (agents_prefix ?cid) k" for k
      using create_keys_kv [OF assms(1) c [unfolded ok] agents_prefix_not_created [OF that]] .
    have keys: "agent_key ?cid k" if "is_prefix (agents_prefix ?cid) k" "kv w1 k \<noteq> None" for k
      using assms(6) that kv1 by metis
    obtain m where m: "(if gr_Count rsp > 0 then collect_agents (en_codec E) (gr_Kvs rsp) [] else Inr []) = Inr m"
      "gm_wf m" "\<And>i a. gm_get m i = Some a \<longleftrightarrow> seg i \<and> stored_agent (en_codec E) (kv w1) ?cid i = Some a"
      using listed_agents [OF assms(1,3) g [unfolded ok] keys] by blast
    have st: "stored_agent (en_codec E) (kv w1) ?cid i = stored_agent (en_codec E) (kv w) ?cid i" for i
      by (rule stored_agent_cong) (rule kv1)
    let ?as = "map snd (en_visit E m)"
    let ?ac = "fold put_agent ?as Initialize"
    have view: "view ?ac \<rho> i = Some a \<longleftrightarrow> seg i \<and> stored_agent (en_codec E) (kv w) ?cid i = Some a \<and>
        ag_State a \<noteq> None \<and> has_role \<rho> a" for \<rho> i a
      by (rule announced_agents [OF assms(2) m(2)]) (simp_all only: m(3) st assms(7))
    let ?cc = "SetSynchronizedRevision (gr_Revision rsp) cc"
    have ann: "announce ?as ?cc = Inr (?cc\<lparr>cc_cache := Some ?ac\<rparr>)"
      by (rule announce_ok) (simp_all add: SetSynchronizedRevision_def assms(4,5))
    have "doRegister E cc w = Inr (sd_Watch (en_driver E) w2 (cluster_path ?cid @ ''/''),
        SetCancellationFunc (?cc\<lparr>cc_cache := Some ?ac\<rparr>), None)"
      using c g m(1) ann by (simp add: doRegister_def Let_def ok pre del: create_keys.simps)
    moreover have "cache_inv ?ac" by (simp add: cache_inv_announced cache_inv_Initialize)
    moreover have "kv (sd_Watch (en_driver E) w2 (cluster_path ?cid @ ''/'')) k = kv w k" if "k \<notin> set ?keys" for k
      using create_keys_kv [OF assms(1) c [unfolded ok] that] kv_read [OF assms(1) g] kv_watch [OF assms(1)] by simp
    ultimately show ?thesis using view by blast
  qed (use c g pre in \<open>simp_all add: doRegister_def Let_def del: create_keys.simps\<close>)
qed

text \<open>
  Registering a cluster fills its cache with what the store holds: on a store whose agent keys
  are well formed and whose settings carry the identifier of their key, registration does not
  crash, and when it succeeds the cache lists, for every role, exactly the agents that have
  settings, a state and that role, whatever the order in which Go ranges over its map; and the
  watch of the cluster is running.
\<close>

theorem register_mirrors_store:
  assumes "kv_driver (en_driver E) kv" and "visit_law E" and "seg (GetClusterId cc)"
    and "cc_cache cc = Some Initialize" and "\<not> cc_isDisposed cc"
    and "\<And>k. is_prefix (agents_prefix (GetClusterId cc)) k \<Longrightarrow> kv w k \<noteq> None \<Longrightarrow> agent_key (GetClusterId cc) k"
    and "\<And>i a. seg i \<Longrightarrow> stored_agent (en_codec E) (kv w) (GetClusterId cc) i = Some a \<Longrightarrow> ag_Id a = i"
  shows "\<exists>w' cc' e. doRegister E cc w = Inr (w', cc', e) \<and> (e = None \<longrightarrow> cc_watch cc' = Watching \<and>
     (\<exists>ac. cc_cache cc' = Some ac \<and> cache_inv ac \<and> (\<forall>\<rho> i a. view ac \<rho> i = Some a \<longleftrightarrow>
        seg i \<and> stored_agent (en_codec E) (kv w) (GetClusterId cc) i = Some a \<and>
        ag_State a \<noteq> None \<and> has_role \<rho> a)))"
  using doRegister_fills [OF assms] by (fastforce simp: SetCancellationFunc_def)

section \<open>Events\<close>

text \<open>The agent that a read of the store yields, when the driver answers.\<close>

definition read_yields :: "codec \<Rightarrow> (string \<rightharpoonup> string) \<Rightarrow> string \<Rightarrow> string \<Rightarrow> agent \<Rightarrow> bool" where
  "read_yields c kv cid aid a \<longleftrightarrow> stored_agent c kv cid aid = Some a \<and>
     (case kv (agent_state_path cid aid) of None \<Rightarrow> True | Some t \<Rightarrow> \<not> isl (unm_state c t))"

lemma get_agent_yields:
  assumes "kv_driver (en_driver E) kv" and "\<And>w k. \<exists>w' rsp. sd_Get (en_driver E) w k False = (w', Inr rsp)"
    and "aid \<noteq> []" and "read_yields (en_codec E) (kv w) cid aid a"
  shows "\<exists>w'. CC_GetAgentFromETCD E cid aid w = Inr (w', Inr (Some a))"
proof -
  obtain w1 rsp1 where g1: "sd_Get (en_driver E) w (agent_settings_path cid aid) False = (w1, Inr rsp1)"
    using assms(2) by blast
  obtain w2 rsp2 where g2: "sd_Get (en_driver E) w1 (agent_state_path cid aid) False = (w2, Inr rsp2)"
    using assms(2) by blast
  note k1 = kv_get [OF assms(1) g1] and k2 = kv_get [OF assms(1) g2]
  from assms(3,4) g1 g2 k1 k2 show ?thesis
    by (auto simp: CC_GetAgentFromETCD_def first_value_def read_yields_def stored_agent_def with_state_def isl_def
        split: option.splits sum.splits)
qed

lemma get_agent_gone:
  assumes "kv_driver (en_driver E) kv" and "kv w (agent_settings_path cid aid) = None"
  shows "\<exists>w' r. CC_GetAgentFromETCD E cid aid w = Inr (w', r) \<and> (\<forall>a. r \<noteq> Inr (Some a)) \<and> kv w' = kv w"
proof -
  obtain w1 r1 where g: "sd_Get (en_driver E) w (agent_settings_path cid aid) False = (w1, r1)"
    by (cases "sd_Get (en_driver E) w (agent_settings_path cid aid) False")
  have "r1 = Inr rsp \<Longrightarrow> gr_Kvs rsp = [] \<and> gr_Count rsp = 0" for rsp
    using kv_get [OF assms(1), of w _ w1 rsp] g assms(2) by simp
  with g kv_read [OF assms(1) g] show ?thesis
    by (cases r1) (auto simp: CC_GetAgentFromETCD_def)
qed

lemma agent_event_key:
  assumes "seg cid" and "seg aid" and "ev_Key ev \<in> {agent_settings_path cid aid, agent_state_path cid aid}"
  shows "isAgentChanged (slash_fields (ev_Key ev)) = Inr (Some aid)"
    and "isCertificatesChanged (slash_fields (ev_Key ev)) = Inr (if aid = ''certificates'' then Some (last (slash_fields (ev_Key ev))) else None)"
  using assms by (auto simp: slash_fields_settings slash_fields_state classify_defs)

lemma CM_get_registered:
  "gm_get (cm_clusters cm) cid = Some r \<Longrightarrow> GetClusterId (cm_heap cm r) = cid \<Longrightarrow> aid \<noteq> [] \<Longrightarrow>
     CM_GetAgentFromETCD E cid aid cm w = CC_GetAgentFromETCD E cid aid w"
  by (simp add: CM_GetAgentFromETCD_def GetClusterById_def)

text \<open>
  C16: an event about an agent whose settings the store still holds, while the driver answers, is
  applied with what the store holds now: the agent that is read back is listed, as it is stored, under each of the
  roles that it now has, or, if the event is a deletion (even one of which the store no longer
  knows) or the store holds no state, under none of these. All other entries stay, also those of the same agent under roles that it
  no longer has; so do the certificates and the other clusters.
\<close>

theorem agent_event_applied:
  assumes "kv_driver (en_driver E) kv" and "\<And>w k. \<exists>w' rsp. sd_Get (en_driver E) w k False = (w', Inr rsp)"
    and "seg cid" and "seg aid" and "ev_Key ev \<in> {agent_settings_path cid aid, agent_state_path cid aid}"
    and "gm_get (cm_clusters cm) cid = Some r" and "GetClusterId (cm_heap cm r) = cid"
    and "\<not> cc_isDisposed (cm_heap cm r)" and "cc_cache (cm_heap cm r) = Some ac" and "cache_inv ac"
    and "read_yields (en_codec E) (kv w) cid aid a"
  shows "\<exists>w' ac'. agent_event E r ev cm w =
       Inr (w', store_cc r ((cm_heap cm r)\<lparr>cc_cache := Some ac'\<rparr>) cm, True) \<and> cache_inv ac' \<and>
     (\<forall>\<rho> i. view ac' \<rho> i = (if has_role \<rho> a \<and> i = ag_Id a
        then (if ev_Type ev = EventTypeDelete \<or> ag_State a = None then None else Some a)
        else view ac \<rho> i))"
proof -
  have ne: "aid \<noteq> []" using assms(4) by (simp add: seg_def)
  obtain w' where g: "CC_GetAgentFromETCD E cid aid w = Inr (w', Inr (Some a))"
    using get_agent_yields [OF assms(1,2) ne assms(11)] by blast
  define ac' where "ac' = (if ev_Type ev = EventTypeDelete \<or> ag_State a = None then Offline a ac else Online a ac)"
  have "OnAgentChanged a (ev_Type ev = EventTypeDelete) (cm_heap cm r) =
      Inr ((cm_heap cm r)\<lparr>cc_cache := Some ac'\<rparr>, None)"
    using assms(8,9) by (simp add: OnAgentChanged_def ac'_def)
  then have "agent_event E r ev cm w = Inr (w', store_cc r ((cm_heap cm r)\<lparr>cc_cache := Some ac'\<rparr>) cm, True)"
    using agent_event_key(1) [OF assms(3,4,5)] g CM_get_registered [OF assms(6,7) ne, of E w]
    by (simp add: agent_event_def assms(7))
  moreover have "cache_inv ac'" using assms(10) by (simp add: ac'_def cache_inv_Offline cache_inv_Online)
  moreover have "\<forall>\<rho> i. view ac' \<rho> i = (if has_role \<rho> a \<and> i = ag_Id a
        then (if ev_Type ev = EventTypeDelete \<or> ag_State a = None then None else Some a) else view ac \<rho> i)"
    using assms(10) by (simp add: ac'_def view_Online view_Offline)
  ultimately show ?thesis by blast
qed

lemma RemoveAgentFromETCD_kv:
  assumes "kv_driver (en_driver E) kv" and "RemoveAgentFromETCD E cid aid w = (w', None)"
  shows "kv w' = (kv w)(agent_state_path cid aid := None, agent_settings_path cid aid := None, agent_path cid aid := None)"
  using assms(2) kv_delete [OF assms(1)]
  by (auto simp: RemoveAgentFromETCD_def split: prod.splits option.splits)

lemma handle_gone:
  assumes "kv_driver (en_driver E) kv" and "kv w (agent_settings_path cid aid) = None"
    and "seg cid" and "seg aid"
    and "\<forall>ev \<in> set evs. ev_Key ev \<in> {agent_settings_path cid aid, agent_state_path cid aid}"
    and "gm_get (cm_clusters cm) cid = Some r" and "GetClusterId (cm_heap cm r) = cid"
  shows "\<exists>w'. handle_events E r evs cm w = Inr (w', cm)"
  using assms(2,5)
proof (induction evs arbitrary: w)
  case (Cons ev evs)
  obtain w1 g where g: "CC_GetAgentFromETCD E cid aid w = Inr (w1, g)" "\<forall>a. g \<noteq> Inr (Some a)" "kv w1 = kv w"
    using get_agent_gone [OF assms(1) Cons.prems(1)] by blast
  have ne: "aid \<noteq> []" using assms(4) by (simp add: seg_def)
  have "ev_Key ev \<in> {agent_settings_path cid aid, agent_state_path cid aid}" using Cons.prems(2) by simp
  then have "agent_event E r ev cm w = Inr (w1, cm, False)"
    using agent_event_key(1) [OF assms(3,4), of ev] g CM_get_registered [OF assms(6,7) ne, of E w]
    by (auto simp: agent_event_def assms(7) split: sum.splits option.splits)
  with Cons.IH [of w1] Cons.prems g(3) show ?case by simp
qed simp

text \<open>
  C39: once an agent has been removed from etcd for good, its cluster never learns of it: whatever
  events on the agent's settings and state the watcher receives afterwards, the deletions
  included, it changes nothing, so a cached agent stays listed.
\<close>

theorem removed_agent_stays_cached:
  assumes "kv_driver (en_driver E) kv" and "RemoveAgentFromETCD E cid aid w = (w', None)"
    and "seg cid" and "seg aid"
    and "\<forall>ev \<in> set evs. ev_Key ev \<in> {agent_settings_path cid aid, agent_state_path cid aid}"
    and "gm_get (cm_clusters cm) cid = Some r" and "GetClusterId (cm_heap cm r) = cid"
  shows "\<exists>w''. watchChanges_turn E r revision evs cm w' = Inr (w'', cm)"
proof -
  have "kv w' (agent_settings_path cid aid) = None"
    using RemoveAgentFromETCD_kv [OF assms(1,2)] by simp
  from handle_gone [OF assms(1) this assms(3-7)] show ?thesis
    by (simp add: watchChanges_turn_def)
qed

text \<open>
  A certificate event with content is stored under the name of its key, but a deletion, which
  etcd delivers without a value, is dropped: the certificate stays.
\<close>

theorem certificate_deletion_ignored:
  assumes "seg cid" and "name \<noteq> []" and "ev_Key ev = certificate_path cid name"
    and "\<not> cc_isDisposed (cm_heap cm r)"
  shows "(ev_Type ev = EventTypePut \<and> ev_Value ev \<noteq> [] \<longrightarrow>
       handle_events E r [ev] cm w = Inr (w, store_cc r ((cm_heap cm r)\<lparr>cc_certs :=
         gm_put (replace_char CHR ''/'' CHR ''_'' name) (ev_Value ev) (cc_certs (cm_heap cm r))\<rparr>) cm)) \<and>
     (ev_Type ev = EventTypeDelete \<and> ev_Value ev = [] \<longrightarrow> handle_events E r [ev] cm w = Inr (w, cm))"
proof -
  have "isAgentChanged (slash_fields (ev_Key ev)) = Inr None"
    "isCertificatesChanged (slash_fields (ev_Key ev)) = Inr (Some (replace_char CHR ''/'' CHR ''_'' name))"
    using assms(1,2) by (simp_all add: assms(3) slash_fields_certificate classify_defs)
  then show ?thesis
    using assms(4) by (simp add: agent_event_def certificate_event_def OnCertificateChanged_def)
qed


section \<open>The invariant of the manager\<close>

text \<open>
  The clusters of the map have controllers of their own, which are not disposed, and every
  controller that was ever allocated keeps its invariant.
\<close>

definition manager_inv :: "cluster_manager \<Rightarrow> bool" where
  "manager_inv cm \<longleftrightarrow> gm_wf (cm_clusters cm) \<and>
     (\<forall>cid r. gm_get (cm_clusters cm) cid = Some r \<longrightarrow> r < cm_next cm \<and> \<not> cc_isDisposed (cm_heap cm r)) \<and>
     (\<forall>cid cid' r. gm_get (cm_clusters cm) cid = Some r \<and> gm_get (cm_clusters cm) cid' = Some r \<longrightarrow> cid = cid') \<and>
     (\<forall>r < cm_next cm. controller_inv (cm_heap cm r))"

text \<open>
  What happens to the manager: its initialisation, the turns of its goroutines, and the operations
  that handlers call on a controller they looked up (none of which disposes it).
\<close>

inductive manager_step :: "'w env \<Rightarrow> cluster_manager \<Rightarrow> cluster_manager \<Rightarrow> bool" for E where
  initialize: "CM_Initialize E cm w = Inr (w', cm', e) \<Longrightarrow> manager_step E cm cm'"
| clusters: "watchClusterChanges_turn E evs cm w = Inr (w', cm') \<Longrightarrow> manager_step E cm cm'"
| watch: "r < cm_next cm \<Longrightarrow> watchChanges_turn E r revision evs cm w = Inr (w', cm') \<Longrightarrow> manager_step E cm cm'"
| operation: "r < cm_next cm \<Longrightarrow> controller_step E (cm_heap cm r) cc \<Longrightarrow>
    cc_isDisposed cc = cc_isDisposed (cm_heap cm r) \<Longrightarrow> manager_step E cm (store_cc r cc cm)"

lemma manager_inv_store:
  assumes "manager_inv cm" and "r < cm_next cm" and "controller_inv cc"
    and "cc_isDisposed cc = cc_isDisposed (cm_heap cm r)"
  shows "manager_inv (store_cc r cc cm)"
  using assms by (auto simp: manager_inv_def store_cc_def)

lemma manager_inv_clear: "manager_inv cm \<Longrightarrow> manager_inv (cm\<lparr>cm_clusters := []\<rparr>)"
  by (simp add: manager_inv_def)

lemma manager_inv_watchFrom [simp]: "manager_inv (cm\<lparr>cm_watchFrom := x\<rparr>) = manager_inv cm"
  by (simp add: manager_inv_def)

lemma OnAgentChanged_disposed: "OnAgentChanged a del cc = Inr (cc', e) \<Longrightarrow> cc_isDisposed cc' = cc_isDisposed cc"
  by (auto simp: OnAgentChanged_def split: if_splits option.splits)

lemma OnCertificateChanged_disposed:
  "cc_isDisposed (fst (OnCertificateChanged n v del cc)) = cc_isDisposed cc"
  by (simp add: OnCertificateChanged_def)

lemma announce_inv:
  "announce as cc = Inr cc' \<Longrightarrow> controller_inv cc \<Longrightarrow> controller_inv cc' \<and> cc_isDisposed cc' = cc_isDisposed cc"
proof (induction as arbitrary: cc)
  case (Cons a as)
  then show ?case
    by (auto elim!: bindC_InrE dest: OnAgentChanged_inv OnAgentChanged_disposed)
qed simp

lemma doRegister_inv:
  assumes "doRegister E cc w = Inr (w', cc', e)" and "controller_inv cc"
  shows "controller_inv cc' \<and> cc_isDisposed cc' = cc_isDisposed cc"
proof -
  have "controller_inv (SetCancellationFunc cc1) \<and> cc_isDisposed (SetCancellationFunc cc1) = cc_isDisposed cc"
    if "announce as (SetSynchronizedRevision i cc) = Inr cc1" for as i cc1
    using announce_inv [OF that simple_inv(2) [OF assms(2)]] simple_inv(3) [of cc1]
    by (simp add: SetCancellationFunc_def SetSynchronizedRevision_def)
  with assms show ?thesis
    by (auto simp: doRegister_def Let_def simp del: create_keys.simps announce.simps
        split: prod.splits option.splits sum.splits elim!: bindC_InrE)
qed

lemma manager_inv_alloc:
  assumes "manager_inv cm" and "controller_inv cc" and "alloc cc cm = (r, cm')"
  shows "manager_inv cm'" and "\<not> cc_isDisposed cc \<Longrightarrow> gm_get (cm_clusters cm) cid = None \<Longrightarrow>
    manager_inv (cm'\<lparr>cm_clusters := gm_put cid r (cm_clusters cm')\<rparr>)"
proof -
  have cm': "cm' = cm\<lparr>cm_heap := (cm_heap cm)(cm_next cm := cc), cm_next := cm_next cm + 1\<rparr>" "r = cm_next cm"
    using assms(3) unfolding alloc_def by auto
  show "manager_inv cm'"
    using assms(1,2) unfolding cm' by (auto simp: manager_inv_def less_Suc_eq)
  show "manager_inv (cm'\<lparr>cm_clusters := gm_put cid r (cm_clusters cm')\<rparr>)"
    if "\<not> cc_isDisposed cc" "gm_get (cm_clusters cm) cid = None"
    using assms(1,2) that unfolding cm' by (fastforce simp: manager_inv_def less_Suc_eq split: if_splits)
qed

lemma manager_inv_dispose:
  assumes "manager_inv cm" and "gm_get (cm_clusters cm) cid = Some r"
  shows "manager_inv ((store_cc r (Dispose (cm_heap cm r)) cm)\<lparr>cm_clusters := gm_del cid (cm_clusters cm)\<rparr>)"
proof -
  from assms have r: "r < cm_next cm" by (simp add: manager_inv_def)
  with assms have "controller_inv (Dispose (cm_heap cm r))" by (simp add: manager_inv_def simple_inv(4))
  with assms show ?thesis
    by (auto simp: manager_inv_def store_cc_def)
qed

lemma doClusterChange_inv:
  assumes "manager_inv cm" and "doClusterChange E cid v del cm w = Inr (w', cm', e)"
  shows "manager_inv cm'"
proof (cases del)
  case True
  with assms show ?thesis
    by (auto simp: doClusterChange_def manager_inv_dispose split: option.splits)
next
  case del: False
  show ?thesis
  proof (cases "unm_settings (en_codec E) v")
    case (Inl err)
    with assms del show ?thesis by (auto simp: doClusterChange_def)
  next
    case (Inr settings)
    show ?thesis
    proof (cases "gm_get (cm_clusters cm) cid")
      case (Some r)
      then have "r < cm_next cm" "controller_inv (cm_heap cm r)" using assms(1) by (auto simp: manager_inv_def)
      with Some assms del Inr show ?thesis
        by (auto simp: doClusterChange_def simple_inv(1) UpdateClusterSettings_def [THEN arg_cong, of cc_isDisposed]
            intro!: manager_inv_store)
    next
      case None
      with assms(2) del Inr obtain w1 cc1 cc2 where
        i: "CC_Initialize E (new_cluster settings) w = Inr (w1, cc1)"
        and d: "doRegister E cc1 w1 = Inr (w', cc2, e)"
        and m: "(let (r, cm2) = alloc cc2 cm in case e of Some err \<Rightarrow> cm2
                 | None \<Rightarrow> cm2\<lparr>cm_clusters := gm_put cid r (cm_clusters cm2)\<rparr>) = cm'"
        by (auto simp: doClusterChange_def Let_def split: prod.splits option.splits elim!: bindC_InrE)
      have "\<not> cc_isDisposed (new_cluster settings)"
        by (simp add: new_cluster_def UpdateClusterSettings_def new_controller_def)
      from CC_Initialize_start [OF i this] have s: "controller_start cc1" .
      have c2: "controller_inv cc2" "\<not> cc_isDisposed cc2"
        using doRegister_inv [OF d controller_start_inv [OF s]] s by (simp_all add: controller_start_def)
      obtain r cm2 where al: "alloc cc2 cm = (r, cm2)" by (cases "alloc cc2 cm")
      from m manager_inv_alloc [OF assms(1) c2(1) al] c2(2) None show ?thesis
        by (auto simp: al Let_def split: option.splits)
    qed
  qed
qed

lemma sync_clusters_inv:
  "sync_clusters E kvs cm w = Inr (w', cm', e) \<Longrightarrow> manager_inv cm \<Longrightarrow> manager_inv cm'"
proof (induction kvs arbitrary: cm w)
  case (Cons kv kvs)
  obtain k v where kv: "kv = (k, v)" by (cases kv)
  with Cons.prems(1) consider "sync_clusters E kvs cm w = Inr (w', cm', e)"
    | cid w1 cm1 where "doClusterChange E cid v False cm w = Inr (w1, cm1, None)"
        "sync_clusters E kvs cm1 w1 = Inr (w', cm', e)"
    | cid e' where "doClusterChange E cid v False cm w = Inr (w', cm', e')"
    by (auto elim!: bindC_InrE split: option.splits)
  then show ?case
  proof cases
    case 1
    with Cons show ?thesis by blast
  next
    case (2 cid w1 cm1)
    from Cons.IH [OF 2(2) doClusterChange_inv [OF Cons.prems(2) 2(1)]] show ?thesis .
  next
    case (3 cid e')
    from doClusterChange_inv [OF Cons.prems(2) 3] show ?thesis .
  qed
qed simp

lemma CM_Initialize_inv: "CM_Initialize E cm w = Inr (w', cm', e) \<Longrightarrow> manager_inv cm \<Longrightarrow> manager_inv cm'"
  by (auto simp: CM_Initialize_def CM_fullSync_def watchClusterChanges_def manager_inv_clear
      split: sum.splits prod.splits option.splits if_splits elim!: bindC_InrE dest!: sync_clusters_inv)

lemma watchClusterChanges_turn_inv:
  "watchClusterChanges_turn E evs cm w = Inr (w', cm') \<Longrightarrow> manager_inv cm \<Longrightarrow> manager_inv cm'"
proof (induction evs arbitrary: cm w)
  case (Cons ev evs)
  then obtain r where "isClusterChanged (slash_fields (ev_Key ev)) = Inr r" by (auto elim!: bindC_InrE)
  with Cons.prems(1) consider "watchClusterChanges_turn E evs cm w = Inr (w', cm')"
    | cid w1 cm1 e where "doClusterChange E cid (ev_Value ev) (ev_Type ev = EventTypeDelete) cm w = Inr (w1, cm1, e)"
        "watchClusterChanges_turn E evs cm1 w1 = Inr (w', cm')"
    by (auto elim!: bindC_InrE split: option.splits)
  then show ?case
  proof cases
    case 1
    with Cons show ?thesis by blast
  next
    case (2 cid w1 cm1 e)
    from Cons.IH [OF 2(2) doClusterChange_inv [OF Cons.prems(2) 2(1)]] show ?thesis .
  qed
qed simp

lemma agent_event_cases:
  assumes "agent_event E r ev cm w = Inr (w', cm', go)"
  obtains "cm' = cm"
  | a del cc e where "OnAgentChanged a del (cm_heap cm r) = Inr (cc, e)" "cm' = store_cc r cc cm"
proof (cases "cm' = cm")
  case False
  from assms False have "\<exists>a del cc e. OnAgentChanged a del (cm_heap cm r) = Inr (cc, e) \<and> cm' = store_cc r cc cm"
    unfolding agent_event_def by (elim bindC_InrE) (fastforce elim!: bindC_InrE split: option.splits sum.splits)
  then show thesis using that(2) by blast
qed (rule that(1))

lemma certificate_event_cases:
  assumes "certificate_event r ev cm = Inr cm'"
  obtains "cm' = cm"
  | n v del where "cm' = store_cc r (fst (OnCertificateChanged n v del (cm_heap cm r))) cm"
  using assms by (auto simp: certificate_event_def elim!: bindC_InrE split: option.splits if_splits)

lemma agent_event_inv:
  assumes "agent_event E r ev cm w = Inr (w', cm', go)" and "manager_inv cm" and "r < cm_next cm"
  shows "manager_inv cm' \<and> cm_next cm' = cm_next cm"
  using assms(1)
proof (cases rule: agent_event_cases)
  case (2 a del cc e)
  moreover have "controller_inv (cm_heap cm r)" using assms(2,3) by (simp add: manager_inv_def)
  ultimately show ?thesis
    using assms(2,3) manager_inv_store OnAgentChanged_inv OnAgentChanged_disposed
    by (metis cluster_manager.select_convs(3) cluster_manager.surjective cluster_manager.update_convs(2) store_cc_def)
qed (use assms in simp)

lemma certificate_event_inv:
  assumes "certificate_event r ev cm = Inr cm'" and "manager_inv cm" and "r < cm_next cm"
  shows "manager_inv cm' \<and> cm_next cm' = cm_next cm"
  using assms(1)
proof (cases rule: certificate_event_cases)
  case (2 n v del)
  moreover have "controller_inv (cm_heap cm r)" using assms(2,3) by (simp add: manager_inv_def)
  then have "controller_inv (fst (OnCertificateChanged n v del (cm_heap cm r)))"
    using OnCertificateChanged_inv by (metis prod.collapse)
  ultimately show ?thesis
    using assms(2,3) by (simp add: manager_inv_store OnCertificateChanged_disposed) (simp add: store_cc_def)
qed (use assms in simp)

lemma handle_events_inv:
  "handle_events E r evs cm w = Inr (w', cm') \<Longrightarrow> manager_inv cm \<Longrightarrow> r < cm_next cm \<Longrightarrow> manager_inv cm'"
proof (induction evs arbitrary: cm w)
  case (Cons ev evs)
  from Cons.prems(1) obtain w1 cm1 go where 1: "agent_event E r ev cm w = Inr (w1, cm1, go)"
    and 2: "(if go then bindC (certificate_event r ev cm1) (\<lambda>cm2. handle_events E r evs cm2 w1)
             else handle_events E r evs cm1 w1) = Inr (w', cm')"
    by (auto elim!: bindC_InrE)
  note i = agent_event_inv [OF 1 Cons.prems(2,3)]
  show ?case
  proof (cases go)
    case True
    with 2 obtain cm2 where 3: "certificate_event r ev cm1 = Inr cm2" "handle_events E r evs cm2 w1 = Inr (w', cm')"
      by (auto elim!: bindC_InrE)
    from certificate_event_inv [OF 3(1)] i Cons.prems(3) Cons.IH [OF 3(2)] show ?thesis by simp
  next
    case False
    with 2 i Cons.prems(3) Cons.IH [of cm1 w1] show ?thesis by simp
  qed
qed simp

lemma manager_step_inv: "manager_step E cm cm' \<Longrightarrow> manager_inv cm \<Longrightarrow> manager_inv cm'"
proof (induction rule: manager_step.induct)
  case (watch r cm revision evs w w' cm')
  then show ?case by (auto simp: watchChanges_turn_def split: if_splits dest: handle_events_inv)
next
  case (operation r cm cc)
  then have "controller_inv (cm_heap cm r)" by (simp add: manager_inv_def)
  from controller_step_inv [OF operation(2) this] have "controller_inv cc" .
  with operation show ?case by (simp add: manager_inv_store)
qed (auto dest: CM_Initialize_inv watchClusterChanges_turn_inv)

interpretation manager: invariant_system "\<lambda>cm. cm = new_manager" "manager_step E" manager_inv for E
  by unfold_locales (simp add: manager_inv_def new_manager_def, rule manager_step_inv)


text \<open>
  C15: in every state that the manager reaches from its creation, through initialisation, cluster
  events, agent and certificate events and the operations of handlers, a cluster that can be
  looked up has a live controller: it is not disposed, it has a cache that keeps its invariant,
  so that agent events and lookups of cached agents do not crash; and two clusters never share
  a controller.
\<close>

theorem registered_clusters_live:
  assumes "(manager_step E)\<^sup>*\<^sup>* new_manager cm" and "GetClusterById cid cm = Inr r"
  shows "\<not> cc_isDisposed (cm_heap cm r) \<and> (\<exists>ac. cc_cache (cm_heap cm r) = Some ac \<and> cache_inv ac) \<and>
     OnAgentChanged a del (cm_heap cm r) \<noteq> Inl c \<and> GetCachedAgent i (cm_heap cm r) \<noteq> Inl c \<and>
     (GetClusterById cid' cm = Inr r \<longrightarrow> cid' = cid)"
proof -
  have inv: "manager_inv cm" by (rule manager.inv_reachable [OF refl assms(1)])
  have r: "gm_get (cm_clusters cm) cid = Some r"
    using assms(2) by (simp add: GetClusterById_def split: option.splits)
  with inv have "\<not> cc_isDisposed (cm_heap cm r)" "controller_inv (cm_heap cm r)" by (auto simp: manager_inv_def)
  then obtain ac where "\<not> cc_isDisposed (cm_heap cm r)" "cc_cache (cm_heap cm r) = Some ac" "cache_inv ac"
    by (auto simp: controller_inv_def)
  moreover have "GetClusterById cid' cm = Inr r \<Longrightarrow> cid' = cid"
    using inv r by (auto simp: manager_inv_def GetClusterById_def split: option.splits)
  ultimately show ?thesis by (auto simp: OnAgentChanged_def GetCachedAgent_def)
qed

lemma disposed_event:
  assumes "cc_isDisposed (cm_heap cm r)"
  shows "agent_event E r ev cm w = Inr (w', cm', go) \<Longrightarrow> cm' = cm"
    and "certificate_event r ev cm = Inr cm' \<Longrightarrow> cm' = cm"
  using assms
  by (auto elim!: agent_event_cases certificate_event_cases
      simp: OnAgentChanged_def OnCertificateChanged_def store_cc_def)

lemma disposed_events:
  "cc_isDisposed (cm_heap cm r) \<Longrightarrow> handle_events E r evs cm w = Inr (w', cm') \<Longrightarrow> cm' = cm"
proof (induction evs arbitrary: w)
  case (Cons ev evs)
  obtain w1 cm1 go where 1: "agent_event E r ev cm w = Inr (w1, cm1, go)"
    and 2: "(if go then bindC (certificate_event r ev cm1) (\<lambda>cm2. handle_events E r evs cm2 w1)
             else handle_events E r evs cm1 w1) = Inr (w', cm')"
    using Cons.prems(2) by (auto elim!: bindC_InrE)
  have "cm1 = cm" by (rule disposed_event(1) [OF Cons.prems(1) 1])
  moreover have "go \<Longrightarrow> handle_events E r evs cm w1 = Inr (w', cm')"
    using 2 disposed_event(2) [OF Cons.prems(1)] \<open>cm1 = cm\<close> by (auto elim!: bindC_InrE)
  ultimately have "handle_events E r evs cm w1 = Inr (w', cm')" using 2 by (auto split: if_splits)
  with Cons.IH Cons.prems(1) show ?case by blast
qed simp

text \<open>
  Deleting a cluster ends it: the cluster can no longer be looked up while every other one
  can, and whatever its goroutine still receives, before it notices the cancellation, changes
  nothing, not even after a cluster with the same identifier was created again.
\<close>

theorem deleted_cluster_gone:
  assumes "manager_inv cm" and "GetClusterById cid cm = Inr r"
  shows "\<exists>cm1. doClusterChange E cid v True cm w = Inr (w, cm1, None) \<and>
     GetClusterById cid cm1 = Inl (ENotFound cid) \<and>
     (\<forall>cid'. cid' \<noteq> cid \<longrightarrow> GetClusterById cid' cm1 = GetClusterById cid' cm) \<and>
     (\<forall>r'. r' \<noteq> r \<longrightarrow> cm_heap cm1 r' = cm_heap cm r') \<and> cc_watch (cm_heap cm1 r) \<noteq> Watching \<and>
     (\<forall>v' w1 w2 cm2 cm3 e revision evs.
        doClusterChange E cid v' False cm1 w = Inr (w1, cm2, e) \<and>
        watchChanges_turn E r revision evs cm2 w1 = Inr (w2, cm3) \<longrightarrow> cm3 = cm2)"
proof -
  let ?cm1 = "(store_cc r (Dispose (cm_heap cm r)) cm)\<lparr>cm_clusters := gm_del cid (cm_clusters cm)\<rparr>"
  have r: "gm_get (cm_clusters cm) cid = Some r"
    using assms(2) by (simp add: GetClusterById_def split: option.splits)
  have lt: "r < cm_next cm" using assms(1) r by (simp add: manager_inv_def)
  have del: "doClusterChange E cid v True cm w = Inr (w, ?cm1, None)"
    by (simp add: doClusterChange_def r)
  have disposed: "cc_isDisposed (cm_heap ?cm1 r)" by (simp add: store_cc_def Dispose_def)
  have "cm3 = cm2" if "doClusterChange E cid v' False ?cm1 w = Inr (w1, cm2, e)"
    "watchChanges_turn E r revision evs cm2 w1 = Inr (w2, cm3)" for v' w1 cm2 e revision evs w2 cm3
  proof -
    have n: "gm_get (cm_clusters ?cm1) cid = None" by simp
    have "cm_heap cm2 r = cm_heap ?cm1 r"
      using that(1) lt by (auto simp: doClusterChange_def n alloc_def store_cc_def Let_def
          split: sum.splits option.splits elim!: bindC_InrE)
    with disposed have "cc_isDisposed (cm_heap cm2 r)" by simp
    with that(2) disposed_events show ?thesis by (auto simp: watchChanges_turn_def split: if_splits)
  qed
  moreover have "cc_watch (cm_heap ?cm1 r) \<noteq> Watching" by (simp add: store_cc_def Dispose_def)
  ultimately show ?thesis
    using del by (intro exI [of _ ?cm1]) (auto simp: GetClusterById_def store_cc_def)
qed

section \<open>Witnesses\<close>

text \<open>A store with one agent of the cluster \<open>c1\<close>, and a manager that knows the cluster.\<close>

definition c1_world :: sim_world where
  "c1_world = sim_world\<lparr>mw_kvs := [(agent_settings_path ''c1'' ''n1'', ''n1''),
     (agent_state_path ''c1'' ''n1'', ''10.0.0.1'')]\<rparr>"

definition c1_controller :: cluster_controller where
  "c1_controller = (new_cluster (zero_settings\<lparr>cs_Id := ''c1''\<rparr>))\<lparr>cc_cache := Some Initialize\<rparr>"

definition c1_manager :: cluster_manager where
  "c1_manager = new_manager\<lparr>cm_clusters := [(''c1'', 0)], cm_heap := (\<lambda>_. c1_controller), cm_next := 1\<rparr>"

lemma c1_facts:
  "kv_driver (en_driver sim_env) mem_kv" "visit_law sim_env" "seg ''c1''" "seg ''n1''"
  "GetClusterId c1_controller = ''c1''" "cc_cache c1_controller = Some Initialize" "\<not> cc_isDisposed c1_controller"
  "gm_get (cm_clusters c1_manager) ''c1'' = Some 0" "cm_heap c1_manager 0 = c1_controller"
  by (simp_all add: sim_env_def mem_driver_kv visit_law_def seg_def c1_controller_def c1_manager_def GetClusterId_def
      new_cluster_def UpdateClusterSettings_def new_controller_def zero_settings_def)

lemma c1_inv: "manager_inv c1_manager"
  using cache_inv_Initialize
  by (auto simp: manager_inv_def c1_manager_def new_manager_def controller_inv_def c1_facts(6,7) gm_wf_def)
     (simp add: c1_controller_def new_cluster_def UpdateClusterSettings_def new_controller_def)

lemma c1_store: "mem_kv c1_world = [agent_settings_path ''c1'' ''n1'' \<mapsto> ''n1'', agent_state_path ''c1'' ''n1'' \<mapsto> ''10.0.0.1'']"
  using settings_not_state [of "''c1''" "''n1''"]
  by (simp add: mem_kv_def c1_world_def) (simp add: fun_upd_twist)

lemma c1_stored:
  "stored_agent (en_codec sim_env) (mem_kv c1_world) ''c1'' i = (if i = ''n1''
     then Some (zero_agent\<lparr>ag_Id := ''n1'', ag_ClusterId := ''c1'', ag_HasETCDRole := True,
       ag_State := Some (sample_state ''10.0.0.1'')\<rparr>) else None)" if "seg i"
  using path_leaf [OF c1_facts(3) that c1_facts(4)] path_leaf [OF c1_facts(3) c1_facts(4) that] settings_not_state [of "''c1''"]
  by (auto simp: stored_agent_def with_state_def c1_store sim_env_def sim_codec_def)

theorem register_mirrors_store_witness:
  "\<exists>w' cc' e. doRegister sim_env c1_controller c1_world = Inr (w', cc', e) \<and> (e = None \<longrightarrow> cc_watch cc' = Watching)"
proof -
  have "agent_key ''c1'' k" if "mem_kv c1_world k \<noteq> None" for k
    using that c1_facts(4) by (auto simp: c1_store agent_key_def split: if_splits)
  then have key: "agent_key (GetClusterId c1_controller) k" if "mem_kv c1_world k \<noteq> None" for k
    using that by (simp only: c1_facts)
  have id: "ag_Id a = i"
    if "seg i" "stored_agent (en_codec sim_env) (mem_kv c1_world) (GetClusterId c1_controller) i = Some a" for i a
    using that c1_stored [OF that(1)] by (auto simp: c1_facts split: if_splits)
  have "seg (GetClusterId c1_controller)" by (simp only: c1_facts)
  from register_mirrors_store [OF c1_facts(1,2) this c1_facts(6,7) key id] show ?thesis by blast
qed

lemma sim_env_answers: "\<exists>w' rsp. sd_Get (en_driver sim_env) w k False = (w', Inr rsp)"
  by (simp add: sim_env_def mem_driver_def)

definition settings_event :: "event_type \<Rightarrow> watch_event" where
  "settings_event t = \<lparr>ev_Type = t, ev_Key = agent_settings_path ''c1'' ''n1'', ev_Value = []\<rparr>"

theorem agent_event_applied_witness:
  "\<exists>w' ac'. agent_event sim_env 0 (settings_event EventTypePut) c1_manager c1_world =
     Inr (w', store_cc 0 (c1_controller\<lparr>cc_cache := Some ac'\<rparr>) c1_manager, True) \<and> view ac' RoleETCD ''n1'' \<noteq> None"
proof -
  obtain a where a: "stored_agent (en_codec sim_env) (mem_kv c1_world) ''c1'' ''n1'' = Some a"
    "has_role RoleETCD a" "ag_Id a = ''n1''" "ag_State a \<noteq> None"
    using c1_stored [OF c1_facts(4)] by simp
  then have y: "read_yields (en_codec sim_env) (mem_kv c1_world) ''c1'' ''n1'' a"
    by (simp add: read_yields_def c1_store sim_env_def sim_codec_def)
  have k: "ev_Key (settings_event EventTypePut) \<in> {agent_settings_path ''c1'' ''n1'', agent_state_path ''c1'' ''n1''}"
    by (simp add: settings_event_def)
  from agent_event_applied [OF c1_facts(1) sim_env_answers c1_facts(3,4) k c1_facts(8) _ _ _ cache_inv_Initialize y]
  obtain w' ac' where "agent_event sim_env 0 (settings_event EventTypePut) c1_manager c1_world =
      Inr (w', store_cc 0 (c1_controller\<lparr>cc_cache := Some ac'\<rparr>) c1_manager, True)"
    "\<forall>\<rho> i. view ac' \<rho> i = (if has_role \<rho> a \<and> i = ag_Id a
        then (if ev_Type (settings_event EventTypePut) = EventTypeDelete \<or> ag_State a = None then None else Some a)
        else view Initialize \<rho> i)"
    using c1_facts by auto
  with a show ?thesis by (intro exI [of _ w'] exI [of _ ac']) (simp add: settings_event_def)
qed

theorem removed_agent_stays_cached_witness:
  "\<exists>w' w''. RemoveAgentFromETCD sim_env ''c1'' ''n1'' c1_world = (w', None) \<and>
     watchChanges_turn sim_env 0 7 [settings_event EventTypeDelete] c1_manager w' = Inr (w'', c1_manager)"
proof -
  obtain w' where r: "RemoveAgentFromETCD sim_env ''c1'' ''n1'' c1_world = (w', None)"
    by (simp add: RemoveAgentFromETCD_def sim_env_def mem_driver_def)
  have "\<forall>ev \<in> set [settings_event EventTypeDelete].
      ev_Key ev \<in> {agent_settings_path ''c1'' ''n1'', agent_state_path ''c1'' ''n1''}"
    by (simp add: settings_event_def)
  from removed_agent_stays_cached [OF c1_facts(1) r c1_facts(3,4) this c1_facts(8)] c1_facts r
  show ?thesis by auto
qed

theorem certificate_deletion_ignored_witness:
  "handle_events sim_env 0 [\<lparr>ev_Type = EventTypeDelete, ev_Key = certificate_path ''c1'' ''ca.crt'', ev_Value = []\<rparr>]
     c1_manager c1_world = Inr (c1_world, c1_manager)"
  using certificate_deletion_ignored [of "''c1''" "''ca.crt''"
      "\<lparr>ev_Type = EventTypeDelete, ev_Key = certificate_path ''c1'' ''ca.crt'', ev_Value = []\<rparr>" c1_manager 0] c1_facts
  by simp

lemma c1_manager_created:
  "\<exists>w' cm. CM_Initialize sim_env new_manager (sim_world\<lparr>mw_kvs := [(metadata_path ''c1'', ''c1'')]\<rparr>) = Inr (w', cm, None) \<and>
     GetClusterById ''c1'' cm = Inr 0"
proof -
  have "(case CM_Initialize sim_env new_manager (sim_world\<lparr>mw_kvs := [(metadata_path ''c1'', ''c1'')]\<rparr>) of
      Inl c \<Rightarrow> False | Inr (w', cm, e) \<Rightarrow> e = None \<and> GetClusterById ''c1'' cm = Inr 0)" by code_simp
  then show ?thesis by (auto split: sum.splits)
qed

theorem registered_clusters_live_witness:
  "\<exists>cm. GetClusterById ''c1'' cm = Inr 0 \<and> \<not> cc_isDisposed (cm_heap cm 0)"
proof -
  obtain w' cm where i: "CM_Initialize sim_env new_manager (sim_world\<lparr>mw_kvs := [(metadata_path ''c1'', ''c1'')]\<rparr>) = Inr (w', cm, None)"
    and g: "GetClusterById ''c1'' cm = Inr 0"
    using c1_manager_created by blast
  have "(manager_step sim_env)\<^sup>*\<^sup>* new_manager cm"
    by (rule r_into_rtranclp) (rule manager_step.initialize [OF i])
  from registered_clusters_live [OF this g] g show ?thesis by blast
qed

theorem deleted_cluster_gone_witness:
  "\<exists>cm1. doClusterChange sim_env ''c1'' [] True c1_manager c1_world = Inr (c1_world, cm1, None) \<and>
     GetClusterById ''c1'' cm1 = Inl (ENotFound ''c1'')"
proof -
  have "GetClusterById ''c1'' c1_manager = Inr 0" by (simp add: GetClusterById_def c1_facts)
  from deleted_cluster_gone [OF c1_inv this, of sim_env "[]" c1_world] show ?thesis by blast
qed

end
