(* ===== verification/Managers.thy ===== *)
theory Managers
  imports ClusterManager
begin

text \<open>
  \<open>pkg/managers\<close>: what the HTTP handlers call to register an agent, to hand out jobs, to record a
  status report and to create a cluster, with the checks of cluster settings.

  The record \<open>'w api\<close> adds to the environment of the cluster manager what this package calls
  besides: \<open>uuid.NewV4\<close>, the two certificate generators (which run external programs) and
  \<open>net.ParseCIDR\<close>. A function that gets a pointer and writes through it returns the new value.
\<close>

record 'w api =
  ap_env :: "'w env"
  ap_NewV4 :: "'w \<Rightarrow> 'w \<times> string"
  ap_GenerateMainCACertificates :: "'w \<Rightarrow> 'w \<times> (error + (string, string) gomap)"
  ap_GenerateAdminKubeConfig :: "'w \<Rightarrow> string \<Rightarrow> cert_pair list \<Rightarrow> 'w \<times> (error + (string, string) gomap)"
  ap_ParseCIDR :: "string \<Rightarrow> error option"

section \<open>Registering an agent: agent\_mgmt.go\<close>

text \<open>The answer: settings, agent identifier, cluster identifier, lease.\<close>

type_synonym registration = "cluster_settings \<times> string \<times> string \<times> int"

text \<open>The agent was registered before.\<close>

definition check_previous :: "agent \<Rightarrow> agent \<Rightarrow> cluster_settings \<Rightarrow> error + registration" where
  "check_previous agent preAgent settings =
     (if ag_Id preAgent = [] then Inl EDirtyAgent
      else if to_lower (ag_Hostname agent) \<noteq> to_lower (ag_Hostname preAgent) then Inl EDifferentHostname
      else if (case (ag_State agent, ag_State preAgent) of
                 (Some s, Some s') \<Rightarrow> as_LastReportIP s \<noteq> as_LastReportIP s' | _ \<Rightarrow> False)
      then Inl EDifferentIP
      else if ag_IsDelete preAgent then Inl EDeletedAgent
      else Inr (settings, ag_Id preAgent, ag_ClusterId preAgent, - 1))"

text \<open>The administrative configuration of a master.\<close>

definition with_config :: "agent \<Rightarrow> error + (string, string) gomap \<Rightarrow> error + agent" where
  "with_config agent r =
     (case r of
        Inl e \<Rightarrow> Inl (EWrap ''generate kube admin configuration file'' e)
      | Inr res \<Rightarrow>
        (if res = [] then Inl EAdminConfNotFound
         else if gm_str res ''admin.conf'' = [] then Inl EAdminConfNotFound
         else Inr (agent\<lparr>ag_AdminCertificate := gm_str res ''admin.conf''\<rparr>)))"

definition admin_config ::
  "'w api \<Rightarrow> cluster_controller \<Rightarrow> agent \<Rightarrow> 'w \<Rightarrow> crash + 'w \<times> (error + agent)" where
  "admin_config A cluster agent w =
     (if \<not> ag_HasMasterRole agent then Inr (w, Inr agent)
      else bindC (deref (ag_State agent)) (\<lambda>st.
        case ap_GenerateAdminKubeConfig A w (as_LastReportIP st) (GetCertificates cluster) of
          (w1, r) \<Rightarrow> Inr (w1, with_config agent r)))"

definition assign_id :: "'w api \<Rightarrow> agent \<Rightarrow> 'w \<Rightarrow> 'w \<times> agent" where
  "assign_id A agent w =
     (if ag_Id agent = [] then (case ap_NewV4 A w of (w1, i) \<Rightarrow> (w1, agent\<lparr>ag_Id := i\<rparr>)) else (w, agent))"

text \<open>The agent is new: give it an identifier, stamp it and save it.\<close>

definition register_new ::
  "'w api \<Rightarrow> cluster_controller \<Rightarrow> agent \<Rightarrow> 'w \<Rightarrow> crash + 'w \<times> (error + registration)" where
  "register_new A cluster agent0 w0 =
     bindC (admin_config A cluster agent0 w0) (\<lambda>(w1, r).
       case r of
         Inl e \<Rightarrow> Inr (w1, Inl e)
       | Inr agent1 \<Rightarrow>
         (case assign_id A agent1 w1 of (w2, agent2) \<Rightarrow>
           bindC (deref (ag_State agent2)) (\<lambda>st.
             let agent = agent2\<lparr>ag_State := Some (st\<lparr>as_LastReportTime := en_now (ap_env A) w2\<rparr>)\<rparr> in
             case SaveAgent (en_driver (ap_env A)) (en_codec (ap_env A)) agent w2 of
               (w3, leaseId, Some e) \<Rightarrow> Inr (w3, Inl (EWrap ''save registered agent'' e))
             | (w3, leaseId, None) \<Rightarrow>
               Inr (w3, Inr (GetSettings cluster, ag_Id agent, cs_Id (GetSettings cluster), leaseId)))))"

definition RegisterAgent ::
  "'w api \<Rightarrow> agent \<Rightarrow> cluster_manager \<Rightarrow> 'w \<Rightarrow> crash + 'w \<times> (error + registration)" where
  "RegisterAgent A agent cm w =
     (if ag_ClusterId agent = [] then Inr (w, Inl (ERequiredField ''cluster_id''))
      else if ag_Hostname agent = [] then Inr (w, Inl (ERequiredField ''hostname''))
      else case GetClusterById (ag_ClusterId agent) cm of
        Inl e \<Rightarrow> Inr (w, Inl (EWrap ''retrieve cluster information'' e))
      | Inr r \<Rightarrow>
        (let cluster = cm_heap cm r in
         if GetStatus cluster = ClusterDeleted then Inr (w, Inl (EClusterDeleted (GetClusterId cluster)))
         else if GetStatus cluster = ClusterBlockedAgentRegistering
         then Inr (w, Inl (EClusterBlocked (cs_Name (GetSettings cluster))))
         else bindC (CM_GetAgentFromETCD (ap_env A) (ag_ClusterId agent) (ag_Id agent) cm w) (\<lambda>(w1, g).
           case g of
             Inl e \<Rightarrow> Inr (w1, Inl (EWrap ''retrieve agent information'' e))
           | Inr (Some preAgent) \<Rightarrow> Inr (w1, check_previous agent preAgent (GetSettings cluster))
           | Inr None \<Rightarrow> register_new A cluster agent w1)))"

section \<open>Handing out jobs\<close>

text \<open>
  The callback writes the phase through the pointer to the cached agent; a phase that grew is
  saved, and an error of that is only logged.
\<close>

definition write_phase :: "nat \<Rightarrow> int option \<Rightarrow> cluster_controller \<Rightarrow> cluster_controller" where
  "write_phase a p cc = (case p of None \<Rightarrow> cc
     | Some i \<Rightarrow> cc\<lparr>cc_cache := map_option (set_phase a i) (cc_cache cc)\<rparr>)"

definition save_grown_phase :: "'w env \<Rightarrow> agent \<Rightarrow> int option \<Rightarrow> 'w \<Rightarrow> 'w" where
  "save_grown_phase E agent p w =
     (case p of None \<Rightarrow> w
      | Some i \<Rightarrow>
        (if i > ag_DeploymentPhase agent
         then fst (SaveAgentSettingsOnly (en_driver E) (en_codec E) (agent\<lparr>ag_DeploymentPhase := i\<rparr>) w)
         else w))"

definition QueryAgentNextWorkItem ::
  "'w env \<Rightarrow> string \<Rightarrow> string \<Rightarrow> cluster_manager \<Rightarrow> 'w
     \<Rightarrow> crash + 'w \<times> cluster_manager \<times> agent_job option \<times> error option" where
  "QueryAgentNextWorkItem E clusterId agentId cm w =
     (case GetClusterById clusterId cm of
        Inl e \<Rightarrow> Inr (w, cm, None, Some (EWrap clusterId e))
      | Inr r \<Rightarrow>
        bindC (GetCachedAgent agentId (cm_heap cm r)) (\<lambda>g.
          case g of
            Inl e \<Rightarrow> Inr (w, cm, None, Some (EWrap agentId e))
          | Inr None \<Rightarrow> Inr (w, cm, None, Some (EAgentNotFound agentId))
          | Inr (Some a) \<Rightarrow>
            bindC (deref (cc_cache (cm_heap cm r))) (\<lambda>ac.
              let agent = ac_objs ac a in
              bindC (GetNextJob E (cm_heap cm r) agent w) (\<lambda>(w1, cc1, d).
                Inr (save_grown_phase E agent (de_Phase d) w1,
                     store_cc r (write_phase a (de_Phase d) cc1) cm, Some (de_Job d), de_Error d)))))"

section \<open>Status reports\<close>

definition take_item ::
  "report_status \<Rightarrow> string \<Rightarrow> (bool \<Rightarrow> agent_state \<Rightarrow> agent_state) \<Rightarrow> agent_state \<Rightarrow> agent_state" where
  "take_item status k put st =
     (case gm_get (rs_Items status) k of
        Some v \<Rightarrow> (put (ri_HasProvisioned v) st)\<lparr>as_Reason := ri_Reason v\<rparr>
      | None \<Rightarrow> put False st)"

definition reported_state :: "int \<Rightarrow> report_status \<Rightarrow> agent_state" where
  "reported_state now status =
     take_item status AgentJob_Deploy_Minion (\<lambda>b st. st\<lparr>as_HasProvisionedMinion := b\<rparr>)
     (take_item status AgentJob_Deploy_HA (\<lambda>b st. st\<lparr>as_HasProvisionedHA := b\<rparr>)
     (take_item status AgentJob_Deploy_Master (\<lambda>b st. st\<lparr>as_HasProvisionedMasterComponents := b\<rparr>)
     (take_item status AgentJob_Deploy_ETCD (\<lambda>b st. st\<lparr>as_HasProvisionedETCD := b\<rparr>)
       (zero_state\<lparr>as_LastReportIP := rs_IP status, as_LastReportTime := now\<rparr>))))"

text \<open>The lease to renew: none where the agent was not in the cache.\<close>

definition find_reporter ::
  "'w env \<Rightarrow> string \<Rightarrow> string \<Rightarrow> int \<Rightarrow> cluster_manager \<Rightarrow> 'w \<Rightarrow> crash + 'w \<times> (error + int)" where
  "find_reporter E clusterId agentId leaseId cm w =
     (case GetClusterById clusterId cm of
        Inl e \<Rightarrow> Inr (w, Inl (EWrap clusterId e))
      | Inr r \<Rightarrow>
        bindC (GetCachedAgent agentId (cm_heap cm r)) (\<lambda>g.
          case g of
            Inl e \<Rightarrow> Inr (w, Inl (EWrap agentId e))
          | Inr (Some a) \<Rightarrow> Inr (w, Inr leaseId)
          | Inr None \<Rightarrow>
            bindC (CM_GetAgentFromETCD E clusterId agentId cm w) (\<lambda>(w1, h).
              case h of
                Inl e \<Rightarrow> Inr (w1, Inl (EWrap agentId e))
              | Inr None \<Rightarrow> Inr (w1, Inl (EAgentNotFound agentId))
              | Inr (Some a) \<Rightarrow> Inr (w1, Inr (- 1)))))"

definition AgentReportStatus ::
  "'w env \<Rightarrow> string \<Rightarrow> string \<Rightarrow> report_status \<Rightarrow> cluster_manager \<Rightarrow> 'w \<Rightarrow> crash + 'w \<times> int \<times> error option" where
  "AgentReportStatus E clusterId agentId status cm w =
     bindC (find_reporter E clusterId agentId (rs_LeaseId status) cm w) (\<lambda>(w1, r).
       case r of
         Inl e \<Rightarrow> Inr (w1, - 1, Some e)
       | Inr leaseId \<Rightarrow>
         Inr (SaveAgentStateOnly (en_driver E) (en_codec E) clusterId agentId leaseId
                (reported_state (en_now E w1) status) w1))"

section \<open>Checks of cluster settings: init.go, cluster\_checks.go, cluster\_default.go\<close>

definition default_port_range :: "cluster_settings \<Rightarrow> cluster_settings \<times> error option" where
  "default_port_range c =
     (case cs_PortRangeSettings c of
        None \<Rightarrow> (c\<lparr>cs_PortRangeSettings := Some \<lparr>pr_Begin = 30000, pr_End = 32767\<rparr>\<rparr>, None)
      | Some p \<Rightarrow> (c, None))"

definition def_processors :: "(cluster_settings \<Rightarrow> cluster_settings \<times> error option) list" where
  "def_processors = [default_port_range]"

fun run_defaults :: "(cluster_settings \<Rightarrow> cluster_settings \<times> error option) list
    \<Rightarrow> cluster_settings \<Rightarrow> cluster_settings \<times> error option" where
  "run_defaults [] c = (c, None)"
| "run_defaults (p # ps) c =
     (case p c of (c', Some e) \<Rightarrow> (c', Some e) | (c', None) \<Rightarrow> run_defaults ps c')"

definition SetDefaultValue :: "cluster_settings \<Rightarrow> cluster_settings \<times> error option" where
  "SetDefaultValue c = run_defaults def_processors c"

definition check_ha :: "cluster_settings \<Rightarrow> crash + error option" where
  "check_ha c =
     (case cs_HASettings c of
        None \<Rightarrow> Inr None
      | Some h \<Rightarrow> Inr (if hs_VIP h = [] then Some (EInvalidSettings ''ha_settings.vip'')
                       else if hs_NodeCount h \<le> 0 then Some (EInvalidSettings ''ha_settings.count'')
                       else None))"

definition check_ports :: "cluster_settings \<Rightarrow> crash + error option" where
  "check_ports c =
     bindC (deref (cs_PortRangeSettings c)) (\<lambda>p.
       Inr (if pr_Begin p = 0 then Some (EInvalidSettings ''node_port_range_settings.begin'')
            else if pr_End p = 0 then Some (EInvalidSettings ''node_port_range_settings.end'')
            else if pr_End p \<le> pr_Begin p then Some (EInvalidSettings ''node_port_range_settings'')
            else None))"

definition secret_complete :: "pull_secret \<Rightarrow> bool" where
  "secret_complete ps \<longleftrightarrow> \<not> (ps_Name ps = [] \<or> ps_Username ps = [] \<or> ps_Password ps = [] \<or>
     ps_Email ps = [] \<or> ps_Namespace ps = [] \<or> ps_Registry ps = [])"

fun check_secret_list :: "pull_secret list \<Rightarrow> error option" where
  "check_secret_list [] = None"
| "check_secret_list (ps # pss) =
     (if \<not> secret_complete ps then Some (EInvalidSettings ''image_pull_secrets'') else check_secret_list pss)"

definition check_secrets :: "cluster_settings \<Rightarrow> crash + error option" where
  "check_secrets c = Inr (check_secret_list (cs_ImagePullSecrets c))"

definition check_processors :: "(cluster_settings \<Rightarrow> crash + error option) list" where
  "check_processors = [check_ha, check_ports, check_secrets]"

fun run_checks :: "(cluster_settings \<Rightarrow> crash + error option) list \<Rightarrow> cluster_settings \<Rightarrow> crash + error option" where
  "run_checks [] c = Inr None"
| "run_checks (p # ps) c =
     bindC (p c) (\<lambda>r. case r of Some e \<Rightarrow> Inr (Some e) | None \<Rightarrow> run_checks ps c)"

definition SecurityCheck :: "cluster_settings \<Rightarrow> crash + error option" where
  "SecurityCheck c = run_checks check_processors c"

section \<open>Creating a cluster: cluster\_mgmt.go\<close>

fun put_certificates ::
  "'w env \<Rightarrow> string \<Rightarrow> (string, string) gomap \<Rightarrow> 'w \<Rightarrow> 'w \<times> error option" where
  "put_certificates E clusterId [] w = (w, None)"
| "put_certificates E clusterId ((k, v) # kvs) w =
     (case sd_Put (en_driver E) w (certificate_path clusterId k) v None of
        (w1, Some e) \<Rightarrow> (w1, Some e)
      | (w1, None) \<Rightarrow> put_certificates E clusterId kvs w1)"

definition saveClusterCertificate ::
  "'w env \<Rightarrow> cluster_settings \<Rightarrow> (string, string) gomap option \<Rightarrow> 'w \<Rightarrow> 'w \<times> error option" where
  "saveClusterCertificate E cluster certsMap w =
     (case certsMap of None \<Rightarrow> (w, None) | Some m \<Rightarrow> put_certificates E (cs_Id cluster) m w)"

definition saveCluster ::
  "'w env \<Rightarrow> cluster_settings \<Rightarrow> (string, string) gomap option \<Rightarrow> 'w \<Rightarrow> 'w \<times> error option" where
  "saveCluster E cluster certsMap w =
     (case saveClusterCertificate E cluster certsMap w of
        (w1, Some e) \<Rightarrow> (w1, Some e)
      | (w1, None) \<Rightarrow>
        (case mar_settings (en_codec E) cluster of
           Inl e \<Rightarrow> (w1, Some e)
         | Inr data \<Rightarrow> sd_Put (en_driver E) w1 (metadata_path (cs_Id cluster)) data None))"

definition check_cluster :: "'w api \<Rightarrow> cluster_settings \<Rightarrow> error option" where
  "check_cluster A c =
     (if cs_ExpectedETCDCount c \<le> 0 then Some (EInvalidSettings ''expected_etcd_count'')
      else if cs_KubernetesVersion c = [] then Some (EInvalidSettings ''kubernetes_version'')
      else if cs_ServiceDNSClusterIP c = [] then Some (EInvalidSettings ''service_dns_cluster_ip'')
      else case ap_ParseCIDR A (cs_PodNetworkCIDR c) of
        Some e \<Rightarrow> Some (EWrap ''cluster.PodNetworkCIDR'' e)
      | None \<Rightarrow> (case ap_ParseCIDR A (cs_ServiceCIDR c) of
          Some e \<Rightarrow> Some (EWrap ''cluster.ServiceCIDR'' e)
        | None \<Rightarrow> None))"

text \<open>The certificates of a cluster that is not the pool of unassigned hosts.\<close>

definition cluster_certificates ::
  "'w api \<Rightarrow> cluster_settings \<Rightarrow> 'w \<Rightarrow> 'w \<times> (error + (string, string) gomap option)" where
  "cluster_certificates A c w =
     (if cs_Id c = nil_uuid then (w, Inr None)
      else case check_cluster A c of
        Some e \<Rightarrow> (w, Inl e)
      | None \<Rightarrow> (case ap_GenerateMainCACertificates A w of
          (w1, Inl e) \<Rightarrow> (w1, Inl (EWrap ''generate Kubernetes required certificates'' e))
        | (w1, Inr m) \<Rightarrow> (w1, Inr (Some m))))"

definition fill_cluster :: "'w api \<Rightarrow> cluster_settings \<Rightarrow> 'w \<Rightarrow> 'w \<times> cluster_settings" where
  "fill_cluster A c w =
     (case (if cs_Id c = [] then ap_NewV4 A w else (w, cs_Id c)) of (w1, i) \<Rightarrow>
       (w1, c\<lparr>cs_Id := i,
          cs_MaximumAllowedPodCountPerNode :=
            (if cs_MaximumAllowedPodCountPerNode c \<le> 0 then 110 else cs_MaximumAllowedPodCountPerNode c),
          cs_ServiceDNSDomain := (if cs_ServiceDNSDomain c = [] then ''cluster.local'' else cs_ServiceDNSDomain c),
          cs_SecurityToken := ''abc'', cs_CreateTime := en_now (ap_env A) w1\<rparr>))"

definition NewCluster :: "'w api \<Rightarrow> cluster_settings \<Rightarrow> 'w \<Rightarrow> 'w \<times> (error + string)" where
  "NewCluster A c w =
     (case cluster_certificates A c w of
        (w1, Inl e) \<Rightarrow> (w1, Inl e)
      | (w1, Inr certs) \<Rightarrow>
        (case fill_cluster A c w1 of (w2, cluster) \<Rightarrow>
          (case saveCluster (ap_env A) cluster certs w2 of
             (w3, Some e) \<Rightarrow> (w3, Inl (EWrap ''save cluster information'' e))
           | (w3, None) \<Rightarrow> (w3, Inr (cs_Id cluster)))))"

section \<open>Reading an agent\<close>

lemma get_agent_sound:
  assumes "kv_driver (en_driver E) kv" and "CC_GetAgentFromETCD E cid aid w = Inr (w', Inr g)" and "aid \<noteq> []"
  shows "kv w' = kv w \<and> (g = None \<longrightarrow> kv w (agent_settings_path cid aid) = None) \<and>
     (\<forall>a. g = Some a \<longrightarrow> stored_agent (en_codec E) (kv w) cid aid = Some a)"
proof -
  from assms(2,3) obtain w1 rsp1 where g1: "sd_Get (en_driver E) w (agent_settings_path cid aid) False = (w1, Inr rsp1)"
    by (auto simp: CC_GetAgentFromETCD_def split: prod.splits sum.splits)
  note k1 = kv_get [OF assms(1) g1]
  show ?thesis
  proof (cases "kv w (agent_settings_path cid aid)")
    case None
    with assms(2,3) g1 k1 show ?thesis by (auto simp: CC_GetAgentFromETCD_def)
  next
    case (Some v)
    then obtain a w2 rsp2 where a: "unm_agent (en_codec E) v = Inr a"
      and g2: "sd_Get (en_driver E) w1 (agent_state_path cid aid) False = (w2, Inr rsp2)"
      using assms(2,3) g1 k1
      by (auto simp: CC_GetAgentFromETCD_def first_value_def split: prod.splits sum.splits)
    note k2 = kv_get [OF assms(1) g2]
    show ?thesis
    proof (cases "kv w (agent_state_path cid aid)")
      case None
      with Some a assms(2,3) g1 k1 g2 k2 show ?thesis
        by (auto simp: CC_GetAgentFromETCD_def first_value_def stored_agent_def with_state_def)
    next
      case (Some t)
      with \<open>kv w (agent_settings_path cid aid) = Some v\<close> a assms(2,3) g1 k1 g2 k2 show ?thesis
        by (auto simp: CC_GetAgentFromETCD_def first_value_def stored_agent_def with_state_def split: sum.splits)
    qed
  qed
qed

lemma RegisterAgent_cases:
  assumes "RegisterAgent A a cm w = Inr (w', Inr reg)"
  obtains r w1 where "gm_get (cm_clusters cm) (ag_ClusterId a) = Some r"
      "CM_GetAgentFromETCD (ap_env A) (ag_ClusterId a) (ag_Id a) cm w = Inr (w1, Inr None)"
      "register_new A (cm_heap cm r) a w1 = Inr (w', Inr reg)"
  | r pre where "gm_get (cm_clusters cm) (ag_ClusterId a) = Some r"
      "CM_GetAgentFromETCD (ap_env A) (ag_ClusterId a) (ag_Id a) cm w = Inr (w', Inr (Some pre))"
      "check_previous a pre (GetSettings (cm_heap cm r)) = Inr reg"
proof (cases "GetClusterById (ag_ClusterId a) cm")
  case (Inl e)
  with assms show thesis by (auto simp: RegisterAgent_def split: if_splits)
next
  case (Inr r)
  then have r: "gm_get (cm_clusters cm) (ag_ClusterId a) = Some r"
    by (simp add: GetClusterById_def split: option.splits)
  from assms Inr obtain w1 g where g: "CM_GetAgentFromETCD (ap_env A) (ag_ClusterId a) (ag_Id a) cm w = Inr (w1, g)"
    and k: "(case g of Inl e \<Rightarrow> Inr (w1, Inl (EWrap ''retrieve agent information'' e))
           | Inr (Some preAgent) \<Rightarrow> Inr (w1, check_previous a preAgent (GetSettings (cm_heap cm r)))
           | Inr None \<Rightarrow> register_new A (cm_heap cm r) a w1) = Inr (w', Inr reg)"
    by (auto simp: RegisterAgent_def Let_def split: if_splits elim!: bindC_InrE)
  show thesis
  proof (cases g)
    case (Inl e)
    with k show thesis by simp
  next
    case (Inr h)
    with k g r that show thesis by (cases h) auto
  qed
qed

definition quiet :: "'w api \<Rightarrow> ('w \<Rightarrow> string \<rightharpoonup> string) \<Rightarrow> bool" where
  "quiet A kv \<longleftrightarrow> (\<forall>w w' i. ap_NewV4 A w = (w', i) \<longrightarrow> kv w' = kv w \<and> i \<noteq> []) \<and>
     (\<forall>w ip cs w' r. ap_GenerateAdminKubeConfig A w ip cs = (w', r) \<longrightarrow> kv w' = kv w) \<and>
     (\<forall>w w' r. ap_GenerateMainCACertificates A w = (w', r) \<longrightarrow> kv w' = kv w)"

text \<open>The configuration of a master is the one generated for its address; no other agent gets one.\<close>

definition admin_conf_for :: "'w api \<Rightarrow> cluster_controller \<Rightarrow> agent \<Rightarrow> agent_state \<Rightarrow> string \<Rightarrow> bool" where
  "admin_conf_for A cc a st conf \<longleftrightarrow>
     (if ag_HasMasterRole a
      then conf \<noteq> [] \<and> (\<exists>v v' m. ap_GenerateAdminKubeConfig A v (as_LastReportIP st) (GetCertificates cc) = (v', Inr m) \<and>
             conf = gm_str m ''admin.conf'')
      else conf = ag_AdminCertificate a)"

lemma admin_config_ok:
  assumes "quiet A kv" and "admin_config A cc a w = Inr (w', Inr b)"
  shows "kv w' = kv w \<and> (\<exists>conf. b = a\<lparr>ag_AdminCertificate := conf\<rparr> \<and>
     (\<forall>st. ag_State a = Some st \<longrightarrow> admin_conf_for A cc a st conf))"
proof (cases "ag_HasMasterRole a")
  case False
  with assms(2) have "b = a" "w' = w" by (simp_all add: admin_config_def)
  with False show ?thesis by (intro conjI exI [of _ "ag_AdminCertificate a"]) (simp_all add: admin_conf_for_def)
next
  case True
  with assms(2) obtain st r where g: "ag_State a = Some st" "with_config a r = Inr b"
    "ap_GenerateAdminKubeConfig A w (as_LastReportIP st) (GetCertificates cc) = (w', r)"
    by (auto simp: admin_config_def deref_def split: option.splits prod.splits)
  then have "kv w' = kv w" using assms(1) unfolding quiet_def by blast
  moreover from g(2) obtain m where "r = Inr m" "gm_str m ''admin.conf'' \<noteq> []"
    "b = a\<lparr>ag_AdminCertificate := gm_str m ''admin.conf''\<rparr>"
    by (auto simp: with_config_def split: sum.splits if_splits)
  ultimately show ?thesis using True g(1,3) by (auto simp: admin_conf_for_def)
qed

text \<open>The identifier that was sent, or a fresh one where none was.\<close>

definition id_for :: "'w api \<Rightarrow> string \<Rightarrow> string \<Rightarrow> bool" where
  "id_for A sent i \<longleftrightarrow> (if sent = [] then \<exists>v v'. ap_NewV4 A v = (v', i) else i = sent)"

lemma assign_id_ok:
  assumes "quiet A kv" and "assign_id A a w = (w', b)"
  shows "kv w' = kv w \<and> ag_Id b \<noteq> [] \<and> id_for A (ag_Id a) (ag_Id b) \<and> (\<exists>i. b = a\<lparr>ag_Id := i\<rparr>)"
proof (cases "ag_Id a = []")
  case True
  then obtain i where "ap_NewV4 A w = (w', i)" "b = a\<lparr>ag_Id := i\<rparr>"
    using assms(2) by (auto simp: assign_id_def split: prod.splits)
  with assms(1) True show ?thesis unfolding quiet_def id_for_def by fastforce
next
  case False
  with assms(2) have "b = a" "w' = w" by (simp_all add: assign_id_def)
  with False show ?thesis by (intro conjI exI [of _ "ag_Id a"]) (simp_all add: id_for_def)
qed

lemma register_new_ok:
  assumes "kv_driver (en_driver (ap_env A)) kv" and "quiet A kv"
    and "register_new A cc a w = Inr (w', Inr (s, aid, cid, l))"
  shows "s = GetSettings cc \<and> cid = cs_Id (GetSettings cc) \<and> aid \<noteq> [] \<and> id_for A (ag_Id a) aid \<and>
     (\<exists>st conf v d t. ag_State a = Some st \<and> admin_conf_for A cc a st conf \<and> kv v = kv w \<and>
       mar_agent (en_codec (ap_env A)) (a\<lparr>ag_Id := aid, ag_AdminCertificate := conf,
         ag_State := Some (st\<lparr>as_LastReportTime := en_now (ap_env A) v\<rparr>)\<rparr>) = Inr d \<and>
       mar_state (en_codec (ap_env A)) (Some (st\<lparr>as_LastReportTime := en_now (ap_env A) v\<rparr>)) = Inr t \<and>
       kv w' = (kv w)(agent_settings_path (ag_ClusterId a) aid \<mapsto> d, agent_state_path (ag_ClusterId a) aid \<mapsto> t))"
proof -
  from assms(3) obtain w1 a1 w2 a2 st where 1: "admin_config A cc a w = Inr (w1, Inr a1)"
    and 2: "assign_id A a1 w1 = (w2, a2)" and st: "ag_State a2 = Some st"
    and k: "(case SaveAgent (en_driver (ap_env A)) (en_codec (ap_env A))
               (a2\<lparr>ag_State := Some (st\<lparr>as_LastReportTime := en_now (ap_env A) w2\<rparr>)\<rparr>) w2 of
               (w3, leaseId, Some e) \<Rightarrow> Inr (w3, Inl (EWrap ''save registered agent'' e))
             | (w3, leaseId, None) \<Rightarrow> Inr (w3, Inr (GetSettings cc, ag_Id a2, cs_Id (GetSettings cc), leaseId))) =
           (Inr (w', Inr (s, aid, cid, l)) :: crash + _)"
    by (auto simp: register_new_def Let_def deref_def split: sum.splits prod.splits option.splits elim!: bindC_InrE)
  define b where "b = a2\<lparr>ag_State := Some (st\<lparr>as_LastReportTime := en_now (ap_env A) w2\<rparr>)\<rparr>"
  have 3: "SaveAgent (en_driver (ap_env A)) (en_codec (ap_env A)) b w2 = (w', l, None)"
    and res: "s = GetSettings cc" "aid = ag_Id b" "cid = cs_Id (GetSettings cc)"
    using k unfolding b_def by (auto split: prod.splits option.splits)
  from admin_config_ok [OF assms(2) 1] obtain conf where c: "kv w1 = kv w" "a1 = a\<lparr>ag_AdminCertificate := conf\<rparr>"
    "\<forall>st. ag_State a = Some st \<longrightarrow> admin_conf_for A cc a st conf" by blast
  from assign_id_ok [OF assms(2) 2] obtain i where i: "kv w2 = kv w1" "i \<noteq> []" "id_for A (ag_Id a1) i" "a2 = a1\<lparr>ag_Id := i\<rparr>"
    by auto
  have b: "b = a\<lparr>ag_Id := aid, ag_AdminCertificate := conf,
      ag_State := Some (st\<lparr>as_LastReportTime := en_now (ap_env A) w2\<rparr>)\<rparr>" and aid: "aid = i"
    using c(2) i(4) res(2) by (simp_all add: b_def)
  from st c(2) i(4) have "ag_State a = Some st" by simp
  moreover from this c(3) have "admin_conf_for A cc a st conf" by blast
  moreover have "kv w2 = kv w" using c(1) i(1) by simp
  moreover from SaveAgent_kv [OF assms(1) 3] obtain d t where
    "mar_agent (en_codec (ap_env A)) b = Inr d" "mar_state (en_codec (ap_env A)) (ag_State b) = Inr t"
    "kv w' = (kv w2)(agent_settings_path (ag_ClusterId b) (ag_Id b) \<mapsto> d, agent_state_path (ag_ClusterId b) (ag_Id b) \<mapsto> t)"
    by blast
  ultimately have "\<exists>st conf v d t. ag_State a = Some st \<and> admin_conf_for A cc a st conf \<and> kv v = kv w \<and>
       mar_agent (en_codec (ap_env A)) (a\<lparr>ag_Id := aid, ag_AdminCertificate := conf,
         ag_State := Some (st\<lparr>as_LastReportTime := en_now (ap_env A) v\<rparr>)\<rparr>) = Inr d \<and>
       mar_state (en_codec (ap_env A)) (Some (st\<lparr>as_LastReportTime := en_now (ap_env A) v\<rparr>)) = Inr t \<and>
       kv w' = (kv w)(agent_settings_path (ag_ClusterId a) aid \<mapsto> d, agent_state_path (ag_ClusterId a) aid \<mapsto> t)"
    unfolding b by (intro exI [of _ st] exI [of _ conf] exI [of _ w2] exI [of _ d] exI [of _ t]) simp
  with i(2,3) c(2) aid res show ?thesis by simp
qed

section \<open>Properties\<close>

text \<open>
  C28: registering a new agent saves it as it was sent: if the store does not know it and
  registration succeeds, the store holds afterwards exactly two more entries, the settings and the
  state of the agent that was sent, its reported address and everything else included, in which only three things
  are filled in: the identifier that is answered (the one sent, or a fresh one), for a master the
  administrative configuration generated for its address, and the time of the report.
\<close>

theorem new_agent_saved:
  assumes "kv_driver (en_driver (ap_env A)) kv" and "quiet A kv"
    and "RegisterAgent A a cm w = Inr (w', Inr (s, aid, cid, l))"
    and "gm_get (cm_clusters cm) (ag_ClusterId a) = Some r" and "GetClusterId (cm_heap cm r) = ag_ClusterId a"
    and "ag_Id a = [] \<or> kv w (agent_settings_path (ag_ClusterId a) (ag_Id a)) = None"
  shows "s = GetSettings (cm_heap cm r) \<and> cid = cs_Id s \<and> aid \<noteq> [] \<and> id_for A (ag_Id a) aid \<and>
     (\<exists>st conf v d t. ag_State a = Some st \<and> admin_conf_for A (cm_heap cm r) a st conf \<and> kv v = kv w \<and>
       mar_agent (en_codec (ap_env A)) (a\<lparr>ag_Id := aid, ag_AdminCertificate := conf,
         ag_State := Some (st\<lparr>as_LastReportTime := en_now (ap_env A) v\<rparr>)\<rparr>) = Inr d \<and>
       mar_state (en_codec (ap_env A)) (Some (st\<lparr>as_LastReportTime := en_now (ap_env A) v\<rparr>)) = Inr t \<and>
       kv w' = (kv w)(agent_settings_path (ag_ClusterId a) aid \<mapsto> d, agent_state_path (ag_ClusterId a) aid \<mapsto> t))"
  using assms(3)
proof (cases rule: RegisterAgent_cases)
  case (1 r' w1)
  have "kv w1 = kv w"
  proof (cases "ag_Id a = []")
    case True
    with 1(2) show ?thesis by (simp add: CM_GetAgentFromETCD_def)
  next
    case False
    with 1(2) get_agent_sound [OF assms(1)] CM_get_registered [OF assms(4,5) False, of "ap_env A" w] show ?thesis
      by metis
  qed
  with register_new_ok [OF assms(1,2) 1(3)] 1(1) assms(4) show ?thesis by simp
next
  case (2 r' pre)
  then have ne: "ag_Id a \<noteq> []" by (auto simp: CM_GetAgentFromETCD_def)
  with 2 CM_get_registered [OF assms(4,5) ne, of "ap_env A" w]
  have "CC_GetAgentFromETCD (ap_env A) (ag_ClusterId a) (ag_Id a) w = Inr (w', Inr (Some pre))" by simp
  from get_agent_sound [OF assms(1) this ne] assms(6) ne show ?thesis
    by (simp add: stored_agent_def)
qed

text \<open>
  C3: an agent that the store knows registers only as itself: a successful answer carries the
  identifier that is stored and no lease, nothing is written, and the host name agrees up to case,
  the address agrees if one is stored, and the stored agent is not marked as deleted.
\<close>

theorem known_agent_registers_as_itself:
  assumes "kv_driver (en_driver (ap_env A)) kv"
    and "RegisterAgent A a cm w = Inr (w', Inr (s, aid, cid, l))"
    and "gm_get (cm_clusters cm) (ag_ClusterId a) = Some r" and "GetClusterId (cm_heap cm r) = ag_ClusterId a"
    and "ag_Id a \<noteq> []" and "kv w (agent_settings_path (ag_ClusterId a) (ag_Id a)) \<noteq> None"
  shows "kv w' = kv w \<and> l = - 1 \<and> (\<exists>pre.
     stored_agent (en_codec (ap_env A)) (kv w) (ag_ClusterId a) (ag_Id a) = Some pre \<and> aid = ag_Id pre \<and>
     aid \<noteq> [] \<and> to_lower (ag_Hostname a) = to_lower (ag_Hostname pre) \<and> \<not> ag_IsDelete pre \<and>
     (\<forall>st st'. ag_State a = Some st \<and> ag_State pre = Some st' \<longrightarrow> as_LastReportIP st = as_LastReportIP st'))"
  using assms(2)
proof (cases rule: RegisterAgent_cases)
  case (1 r' w1)
  then have "CC_GetAgentFromETCD (ap_env A) (ag_ClusterId a) (ag_Id a) w = Inr (w1, Inr None)"
    using CM_get_registered [OF assms(3-5), of "ap_env A" w] by simp
  from get_agent_sound [OF assms(1) this assms(5)] assms(6) show ?thesis by simp
next
  case (2 r' pre)
  then have "CC_GetAgentFromETCD (ap_env A) (ag_ClusterId a) (ag_Id a) w = Inr (w', Inr (Some pre))"
    using CM_get_registered [OF assms(3-5), of "ap_env A" w] by simp
  from get_agent_sound [OF assms(1) this assms(5)] 2(3) show ?thesis
    by (auto simp: check_previous_def split: if_splits option.splits)
qed

lemma reported_state_fields:
  "as_LastReportIP (reported_state now status) = rs_IP status"
  "as_LastReportTime (reported_state now status) = now"
  "as_HasProvisionedETCD (reported_state now status) \<longleftrightarrow>
     (\<exists>v. gm_get (rs_Items status) AgentJob_Deploy_ETCD = Some v \<and> ri_HasProvisioned v)"
  "as_HasProvisionedMasterComponents (reported_state now status) \<longleftrightarrow>
     (\<exists>v. gm_get (rs_Items status) AgentJob_Deploy_Master = Some v \<and> ri_HasProvisioned v)"
  "as_HasProvisionedHA (reported_state now status) \<longleftrightarrow>
     (\<exists>v. gm_get (rs_Items status) AgentJob_Deploy_HA = Some v \<and> ri_HasProvisioned v)"
  "as_HasProvisionedMinion (reported_state now status) \<longleftrightarrow>
     (\<exists>v. gm_get (rs_Items status) AgentJob_Deploy_Minion = Some v \<and> ri_HasProvisioned v)"
  "as_Reason (reported_state now status) =
     (case List.map_filter (\<lambda>k. map_option ri_Reason (gm_get (rs_Items status) k))
       [AgentJob_Deploy_Minion, AgentJob_Deploy_HA, AgentJob_Deploy_Master, AgentJob_Deploy_ETCD] of
         [] \<Rightarrow> [] | r # rs \<Rightarrow> r)"
  by (simp_all add: reported_state_def take_item_def zero_state_def List.map_filter_simps split: option.splits)

lemma find_reporter_kv:
  assumes "kv_driver (en_driver E) kv" and "find_reporter E cid aid l cm w = Inr (w', Inr l')"
  shows "kv w' = kv w \<and> (l' = l \<or> l' = - 1)"
proof -
  have "kv w1 = kv w" if "CM_GetAgentFromETCD E cid aid cm w = Inr (w1, Inr (Some a))" for w1 a
  proof (cases "aid = []")
    case False
    with that obtain r where "CC_GetAgentFromETCD E (GetClusterId (cm_heap cm r)) aid w = Inr (w1, Inr (Some a))"
      by (auto simp: CM_GetAgentFromETCD_def split: sum.splits)
    from get_agent_sound [OF assms(1) this False] show ?thesis by simp
  qed (use that in \<open>simp add: CM_GetAgentFromETCD_def\<close>)
  with assms(2) show ?thesis
    by (auto simp: find_reporter_def split: sum.splits option.splits elim!: bindC_InrE)
qed

text \<open>
  C29: a status report that is accepted is recorded as it was sent: the only entry of the store
  that changes is the state of the agent, and read back it has the reported address, the time of the
  report, for each of the four components counts it as provisioned exactly if the report has an item
  for it that says so, and has the reason of the last of these items in the order of deployment.
\<close>

theorem report_recorded:
  assumes "kv_driver (en_driver E) kv" and "AgentReportStatus E cid aid status cm w = Inr (w', l, None)"
    and "\<And>v. codec_state (en_codec E) (reported_state (en_now E v) status)"
  shows "\<exists>t st. kv w' = (kv w)(agent_state_path cid aid \<mapsto> t) \<and> unm_state (en_codec E) t = Inr st \<and>
     as_LastReportIP st = rs_IP status \<and>
     (\<exists>v. kv v = kv w \<and> as_LastReportTime st = en_now E v) \<and>
     as_Reason st = (case List.map_filter (\<lambda>k. map_option ri_Reason (gm_get (rs_Items status) k))
       [AgentJob_Deploy_Minion, AgentJob_Deploy_HA, AgentJob_Deploy_Master, AgentJob_Deploy_ETCD] of
         [] \<Rightarrow> [] | r # rs \<Rightarrow> r) \<and>
     (\<forall>(k, get) \<in> {(AgentJob_Deploy_ETCD, as_HasProvisionedETCD), (AgentJob_Deploy_Master, as_HasProvisionedMasterComponents),
        (AgentJob_Deploy_HA, as_HasProvisionedHA), (AgentJob_Deploy_Minion, as_HasProvisionedMinion)}.
        get st \<longleftrightarrow> (\<exists>v. gm_get (rs_Items status) k = Some v \<and> ri_HasProvisioned v))"
proof -
  from assms(2) obtain w1 l' where f: "find_reporter E cid aid (rs_LeaseId status) cm w = Inr (w1, Inr l')"
    and s: "SaveAgentStateOnly (en_driver E) (en_codec E) cid aid l' (reported_state (en_now E w1) status) w1 = (w', l, None)"
    by (auto simp: AgentReportStatus_def split: sum.splits elim!: bindC_InrE)
  from SaveAgentStateOnly_kv [OF assms(1) s] find_reporter_kv [OF assms(1) f] obtain t where
    t: "mar_state (en_codec E) (Some (reported_state (en_now E w1) status)) = Inr t"
      "kv w' = (kv w)(agent_state_path cid aid \<mapsto> t)" by auto
  with assms(3) [of w1] have "unm_state (en_codec E) t = Inr (reported_state (en_now E w1) status)"
    by (simp add: codec_state_def)
  with t(2) show ?thesis
    using find_reporter_kv [OF assms(1) f]
    by (intro exI [of _ t] exI [of _ "reported_state (en_now E w1) status"]) (auto simp: reported_state_fields)
qed


lemma check_secret_list_iff: "check_secret_list pss = None \<longleftrightarrow> list_all secret_complete pss"
  by (induction pss) auto

text \<open>
  C30: after the defaults are set the checks of a cluster's settings do not crash, and they accept
  exactly the settings whose load balancer settings, if any, name an address and at least one
  node, whose port range is increasing and starts and ends anywhere but at zero (a negative begin
  passes), and whose image pull secrets are all complete.
\<close>

theorem accepted_settings:
  "\<exists>r. SecurityCheck (fst (SetDefaultValue c)) = Inr r \<and>
     (r = None \<longleftrightarrow>
       (case cs_HASettings c of None \<Rightarrow> True | Some h \<Rightarrow> hs_VIP h \<noteq> [] \<and> 0 < hs_NodeCount h) \<and>
       (case cs_PortRangeSettings c of None \<Rightarrow> True | Some p \<Rightarrow> pr_Begin p \<noteq> 0 \<and> pr_End p \<noteq> 0 \<and> pr_Begin p < pr_End p) \<and>
       list_all secret_complete (cs_ImagePullSecrets c))"
proof -
  obtain c' where d: "SetDefaultValue c = (c', None)" "cs_HASettings c' = cs_HASettings c"
      "cs_ImagePullSecrets c' = cs_ImagePullSecrets c"
      "cs_PortRangeSettings c' = Some (case cs_PortRangeSettings c of None \<Rightarrow> \<lparr>pr_Begin = 30000, pr_End = 32767\<rparr> | Some p \<Rightarrow> p)"
    by (cases "cs_PortRangeSettings c") (simp_all add: SetDefaultValue_def def_processors_def default_port_range_def)
  have ha: "\<exists>r. check_ha c' = Inr r \<and> (r = None \<longleftrightarrow>
      (case cs_HASettings c of None \<Rightarrow> True | Some h \<Rightarrow> hs_VIP h \<noteq> [] \<and> 0 < hs_NodeCount h))"
    by (auto simp: check_ha_def d split: option.splits)
  have ports: "\<exists>r. check_ports c' = Inr r \<and> (r = None \<longleftrightarrow>
      (case cs_PortRangeSettings c of None \<Rightarrow> True | Some p \<Rightarrow> pr_Begin p \<noteq> 0 \<and> pr_End p \<noteq> 0 \<and> pr_Begin p < pr_End p))"
    by (auto simp: check_ports_def d deref_def split: option.splits)
  have secrets: "\<exists>r. check_secrets c' = Inr r \<and> (r = None \<longleftrightarrow> list_all secret_complete (cs_ImagePullSecrets c))"
    by (simp add: check_secrets_def d check_secret_list_iff)
  obtain r1 r2 r3 where r: "check_ha c' = Inr r1" "check_ports c' = Inr r2" "check_secrets c' = Inr r3"
    using ha ports secrets by blast
  have "SecurityCheck c' = Inr (case r1 of Some e \<Rightarrow> Some e | None \<Rightarrow> (case r2 of Some e \<Rightarrow> Some e | None \<Rightarrow> r3))"
    using r by (cases r1; cases r2; cases r3) (simp_all add: SecurityCheck_def check_processors_def)
  then show ?thesis
    using ha ports secrets r by (cases r1; cases r2; cases r3) (simp_all add: d(1))
qed

lemma certificate_path_simps [simp]:
  "certificate_path cid k = certificate_path cid k' \<longleftrightarrow>
     replace_char CHR ''/'' CHR ''_'' k = replace_char CHR ''/'' CHR ''_'' k'"
  "certificate_path cid k \<noteq> metadata_path cid"
  by (simp_all add: certificate_path_def metadata_path_def)

lemma put_certificates_kv:
  assumes "kv_driver (en_driver E) kv" and "put_certificates E cid m w = (w', None)"
  shows "kv w' = fold (\<lambda>(k, v) f. f(certificate_path cid k \<mapsto> v)) m (kv w)"
  using assms(2)
proof (induction m arbitrary: w)
  case (Cons x m)
  obtain k v where x: "x = (k, v)" by (cases x)
  with Cons.prems obtain w1 where "sd_Put (en_driver E) w (certificate_path cid k) v None = (w1, None)"
    "put_certificates E cid m w1 = (w', None)" by (auto split: prod.splits option.splits)
  with Cons.IH kv_put [OF assms(1)] show ?case by (simp add: x)
qed simp

lemma fold_certificates:
  shows "(\<And>k. k \<in> fst ` set m \<Longrightarrow> x \<noteq> certificate_path cid k) \<Longrightarrow>
     fold (\<lambda>(k, v) f. f(certificate_path cid k \<mapsto> v)) m f x = f x"
  and "distinct (map (replace_char CHR ''/'' CHR ''_'' \<circ> fst) m) \<Longrightarrow> (k, v) \<in> set m \<Longrightarrow>
     fold (\<lambda>(k, v) f. f(certificate_path cid k \<mapsto> v)) m f (certificate_path cid k) = Some v"
proof -
  show 1: "(\<And>k. k \<in> fst ` set m \<Longrightarrow> x \<noteq> certificate_path cid k) \<Longrightarrow>
      fold (\<lambda>(k, v) f. f(certificate_path cid k \<mapsto> v)) m f x = f x" for m x f
    by (induction m arbitrary: f) force+
  show "distinct (map (replace_char CHR ''/'' CHR ''_'' \<circ> fst) m) \<Longrightarrow> (k, v) \<in> set m \<Longrightarrow>
      fold (\<lambda>(k, v) f. f(certificate_path cid k \<mapsto> v)) m f (certificate_path cid k) = Some v"
  proof (induction m arbitrary: f)
    case (Cons y m)
    show ?case
    proof (cases "y = (k, v)")
      case True
      with Cons.prems(1) have "certificate_path cid k \<noteq> certificate_path cid k'" if "k' \<in> fst ` set m" for k'
        using that by force
      then have "fold (\<lambda>(k, v) f. f(certificate_path cid k \<mapsto> v)) m (f(certificate_path cid k \<mapsto> v)) (certificate_path cid k) =
          (f(certificate_path cid k \<mapsto> v)) (certificate_path cid k)" by (rule 1)
      then show ?thesis unfolding True fold_simps prod.case by (simp only: fun_upd_same)
    next
      case False
      obtain a b where y: "y = (a, b)" by (cases y)
      have "(k, v) \<in> set m" "distinct (map (replace_char CHR ''/'' CHR ''_'' \<circ> fst) m)"
        using Cons.prems False by (auto simp: comp_def)
      then show ?thesis unfolding y fold_simps prod.case by (intro Cons.IH)
    qed
  qed simp
qed

lemma NewCluster_cases:
  assumes "NewCluster A c w = (w', Inr cid)"
  obtains w1 certs w2 c' w3 d where "cluster_certificates A c w = (w1, Inr certs)" "fill_cluster A c w1 = (w2, c')"
    "cs_Id c' = cid" "saveClusterCertificate (ap_env A) c' certs w2 = (w3, None)"
    "mar_settings (en_codec (ap_env A)) c' = Inr d" "sd_Put (en_driver (ap_env A)) w3 (metadata_path cid) d None = (w', None)"
proof -
  obtain w1 certs where 1: "cluster_certificates A c w = (w1, Inr certs)"
    and k1: "(case fill_cluster A c w1 of (w2, cluster) \<Rightarrow>
          (case saveCluster (ap_env A) cluster certs w2 of
             (w3, Some e) \<Rightarrow> (w3, Inl (EWrap ''save cluster information'' e))
           | (w3, None) \<Rightarrow> (w3, Inr (cs_Id cluster)))) = (w', Inr cid)"
    using assms by (auto simp: NewCluster_def split: prod.splits sum.splits)
  obtain w2 c' where 2: "fill_cluster A c w1 = (w2, c')" by (cases "fill_cluster A c w1")
  with k1 have 3: "saveCluster (ap_env A) c' certs w2 = (w', None)" and cid: "cs_Id c' = cid"
    by (auto split: prod.splits option.splits)
  from 3 cid that [OF 1 2 cid] show thesis
    by (auto simp: saveCluster_def split: prod.splits option.splits sum.splits)
qed

lemma NewCluster_certificates:
  assumes "quiet A kv" and "cluster_certificates A c w = (w1, Inr certs)"
  shows "kv w1 = kv w"
    and "if cs_Id c = nil_uuid then certs = None
      else check_cluster A c = None \<and> (\<exists>m v. ap_GenerateMainCACertificates A v = (w1, Inr m) \<and> certs = Some m)"
  using assms by (auto simp: cluster_certificates_def quiet_def split: if_splits option.splits prod.splits sum.splits)

lemma check_cluster_iff:
  "check_cluster A c = None \<longleftrightarrow> 0 < cs_ExpectedETCDCount c \<and> cs_KubernetesVersion c \<noteq> [] \<and>
     cs_ServiceDNSClusterIP c \<noteq> [] \<and> ap_ParseCIDR A (cs_PodNetworkCIDR c) = None \<and> ap_ParseCIDR A (cs_ServiceCIDR c) = None"
  by (auto simp: check_cluster_def split: option.splits)

lemma fill_cluster_ok:
  assumes "quiet A kv" and "fill_cluster A c w = (w', c')"
  shows "kv w' = kv w" and "id_for A (cs_Id c) (cs_Id c')"
    and "c' = c\<lparr>cs_Id := cs_Id c',
       cs_MaximumAllowedPodCountPerNode :=
         (if 0 < cs_MaximumAllowedPodCountPerNode c then cs_MaximumAllowedPodCountPerNode c else 110),
       cs_ServiceDNSDomain := (if cs_ServiceDNSDomain c = [] then ''cluster.local'' else cs_ServiceDNSDomain c),
       cs_SecurityToken := ''abc'', cs_CreateTime := en_now (ap_env A) w'\<rparr>"
proof -
  obtain i where i: "(if cs_Id c = [] then ap_NewV4 A w else (w, cs_Id c)) = (w', i)" "cs_Id c' = i"
    and c': "c' = c\<lparr>cs_Id := i,
       cs_MaximumAllowedPodCountPerNode :=
         (if cs_MaximumAllowedPodCountPerNode c \<le> 0 then 110 else cs_MaximumAllowedPodCountPerNode c),
       cs_ServiceDNSDomain := (if cs_ServiceDNSDomain c = [] then ''cluster.local'' else cs_ServiceDNSDomain c),
       cs_SecurityToken := ''abc'', cs_CreateTime := en_now (ap_env A) w'\<rparr>"
    using assms(2) by (auto simp: fill_cluster_def split: prod.splits)
  show "kv w' = kv w" using i(1) assms(1) by (auto simp: quiet_def split: if_splits)
  show "id_for A (cs_Id c) (cs_Id c')" using i by (auto simp: id_for_def split: if_splits)
  show "c' = c\<lparr>cs_Id := cs_Id c',
       cs_MaximumAllowedPodCountPerNode :=
         (if 0 < cs_MaximumAllowedPodCountPerNode c then cs_MaximumAllowedPodCountPerNode c else 110),
       cs_ServiceDNSDomain := (if cs_ServiceDNSDomain c = [] then ''cluster.local'' else cs_ServiceDNSDomain c),
       cs_SecurityToken := ''abc'', cs_CreateTime := en_now (ap_env A) w'\<rparr>"
    unfolding i(2) c' by simp
qed

text \<open>No two generated certificates share a key of the store.\<close>

definition distinct_certificates :: "'w api \<Rightarrow> bool" where
  "distinct_certificates A \<longleftrightarrow> (\<forall>w w' m. ap_GenerateMainCACertificates A w = (w', Inr m) \<longrightarrow>
     distinct (map (replace_char CHR ''/'' CHR ''_'' \<circ> fst) m))"

text \<open>
  C27: a cluster that was created is in the store as it was asked for: if creation succeeds, the metadata
  under the identifier that is answered (the one sent, or a fresh one) is the encoding of the
  settings that were sent, in which only the identifier, the token and the time of creation are set, 110 pods per node where
  the request has no positive number, and the DNS domain \<open>cluster.local\<close> where it has none. Unless it
  is the pool, the request asked for an etcd node at least, named a Kubernetes version and a DNS address and had two
  network ranges that parse, and every generated certificate is stored. No other entry of the store changes; for the
  pool no certificate is written.
\<close>

theorem created_cluster_stored:
  assumes "kv_driver (en_driver (ap_env A)) kv" and "quiet A kv" and "NewCluster A c w = (w', Inr cid)"
    and "distinct_certificates A"
  shows "id_for A (cs_Id c) cid \<and> (\<exists>v d certs. kv v = kv w \<and>
     mar_settings (en_codec (ap_env A)) (c\<lparr>cs_Id := cid,
       cs_MaximumAllowedPodCountPerNode :=
         (if 0 < cs_MaximumAllowedPodCountPerNode c then cs_MaximumAllowedPodCountPerNode c else 110),
       cs_ServiceDNSDomain := (if cs_ServiceDNSDomain c = [] then ''cluster.local'' else cs_ServiceDNSDomain c),
       cs_SecurityToken := ''abc'', cs_CreateTime := en_now (ap_env A) v\<rparr>) = Inr d \<and>
     kv w' (metadata_path cid) = Some d \<and>
     (if cs_Id c = nil_uuid then certs = []
      else 0 < cs_ExpectedETCDCount c \<and> cs_KubernetesVersion c \<noteq> [] \<and> cs_ServiceDNSClusterIP c \<noteq> [] \<and>
        ap_ParseCIDR A (cs_PodNetworkCIDR c) = None \<and> ap_ParseCIDR A (cs_ServiceCIDR c) = None \<and>
        (\<exists>u u'. ap_GenerateMainCACertificates A u = (u', Inr certs))) \<and>
     (\<forall>(k, x) \<in> set certs. kv w' (certificate_path cid k) = Some x) \<and>
     (\<forall>k. k \<noteq> metadata_path cid \<and> (\<forall>n \<in> fst ` set certs. k \<noteq> certificate_path cid n) \<longrightarrow> kv w' k = kv w k))"
  using assms(3)
proof (cases rule: NewCluster_cases)
  case (1 w1 certs w2 c' w3 d)
  define m where "m = (case certs of None \<Rightarrow> [] | Some m \<Rightarrow> m)"
  have gen: "if cs_Id c = nil_uuid then m = []
      else check_cluster A c = None \<and> (\<exists>u. ap_GenerateMainCACertificates A u = (w1, Inr m))"
    using NewCluster_certificates(2) [OF assms(2) 1(1)] by (auto simp: m_def split: if_splits)
  note fill = fill_cluster_ok [OF assms(2) 1(2)]
  have kv2: "kv w2 = kv w" using fill(1) NewCluster_certificates(1) [OF assms(2) 1(1)] by simp
  have kv': "kv w' = (kv w3)(metadata_path cid \<mapsto> d)" by (rule kv_put [OF assms(1) 1(6)])
  have kv3: "kv w3 = fold (\<lambda>(k, v) f. f(certificate_path cid k \<mapsto> v)) m (kv w)"
    using 1(4) put_certificates_kv [OF assms(1), of cid m w2 w3] kv2
    by (cases certs) (auto simp: saveClusterCertificate_def m_def 1(3))
  have "kv w' (certificate_path cid k) = Some x" if "(k, x) \<in> set m" for k x
  proof -
    have "distinct (map (replace_char CHR ''/'' CHR ''_'' \<circ> fst) m)"
      using gen assms(4) that by (auto simp: distinct_certificates_def split: if_splits)
    from fold_certificates(2) [OF this that] show ?thesis by (simp add: kv' kv3)
  qed
  moreover have "kv w' k = kv w k" if "k \<noteq> metadata_path cid" "\<forall>n \<in> fst ` set m. k \<noteq> certificate_path cid n" for k
  proof -
    have "fold (\<lambda>(k, v) f. f(certificate_path cid k \<mapsto> v)) m (kv w) k = kv w k"
      using that(2) by (intro fold_certificates(1)) blast
    with that(1) show ?thesis by (simp add: kv' kv3)
  qed
  moreover have "kv w' (metadata_path cid) = Some d" by (simp add: kv')
  ultimately show ?thesis
    using gen kv2 fill(2,3) 1(5) unfolding 1(3) check_cluster_iff
    by (intro conjI exI [of _ w2] exI [of _ d] exI [of _ m]) (auto split: if_splits)
qed

section \<open>Witnesses\<close>

definition sim_api :: "sim_world api" where
  "sim_api = \<lparr>ap_env = sim_env\<lparr>en_codec := sim_codec\<lparr>unm_agent := (\<lambda>s. Inr (zero_agent
       \<lparr>ag_Id := s, ag_ClusterId := ''c1'', ag_Hostname := ''h1'', ag_HasETCDRole := True\<rparr>))\<rparr>\<rparr>,
     ap_NewV4 = (\<lambda>w. (w, ''u1'')), ap_GenerateMainCACertificates = (\<lambda>w. (w, Inr [(''etcd/ca.crt'', ''x'')])),
     ap_GenerateAdminKubeConfig = (\<lambda>w ip cs. (w, Inr [(''admin.conf'', ''y'')])), ap_ParseCIDR = (\<lambda>s. None)\<rparr>"

definition joining_agent :: agent where
  "joining_agent = zero_agent\<lparr>ag_ClusterId := ''c1'', ag_Hostname := ''H1'', ag_HasMasterRole := True,
     ag_State := Some (sample_state ''10.0.0.1'')\<rparr>"

lemma sim_api_facts: "kv_driver (en_driver (ap_env sim_api)) mem_kv" "quiet sim_api mem_kv"
  by (simp_all add: sim_api_def sim_env_def mem_driver_kv quiet_def)

lemma c1_cluster: "gm_get (cm_clusters c1_manager) ''c1'' = Some 0" "GetClusterId (cm_heap c1_manager 0) = ''c1''"
  by (simp_all add: c1_facts)

definition registered :: "crash + 'w \<times> (error + registration) \<Rightarrow> (string \<times> int) option" where
  "registered r = (case r of Inr (w, Inr (s, aid, cid, l)) \<Rightarrow> Some (aid, l) | _ \<Rightarrow> None)"

lemma registeredE:
  assumes "registered r = Some (aid, l)"
  obtains w s cid where "r = Inr (w, Inr (s, aid, cid, l))"
  using assms by (auto simp: registered_def split: sum.splits prod.splits)

theorem new_agent_saved_witness:
  "\<exists>w' :: sim_world. mem_kv w' (agent_settings_path ''c1'' ''u1'') \<noteq> None"
proof -
  have "registered (RegisterAgent sim_api joining_agent c1_manager sim_world) = Some (''u1'', 1)" by code_simp
  then obtain w' s cid where r: "RegisterAgent sim_api joining_agent c1_manager sim_world = Inr (w', Inr (s, ''u1'', cid, 1))"
    by (rule registeredE)
  have c: "ag_ClusterId joining_agent = ''c1''" and i: "ag_Id joining_agent = []"
    by (simp_all add: joining_agent_def zero_agent_def)
  from new_agent_saved [OF sim_api_facts r] c1_cluster i have "mem_kv w' (agent_settings_path ''c1'' ''u1'') \<noteq> None"
    by (auto simp: c settings_not_state)
  then show ?thesis by blast
qed

theorem known_agent_registers_as_itself_witness:
  "\<exists>w' s cid. RegisterAgent sim_api (joining_agent\<lparr>ag_Id := ''n1''\<rparr>) c1_manager c1_world =
     Inr (w', Inr (s, ''n1'', cid, - 1)) \<and> mem_kv w' = mem_kv c1_world"
proof -
  let ?a = "joining_agent\<lparr>ag_Id := ''n1''\<rparr>"
  have "registered (RegisterAgent sim_api ?a c1_manager c1_world) = Some (''n1'', - 1)" by code_simp
  then obtain w' s cid where r: "RegisterAgent sim_api ?a c1_manager c1_world = Inr (w', Inr (s, ''n1'', cid, - 1))"
    by (rule registeredE)
  have c: "ag_ClusterId ?a = ''c1''" and i: "ag_Id ?a = ''n1''" by (simp_all add: joining_agent_def zero_agent_def)
  have "mem_kv c1_world (agent_settings_path ''c1'' ''n1'') \<noteq> None" by (simp add: c1_store settings_not_state)
  from known_agent_registers_as_itself [OF sim_api_facts(1) r, of 0] c1_cluster this c i r show ?thesis by auto
qed

definition etcd_report :: report_status where
  "etcd_report = \<lparr>rs_IP = ''10.0.0.1'', rs_Items = [(AgentJob_Deploy_ETCD, \<lparr>ri_HasProvisioned = True, ri_Reason = [],
     ri_LastSeenTime = 0\<rparr>)], rs_LeaseId = 3\<rparr>"

theorem report_recorded_witness:
  "\<exists>(w' :: sim_world) t. mem_kv w' = (mem_kv c1_world)(agent_state_path ''c1'' ''n1'' \<mapsto> t)"
proof -
  have "(case AgentReportStatus sim_env ''c1'' ''n1'' etcd_report c1_manager c1_world of
      Inl c \<Rightarrow> False | Inr (w', l, e) \<Rightarrow> e = None)" by code_simp
  then obtain w' l where r: "AgentReportStatus sim_env ''c1'' ''n1'' etcd_report c1_manager c1_world = Inr (w', l, None)"
    by (auto split: sum.splits prod.splits)
  have "reported_state 0 etcd_report = sample_state ''10.0.0.1''"
    by (simp add: reported_state_def take_item_def etcd_report_def sample_state_def zero_state_def)
  then have "codec_state (en_codec sim_env) (reported_state (en_now sim_env v) etcd_report)" for v
    using sample_agent_codec(2) by (simp add: sim_env_def)
  from report_recorded [OF c1_facts(1) r this] show ?thesis by blast
qed

definition sample_request :: cluster_settings where
  "sample_request = zero_settings\<lparr>cs_Id := ''c1'', cs_ExpectedETCDCount := 1, cs_KubernetesVersion := ''1.12.5'',
     cs_ServiceDNSClusterIP := ''10.96.0.10''\<rparr>"

theorem created_cluster_stored_witness:
  "\<exists>w'. NewCluster sim_api sample_request sim_world = (w', Inr ''c1'') \<and> mem_kv w' (metadata_path ''c1'') \<noteq> None"
proof -
  have "snd (NewCluster sim_api sample_request sim_world) = Inr ''c1''" by code_simp
  then obtain w' where r: "NewCluster sim_api sample_request sim_world = (w', Inr ''c1'')"
    by (metis prod.collapse)
  have "distinct_certificates sim_api" by (simp add: distinct_certificates_def sim_api_def)
  from created_cluster_stored [OF sim_api_facts r this] r show ?thesis by blast
qed

end
