(* ===== verification/PendingTasks.thy ===== *)
theory PendingTasks
  imports ClusterManager
begin

text \<open>
  The delayed migrations of \<open>cmd/apiserver/apis/v1/agents/apis.go\<close>: a \<open>PendingTask\<close> waits in a
  goroutine of its own until its time is up or it is cancelled, takes itself off the list and, if
  it was not cancelled, moves an agent to another cluster.

  Tasks are shared by pointer: \<open>tt_heap\<close> holds them under their references, \<open>tt_tasks\<close> is the map
  \<open>pendingTasks\<close>. The map is only touched under the lock, so an operation is one step. The
  goroutine reads \<open>isCancelled\<close> after it released the lock; it has left the map by then, and only
  listed tasks can be cancelled, so the two make one step. The agent of a task is kept as it was
  when the task was made: a cached agent is replaced by its events, not changed, in what a
  transfer reads. The reason that a failed transfer writes into the agent's state is left out.
\<close>

section \<open>State\<close>

datatype task_goroutine = TaskWaiting | TaskDropped | TaskRun

record pending_task =
  pk_isCancelled :: bool
  pk_ctDone :: bool
  pk_agentId :: string
  pk_clusterId :: string
  pk_agent :: agent
  pk_request :: change_request
  pk_briefInformation :: brief_information
  pk_goroutine :: task_goroutine

record task_table =
  tt_tasks :: "(string, (string, nat) gomap) gomap"
  tt_heap :: "nat \<Rightarrow> pending_task"
  tt_next :: nat

definition collection :: "string \<Rightarrow> task_table \<Rightarrow> (string, nat) gomap" where
  "collection c tt = (case gm_get (tt_tasks tt) c of None \<Rightarrow> [] | Some coll \<Rightarrow> coll)"

definition write_task :: "nat \<Rightarrow> pending_task \<Rightarrow> task_table \<Rightarrow> task_table" where
  "write_task r t tt = tt\<lparr>tt_heap := (tt_heap tt)(r := t)\<rparr>"

section \<open>Operations\<close>

definition NewPendingTask :: "string \<Rightarrow> string \<Rightarrow> agent \<Rightarrow> change_request \<Rightarrow> pending_task" where
  "NewPendingTask agentId clusterId agent gr =
     \<lparr>pk_isCancelled = False, pk_ctDone = False, pk_agentId = agentId, pk_clusterId = clusterId,
      pk_agent = agent, pk_request = gr,
      pk_briefInformation = \<lparr>bi_HostInformation = ag_HostInformation agent, bi_Id = ag_Id agent,
        bi_HasETCDRole = cr_IsETCDRole gr, bi_HasMasterRole = cr_IsMasterRole gr,
        bi_HasMinionRole = cr_IsMinionRole gr, bi_HasHARole = cr_IsHARole gr,
        bi_Hostname = ag_Hostname agent, bi_State = ag_State agent,
        bi_DeploymentPhase = AgentDeploymentPhase_Pending\<rparr>,
      pk_goroutine = TaskWaiting\<rparr>"

definition Task_Cancel :: "pending_task \<Rightarrow> pending_task" where
  "Task_Cancel t = t\<lparr>pk_isCancelled := True, pk_ctDone := True\<rparr>"

text \<open>Deleting an agent from the collection of a cluster; an empty collection is deleted too.\<close>

definition remove_entry :: "string \<Rightarrow> string \<Rightarrow> task_table \<Rightarrow> task_table" where
  "remove_entry clusterId agentId tt =
     (if collection clusterId tt = [] then tt
      else let coll = gm_del agentId (collection clusterId tt) in
        tt\<lparr>tt_tasks := (if coll \<noteq> [] then gm_put clusterId coll (tt_tasks tt)
                        else gm_del clusterId (tt_tasks tt))\<rparr>)"

definition addPendingTask ::
  "string \<Rightarrow> agent \<Rightarrow> change_request \<Rightarrow> task_table \<Rightarrow> task_table \<times> error option" where
  "addPendingTask agentId agent gr tt =
     (let newClusterId = cr_NewClusterId gr; coll = collection newClusterId tt in
      if gm_get coll agentId \<noteq> None then (tt, Some (EDuplicatedTask agentId))
      else (tt\<lparr>tt_tasks := gm_put newClusterId (gm_put agentId (tt_next tt) coll) (tt_tasks tt),
               tt_heap := (tt_heap tt)(tt_next tt := NewPendingTask agentId newClusterId agent gr),
               tt_next := tt_next tt + 1\<rparr>, None))"

definition CancelChange :: "string \<Rightarrow> string \<Rightarrow> task_table \<Rightarrow> task_table" where
  "CancelChange clusterId agentId tt =
     (case gm_get (collection clusterId tt) agentId of
        None \<Rightarrow> remove_entry clusterId agentId tt
      | Some r \<Rightarrow> remove_entry clusterId agentId (write_task r (Task_Cancel (tt_heap tt r)) tt))"

text \<open>The time of a task is up.\<close>

definition task_timeout :: "nat \<Rightarrow> task_table \<Rightarrow> task_table" where
  "task_timeout r tt = write_task r ((tt_heap tt r)\<lparr>pk_ctDone := True\<rparr>) tt"

text \<open>The goroutine of a task once its context is done.\<close>

definition DoAsync_turn :: "'w env \<Rightarrow> nat \<Rightarrow> task_table \<Rightarrow> 'w \<Rightarrow> crash + 'w \<times> task_table" where
  "DoAsync_turn E r tt w =
     (let t = tt_heap tt r; tt1 = remove_entry (pk_clusterId t) (pk_agentId t) tt in
      if pk_isCancelled t then Inr (w, write_task r (t\<lparr>pk_goroutine := TaskDropped\<rparr>) tt1)
      else bindC (TransferAgentToCluster E (pk_agent t) (pk_request t) w) (\<lambda>(w1, e).
             Inr (w1, write_task r (t\<lparr>pk_goroutine := TaskRun\<rparr>) tt1)))"

text \<open>The two filters of the agent list.\<close>

definition filterPoolingHosts :: "task_table \<Rightarrow> brief_information list \<Rightarrow> brief_information list" where
  "filterPoolingHosts tt agents =
     filter (\<lambda>b. \<not> list_ex (\<lambda>(c, coll). gm_get coll (bi_Id b) \<noteq> None) (tt_tasks tt)) agents"

definition filterClusterHosts :: "string \<Rightarrow> task_table \<Rightarrow> brief_information list \<Rightarrow> brief_information list" where
  "filterClusterHosts clusterId tt agents =
     agents @ map (\<lambda>(a, r). pk_briefInformation (tt_heap tt r)) (collection clusterId tt)"

section \<open>Invariant\<close>

definition new_table :: task_table where
  "new_table = \<lparr>tt_tasks = [], tt_heap = (\<lambda>_. NewPendingTask [] [] zero_agent
     \<lparr>cr_OldClusterId = [], cr_NewClusterId = [], cr_IsETCDRole = False, cr_IsMasterRole = False,
      cr_IsMinionRole = False, cr_IsHARole = False\<rparr>), tt_next = 0\<rparr>"

text \<open>A task stands under its own agent and cluster, it waits and is not cancelled.\<close>

definition listed_ok :: "task_table \<Rightarrow> string \<Rightarrow> string \<Rightarrow> nat \<Rightarrow> bool" where
  "listed_ok tt c a r \<longleftrightarrow> r < tt_next tt \<and> pk_clusterId (tt_heap tt r) = c \<and> pk_agentId (tt_heap tt r) = a \<and>
     pk_goroutine (tt_heap tt r) = TaskWaiting \<and> \<not> pk_isCancelled (tt_heap tt r)"

definition task_inv :: "task_table \<Rightarrow> bool" where
  "task_inv tt \<longleftrightarrow> gm_wf (tt_tasks tt) \<and>
     (\<forall>c coll. gm_get (tt_tasks tt) c = Some coll \<longrightarrow> coll \<noteq> [] \<and> gm_wf coll) \<and>
     (\<forall>c a r. gm_get (collection c tt) a = Some r \<longrightarrow> listed_ok tt c a r) \<and>
     (\<forall>r. pk_isCancelled (tt_heap tt r) \<longrightarrow> pk_ctDone (tt_heap tt r) \<and> pk_goroutine (tt_heap tt r) \<noteq> TaskRun)"

inductive task_step :: "'w env \<Rightarrow> task_table \<Rightarrow> task_table \<Rightarrow> bool" for E where
  add: "addPendingTask a agent gr tt = (tt', e) \<Longrightarrow> task_step E tt tt'"
| cancel: "task_step E tt (CancelChange c a tt)"
| timeout: "r < tt_next tt \<Longrightarrow> task_step E tt (task_timeout r tt)"
| run: "r < tt_next tt \<Longrightarrow> pk_ctDone (tt_heap tt r) \<Longrightarrow> pk_goroutine (tt_heap tt r) = TaskWaiting \<Longrightarrow>
    DoAsync_turn E r tt w = Inr (w', tt') \<Longrightarrow> task_step E tt tt'"

lemma collection_remove:
  "collection c' (remove_entry c a tt) = (if c' = c then gm_del a (collection c tt) else collection c' tt)"
  by (simp add: remove_entry_def collection_def Let_def)

lemma remove_entry_frame [simp]: "tt_heap (remove_entry c a tt) = tt_heap tt" "tt_next (remove_entry c a tt) = tt_next tt"
  by (simp_all add: remove_entry_def Let_def)

lemma write_task_frame [simp]: "collection c (write_task r t tt) = collection c tt"
    "tt_tasks (write_task r t tt) = tt_tasks tt" "tt_next (write_task r t tt) = tt_next tt"
    "tt_heap (write_task r t tt) = (tt_heap tt)(r := t)"
  by (simp_all add: collection_def write_task_def)

lemma task_inv_remove: "task_inv tt \<Longrightarrow> task_inv (remove_entry c a tt)"
  unfolding task_inv_def
  by (simp add: collection_remove listed_ok_def)
     (auto simp: remove_entry_def Let_def collection_def split: option.splits if_splits)

text \<open>Writing a task that is not listed.\<close>

lemma task_inv_write:
  assumes "task_inv tt" and "\<And>c a. gm_get (collection c tt) a \<noteq> Some r"
    and "pk_isCancelled t \<longrightarrow> pk_ctDone t \<and> pk_goroutine t \<noteq> TaskRun"
  shows "task_inv (write_task r t tt)"
proof -
  have "listed_ok (write_task r t tt) c a r'" if "gm_get (collection c tt) a = Some r'" for c a r'
  proof -
    have "r' \<noteq> r" using assms(2) that by blast
    then show ?thesis using assms(1) that by (simp add: task_inv_def listed_ok_def)
  qed
  then show ?thesis using assms(1,3) unfolding task_inv_def by auto
qed

lemma listed_elsewhere:
  assumes "task_inv tt" and "gm_get (collection c tt) a = Some r"
  shows "gm_get (collection c' (remove_entry c a tt)) a' \<noteq> Some r"
proof
  assume "gm_get (collection c' (remove_entry c a tt)) a' = Some r"
  then have "gm_get (collection c' tt) a' = Some r" "\<not> (c' = c \<and> a' = a)"
    by (auto simp: collection_remove split: if_splits)
  with assms show False unfolding task_inv_def listed_ok_def by metis
qed

lemma remove_write: "remove_entry c a (write_task r t tt) = write_task r t (remove_entry c a tt)"
  by (simp add: remove_entry_def collection_def write_task_def Let_def)


lemma addPendingTask_inv:
  assumes "task_inv tt" and "addPendingTask a agent gr tt = (tt', e)"
  shows "task_inv tt'"
proof (cases "gm_get (collection (cr_NewClusterId gr) tt) a")
  case (Some r)
  with assms show ?thesis by (simp add: addPendingTask_def)
next
  case None
  let ?c = "cr_NewClusterId gr"
  have tt': "tt' = tt\<lparr>tt_tasks := gm_put ?c (gm_put a (tt_next tt) (collection ?c tt)) (tt_tasks tt),
      tt_heap := (tt_heap tt)(tt_next tt := NewPendingTask a ?c agent gr), tt_next := tt_next tt + 1\<rparr>"
    using None assms(2) by (auto simp: addPendingTask_def Let_def)
  have coll: "collection c tt' = (if c = ?c then gm_put a (tt_next tt) (collection ?c tt) else collection c tt)" for c
    by (simp add: tt' collection_def)
  have new: "\<not> pk_isCancelled (NewPendingTask a ?c agent gr)" "listed_ok tt' ?c a (tt_next tt)"
    by (simp_all add: tt' listed_ok_def NewPendingTask_def)
  have old: "listed_ok tt' c b r" if "listed_ok tt c b r" for c b r
    using that by (auto simp: tt' listed_ok_def)
  have wf: "gm_wf (collection ?c tt)"
    using assms(1) by (auto simp: task_inv_def collection_def split: option.splits)
  have ne: "gm_put a x m \<noteq> []" for x and m :: "(string, nat) gomap"
    by (cases m) auto
  have "listed_ok tt' c b r" if "gm_get (collection c tt') b = Some r" for c b r
    using that new(2) old assms(1) by (auto simp: coll task_inv_def split: if_splits)
  moreover have "gm_wf (tt_tasks tt')" using assms(1) by (simp add: tt' task_inv_def)
  moreover have "x \<noteq> [] \<and> gm_wf x" if "gm_get (tt_tasks tt') c = Some x" for c x
    using that assms(1) wf ne by (auto simp: tt' task_inv_def split: if_splits)
  moreover have "pk_ctDone (tt_heap tt' r) \<and> pk_goroutine (tt_heap tt' r) \<noteq> TaskRun" if "pk_isCancelled (tt_heap tt' r)" for r
    using that assms(1) new(1) by (auto simp: tt' task_inv_def split: if_splits)
  ultimately show ?thesis by (simp add: task_inv_def)
qed

lemma CancelChange_inv:
  assumes "task_inv tt"
  shows "task_inv (CancelChange c a tt)"
proof (cases "gm_get (collection c tt) a")
  case None
  with assms show ?thesis by (simp add: CancelChange_def task_inv_remove)
next
  case (Some r)
  with assms have "listed_ok tt c a r" by (simp add: task_inv_def)
  then have "pk_goroutine (Task_Cancel (tt_heap tt r)) \<noteq> TaskRun" "pk_ctDone (Task_Cancel (tt_heap tt r))"
    by (simp_all add: Task_Cancel_def listed_ok_def)
  with Some assms show ?thesis
    by (simp add: CancelChange_def remove_write)
       (intro task_inv_write task_inv_remove listed_elsewhere; simp)
qed

lemma task_timeout_inv:
  assumes "task_inv tt"
  shows "task_inv (task_timeout r tt)"
  using assms unfolding task_inv_def task_timeout_def
  by (auto simp: listed_ok_def)

lemma DoAsync_unlisted:
  assumes "task_inv tt"
  shows "gm_get (collection c (remove_entry (pk_clusterId (tt_heap tt r)) (pk_agentId (tt_heap tt r)) tt)) a \<noteq> Some r"
proof
  assume "gm_get (collection c (remove_entry (pk_clusterId (tt_heap tt r)) (pk_agentId (tt_heap tt r)) tt)) a = Some r"
  then have "gm_get (collection c tt) a = Some r" "\<not> (c = pk_clusterId (tt_heap tt r) \<and> a = pk_agentId (tt_heap tt r))"
    by (auto simp: collection_remove split: if_splits)
  with assms show False by (auto simp: task_inv_def listed_ok_def)
qed

lemma DoAsync_cases:
  assumes "DoAsync_turn E r tt w = Inr (w', tt')"
  obtains g where "tt' = write_task r ((tt_heap tt r)\<lparr>pk_goroutine := g\<rparr>)
      (remove_entry (pk_clusterId (tt_heap tt r)) (pk_agentId (tt_heap tt r)) tt)"
    "g = (if pk_isCancelled (tt_heap tt r) then TaskDropped else TaskRun)"
  using assms by (auto simp: DoAsync_turn_def Let_def split: if_splits elim!: bindC_InrE)

lemma DoAsync_inv:
  assumes "task_inv tt" and "pk_ctDone (tt_heap tt r)" and "DoAsync_turn E r tt w = Inr (w', tt')"
  shows "task_inv tt'"
  using assms(3)
proof (cases rule: DoAsync_cases)
  case (1 g)
  show ?thesis unfolding 1(1)
    by (rule task_inv_write [OF task_inv_remove [OF assms(1)] DoAsync_unlisted [OF assms(1)]])
       (use assms(2) in \<open>simp add: 1(2)\<close>)
qed

lemma task_step_inv: "task_step E tt tt' \<Longrightarrow> task_inv tt \<Longrightarrow> task_inv tt'"
  by (induction rule: task_step.induct)
     (blast intro: addPendingTask_inv CancelChange_inv task_timeout_inv DoAsync_inv)+

interpretation tasks: invariant_system "\<lambda>tt. tt = new_table" "task_step E" task_inv for E
  by unfold_locales
     (simp add: task_inv_def new_table_def collection_def NewPendingTask_def, rule task_step_inv)

lemma cancelled_step:
  assumes "task_step E tt tt'" and "pk_isCancelled (tt_heap tt r)" and "r < tt_next tt"
  shows "pk_isCancelled (tt_heap tt' r) \<and> r < tt_next tt'"
  using assms(1)
proof (cases rule: task_step.cases)
  case (add b agent gr e)
  with assms show ?thesis by (auto simp: addPendingTask_def Let_def split: if_splits)
next
  case (cancel d b)
  with assms show ?thesis by (auto simp: CancelChange_def Task_Cancel_def split: option.splits)
next
  case (timeout q)
  with assms show ?thesis by (auto simp: task_timeout_def)
next
  case (run q w w')
  from run(4) assms show ?thesis by (cases rule: DoAsync_cases) auto
qed

lemma cancelled_never_runs:
  assumes "(task_step E)\<^sup>*\<^sup>* tt tt'" and "task_inv tt" and "pk_isCancelled (tt_heap tt r)" and "r < tt_next tt"
  shows "pk_goroutine (tt_heap tt' r) \<noteq> TaskRun"
proof -
  from assms(1) have "pk_isCancelled (tt_heap tt' r) \<and> r < tt_next tt'"
    by (induction rule: rtranclp_induct) (use assms cancelled_step in blast)+
  moreover have "task_inv tt'" by (rule tasks.inv_steps [OF assms(1,2)])
  ultimately show ?thesis by (simp add: task_inv_def)
qed

section \<open>Properties\<close>

text \<open>
  C31: in every state that the delayed migrations reach, through any interleaving of requests,
  cancellations, timeouts and goroutines, a listed task stands under its own cluster and agent,
  still waits and is not cancelled, a second task for the same agent and cluster is refused, and
  a cancelled task never moved its agent; and cancelling a listed task keeps it from ever doing so
  and takes it off the list.
\<close>

theorem pending_tasks_safe:
  assumes "(task_step E)\<^sup>*\<^sup>* new_table tt" and "gm_get (collection c tt) a = Some r"
  shows "pk_clusterId (tt_heap tt r) = c \<and> pk_agentId (tt_heap tt r) = a \<and> \<not> pk_isCancelled (tt_heap tt r) \<and>
     pk_goroutine (tt_heap tt r) = TaskWaiting \<and>
     (cr_NewClusterId gr = c \<longrightarrow> addPendingTask a agent gr tt = (tt, Some (EDuplicatedTask a))) \<and>
     gm_get (collection c (CancelChange c a tt)) a = None \<and>
     (\<forall>tt'. (task_step E)\<^sup>*\<^sup>* (CancelChange c a tt) tt' \<longrightarrow> pk_goroutine (tt_heap tt' r) \<noteq> TaskRun)"
proof -
  have inv: "task_inv tt" by (rule tasks.inv_reachable [OF refl assms(1)])
  with assms(2) have ok: "listed_ok tt c a r" by (simp add: task_inv_def)
  have gone: "pk_isCancelled (tt_heap (CancelChange c a tt) r)" "r < tt_next (CancelChange c a tt)"
    using assms(2) ok by (simp_all add: CancelChange_def Task_Cancel_def listed_ok_def)
  have "task_inv (CancelChange c a tt)" by (rule CancelChange_inv [OF inv])
  then have "\<forall>tt'. (task_step E)\<^sup>*\<^sup>* (CancelChange c a tt) tt' \<longrightarrow> pk_goroutine (tt_heap tt' r) \<noteq> TaskRun"
    using cancelled_never_runs [OF _ _ gone] by blast
  moreover have "gm_get (collection c (CancelChange c a tt)) a = None"
    using assms(2) by (simp add: CancelChange_def collection_remove)
  ultimately show ?thesis
    using ok assms(2) by (simp add: listed_ok_def addPendingTask_def Let_def)
qed

text \<open>
  A cancelled task that wakes up late takes a newer task for the same agent and cluster off
  the list: from then on the newer one cannot be cancelled, and a third one is accepted beside it.
\<close>

theorem late_cancellation_orphans_task:
  assumes "task_inv tt" and "gm_get (collection c tt) a = Some r" and "q \<noteq> r"
    and "pk_isCancelled (tt_heap tt q)" and "pk_clusterId (tt_heap tt q) = c" and "pk_agentId (tt_heap tt q) = a"
  shows "\<exists>tt'. DoAsync_turn E q tt w = Inr (w, tt') \<and> pk_goroutine (tt_heap tt' r) = TaskWaiting \<and>
     \<not> pk_isCancelled (tt_heap tt' r) \<and> tt_heap (CancelChange c a tt') r = tt_heap tt' r \<and>
     (cr_NewClusterId gr = c \<longrightarrow> snd (addPendingTask a agent gr tt') = None)"
proof -
  let ?tt = "write_task q ((tt_heap tt q)\<lparr>pk_goroutine := TaskDropped\<rparr>) (remove_entry c a tt)"
  have "DoAsync_turn E q tt w = Inr (w, ?tt)" using assms(4-6) by (simp add: DoAsync_turn_def Let_def)
  moreover have "listed_ok tt c a r" using assms(1,2) by (simp add: task_inv_def)
  moreover have "gm_get (collection c ?tt) a = None" by (simp add: collection_remove)
  ultimately show ?thesis
    using assms(3)
    by (intro exI [of _ ?tt]) (simp add: listed_ok_def CancelChange_def addPendingTask_def Let_def)
qed

section \<open>Witnesses\<close>

definition sample_change :: change_request where
  "sample_change = \<lparr>cr_OldClusterId = ''c1'', cr_NewClusterId = ''c2'', cr_IsETCDRole = False,
     cr_IsMasterRole = False, cr_IsMinionRole = True, cr_IsHARole = False\<rparr>"

definition one_task :: task_table where
  "one_task = fst (addPendingTask ''n1'' zero_agent sample_change new_table)"

definition two_tasks :: task_table where
  "two_tasks = fst (addPendingTask ''n1'' zero_agent sample_change (CancelChange ''c2'' ''n1'' one_task))"

lemma one_task_reached: "task_step E new_table one_task"
  unfolding one_task_def by (rule task_step.add [of "''n1''" zero_agent sample_change]) (simp add: prod_eq_iff)

lemma two_tasks_reached: "(task_step E)\<^sup>*\<^sup>* new_table two_tasks"
proof -
  have "task_step E (CancelChange ''c2'' ''n1'' one_task) two_tasks"
    unfolding two_tasks_def by (rule task_step.add [of "''n1''" zero_agent sample_change]) (simp add: prod_eq_iff)
  with one_task_reached task_step.cancel [of E one_task "''c2''" "''n1''"] show ?thesis
    by (meson converse_rtranclp_into_rtranclp rtranclp.rtrancl_refl)
qed

lemma two_tasks_facts:
  "gm_get (collection ''c2'' two_tasks) ''n1'' = Some 1" "pk_isCancelled (tt_heap two_tasks 0)"
  "pk_clusterId (tt_heap two_tasks 0) = ''c2''" "pk_agentId (tt_heap two_tasks 0) = ''n1''"
  by code_simp+

theorem pending_tasks_safe_witness:
  "addPendingTask ''n1'' zero_agent sample_change two_tasks = (two_tasks, Some (EDuplicatedTask ''n1''))"
  using pending_tasks_safe [OF two_tasks_reached two_tasks_facts(1), of sample_change zero_agent sim_env]
  by (simp add: sample_change_def)

theorem late_cancellation_orphans_task_witness:
  "\<exists>tt'. DoAsync_turn sim_env 0 two_tasks sim_world = Inr (sim_world, tt') \<and>
     snd (addPendingTask ''n1'' zero_agent sample_change tt') = None"
proof -
  have "task_inv two_tasks" by (rule tasks.inv_reachable [OF refl two_tasks_reached [of sim_env]])
  from late_cancellation_orphans_task [OF this two_tasks_facts(1) _ two_tasks_facts(2-4), of sim_env sim_world sample_change zero_agent]
  show ?thesis by (auto simp: sample_change_def)
qed

end
