(* ===== verification/Messages.thy ===== *)
theory Messages
  imports Entities GoLib
begin

text \<open>
  What the API server and the agents say to each other: the replies of \<open>pkg/entities/http.go\<close>, the
  keys of the settings that a registration hands out (\<open>cluster.go\<close>), and the Docker images that
  \<open>pkg/common/common.go\<close> knows for each version of Kubernetes. A struct that embeds \<open>Response\<close>
  extends the record \<open>response\<close>.
\<close>

section \<open>Docker images\<close>

abbreviation DockerImageDownloadType_Registry :: string where "DockerImageDownloadType_Registry \<equiv> ''REGISTRY''"
abbreviation DockerImageDownloadType_HTTP :: string where "DockerImageDownloadType_HTTP \<equiv> ''HTTP''"

record docker_image =
  di_DownloadAddr :: string
  di_ImageName :: string

record image_collection =
  ic_DownloadType :: string
  ic_HTTPDownloadToken :: string
  ic_Images :: "(string, docker_image) gomap"

definition zero_images :: image_collection where
  "zero_images = \<lparr>ic_DownloadType = [], ic_HTTPDownloadToken = [], ic_Images = []\<rparr>"

text \<open>\<open>c.Images[name].ImageName\<close>: a missing image has no name.\<close>

definition image_name :: "image_collection \<Rightarrow> string \<Rightarrow> string" where
  "image_name c name = (case gm_get (ic_Images c) name of None \<Rightarrow> [] | Some i \<Rightarrow> di_ImageName i)"

definition BasicImages :: "(string, image_collection) gomap" where
  "BasicImages =
    [(''1.12.5'', \<lparr>ic_DownloadType = DockerImageDownloadType_HTTP, ic_HTTPDownloadToken = [], ic_Images =
       [(''etcd'', \<lparr>di_DownloadAddr = ''%s/apis/v1/registry/1.12.5/etcd.tar?token=%s'',
          di_ImageName = ''docker.io/mirrorgooglecontainers/etcd:3.2.24''\<rparr>),
        (''k8s'', \<lparr>di_DownloadAddr = ''%s/apis/v1/registry/1.12.5/k8s.tar?token=%s'',
          di_ImageName = ''g0194776/lightning-monkey-hyperkube:v1.12.5-2''\<rparr>),
        (''infra'', \<lparr>di_DownloadAddr = ''%s/apis/v1/registry/1.12.5/infra.tar?token=%s'',
          di_ImageName = ''docker.io/mirrorgooglecontainers/pause-amd64:3.1''\<rparr>),
        (''coredns'', \<lparr>di_DownloadAddr = ''%s/apis/v1/registry/software/coredns.tar?token=%s'',
          di_ImageName = ''docker.io/coredns/coredns:1.5.2''\<rparr>),
        (''ha'', \<lparr>di_DownloadAddr = ''%s/apis/v1/registry/software/ha.tar?token=%s'',
          di_ImageName = ''docker.io/pelin/haproxy-keepalived:latest''\<rparr>),
        (''metrics'', \<lparr>di_DownloadAddr = ''%s/apis/v1/registry/software/metrics.tar?token=%s'',
          di_ImageName = ''docker.io/mirrorgooglecontainers/metrics-server-amd64:v0.3.3''\<rparr>),
        (''traefik'', \<lparr>di_DownloadAddr = ''%s/apis/v1/registry/software/traefik.tar?token=%s'',
          di_ImageName = ''docker.io/traefik:1.7.14''\<rparr>),
        (''router'', \<lparr>di_DownloadAddr = ''%s/apis/v1/registry/software/router.tar?token=%s'',
          di_ImageName = ''docker.io/cloudnativelabs/kube-router:v0.2.5''\<rparr>),
        (''busybox'', \<lparr>di_DownloadAddr = ''%s/apis/v1/registry/software/busybox.tar?token=%s'',
          di_ImageName = ''docker.io/busybox:latest''\<rparr>),
        (''prometheus'', \<lparr>di_DownloadAddr = ''%s/apis/v1/registry/software/prometheus.tar?token=%s'',
          di_ImageName = ''docker.io/prom/prometheus:v2.2.1''\<rparr>),
        (''es'', \<lparr>di_DownloadAddr = ''%s/apis/v1/registry/software/es.tar?token=%s'',
          di_ImageName = ''docker.io/elasticsearch:6.8.3''\<rparr>),
        (''filebeat'', \<lparr>di_DownloadAddr = ''%s/apis/v1/registry/software/filebeat.tar?token=%s'',
          di_ImageName = ''docker.io/elastic/filebeat:6.8.3''\<rparr>),
        (''metricbeat'', \<lparr>di_DownloadAddr = ''%s/apis/v1/registry/software/metricbeat.tar?token=%s'',
          di_ImageName = ''docker.io/elastic/metricbeat:6.8.3''\<rparr>),
        (''helm'', \<lparr>di_DownloadAddr = ''%s/apis/v1/registry/software/helmv2.tar?token=%s'',
          di_ImageName = ''docker.io/fishead/gcr.io.kubernetes-helm.tiller:v2.12.3''\<rparr>)]\<rparr>),
     (''1.13.12'', \<lparr>ic_DownloadType = DockerImageDownloadType_HTTP, ic_HTTPDownloadToken = [], ic_Images =
       [(''etcd'', \<lparr>di_DownloadAddr = ''%s/apis/v1/registry/1.13.12/etcd.tar?token=%s'',
          di_ImageName = ''docker.io/mirrorgooglecontainers/etcd:3.2.24''\<rparr>),
        (''k8s'', \<lparr>di_DownloadAddr = ''%s/apis/v1/registry/1.13.12/k8s.tar?token=%s'',
          di_ImageName = ''g0194776/lightning-monkey-hyperkube:v1.13.12''\<rparr>),
        (''infra'', \<lparr>di_DownloadAddr = ''%s/apis/v1/registry/1.13.12/infra.tar?token=%s'',
          di_ImageName = ''docker.io/mirrorgooglecontainers/pause-amd64:3.1''\<rparr>),
        (''coredns'', \<lparr>di_DownloadAddr = ''%s/apis/v1/registry/software/coredns.tar?token=%s'',
          di_ImageName = ''docker.io/coredns/coredns:1.5.2''\<rparr>),
        (''ha'', \<lparr>di_DownloadAddr = ''%s/apis/v1/registry/software/ha.tar?token=%s'',
          di_ImageName = ''docker.io/pelin/haproxy-keepalived:latest''\<rparr>),
        (''metrics'', \<lparr>di_DownloadAddr = ''%s/apis/v1/registry/software/metrics.tar?token=%s'',
          di_ImageName = ''docker.io/mirrorgooglecontainers/metrics-server-amd64:v0.3.3''\<rparr>),
        (''traefik'', \<lparr>di_DownloadAddr = ''%s/apis/v1/registry/software/traefik.tar?token=%s'',
          di_ImageName = ''docker.io/traefik:1.7.14''\<rparr>),
        (''router'', \<lparr>di_DownloadAddr = ''%s/apis/v1/registry/software/router.tar?token=%s'',
          di_ImageName = ''docker.io/cloudnativelabs/kube-router:v0.2.5''\<rparr>),
        (''busybox'', \<lparr>di_DownloadAddr = ''%s/apis/v1/registry/software/busybox.tar?token=%s'',
          di_ImageName = ''docker.io/busybox:latest''\<rparr>),
        (''prometheus'', \<lparr>di_DownloadAddr = ''%s/apis/v1/registry/software/prometheus.tar?token=%s'',
          di_ImageName = ''docker.io/prom/prometheus:v2.2.1''\<rparr>),
        (''es'', \<lparr>di_DownloadAddr = ''%s/apis/v1/registry/software/es.tar?token=%s'',
          di_ImageName = ''docker.io/elasticsearch:6.8.3''\<rparr>),
        (''filebeat'', \<lparr>di_DownloadAddr = ''%s/apis/v1/registry/software/filebeat.tar?token=%s'',
          di_ImageName = ''docker.io/elastic/filebeat:6.8.3''\<rparr>),
        (''metricbeat'', \<lparr>di_DownloadAddr = ''%s/apis/v1/registry/software/metricbeat.tar?token=%s'',
          di_ImageName = ''docker.io/elastic/metricbeat:6.8.3''\<rparr>),
        (''helm'', \<lparr>di_DownloadAddr = ''%s/apis/v1/registry/software/helmv2.tar?token=%s'',
          di_ImageName = ''docker.io/fishead/gcr.io.kubernetes-helm.tiller:v2.12.3''\<rparr>)]\<rparr>)]"

text \<open>\<open>common.BasicImages[version]\<close>.\<close>

definition basic_images :: "string \<Rightarrow> image_collection" where
  "basic_images version = (case gm_get BasicImages version of None \<Rightarrow> zero_images | Some c \<Rightarrow> c)"

section \<open>Settings of a registration\<close>

abbreviation MasterSettings_PodCIDR :: string where "MasterSettings_PodCIDR \<equiv> ''pod_ip_cidr''"
abbreviation MasterSettings_ServiceCIDR :: string where "MasterSettings_ServiceCIDR \<equiv> ''service_ip_cidr''"
abbreviation MasterSettings_ServiceDNSDomain :: string where "MasterSettings_ServiceDNSDomain \<equiv> ''service_dns_domain''"
abbreviation MasterSettings_KubernetesVersion :: string where "MasterSettings_KubernetesVersion \<equiv> ''k8s_version''"
abbreviation MasterSettings_DockerRegistry :: string where "MasterSettings_DockerRegistry \<equiv> ''docker_registry''"
abbreviation MasterSettings_DockerExtraGraphPath :: string where "MasterSettings_DockerExtraGraphPath \<equiv> ''docker_extra_graph_path''"
abbreviation MasterSettings_MaxPodCountPerNode :: string where "MasterSettings_MaxPodCountPerNode \<equiv> ''max_pod_count''"
abbreviation MasterSettings_ServiceDNSClusterIP :: string where "MasterSettings_ServiceDNSClusterIP \<equiv> ''service_dns_cluster_ip''"
abbreviation MasterSettings_ExpectedETCDNodeCount :: string where "MasterSettings_ExpectedETCDNodeCount \<equiv> ''expected_etcd_node_count''"
abbreviation MasterSettings_APIServerVIP :: string where "MasterSettings_APIServerVIP \<equiv> ''ha_settings''"
abbreviation MasterSettings_PortRange :: string where "MasterSettings_PortRange \<equiv> ''port_range''"
abbreviation MasterSettings_ResourceReservation_Kube :: string where "MasterSettings_ResourceReservation_Kube \<equiv> ''kube_res_reserve''"
abbreviation MasterSettings_ResourceReservation_System :: string where "MasterSettings_ResourceReservation_System \<equiv> ''system_res_reserve''"

section \<open>Replies\<close>

record register_agent_response = response +
  ra_AgentId :: string
  ra_BasicImages :: image_collection
  ra_ClusterId :: string
  ra_MasterSettings :: "(string, string) gomap"
  ra_LeaseId :: int

record create_cluster_response = response +
  cl_ClusterId :: string

record get_certificate_response = response +
  gc_Content :: string
  gc_ForceUpdate :: bool

record next_job_response = response +
  nj_Job :: "agent_job option"

record report_status_response = response +
  rp_LeaseId :: int

record component_status_response = response +
  st_WatchPoints :: "watch_point list"

record agent_list_response = response +
  al_Agents :: "brief_information list"

text \<open>\<open>entities.Response{ErrorId: id, Reason: reason}\<close>.\<close>

definition Response :: "int \<Rightarrow> reason \<Rightarrow> response" where
  "Response i r = \<lparr>re_ErrorId = i, re_Reason = r, re_NeedCrash = False\<rparr>"

end
