(* ===== verification/Apis.thy ===== *)
theory Apis
  imports Managers PendingTasks Messages
begin

text \<open>
  The HTTP interface of the API server: the handlers of \<open>cmd/apiserver/apis\<close>.

  A request is what the web framework hands to a handler: the URL parameters, the body or the error
  of reading it, and the address of the peer. A handler returns its reply, one constructor per
  struct that is sent; a crash is a panic, which ends the request without a reply. The state of the
  server is the cluster manager, the table of delayed migrations and the download token.
\<close>

section \<open>Requests, replies and state\<close>

text \<open>\<open>rq_URLParamInt32\<close> is what the framework parses of a parameter as an \<open>int32\<close>, if it can.\<close>

record http_request =
  rq_URLParam :: "string \<Rightarrow> string"
  rq_URLParamInt32 :: "string \<Rightarrow> int option"
  rq_Body :: "error + string"
  rq_RemoteAddr :: string

datatype reply =
    Plain response
  | Registered register_agent_response
  | NextJob next_job_response
  | Reported report_status_response
  | Created create_cluster_response
  | Certificate get_certificate_response
  | ComponentStatus component_status_response
  | AgentList agent_list_response
  | NoContent
  | PageNotFound
  | Unauthorized
  | File string

record server =
  sv_cm :: cluster_manager
  sv_tt :: task_table
  sv_token :: string

text \<open>
  The environment of the managers with the decoder of a status report and the file server over the
  directory of the program.
\<close>

record 'w web = "'w api" +
  we_UnmarshalReport :: "string \<Rightarrow> error + report_status"
  we_ServeFile :: "string \<Rightarrow> string"

type_synonym 'w handler = "http_request \<Rightarrow> server \<Rightarrow> 'w \<Rightarrow> crash + 'w \<times> server \<times> reply"

definition URLParamInt32Default :: "http_request \<Rightarrow> string \<Rightarrow> int \<Rightarrow> int" where
  "URLParamInt32Default rq n d = (case rq_URLParamInt32 rq n of None \<Rightarrow> d | Some i \<Rightarrow> i)"

definition required :: "string \<Rightarrow> response" where
  "required n = Response ParameterError (ErrText (ERequiredField n))"

section \<open>Agents: v1/agents/apis.go\<close>

definition master_settings :: "cluster_settings \<Rightarrow> crash + (string, string) gomap" where
  "master_settings s =
     bindC (deref (cs_PortRangeSettings s)) (\<lambda>p. Inr
       ([(MasterSettings_PodCIDR, cs_PodNetworkCIDR s),
         (MasterSettings_ServiceCIDR, cs_ServiceCIDR s),
         (MasterSettings_ServiceDNSDomain, cs_ServiceDNSDomain s),
         (MasterSettings_ServiceDNSClusterIP, cs_ServiceDNSClusterIP s),
         (MasterSettings_KubernetesVersion, cs_KubernetesVersion s),
         (MasterSettings_APIServerVIP, (case cs_HASettings s of None \<Rightarrow> [] | Some h \<Rightarrow> hs_VIP h)),
         (MasterSettings_MaxPodCountPerNode, itoa (cs_MaximumAllowedPodCountPerNode s)),
         (MasterSettings_ExpectedETCDNodeCount, itoa (cs_ExpectedETCDCount s)),
         (MasterSettings_DockerRegistry, ''mirrorgooglecontainers/hyperkube''),
         (MasterSettings_DockerExtraGraphPath, cs_ExtraDockerGraphPath s),
         (MasterSettings_PortRange, itoa (pr_Begin p) @ ''-'' @ itoa (pr_End p))] @
        (case cs_ResourceReservation s of None \<Rightarrow> []
         | Some r \<Rightarrow> [(MasterSettings_ResourceReservation_Kube, rr_Kube r),
                      (MasterSettings_ResourceReservation_System, rr_System r)])))"

definition registration_reply :: "string \<Rightarrow> registration \<Rightarrow> crash + reply" where
  "registration_reply token reg =
     (case reg of (settings, agentId, clusterId, leaseId) \<Rightarrow>
       bindC (master_settings settings) (\<lambda>m. Inr (Registered
         \<lparr>re_ErrorId = Succeed, re_Reason = NoReason, re_NeedCrash = False, ra_AgentId = agentId,
          ra_BasicImages = (basic_images (cs_KubernetesVersion settings))\<lparr>ic_HTTPDownloadToken := token\<rparr>,
          ra_ClusterId = clusterId, ra_MasterSettings = m, ra_LeaseId = leaseId\<rparr>)))"

definition registration_answer :: "server \<Rightarrow> 'w \<Rightarrow> error + registration \<Rightarrow> crash + 'w \<times> server \<times> reply" where
  "registration_answer sv w r =
     (case r of
        Inl e \<Rightarrow> Inr (w, sv, Plain (Response OperationFailed (ErrText e)))
      | Inr reg \<Rightarrow> bindC (registration_reply (sv_token sv) reg) (\<lambda>rsp. Inr (w, sv, rsp)))"

definition api_RegisterAgent :: "'w web \<Rightarrow> 'w handler" where
  "api_RegisterAgent W rq sv w =
     (case rq_Body rq of
        Inl e \<Rightarrow> Inr (w, sv, Plain (Response DeserializeError (ErrText e)))
      | Inr data \<Rightarrow>
        (case unm_agent (en_codec (ap_env W)) data of
           Inl e \<Rightarrow> Inr (w, sv, Plain (Response DeserializeError (ErrText e)))
         | Inr agent \<Rightarrow>
           bindC (RegisterAgent (api.truncate W)
                    (agent\<lparr>ag_State := Some (zero_state\<lparr>as_LastReportIP := rq_RemoteAddr rq\<rparr>)\<rparr>) (sv_cm sv) w)
             (\<lambda>(w1, r). registration_answer sv w1 r)))"

definition api_AgentQueryNextWork :: "'w web \<Rightarrow> 'w handler" where
  "api_AgentQueryNextWork W rq sv w =
     (if rq_URLParam rq ''cluster-id'' = [] then Inr (w, sv, Plain (required ''cluster-id''))
      else if rq_URLParam rq ''agent-id'' = [] then Inr (w, sv, Plain (required ''agent-id''))
      else bindC (QueryAgentNextWorkItem (ap_env W) (rq_URLParam rq ''cluster-id'') (rq_URLParam rq ''agent-id'') (sv_cm sv) w)
        (\<lambda>(w1, cm1, job, err). case err of
           Some e \<Rightarrow> Inr (w1, sv\<lparr>sv_cm := cm1\<rparr>, Plain (Response OperationFailed (ErrText e)))
         | None \<Rightarrow> Inr (w1, sv\<lparr>sv_cm := cm1\<rparr>, NextJob
             \<lparr>re_ErrorId = Succeed, re_Reason = NoReason, re_NeedCrash = False, nj_Job = job\<rparr>)))"

text \<open>Every reply to a report is an \<open>AgentReportStatusResponse\<close>, errors included.\<close>

definition report_reply :: "response \<Rightarrow> int \<Rightarrow> reply" where
  "report_reply r lease = Reported \<lparr>re_ErrorId = re_ErrorId r, re_Reason = re_Reason r,
     re_NeedCrash = re_NeedCrash r, rp_LeaseId = lease\<rparr>"

definition api_ReportStatus :: "'w web \<Rightarrow> 'w handler" where
  "api_ReportStatus W rq sv w =
     (if rq_URLParam rq ''agent-id'' = [] then Inr (w, sv, report_reply (required ''agent-id'') 0)
      else if rq_URLParam rq ''cluster-id'' = [] then Inr (w, sv, report_reply (required ''cluster-id'') 0)
      else case rq_Body rq of
        Inl e \<Rightarrow> Inr (w, sv, report_reply (Response DeserializeError (ErrText e)) 0)
      | Inr data \<Rightarrow>
        (case we_UnmarshalReport W data of
           Inl e \<Rightarrow> Inr (w, sv, report_reply (Response DeserializeError (ErrText e)) 0)
         | Inr status0 \<Rightarrow>
           (let status = (if rs_IP status0 = [] then status0\<lparr>rs_IP := rq_RemoteAddr rq\<rparr> else status0) in
            bindC (AgentReportStatus (ap_env W) (rq_URLParam rq ''cluster-id'') (rq_URLParam rq ''agent-id'')
                     status (sv_cm sv) w)
              (\<lambda>(w1, leaseId, err). case err of
                 Some e \<Rightarrow> Inr (w1, sv, report_reply (Response OperationFailed (ErrText e)) 0)
               | None \<Rightarrow> Inr (w1, sv, report_reply (Response Succeed NoReason) leaseId)))))"

text \<open>The request to move an agent, from the parameters of the URL.\<close>

definition change_of :: "http_request \<Rightarrow> change_request" where
  "change_of rq = \<lparr>cr_OldClusterId = rq_URLParam rq ''old-cluster-id'',
     cr_NewClusterId = rq_URLParam rq ''new-cluster-id'',
     cr_IsETCDRole = (URLParamInt32Default rq ''etcd'' 0 = 1),
     cr_IsMasterRole = (URLParamInt32Default rq ''master'' 0 = 1),
     cr_IsMinionRole = (URLParamInt32Default rq ''minion'' 0 = 1),
     cr_IsHARole = (URLParamInt32Default rq ''ha'' 0 = 1)\<rparr>"

definition waiting_text :: "int \<Rightarrow> string \<Rightarrow> string \<Rightarrow> string" where
  "waiting_text secs agentId clusterId = ''Waiting, After '' @ itoa secs @ '' seconds the agent '' @ agentId @
     '' will be change to cluster '' @ clusterId @ ''!''"

definition move_agent :: "'w web \<Rightarrow> http_request \<Rightarrow> agent \<Rightarrow> server \<Rightarrow> 'w \<Rightarrow> crash + 'w \<times> server \<times> reply" where
  "move_agent W rq agent sv w =
     (let agentId = rq_URLParam rq ''agent-id''; wait = URLParamInt32Default rq ''wait'' 0; gr = change_of rq in
      if wait > 0
      then (case addPendingTask agentId agent gr (sv_tt sv) of
              (tt, Some e) \<Rightarrow> Inr (w, sv\<lparr>sv_tt := tt\<rparr>, Plain (Response OperationFailed (ErrText e)))
            | (tt, None) \<Rightarrow> Inr (w, sv\<lparr>sv_tt := tt\<rparr>, Plain (Response Succeed (Text
                (waiting_text wait agentId (cr_NewClusterId gr))))))
      else bindC (TransferAgentToCluster (ap_env W) agent gr w) (\<lambda>(w1, err).
             case err of
               Some e \<Rightarrow> Inr (w1, sv, Plain (Response InternalError (ErrText e)))
             | None \<Rightarrow> Inr (w1, sv, Plain (Response Succeed NoReason))))"

definition api_ChangeAgentClusterAndRoles :: "'w web \<Rightarrow> 'w handler" where
  "api_ChangeAgentClusterAndRoles W rq sv w =
     (if rq_URLParam rq ''agent-id'' = [] then Inr (w, sv, Plain (required ''agent-id''))
      else if rq_URLParam rq ''old-cluster-id'' = [] then Inr (w, sv, Plain (required ''old-cluster-id''))
      else if rq_URLParam rq ''new-cluster-id'' = [] then Inr (w, sv, Plain (required ''new-cluster-id''))
      else case GetClusterById (rq_URLParam rq ''old-cluster-id'') (sv_cm sv) of
        Inl e \<Rightarrow> Inr (w, sv, Plain (Response InternalError (ErrText (EWrap ''retrieve cluster information from cache'' e))))
      | Inr r \<Rightarrow>
        bindC (GetCachedAgent (rq_URLParam rq ''agent-id'') (cm_heap (sv_cm sv) r)) (\<lambda>g.
          case g of
            Inl e \<Rightarrow> Inr (w, sv, Plain (Response InternalError (ErrText (EWrap ''retrieve agent information from cache'' e))))
          | Inr None \<Rightarrow> Inr (w, sv, Plain (Response ParameterError (ErrText (EAgentNotFound (rq_URLParam rq ''agent-id'')))))
          | Inr (Some a) \<Rightarrow>
            bindC (deref (cc_cache (cm_heap (sv_cm sv) r))) (\<lambda>ac. move_agent W rq (ac_objs ac a) sv w)))"

definition api_CancelChange :: "'w handler" where
  "api_CancelChange rq sv w =
     (if rq_URLParam rq ''agent-id'' = [] then Inr (w, sv, Plain (required ''agent-id''))
      else if rq_URLParam rq ''cluster-id'' = [] then Inr (w, sv, Plain (required ''cluster-id''))
      else Inr (w, sv\<lparr>sv_tt := CancelChange (rq_URLParam rq ''cluster-id'') (rq_URLParam rq ''agent-id'') (sv_tt sv)\<rparr>,
                Plain (Response Succeed NoReason)))"

definition api_ListAgentsByClusterId :: "'w web \<Rightarrow> 'w handler" where
  "api_ListAgentsByClusterId W rq sv w =
     (let clusterId = rq_URLParam rq ''cluster-id'' in
      if clusterId = [] then Inr (w, sv, Plain (required ''cluster-id''))
      else case GetClusterById clusterId (sv_cm sv) of
        Inl e \<Rightarrow> Inr (w, sv, Plain (Response InternalError (ErrText (EWrap ''retrieve cluster information from cache'' e))))
      | Inr r \<Rightarrow>
        bindC (GetAgentList (ap_env W) False (cm_heap (sv_cm sv) r) w) (\<lambda>(w1, l).
          case l of
            Inl e \<Rightarrow> Inr (w1, sv, Plain (Response InternalError (ErrText (EWrap ''list agents from cluster'' e))))
          | Inr agents \<Rightarrow> Inr (w1, sv, AgentList
              \<lparr>re_ErrorId = Succeed, re_Reason = NoReason, re_NeedCrash = False, al_Agents =
                 (if agents = [] then []
                  else if clusterId = nil_uuid then filterPoolingHosts (sv_tt sv) agents
                  else filterClusterHosts (GetClusterId (cm_heap (sv_cm sv) r)) (sv_tt sv) agents)\<rparr>)))"

section \<open>Certificates: v1/certs/apis.go\<close>

definition certificate_reply :: "string \<Rightarrow> reply" where
  "certificate_reply content = Certificate \<lparr>re_ErrorId = Succeed, re_Reason = NoReason, re_NeedCrash = False,
     gc_Content = content, gc_ForceUpdate = False\<rparr>"

definition api_DownloadCerts :: "'w handler" where
  "api_DownloadCerts rq sv w =
     (if rq_URLParam rq ''cluster'' = [] then Inr (w, sv, Plain (required ''cluster''))
      else if rq_URLParam rq ''cert'' = [] then Inr (w, sv, Plain (required ''cert''))
      else case GetClusterCertificates (rq_URLParam rq ''cluster'') (sv_cm sv) of
        Inl e \<Rightarrow> Inr (w, sv, Plain (Response InternalError (ErrText e)))
      | Inr certs \<Rightarrow>
        (let content = GetCertificateContent certs (rq_URLParam rq ''cert'') in
         if content = []
         then Inr (w, sv, Plain (Response ParameterError (Text (''certificate: '' @ rq_URLParam rq ''cert'' @ '' not found.''))))
         else Inr (w, sv, certificate_reply content)))"

definition api_DownloadAdminCert :: "'w handler" where
  "api_DownloadAdminCert rq sv w =
     (if rq_URLParam rq ''cluster'' = [] then Inr (w, sv, Plain (required ''cluster''))
      else case GetClusterById (rq_URLParam rq ''cluster'') (sv_cm sv) of
        Inl e \<Rightarrow> Inr (w, sv, Plain (Response InternalError (ErrText e)))
      | Inr r \<Rightarrow> bindC (GetRandomAdminConfFromMasterAgents (cm_heap (sv_cm sv) r)) (\<lambda>adminConf.
          Inr (w, sv, certificate_reply adminConf)))"

section \<open>Clusters: v1/clusters/apis.go\<close>

definition api_NewCluster :: "'w web \<Rightarrow> 'w handler" where
  "api_NewCluster W rq sv w =
     (case rq_Body rq of
        Inl e \<Rightarrow> Inr (w, sv, Plain (Response DeserializeError (ErrText e)))
      | Inr data \<Rightarrow>
        (case unm_settings (en_codec (ap_env W)) data of
           Inl e \<Rightarrow> Inr (w, sv, Plain (Response DeserializeError (ErrText e)))
         | Inr cluster0 \<Rightarrow>
           (case SetDefaultValue cluster0 of
              (cluster, Some e) \<Rightarrow> Inr (w, sv, Plain (Response InternalError (ErrText (EWrap ''set default values'' e))))
            | (cluster, None) \<Rightarrow>
              bindC (SecurityCheck cluster) (\<lambda>check.
                case check of
                  Some e \<Rightarrow> Inr (w, sv, Plain (Response ParameterError (ErrText (EWrap ''field-level security checks'' e))))
                | None \<Rightarrow>
                  (case NewCluster (api.truncate W) cluster w of
                     (w1, Inl e) \<Rightarrow> Inr (w1, sv, Plain (Response OperationFailed (ErrText e)))
                   | (w1, Inr clusterId) \<Rightarrow> Inr (w1, sv, Created
                       \<lparr>re_ErrorId = Succeed, re_Reason = NoReason, re_NeedCrash = False, cl_ClusterId = clusterId\<rparr>))))))"

definition api_GetClusterComponentStatus :: "'w handler" where
  "api_GetClusterComponentStatus rq sv w =
     (if rq_URLParam rq ''cluster-id'' = [] then Inr (w, sv, Plain (required ''cluster-id''))
      else case GetClusterById (rq_URLParam rq ''cluster-id'') (sv_cm sv) of
        Inl e \<Rightarrow> Inr (w, sv, Plain (Response InternalError (ErrText e)))
      | Inr r \<Rightarrow> bindC (GetWachPoints (cm_heap (sv_cm sv) r)) (\<lambda>wps.
          Inr (w, sv, ComponentStatus \<lparr>re_ErrorId = Succeed, re_Reason = NoReason, re_NeedCrash = False,
            st_WatchPoints = wps\<rparr>)))"

text \<open>Two handlers have an empty body.\<close>

definition api_UpdateCluster :: "'w handler" where
  "api_UpdateCluster rq sv w = Inr (w, sv, NoContent)"

definition api_GetClusterList :: "'w handler" where
  "api_GetClusterList rq sv w = Inr (w, sv, NoContent)"

section \<open>Files: v1/registry/apis.go\<close>

text \<open>\<open>http.StripPrefix\<close>; the file server gets what is left of the path.\<close>

definition strip_prefix :: "string \<Rightarrow> string \<Rightarrow> string option" where
  "strip_prefix p path = (if is_prefix p path then Some (drop (length p) path) else None)"

definition serve_stripped :: "'w web \<Rightarrow> string \<Rightarrow> string \<Rightarrow> reply" where
  "serve_stripped W p path = (case strip_prefix p path of None \<Rightarrow> PageNotFound | Some f \<Rightarrow> File (we_ServeFile W f))"

definition api_downloadFile :: "'w web \<Rightarrow> string \<Rightarrow> 'w handler" where
  "api_downloadFile W path rq sv w =
     (if rq_URLParam rq ''token'' \<noteq> sv_token sv then Inr (w, sv, Unauthorized)
      else Inr (w, sv, serve_stripped W ''/apis/v1/'' path))"

definition api_downloadFile2 :: "'w web \<Rightarrow> string \<Rightarrow> 'w handler" where
  "api_downloadFile2 W path rq sv w = Inr (w, sv, serve_stripped W ''/bootstrap/'' path)"

section \<open>Routes\<close>

datatype call =
    CallGetClusterList | CallNewCluster | CallUpdateCluster | CallGetClusterComponentStatus
  | CallRegisterAgent | CallAgentQueryNextWork | CallReportStatus | CallChangeAgentClusterAndRoles
  | CallCancelChange | CallListAgentsByClusterId | CallDownloadCerts | CallDownloadAdminCert

definition cluster_routes :: "((string \<times> string) \<times> call) list" where
  "cluster_routes = [((''GET'', ''/apis/v1/cluster/list''), CallGetClusterList),
     ((''POST'', ''/apis/v1/cluster/create''), CallNewCluster),
     ((''PUT'', ''/apis/v1/cluster/update''), CallUpdateCluster),
     ((''GET'', ''/apis/v1/cluster/status''), CallGetClusterComponentStatus)]"

definition agent_routes :: "((string \<times> string) \<times> call) list" where
  "agent_routes = [((''POST'', ''/apis/v1/agent/register''), CallRegisterAgent),
     ((''GET'', ''/apis/v1/agent/query''), CallAgentQueryNextWork),
     ((''PUT'', ''/apis/v1/agent/status''), CallReportStatus),
     ((''PUT'', ''/apis/v1/agent/change''), CallChangeAgentClusterAndRoles),
     ((''DELETE'', ''/apis/v1/agent/change''), CallCancelChange),
     ((''GET'', ''/apis/v1/agents/list''), CallListAgentsByClusterId)]"

definition certificate_routes :: "((string \<times> string) \<times> call) list" where
  "certificate_routes = [((''GET'', ''/apis/v1/certs/get''), CallDownloadCerts),
     ((''GET'', ''/apis/v1/certs/admin/get''), CallDownloadAdminCert)]"

text \<open>The routes that end in a wildcard: whether the token is asked for, and the fixed part.\<close>

definition file_routes :: "(bool \<times> string) list" where
  "file_routes = [(True, ''/apis/v1/registry/1.12.5/''), (True, ''/apis/v1/registry/1.13.12/''),
     (True, ''/apis/v1/registry/software/''), (False, ''/bootstrap/'')]"

text \<open>\<open>APIRegisterationManager\<close> registers the groups in this order.\<close>

definition routes :: "((string \<times> string) \<times> call) list" where
  "routes = cluster_routes @ agent_routes @ certificate_routes"

fun serve :: "'w web \<Rightarrow> call \<Rightarrow> 'w handler" where
  "serve W CallGetClusterList = api_GetClusterList"
| "serve W CallNewCluster = api_NewCluster W"
| "serve W CallUpdateCluster = api_UpdateCluster"
| "serve W CallGetClusterComponentStatus = api_GetClusterComponentStatus"
| "serve W CallRegisterAgent = api_RegisterAgent W"
| "serve W CallAgentQueryNextWork = api_AgentQueryNextWork W"
| "serve W CallReportStatus = api_ReportStatus W"
| "serve W CallChangeAgentClusterAndRoles = api_ChangeAgentClusterAndRoles W"
| "serve W CallCancelChange = api_CancelChange"
| "serve W CallListAgentsByClusterId = api_ListAgentsByClusterId W"
| "serve W CallDownloadCerts = api_DownloadCerts"
| "serve W CallDownloadAdminCert = api_DownloadAdminCert"

text \<open>A request for a file.\<close>

definition serve_file :: "'w web \<Rightarrow> string \<Rightarrow> 'w handler" where
  "serve_file W path rq sv w =
     (case find (\<lambda>(t, p). is_prefix p path) file_routes of
        None \<Rightarrow> Inr (w, sv, PageNotFound)
      | Some (True, p) \<Rightarrow> api_downloadFile W path rq sv w
      | Some (False, p) \<Rightarrow> api_downloadFile2 W path rq sv w)"

section \<open>The server as a state machine\<close>

text \<open>
  Requests are interleaved with the goroutines of the cluster manager and of the delayed
  migrations.
\<close>

definition new_server :: "string \<Rightarrow> server" where
  "new_server token = \<lparr>sv_cm = new_manager, sv_tt = new_table, sv_token = token\<rparr>"

definition server_inv :: "server \<Rightarrow> bool" where
  "server_inv sv \<longleftrightarrow> manager_inv (sv_cm sv) \<and> task_inv (sv_tt sv)"

inductive server_step :: "'w web \<Rightarrow> server \<Rightarrow> server \<Rightarrow> bool" for W where
  request: "serve W c rq sv w = Inr (w', sv', rsp) \<Longrightarrow> server_step W sv sv'"
| manager: "manager_step (ap_env W) (sv_cm sv) cm \<Longrightarrow> server_step W sv (sv\<lparr>sv_cm := cm\<rparr>)"
| task: "task_step (ap_env W) (sv_tt sv) tt \<Longrightarrow> server_step W sv (sv\<lparr>sv_tt := tt\<rparr>)"

lemmas handler_defs = api_RegisterAgent_def registration_answer_def api_AgentQueryNextWork_def api_ReportStatus_def
  api_ChangeAgentClusterAndRoles_def move_agent_def api_CancelChange_def api_ListAgentsByClusterId_def
  api_DownloadCerts_def api_DownloadAdminCert_def api_NewCluster_def api_GetClusterComponentStatus_def
  api_UpdateCluster_def api_GetClusterList_def

lemma GetNextJob_core: "GetNextJob E cc a w = Inr (w', cc', d) \<Longrightarrow> same_core cc cc'"
  using scheduler.run_core by (auto simp: GetNextJob_def split: if_splits)

lemma write_phase_inv: "controller_inv cc \<Longrightarrow> controller_inv (write_phase a p cc)"
    and write_phase_disposed: "cc_isDisposed (write_phase a p cc) = cc_isDisposed cc"
  using simple_inv(5) [of cc]
  by (cases "cc_cache cc"; cases p; simp add: write_phase_def controller_inv_def)+

lemma QueryAgentNextWorkItem_inv:
  assumes "manager_inv cm" and "QueryAgentNextWorkItem E cid aid cm w = Inr (w', cm', j, e)"
  shows "manager_inv cm'"
proof (cases "GetClusterById cid cm")
  case (Inl e')
  with assms show ?thesis by (simp add: QueryAgentNextWorkItem_def)
next
  case (Inr r)
  then have r: "r < cm_next cm" "controller_inv (cm_heap cm r)"
    using assms(1) by (auto simp: manager_inv_def GetClusterById_def split: option.splits)
  have "manager_inv (store_cc r (write_phase a p cc1) cm)" if "GetNextJob E (cm_heap cm r) x w = Inr (w1, cc1, d)" for x w1 cc1 d a p
  proof (rule manager_inv_store [OF assms(1) r(1)])
    note core = GetNextJob_core [OF that]
    show "controller_inv (write_phase a p cc1)" by (rule write_phase_inv [OF same_core_inv [OF core r(2)]])
    show "cc_isDisposed (write_phase a p cc1) = cc_isDisposed (cm_heap cm r)"
      using core by (simp add: write_phase_disposed same_core_def)
  qed
  with assms Inr show ?thesis
    by (auto simp: QueryAgentNextWorkItem_def Let_def split: sum.splits option.splits elim!: bindC_InrE)
qed

lemma serve_inv:
  assumes "server_inv sv" and "serve W c rq sv w = Inr (w', sv', rsp)"
  shows "server_inv sv'"
proof (cases c)
  case CallAgentQueryNextWork
  with assms show ?thesis
    by (auto simp: server_inv_def handler_defs elim!: bindC_InrE split: if_splits option.splits
        dest!: QueryAgentNextWorkItem_inv [rotated])
next
  case CallChangeAgentClusterAndRoles
  with assms show ?thesis
    by (auto simp: server_inv_def handler_defs Let_def elim!: bindC_InrE dest!: addPendingTask_inv [rotated]
        split: if_splits option.splits sum.splits prod.splits)
next
  case CallCancelChange
  with assms show ?thesis
    by (auto simp: server_inv_def handler_defs intro: CancelChange_inv split: if_splits)
qed (use assms in \<open>auto simp: handler_defs Let_def elim!: bindC_InrE
       split: if_splits option.splits sum.splits prod.splits\<close>)

lemma server_step_inv: "server_step W sv sv' \<Longrightarrow> server_inv sv \<Longrightarrow> server_inv sv'"
proof (induction rule: server_step.induct)
  case (request c rq sv w w' sv' rsp)
  then show ?case by (rule serve_inv [rotated])
qed (auto simp: server_inv_def dest: manager_step_inv task_step_inv)

interpretation server: invariant_system "\<lambda>sv. sv = new_server token" "server_step W" server_inv for token W
  by unfold_locales
     (use manager.inv_start tasks.inv_start in \<open>simp add: server_inv_def new_server_def\<close>, rule server_step_inv)


section \<open>Panics\<close>












section \<open>Properties\<close>




text \<open>
  The type of a reply: which struct answers which call, with the code and the reason of its head.
\<close>

definition ok_head :: "'a response_scheme \<Rightarrow> bool" where
  "ok_head r \<longleftrightarrow> re_ErrorId r = Succeed \<and> re_Reason r = NoReason \<and> \<not> re_NeedCrash r"

definition error_head :: "'a response_scheme \<Rightarrow> bool" where
  "error_head r \<longleftrightarrow> re_ErrorId r \<in> {ParameterError, DeserializeError, OperationFailed, InternalError} \<and>
     re_Reason r \<noteq> NoReason \<and> \<not> re_NeedCrash r"

definition well_typed :: "call \<Rightarrow> reply \<Rightarrow> bool" where
  "well_typed c rsp =
     (case rsp of
        Plain r \<Rightarrow> (if re_ErrorId r = Succeed
          then c \<in> {CallChangeAgentClusterAndRoles, CallCancelChange} \<and> \<not> re_NeedCrash r
          else error_head r \<and> c \<notin> {CallReportStatus, CallUpdateCluster, CallGetClusterList})
      | Registered r \<Rightarrow> c = CallRegisterAgent \<and> ok_head r
      | NextJob r \<Rightarrow> c = CallAgentQueryNextWork \<and> ok_head r \<and> nj_Job r \<noteq> None
      | Reported r \<Rightarrow> c = CallReportStatus \<and> (ok_head r \<or> error_head r \<and> rp_LeaseId r = 0)
      | Created r \<Rightarrow> c = CallNewCluster \<and> ok_head r
      | Certificate r \<Rightarrow> ok_head r \<and> (c = CallDownloadCerts \<and> gc_Content r \<noteq> [] \<or> c = CallDownloadAdminCert)
      | ComponentStatus r \<Rightarrow> c = CallGetClusterComponentStatus \<and> ok_head r
      | AgentList r \<Rightarrow> c = CallListAgentsByClusterId \<and> ok_head r
      | NoContent \<Rightarrow> c \<in> {CallUpdateCluster, CallGetClusterList}
      | _ \<Rightarrow> False)"

lemma head_simps [simp]:
  "error_head (Response ParameterError (ErrText e))" "error_head (Response DeserializeError (ErrText e))"
  "error_head (Response OperationFailed (ErrText e))" "error_head (Response InternalError (ErrText e))"
  "error_head (Response ParameterError (Text s))" "error_head (required n)"
  "re_ErrorId (Response i r) = i" "\<not> re_NeedCrash (Response i r)" "re_ErrorId (required n) = ParameterError"
  "ParameterError \<noteq> Succeed" "DeserializeError \<noteq> Succeed" "OperationFailed \<noteq> Succeed" "InternalError \<noteq> Succeed"
  by (simp_all add: error_head_def Response_def required_def response_codes)

lemma report_reply_typed [simp]:
  "error_head r \<Longrightarrow> well_typed CallReportStatus (report_reply r 0)"
  "well_typed CallReportStatus (report_reply (Response Succeed NoReason) l)"
  by (simp_all add: well_typed_def report_reply_def error_head_def ok_head_def Response_def)

lemma query_job:
  "QueryAgentNextWorkItem E cid aid cm w = Inr (w', cm', j, None) \<Longrightarrow> j \<noteq> None"
  by (auto simp: QueryAgentNextWorkItem_def Let_def split: sum.splits option.splits elim!: bindC_InrE)

lemma serve_typed:
  assumes "serve W c rq sv w = Inr (w', sv', rsp)"
  shows "well_typed c rsp \<and> sv_token sv' = sv_token sv"
proof (cases c)
  case CallReportStatus
  with assms show ?thesis
    by (auto simp: api_ReportStatus_def Let_def elim!: bindC_InrE split: if_splits sum.splits option.splits)
next
  case CallRegisterAgent
  with assms show ?thesis
    by (auto simp: handler_defs registration_reply_def well_typed_def ok_head_def elim!: bindC_InrE
        split: sum.splits prod.splits)
next
  case CallAgentQueryNextWork
  with assms show ?thesis
    by (auto simp: handler_defs well_typed_def ok_head_def elim!: bindC_InrE dest!: query_job
        split: if_splits option.splits)
next
  case CallChangeAgentClusterAndRoles
  with assms show ?thesis
    by (auto simp: handler_defs Let_def well_typed_def elim!: bindC_InrE
        split: if_splits option.splits sum.splits prod.splits)
qed (use assms in \<open>auto simp: handler_defs certificate_reply_def Let_def well_typed_def ok_head_def elim!: bindC_InrE
       split: if_splits option.splits sum.splits prod.splits\<close>)

text \<open>
  The codes of errors: the parameters a call must have, in the order in which it asks for them; the
  bodies that it cannot read or decode; and the failures of what it calls.
\<close>

fun required_params :: "call \<Rightarrow> string list" where
  "required_params CallGetClusterComponentStatus = [''cluster-id'']"
| "required_params CallAgentQueryNextWork = [''cluster-id'', ''agent-id'']"
| "required_params CallReportStatus = [''agent-id'', ''cluster-id'']"
| "required_params CallChangeAgentClusterAndRoles = [''agent-id'', ''old-cluster-id'', ''new-cluster-id'']"
| "required_params CallCancelChange = [''agent-id'', ''cluster-id'']"
| "required_params CallListAgentsByClusterId = [''cluster-id'']"
| "required_params CallDownloadCerts = [''cluster'', ''cert'']"
| "required_params CallDownloadAdminCert = [''cluster'']"
| "required_params c = []"

definition missing_param :: "call \<Rightarrow> http_request \<Rightarrow> string option" where
  "missing_param c rq = find (\<lambda>n. rq_URLParam rq n = []) (required_params c)"

definition decodable :: "(string \<Rightarrow> error + 'a) \<Rightarrow> http_request \<Rightarrow> bool" where
  "decodable decode rq = (case rq_Body rq of Inl e \<Rightarrow> False | Inr data \<Rightarrow> \<not> isl (decode data))"

definition bad_body :: "'w web \<Rightarrow> call \<Rightarrow> http_request \<Rightarrow> bool" where
  "bad_body W c rq =
     (case c of
        CallRegisterAgent \<Rightarrow> \<not> decodable (unm_agent (en_codec (ap_env W))) rq
      | CallNewCluster \<Rightarrow> \<not> decodable (unm_settings (en_codec (ap_env W))) rq
      | CallReportStatus \<Rightarrow> \<not> decodable (we_UnmarshalReport W) rq
      | _ \<Rightarrow> False)"

definition body_of :: "(string \<Rightarrow> error + 'a) \<Rightarrow> http_request \<Rightarrow> 'a" where
  "body_of decode rq = projr (decode (projr (rq_Body rq)))"

definition fails_with :: "int \<Rightarrow> bool \<Rightarrow> int option" where
  "fails_with k b = (if b then Some k else None)"

definition change_failure :: "'w web \<Rightarrow> http_request \<Rightarrow> server \<Rightarrow> 'w \<Rightarrow> int option" where
  "change_failure W rq sv w =
     (case GetClusterById (rq_URLParam rq ''old-cluster-id'') (sv_cm sv) of
        Inl e \<Rightarrow> Some InternalError
      | Inr r \<Rightarrow> (case (GetCachedAgent (rq_URLParam rq ''agent-id'') (cm_heap (sv_cm sv) r), cc_cache (cm_heap (sv_cm sv) r)) of
          (Inr (Inl e), _) \<Rightarrow> Some InternalError
        | (Inr (Inr None), _) \<Rightarrow> Some ParameterError
        | (Inr (Inr (Some a)), Some ac) \<Rightarrow>
            (if URLParamInt32Default rq ''wait'' 0 > 0
             then fails_with OperationFailed
               (gm_get (collection (rq_URLParam rq ''new-cluster-id'') (sv_tt sv)) (rq_URLParam rq ''agent-id'') \<noteq> None)
             else (case TransferAgentToCluster (ap_env W) (ac_objs ac a) (change_of rq) w of
                 Inr (w1, e) \<Rightarrow> fails_with InternalError (e \<noteq> None) | Inl x \<Rightarrow> None))
        | _ \<Rightarrow> None))"

fun operation_failure :: "'w web \<Rightarrow> call \<Rightarrow> http_request \<Rightarrow> server \<Rightarrow> 'w \<Rightarrow> int option" where
  "operation_failure W CallRegisterAgent rq sv w =
     (case RegisterAgent (api.truncate W) ((body_of (unm_agent (en_codec (ap_env W))) rq)
             \<lparr>ag_State := Some (zero_state\<lparr>as_LastReportIP := rq_RemoteAddr rq\<rparr>)\<rparr>) (sv_cm sv) w of
        Inr (w1, r) \<Rightarrow> fails_with OperationFailed (isl r) | Inl x \<Rightarrow> None)"
| "operation_failure W CallAgentQueryNextWork rq sv w =
     (case QueryAgentNextWorkItem (ap_env W) (rq_URLParam rq ''cluster-id'') (rq_URLParam rq ''agent-id'') (sv_cm sv) w of
        Inr (w1, cm1, job, e) \<Rightarrow> fails_with OperationFailed (e \<noteq> None) | Inl x \<Rightarrow> None)"
| "operation_failure W CallReportStatus rq sv w =
     (let status = body_of (we_UnmarshalReport W) rq in
      case AgentReportStatus (ap_env W) (rq_URLParam rq ''cluster-id'') (rq_URLParam rq ''agent-id'')
             (if rs_IP status = [] then status\<lparr>rs_IP := rq_RemoteAddr rq\<rparr> else status) (sv_cm sv) w of
        Inr (w1, l, e) \<Rightarrow> fails_with OperationFailed (e \<noteq> None) | Inl x \<Rightarrow> None)"
| "operation_failure W CallChangeAgentClusterAndRoles rq sv w = change_failure W rq sv w"
| "operation_failure W CallListAgentsByClusterId rq sv w =
     (case GetClusterById (rq_URLParam rq ''cluster-id'') (sv_cm sv) of
        Inl e \<Rightarrow> Some InternalError
      | Inr r \<Rightarrow> (case GetAgentList (ap_env W) False (cm_heap (sv_cm sv) r) w of
          Inr (w1, l) \<Rightarrow> fails_with InternalError (isl l) | Inl x \<Rightarrow> None))"
| "operation_failure W CallDownloadCerts rq sv w =
     (case GetClusterCertificates (rq_URLParam rq ''cluster'') (sv_cm sv) of
        Inl e \<Rightarrow> Some InternalError
      | Inr certs \<Rightarrow> fails_with ParameterError (GetCertificateContent certs (rq_URLParam rq ''cert'') = []))"
| "operation_failure W CallDownloadAdminCert rq sv w =
     fails_with InternalError (isl (GetClusterById (rq_URLParam rq ''cluster'') (sv_cm sv)))"
| "operation_failure W CallGetClusterComponentStatus rq sv w =
     fails_with InternalError (isl (GetClusterById (rq_URLParam rq ''cluster-id'') (sv_cm sv)))"
| "operation_failure W CallNewCluster rq sv w =
     (let cluster = fst (SetDefaultValue (body_of (unm_settings (en_codec (ap_env W))) rq)) in
      if SecurityCheck cluster \<noteq> Inr None then Some ParameterError
      else fails_with OperationFailed (isl (snd (NewCluster (api.truncate W) cluster w))))"
| "operation_failure W c rq sv w = None"

definition expected_code :: "'w web \<Rightarrow> call \<Rightarrow> http_request \<Rightarrow> server \<Rightarrow> 'w \<Rightarrow> int" where
  "expected_code W c rq sv w =
     (if missing_param c rq \<noteq> None then ParameterError
      else if bad_body W c rq then DeserializeError
      else case operation_failure W c rq sv w of None \<Rightarrow> Succeed | Some k \<Rightarrow> k)"

text \<open>The code and the reason of a reply; two handlers send nothing.\<close>

fun reply_head :: "reply \<Rightarrow> (int \<times> reason) option" where
  "reply_head (Plain r) = Some (re_ErrorId r, re_Reason r)"
| "reply_head (Registered r) = Some (re_ErrorId r, re_Reason r)"
| "reply_head (NextJob r) = Some (re_ErrorId r, re_Reason r)"
| "reply_head (Reported r) = Some (re_ErrorId r, re_Reason r)"
| "reply_head (Created r) = Some (re_ErrorId r, re_Reason r)"
| "reply_head (Certificate r) = Some (re_ErrorId r, re_Reason r)"
| "reply_head (ComponentStatus r) = Some (re_ErrorId r, re_Reason r)"
| "reply_head (AgentList r) = Some (re_ErrorId r, re_Reason r)"
| "reply_head _ = None"

lemmas expected_defs = expected_code_def missing_param_def bad_body_def decodable_def body_of_def fails_with_def
  Let_def required_def Response_def report_reply_def certificate_reply_def response_codes

lemma register_code:
  "api_RegisterAgent W rq sv w = Inr (w', sv', rsp) \<Longrightarrow>
     map_option fst (reply_head rsp) = Some (expected_code W CallRegisterAgent rq sv w)"
  by (auto simp: handler_defs registration_reply_def expected_defs elim!: bindC_InrE split: sum.splits prod.splits)

lemma query_code:
  "api_AgentQueryNextWork W rq sv w = Inr (w', sv', rsp) \<Longrightarrow>
     map_option fst (reply_head rsp) = Some (expected_code W CallAgentQueryNextWork rq sv w)"
  by (auto simp: handler_defs expected_defs elim!: bindC_InrE split: if_splits sum.splits option.splits)

lemma report_code:
  "api_ReportStatus W rq sv w = Inr (w', sv', rsp) \<Longrightarrow>
     map_option fst (reply_head rsp) = Some (expected_code W CallReportStatus rq sv w)"
  by (auto simp: handler_defs expected_defs elim!: bindC_InrE split: if_splits sum.splits option.splits)

lemma move_code:
  "move_agent W rq a sv w = Inr (w', sv', rsp) \<Longrightarrow> map_option fst (reply_head rsp) = Some (
     case (if URLParamInt32Default rq ''wait'' 0 > 0
             then fails_with OperationFailed
               (gm_get (collection (rq_URLParam rq ''new-cluster-id'') (sv_tt sv)) (rq_URLParam rq ''agent-id'') \<noteq> None)
             else (case TransferAgentToCluster (ap_env W) a (change_of rq) w of
                 Inr (w1, e) \<Rightarrow> fails_with InternalError (e \<noteq> None) | Inl x \<Rightarrow> None)) of None \<Rightarrow> Succeed | Some k \<Rightarrow> k)"
  by (auto simp: move_agent_def addPendingTask_def change_of_def expected_defs elim!: bindC_InrE
      split: if_splits prod.splits option.splits sum.splits)

lemma change_code:
  assumes "api_ChangeAgentClusterAndRoles W rq sv w = Inr (w', sv', rsp)"
  shows "map_option fst (reply_head rsp) = Some (expected_code W CallChangeAgentClusterAndRoles rq sv w)"
proof (cases "missing_param CallChangeAgentClusterAndRoles rq")
  case (Some n)
  with assms show ?thesis
    by (auto simp: api_ChangeAgentClusterAndRoles_def expected_defs split: if_splits)
next
  case None
  then have ne: "rq_URLParam rq ''agent-id'' \<noteq> []" "rq_URLParam rq ''old-cluster-id'' \<noteq> []" "rq_URLParam rq ''new-cluster-id'' \<noteq> []"
    by (auto simp: missing_param_def split: if_splits)
  have e: "expected_code W CallChangeAgentClusterAndRoles rq sv w =
      (case change_failure W rq sv w of None \<Rightarrow> Succeed | Some k \<Rightarrow> k)"
    using None by (simp add: expected_code_def bad_body_def)
  show ?thesis
  proof (cases "GetClusterById (rq_URLParam rq ''old-cluster-id'') (sv_cm sv)")
    case (Inl x)
    with assms ne show ?thesis unfolding e by (auto simp: api_ChangeAgentClusterAndRoles_def change_failure_def Response_def)
  next
    case (Inr r)
    with assms ne obtain g where g: "GetCachedAgent (rq_URLParam rq ''agent-id'') (cm_heap (sv_cm sv) r) = Inr g"
      by (auto simp: api_ChangeAgentClusterAndRoles_def elim!: bindC_InrE)
    show ?thesis
    proof (cases "\<exists>a. g = Inr (Some a)")
      case True
      then obtain a where a: "g = Inr (Some a)" by blast
      with assms ne Inr g obtain ac where ac: "cc_cache (cm_heap (sv_cm sv) r) = Some ac"
        "move_agent W rq (ac_objs ac a) sv w = Inr (w', sv', rsp)"
        by (auto simp: api_ChangeAgentClusterAndRoles_def deref_def split: option.splits)
      from move_code [OF ac(2)] show ?thesis unfolding e using Inr g a ac(1) by (simp add: change_failure_def)
    next
      case False
      with assms ne Inr g show ?thesis unfolding e
        by (auto simp: api_ChangeAgentClusterAndRoles_def change_failure_def Response_def split: sum.splits option.splits)
    qed
  qed
qed

lemma new_cluster_code:
  assumes "api_NewCluster W rq sv w = Inr (w', sv', rsp)"
  shows "map_option fst (reply_head rsp) = Some (expected_code W CallNewCluster rq sv w)"
proof -
  have "snd (SetDefaultValue c) = None" for c
    by (auto simp: SetDefaultValue_def def_processors_def default_port_range_def split: option.splits)
  then have d: "SetDefaultValue c = (fst (SetDefaultValue c), None)" for c by (metis prod.collapse)
  from assms show ?thesis
    by (subst (asm) api_NewCluster_def, subst (asm) d)
      (auto simp: expected_defs elim!: bindC_InrE split: sum.splits prod.splits option.splits)
qed

lemma serve_code:
  assumes "serve W c rq sv w = Inr (w', sv', rsp)"
  shows "map_option fst (reply_head rsp) =
     (if c \<in> {CallUpdateCluster, CallGetClusterList} then None else Some (expected_code W c rq sv w))"
proof (cases c)
  case CallCancelChange
  with assms show ?thesis by (auto simp: handler_defs expected_defs split: if_splits)
next
  case CallListAgentsByClusterId
  with assms show ?thesis
    by (auto simp: handler_defs expected_defs elim!: bindC_InrE split: if_splits sum.splits)
next
  case CallDownloadCerts
  with assms show ?thesis by (auto simp: handler_defs expected_defs split: if_splits sum.splits)
next
  case CallDownloadAdminCert
  with assms show ?thesis
    by (auto simp: handler_defs expected_defs elim!: bindC_InrE split: if_splits sum.splits)
next
  case CallGetClusterComponentStatus
  with assms show ?thesis
    by (auto simp: handler_defs expected_defs elim!: bindC_InrE split: if_splits sum.splits)
qed (use assms in \<open>auto simp: api_UpdateCluster_def api_GetClusterList_def
     dest!: register_code query_code report_code change_code new_cluster_code\<close>)

text \<open>A request that lacks a parameter or has a bad body has no effect.\<close>

definition refused :: "'w web \<Rightarrow> call \<Rightarrow> http_request \<Rightarrow> bool" where
  "refused W c rq \<longleftrightarrow> missing_param c rq \<noteq> None \<or> bad_body W c rq"

lemma serve_refused:
  assumes "serve W c rq sv w = Inr (w', sv', rsp)" and "refused W c rq"
  shows "w' = w \<and> sv' = sv \<and>
     (case missing_param c rq of None \<Rightarrow> True | Some n \<Rightarrow> reply_head rsp = Some (ParameterError, ErrText (ERequiredField n)))"
  using assms
  by (cases c) (auto simp: refused_def missing_param_def bad_body_def decodable_def handler_defs required_def
      report_reply_def Response_def Let_def split: if_splits sum.splits)

text \<open>
  C9: a reply, where the handler does not panic, is of the type its caller decodes and has the code
  of what happened. The type: an error has a reason and carries no payload, a success has the
  struct of its call (a job where one was asked for, a certificate that is not empty), and no reply
  tells the agent to crash. The code: \<open>ParameterError\<close> and the name of the parameter for the first one
  that is missing, \<open>DeserializeError\<close> for a body that cannot be read or decoded (and neither
  request has an effect), else the code of the failed operation: \<open>OperationFailed\<close> for registering,
  handing out a job, reporting, creating a cluster and a migration that is delayed already,
  \<open>InternalError\<close> for an unknown cluster or a failed migration or listing, \<open>ParameterError\<close> for
  settings that the checks refuse and for an agent or a certificate that is not found; and
  success only if nothing failed. No request changes the token.
\<close>

theorem replies_well_typed:
  "case serve W c rq sv w of
     Inl x \<Rightarrow> True
   | Inr (w', sv', rsp) \<Rightarrow> well_typed c rsp \<and> sv_token sv' = sv_token sv \<and>
       map_option fst (reply_head rsp) =
         (if c \<in> {CallUpdateCluster, CallGetClusterList} then None else Some (expected_code W c rq sv w)) \<and>
       (if refused W c rq then w' = w \<and> sv' = sv \<and>
          (case missing_param c rq of None \<Rightarrow> True | Some n \<Rightarrow> reply_head rsp = Some (ParameterError, ErrText (ERequiredField n)))
        else True)"
proof (cases "serve W c rq sv w")
  case (Inr y)
  obtain w' sv' rsp where y: "serve W c rq sv w = Inr (w', sv', rsp)" using Inr by (cases y) auto
  from serve_typed [OF y] serve_code [OF y] serve_refused [OF y] show ?thesis unfolding y by simp
qed simp

text \<open>
  The token protects nothing: whatever file a route with a token serves, the bootstrap route
  serves to a request without one, under the path that has its prefix exchanged.
\<close>

theorem bootstrap_needs_no_token:
  assumes "is_prefix ''/apis/v1/registry/'' path"
    and "serve_file W path rq sv w = Inr (w', sv', File content)"
  shows "rq_URLParam rq ''token'' = sv_token sv \<and>
     serve_file W (''/bootstrap/'' @ drop (length ''/apis/v1/'') path) rq' sv w = Inr (w, sv, File content)"
proof -
  obtain r where path: "path = ''/apis/v1/registry/'' @ r" using assms(1) by (auto simp: is_prefix_iff)
  from assms(2) have "rq_URLParam rq ''token'' = sv_token sv" "content = we_ServeFile W (''registry/'' @ r)"
    by (auto simp: path serve_file_def file_routes_def api_downloadFile_def serve_stripped_def strip_prefix_def
        split: if_splits)
  then show ?thesis
    by (simp add: path serve_file_def file_routes_def api_downloadFile2_def serve_stripped_def strip_prefix_def)
qed

section \<open>Witnesses\<close>

definition sim_web :: "sim_world web" where
  "sim_web = api.extend sim_api (web.fields (\<lambda>s. Inr etcd_report) (\<lambda>f. f))"

definition sample_http :: "(string, string) gomap \<Rightarrow> http_request" where
  "sample_http ps = \<lparr>rq_URLParam = gm_str ps, rq_URLParamInt32 = (\<lambda>n. None), rq_Body = Inr ''n9'', rq_RemoteAddr = ''10.0.0.9''\<rparr>"




theorem bootstrap_needs_no_token_witness:
  "serve_file sim_web ''/bootstrap/registry/1.12.5/k8s.tar'' (sample_http []) (new_server ''t'') sim_world =
     Inr (sim_world, new_server ''t'', File ''registry/1.12.5/k8s.tar'')"
proof -
  have "serve_file sim_web ''/apis/v1/registry/1.12.5/k8s.tar'' (sample_http [(''token'', ''t'')]) (new_server ''t'') sim_world =
     Inr (sim_world, new_server ''t'', File ''registry/1.12.5/k8s.tar'')"
    by (simp add: serve_file_def file_routes_def api_downloadFile_def serve_stripped_def strip_prefix_def
        sample_http_def gm_str_def new_server_def sim_web_def api.defs web.defs)
  from bootstrap_needs_no_token [OF _ this, of "sample_http []"] show ?thesis by simp
qed

end
