(* ===== verification/AgentHost.thy ===== *)
theory AgentHost
  imports Messages
begin

text \<open>
  The agent process (\<open>cmd/agent\<close>): its data, the host it runs on, its recovery file and the web
  server through which the API server reaches it.

  The host is a record \<open>'w node\<close>: the files, which the code reads and writes, and the rest of the
  world \<open>'w\<close>. What the code calls there is the record \<open>'w host\<close> (the Docker client, \<open>bash\<close>, HTTP,
  JSON, the clock, and which file operations fail). Directories are not modelled. A crash is a
  panic, or \<open>FatalExit\<close> for \<open>logrus.Fatalf\<close> and \<open>os.Exit\<close>.
\<close>

section \<open>Errors\<close>

text \<open>
  The agent exits on an error that wraps \<open>crashError\<close>. \<open>XErrorf\<close> is an error that
  \<open>xerrors.Errorf\<close> made with \<open>%w\<close> and \<open>crashError\<close>, \<open>Errorf\<close> the same of \<open>fmt.Errorf\<close> (which wraps
  since Go 1.13). No format of the source has \<open>: %w\<close> at its end, and whether \<open>xerrors\<close> wraps the
  operand then depends on its version: \<open>ho_XErrorfWraps\<close>.
\<close>

datatype agent_error = NotInitialized | XErrorf error | Errorf error | PlainError error

section \<open>Data: types.go, main.go\<close>

record agent_args =
  aa_AgentId :: string
  aa_Server :: string
  aa_ClusterId :: string
  aa_Address :: string
  aa_NodeLabels :: "string option"
  aa_UsedEthernetInterface :: string
  aa_LeaseId :: int
  aa_IsETCDRole :: bool
  aa_IsMasterRole :: bool
  aa_IsMinionRole :: bool
  aa_IsHARole :: bool
  aa_ListenPort :: int

record recovery_record =
  rv_IsETCDRole :: bool
  rv_IsMasterRole :: bool
  rv_IsMinionRole :: bool
  rv_IsHARole :: bool
  rv_HasInstalledMaster :: bool
  rv_HasInstalledETCD :: bool
  rv_HasInstalledMinion :: bool
  rv_InstallMasterTime :: int
  rv_InstallETCDTime :: int
  rv_InstallMinionTime :: int
  rv_MasterDeploymentType :: string
  rv_ETCDDeploymentType :: string
  rv_MinionDeploymentType :: string
  rv_ClusterID :: string

definition new_recovery :: "string \<Rightarrow> recovery_record" where
  "new_recovery cid = \<lparr>rv_IsETCDRole = False, rv_IsMasterRole = False, rv_IsMinionRole = False,
     rv_IsHARole = False, rv_HasInstalledMaster = False, rv_HasInstalledETCD = False,
     rv_HasInstalledMinion = False, rv_InstallMasterTime = 0, rv_InstallETCDTime = 0,
     rv_InstallMinionTime = 0, rv_MasterDeploymentType = [], rv_ETCDDeploymentType = [],
     rv_MinionDeploymentType = [], rv_ClusterID = cid\<rparr>"

abbreviation COMPONENT_DEPLOYMENT_INTEGRATION :: string where
  "COMPONENT_DEPLOYMENT_INTEGRATION \<equiv> ''integration''"

abbreviation RECOVERY_FILE_PATH :: string where
  "RECOVERY_FILE_PATH \<equiv> ''/opt/lightning-monkey/recovery''"

datatype image_manager = RemoteRegistryDockerImageManager image_collection | HTTPDockerImageManager image_collection string

text \<open>The four pairs of a job handler and a health check that \<open>jobs.go\<close> registers.\<close>

datatype job_handler = HandlerETCD | HandlerMaster | HandlerMinion | HandlerHA

text \<open>A job is shared between the main loop and the goroutine that performs it.\<close>

record live_job =
  lj_job :: agent_job
  lj_HadDone :: bool
  lj_HealthCheckHandler :: "job_handler option"

text \<open>\<open>la_CertPath\<close> is the package variable \<open>CERTIFICATE_STORAGE_PATH\<close>, which a flag may set.\<close>

record lm_agent =
  la_arg :: agent_args
  la_CertPath :: string
  la_currentJob :: "nat option"
  la_jobs :: "nat \<Rightarrow> live_job"
  la_nextJob :: nat
  la_workQueue :: "nat list"
  la_lastRegisteredTime :: int
  la_hasRegistered :: int
  la_basicImages :: "image_collection option"
  la_masterSettings :: "(string, string) gomap"
  la_dockerImageManager :: "image_manager option"
  la_ItemsStatus :: "(string, report_item) gomap"
  la_expectedETCDNodeCount :: int
  la_rr :: "recovery_record option"

section \<open>The host\<close>

record container =
  co_ID :: string
  co_Names :: "string list"
  co_Status :: string

record container_config =
  cf_Hostname :: string
  cf_Image :: string
  cf_Cmd :: "string list"
  cf_Binds :: "string list"
  cf_Privileged :: bool
  cf_NetworkMode :: string
  cf_PidMode :: string
  cf_RestartPolicy :: string
  cf_Name :: string

record http_answer =
  hn_StatusCode :: int
  hn_Body :: "error + string"

type_synonym files = "(string, string) gomap"

record route =
  rt_Gw :: string
  rt_Dst :: string
  rt_LinkIndex :: int

record 'w node =
  nd_world :: 'w
  nd_files :: files

record 'w host =
  ho_XErrorfWraps :: bool
  ho_ErrorText :: "agent_error \<Rightarrow> string"
  ho_now :: "'w \<Rightarrow> int"
  ho_Hostname :: "'w \<Rightarrow> string"
  ho_CPU :: "'w \<Rightarrow> error + (32 word \<times> 64 word) list"
  ho_Memory :: "'w \<Rightarrow> error + 64 word"
  ho_GoInfo :: "'w \<Rightarrow> string \<times> string \<times> string"
  ho_Stat :: "'w \<Rightarrow> string \<Rightarrow> error option"
  ho_MkdirAll :: "'w \<Rightarrow> string \<Rightarrow> error option"
  ho_OpenFile :: "'w \<Rightarrow> string \<Rightarrow> error option"
  ho_Write :: "'w \<Rightarrow> string \<Rightarrow> error option"
  ho_Bash :: "'w \<Rightarrow> files \<Rightarrow> string \<Rightarrow> 'w \<times> files \<times> error option"
  ho_ContainerList :: "'w \<Rightarrow> bool \<Rightarrow> error + container list"
  ho_ContainerCreate :: "'w \<Rightarrow> container_config \<Rightarrow> 'w \<times> (error + string)"
  ho_ContainerStart :: "'w \<Rightarrow> string \<Rightarrow> 'w \<times> error option"
  ho_ContainerLogs :: "'w \<Rightarrow> string \<Rightarrow> error option"
  ho_ContainerExecCreate :: "'w \<Rightarrow> string \<Rightarrow> string list \<Rightarrow> 'w \<times> (error + string)"
  ho_ContainerExecAttach :: "'w \<Rightarrow> string \<Rightarrow> 'w \<times> error option"
  ho_ContainerExecStart :: "'w \<Rightarrow> string \<Rightarrow> 'w \<times> error option"
  ho_ExecOutput :: "'w \<Rightarrow> string \<Rightarrow> error + string list"
  ho_ImagePull :: "'w \<Rightarrow> string \<Rightarrow> 'w \<times> error option"
  ho_ImageLoad :: "'w \<Rightarrow> string \<Rightarrow> 'w \<times> error option"
  ho_Head :: "'w \<Rightarrow> string \<Rightarrow> 'w \<times> (error + string)"
  ho_Get :: "'w \<Rightarrow> string \<Rightarrow> 'w \<times> (error + string \<times> error option)"
  ho_NewV4 :: "'w \<Rightarrow> 'w \<times> string"
  ho_DirExists :: "'w \<Rightarrow> string \<Rightarrow> bool"
  ho_NewRequest :: "string \<Rightarrow> error option"
  ho_Do :: "'w \<Rightarrow> string \<Rightarrow> string \<Rightarrow> string \<Rightarrow> 'w \<times> (error + http_answer)"
  ho_MarshalAgent :: "agent \<Rightarrow> error + string"
  ho_MarshalReport :: "report_status \<Rightarrow> error + string"
  ho_MarshalRecovery :: "recovery_record \<Rightarrow> error + string"
  ho_UnmarshalRecovery :: "string \<Rightarrow> error + recovery_record"
  ho_UnmarshalRegister :: "string \<Rightarrow> error + register_agent_response"
  ho_UnmarshalCertificate :: "string \<Rightarrow> error + get_certificate_response"
  ho_UnmarshalReport :: "string \<Rightarrow> error + report_status_response"
  ho_UnmarshalJob :: "string \<Rightarrow> error + next_job_response"
  ho_UnmarshalRoutes :: "string \<Rightarrow> error + node_info list"
  ho_LinkByName :: "'w \<Rightarrow> string \<Rightarrow> error + int"
  ho_ParseCIDR :: "string \<Rightarrow> error + string"
  ho_RouteAdd :: "'w \<Rightarrow> route \<Rightarrow> 'w \<times> error option"
  ho_UnmarshalChange :: "string \<Rightarrow> error + change_request"

text \<open>\<open>xerrors.Is(err, crashError)\<close>.\<close>

definition is_crash :: "'w host \<Rightarrow> agent_error \<Rightarrow> bool" where
  "is_crash H e = (case e of XErrorf x \<Rightarrow> ho_XErrorfWraps H | Errorf x \<Rightarrow> True | _ \<Rightarrow> False)"

section \<open>Files\<close>

text \<open>
  Writing from the start of a file that was opened with \<open>O_CREATE|O_WRONLY\<close>: without \<open>O_TRUNC\<close> what
  is longer than the new content stays. \<open>ioutil.WriteFile\<close> truncates.
\<close>

definition overwrite :: "string \<Rightarrow> string \<Rightarrow> files \<Rightarrow> files" where
  "overwrite path content fs = gm_put path (content @ drop (length content) (gm_str fs path)) fs"

definition open_and_write :: "'w host \<Rightarrow> string \<Rightarrow> string \<Rightarrow> 'w node \<Rightarrow> 'w node \<times> error option" where
  "open_and_write H path content nd =
     (case ho_OpenFile H (nd_world nd) path of
        Some e \<Rightarrow> (nd, Some e)
      | None \<Rightarrow> (case ho_Write H (nd_world nd) path of
          Some e \<Rightarrow> (nd\<lparr>nd_files := overwrite path [] (nd_files nd)\<rparr>, Some e)
        | None \<Rightarrow> (nd\<lparr>nd_files := overwrite path content (nd_files nd)\<rparr>, None)))"

definition WriteFile :: "'w host \<Rightarrow> string \<Rightarrow> string \<Rightarrow> 'w node \<Rightarrow> 'w node \<times> error option" where
  "WriteFile H path content nd =
     (case ho_OpenFile H (nd_world nd) path of
        Some e \<Rightarrow> (nd, Some e)
      | None \<Rightarrow> (case ho_Write H (nd_world nd) path of
          Some e \<Rightarrow> (nd\<lparr>nd_files := gm_put path [] (nd_files nd)\<rparr>, Some e)
        | None \<Rightarrow> (nd\<lparr>nd_files := gm_put path content (nd_files nd)\<rparr>, None)))"

definition Remove :: "string \<Rightarrow> 'w node \<Rightarrow> 'w node" where
  "Remove path nd = nd\<lparr>nd_files := gm_del path (nd_files nd)\<rparr>"

text \<open>\<open>os.Stat\<close>: another error than \<open>IsNotExist\<close>, or whether the file exists.\<close>

definition Stat :: "'w host \<Rightarrow> string \<Rightarrow> 'w node \<Rightarrow> error + bool" where
  "Stat H path nd = (case ho_Stat H (nd_world nd) path of Some e \<Rightarrow> Inl e
     | None \<Rightarrow> Inr (gm_get (nd_files nd) path \<noteq> None))"

section \<open>The recovery file: recovery.go\<close>

definition saveRecoveryFile :: "'w host \<Rightarrow> lm_agent \<Rightarrow> 'w node \<Rightarrow> 'w node \<times> error option" where
  "saveRecoveryFile H la nd0 =
     (let nd = Remove RECOVERY_FILE_PATH nd0 in
      case ho_MkdirAll H (nd_world nd) (path_dir RECOVERY_FILE_PATH) of
        Some e \<Rightarrow> (nd, Some (EWrap ''create path to save recovery file'' e))
      | None \<Rightarrow>
        (case (case la_rr la of None \<Rightarrow> Inr ''null'' | Some rr \<Rightarrow> ho_MarshalRecovery H rr) of
           Inl e \<Rightarrow> (nd, Some (EWrap ''marshal recovery object structure'' e))
         | Inr data \<Rightarrow> (case WriteFile H RECOVERY_FILE_PATH data nd of
             (nd1, e) \<Rightarrow> (nd1, map_option (EWrap ''save recovery file'') e))))"

text \<open>What one status says of its component, written into the recovery record the first time.\<close>

definition note_installed :: "string \<Rightarrow> report_item \<Rightarrow> recovery_record \<Rightarrow> recovery_record option" where
  "note_installed key item rr =
     (if key = AgentJob_Deploy_ETCD then
        (if \<not> rv_HasInstalledETCD rr \<and> ri_HasProvisioned item
         then Some (rr\<lparr>rv_HasInstalledETCD := True, rv_ETCDDeploymentType := COMPONENT_DEPLOYMENT_INTEGRATION,
                     rv_InstallETCDTime := ri_LastSeenTime item\<rparr>) else None)
      else if key = AgentJob_Deploy_Master then
        (if \<not> rv_HasInstalledMaster rr \<and> ri_HasProvisioned item
         then Some (rr\<lparr>rv_HasInstalledMaster := True, rv_MasterDeploymentType := COMPONENT_DEPLOYMENT_INTEGRATION,
                     rv_InstallMasterTime := ri_LastSeenTime item\<rparr>) else None)
      else if key = AgentJob_Deploy_Minion then
        (if \<not> rv_HasInstalledMinion rr \<and> ri_HasProvisioned item
         then Some (rr\<lparr>rv_HasInstalledMinion := True, rv_MinionDeploymentType := COMPONENT_DEPLOYMENT_INTEGRATION,
                     rv_InstallMinionTime := ri_LastSeenTime item\<rparr>) else None)
      else None)"

text \<open>An error of saving is logged.\<close>

definition updateRecoveryFile ::
  "'w host \<Rightarrow> string \<Rightarrow> report_item \<Rightarrow> lm_agent \<Rightarrow> 'w node \<Rightarrow> 'w node \<times> lm_agent" where
  "updateRecoveryFile H key item la nd =
     (case la_rr la of
        None \<Rightarrow> (nd, la)
      | Some rr \<Rightarrow>
        (case note_installed key item rr of
           None \<Rightarrow> (nd, la)
         | Some rr' \<Rightarrow> (let la1 = la\<lparr>la_rr := Some rr'\<rparr> in (fst (saveRecoveryFile H la1 nd), la1))))"

text \<open>One message of the status channel, which \<open>startStatusTracing\<close> receives.\<close>

definition trace_status :: "'w host \<Rightarrow> string \<Rightarrow> report_item \<Rightarrow> lm_agent \<Rightarrow> 'w node \<Rightarrow> 'w node \<times> lm_agent" where
  "trace_status H key item la nd =
     updateRecoveryFile H key item (la\<lparr>la_ItemsStatus := gm_put key item (la_ItemsStatus la)\<rparr>) nd"

definition provisioned_item :: "(string, report_item) gomap \<Rightarrow> string \<Rightarrow> bool" where
  "provisioned_item items key = (case gm_get items key of None \<Rightarrow> False | Some i \<Rightarrow> ri_HasProvisioned i)"

definition checkHealthy :: "recovery_record \<Rightarrow> (string, report_item) gomap \<Rightarrow> bool" where
  "checkHealthy rr items \<longleftrightarrow>
     \<not> (rv_HasInstalledETCD rr \<and> \<not> provisioned_item items AgentJob_Deploy_ETCD) \<and>
     \<not> (rv_HasInstalledMaster rr \<and> \<not> provisioned_item items AgentJob_Deploy_Master) \<and>
     \<not> (rv_HasInstalledMinion rr \<and> \<not> provisioned_item items AgentJob_Deploy_Minion)"

text \<open>
  \<open>recover\<close> up to its waiting loop: read the file; the agent is \<open>None\<close> where there is none.
\<close>

definition recover_read :: "'w host \<Rightarrow> lm_agent \<Rightarrow> 'w node \<Rightarrow> error + lm_agent option" where
  "recover_read H la nd =
     (case Stat H RECOVERY_FILE_PATH nd of
        Inl e \<Rightarrow> Inl (EWrap ''scan recovery file'' e)
      | Inr False \<Rightarrow> Inr None
      | Inr True \<Rightarrow>
        (case ho_OpenFile H (nd_world nd) RECOVERY_FILE_PATH of
           Some e \<Rightarrow> Inl e
         | None \<Rightarrow>
           (case ho_UnmarshalRecovery H (gm_str (nd_files nd) RECOVERY_FILE_PATH) of
              Inl e \<Rightarrow> Inl e
            | Inr rr \<Rightarrow> Inr (Some (la\<lparr>la_rr := Some rr,
                la_arg := (if rv_ClusterID rr \<noteq> [] then (la_arg la)\<lparr>aa_ClusterId := rv_ClusterID rr\<rparr> else la_arg la)\<rparr>)))))"

text \<open>
  The waiting loop: \<open>las n\<close> is the agent at the \<open>n\<close>-th look. The messages of the health checks arrive
  meanwhile, and change its status map and its recovery record. The result is the look at which the
  loop ends, \<open>None\<close> if it does not end.
\<close>

partial_function (option) recover_wait :: "(nat \<Rightarrow> lm_agent) \<Rightarrow> nat \<Rightarrow> (crash + nat) option" where
  "recover_wait las n =
     (case la_rr (las n) of
        None \<Rightarrow> Some (Inl NilDeref)
      | Some rr \<Rightarrow> (if checkHealthy rr (la_ItemsStatus (las n)) then Some (Inr n) else recover_wait las (Suc n)))"

text \<open>What \<open>Start\<close> does between the recovery and the main loop.\<close>

definition start_agent :: "lm_agent \<Rightarrow> lm_agent" where
  "start_agent la =
     (case la_rr la of
        Some rr \<Rightarrow> la\<lparr>la_arg := (la_arg la)\<lparr>aa_ClusterId := rv_ClusterID rr, aa_IsETCDRole := rv_IsETCDRole rr,
          aa_IsMasterRole := rv_IsMasterRole rr, aa_IsMinionRole := rv_IsMinionRole rr, aa_IsHARole := rv_IsHARole rr\<rparr>\<rparr>
      | None \<Rightarrow> la\<lparr>la_rr := Some (new_recovery (aa_ClusterId (la_arg la)))\<rparr>)"

section \<open>The web server of the agent: http\_server.go\<close>

definition change_args :: "change_request \<Rightarrow> agent_args \<Rightarrow> agent_args" where
  "change_args req arg = arg\<lparr>aa_ClusterId := cr_NewClusterId req, aa_IsETCDRole := cr_IsETCDRole req,
     aa_IsMasterRole := cr_IsMasterRole req, aa_IsMinionRole := cr_IsMinionRole req, aa_IsHARole := cr_IsHARole req\<rparr>"

definition change_recovery :: "change_request \<Rightarrow> recovery_record \<Rightarrow> recovery_record" where
  "change_recovery req rr = rr\<lparr>rv_ClusterID := cr_NewClusterId req, rv_IsETCDRole := cr_IsETCDRole req,
     rv_IsMasterRole := cr_IsMasterRole req, rv_IsMinionRole := cr_IsMinionRole req, rv_IsHARole := cr_IsHARole req\<rparr>"

text \<open>The change itself, once the body is decoded; an error of saving is logged.\<close>

definition apply_change :: "'w host \<Rightarrow> change_request \<Rightarrow> lm_agent \<Rightarrow> 'w node \<Rightarrow> 'w node \<times> lm_agent" where
  "apply_change H req la nd =
     (let la1 = la\<lparr>la_arg := change_args req (la_arg la), la_rr := map_option (change_recovery req) (la_rr la)\<rparr>;
          nd1 = (if la_rr la1 = None then nd else fst (saveRecoveryFile H la1 nd)) in
      (nd1, la1\<lparr>la_hasRegistered := 0\<rparr>))"

definition RegistrationDataChange ::
  "'w host \<Rightarrow> error + string \<Rightarrow> lm_agent \<Rightarrow> 'w node \<Rightarrow> 'w node \<times> lm_agent \<times> response" where
  "RegistrationDataChange H body la nd =
     (case body of
        Inl e \<Rightarrow> (nd, la, Response DeserializeError (ErrText e))
      | Inr data \<Rightarrow>
        (case ho_UnmarshalChange H data of
           Inl e \<Rightarrow> (nd, la, Response DeserializeError (ErrText e))
         | Inr req \<Rightarrow> (case apply_change H req la nd of (nd1, la1) \<Rightarrow> (nd1, la1, Response Succeed NoReason))))"

text \<open>Routes to the pods of the other nodes; an entry that does not parse or is refused is logged.\<close>

fun add_routes :: "'w host \<Rightarrow> int \<Rightarrow> node_info list \<Rightarrow> 'w \<Rightarrow> 'w \<times> nat" where
  "add_routes H link [] w = (w, 0)"
| "add_routes H link (n # ns) w =
     (case ho_ParseCIDR H (ni_PodCIDR n) of
        Inl e \<Rightarrow> add_routes H link ns w
      | Inr cidr \<Rightarrow>
        (case ho_RouteAdd H w \<lparr>rt_Gw = ni_NodeIP n, rt_Dst = cidr, rt_LinkIndex = link\<rparr> of
           (w1, Some e) \<Rightarrow> add_routes H link ns w1
         | (w1, None) \<Rightarrow> (case add_routes H link ns w1 of (w2, k) \<Rightarrow> (w2, Suc k))))"

definition GenerateSystemRoutingRules ::
  "'w host \<Rightarrow> error + string \<Rightarrow> lm_agent \<Rightarrow> 'w node \<Rightarrow> 'w node \<times> response" where
  "GenerateSystemRoutingRules H body la nd =
     (case body of
        Inl e \<Rightarrow> (nd, Response DeserializeError (ErrText e))
      | Inr data \<Rightarrow>
        (case ho_UnmarshalRoutes H data of
           Inl e \<Rightarrow> (nd, Response DeserializeError (ErrText e))
         | Inr nodes \<Rightarrow>
           (case ho_LinkByName H (nd_world nd) (aa_UsedEthernetInterface (la_arg la)) of
              Inl e \<Rightarrow> (nd, Response Succeed NoReason)
            | Inr link \<Rightarrow> (nd\<lparr>nd_world := fst (add_routes H link nodes (nd_world nd))\<rparr>, Response Succeed NoReason))))"

section \<open>Recovery\<close>

text \<open>The loop ends only at a look that finds every component healthy that is said to be installed.\<close>

lemma recover_wait_Some:
  assumes "recover_wait las n = Some r"
  shows "\<exists>m \<ge> n. case la_rr (las m) of None \<Rightarrow> True | Some rr \<Rightarrow> checkHealthy rr (la_ItemsStatus (las m))"
proof (rule recover_wait.raw_induct [OF _ assms])
  fix recover las n r
  assume IH: "\<And>las n r. recover las n = Some r \<Longrightarrow>
      \<exists>m \<ge> n. case la_rr (las m) of None \<Rightarrow> True | Some rr \<Rightarrow> checkHealthy rr (la_ItemsStatus (las m))"
    and body: "(case la_rr (las n) of
        None \<Rightarrow> Some (Inl NilDeref)
      | Some rr \<Rightarrow> (if checkHealthy rr (la_ItemsStatus (las n)) then Some (Inr n) else recover las (Suc n))) = Some r"
  show "\<exists>m \<ge> n. case la_rr (las m) of None \<Rightarrow> True | Some rr \<Rightarrow> checkHealthy rr (la_ItemsStatus (las m))"
  proof (cases "recover las (Suc n) = Some r")
    case True
    from IH [OF this] show ?thesis by (meson Suc_leD)
  next
    case False
    with body show ?thesis by (intro exI [of _ n]) (auto split: option.splits if_splits)
  qed
qed

text \<open>A message leaves the roles alone, and a component that is recorded as installed stays so.\<close>

lemma trace_status_keeps:
  assumes "trace_status H key item la nd = (nd', la')"
  shows "la_arg la' = la_arg la" and "la_ItemsStatus la' = gm_put key item (la_ItemsStatus la)"
    and "la_rr la = Some rr \<Longrightarrow> \<exists>rr'. la_rr la' = Some rr' \<and> (rv_HasInstalledMinion rr \<longrightarrow> rv_HasInstalledMinion rr')"
  using assms
  by (auto simp: trace_status_def updateRecoveryFile_def note_installed_def Let_def split: option.splits if_splits)

section \<open>A host on which everything succeeds\<close>

definition quiet_host :: "nat host" where
  "quiet_host = \<lparr>ho_XErrorfWraps = True, ho_ErrorText = (\<lambda>e. []), ho_now = int, ho_Hostname = (\<lambda>w. ''node''),
     ho_CPU = (\<lambda>w. Inr [(4, 0)]), ho_Memory = (\<lambda>w. Inr 0), ho_GoInfo = (\<lambda>w. (''linux'', ''Linux'', ''4.19'')),
     ho_Stat = (\<lambda>w p. None), ho_MkdirAll = (\<lambda>w p. None), ho_OpenFile = (\<lambda>w p. None), ho_Write = (\<lambda>w p. None),
     ho_Bash = (\<lambda>w fs c. (w, fs, None)), ho_ContainerList = (\<lambda>w b. Inr []),
     ho_ContainerCreate = (\<lambda>w c. (w, Inr ''c1'')), ho_ContainerStart = (\<lambda>w c. (w, None)), ho_ContainerLogs = (\<lambda>w c. None),
     ho_ContainerExecCreate = (\<lambda>w c cmd. (w, Inr ''e1'')), ho_ContainerExecAttach = (\<lambda>w e. (w, None)),
     ho_ContainerExecStart = (\<lambda>w e. (w, None)), ho_ExecOutput = (\<lambda>w e. Inr []), ho_ImagePull = (\<lambda>w i. (w, None)),
     ho_ImageLoad = (\<lambda>w i. (w, None)), ho_Head = (\<lambda>w u. (w, Inr ''0'')), ho_Get = (\<lambda>w u. (w, Inr ([], None))),
     ho_NewV4 = (\<lambda>w. (w, ''u1'')), ho_DirExists = (\<lambda>w p. True), ho_NewRequest = (\<lambda>u. None),
     ho_Do = (\<lambda>w me u b. (w, Inr \<lparr>hn_StatusCode = 200, hn_Body = Inr []\<rparr>)),
     ho_MarshalAgent = (\<lambda>a. Inr (ag_ClusterId a)), ho_MarshalReport = (\<lambda>r. Inr []),
     ho_MarshalRecovery = (\<lambda>r. Inr (rv_ClusterID r)), ho_UnmarshalRecovery = (\<lambda>s. Inr (new_recovery s)),
     ho_UnmarshalRegister = (\<lambda>s. Inl (EExternal s)), ho_UnmarshalCertificate = (\<lambda>s. Inl (EExternal s)),
     ho_UnmarshalReport = (\<lambda>s. Inl (EExternal s)), ho_UnmarshalJob = (\<lambda>s. Inl (EExternal s)),
     ho_UnmarshalRoutes = (\<lambda>s. Inr []), ho_LinkByName = (\<lambda>w n. Inr 1), ho_ParseCIDR = (\<lambda>c. Inr c),
     ho_RouteAdd = (\<lambda>w r. (w, None)), ho_UnmarshalChange = (\<lambda>s. Inl (EExternal s))\<rparr>"

end
