(* ===== verification/CertTools.thy ===== *)
theory CertTools
  imports AgentHost
begin

text \<open>
  What the agent and the API server let external programs make: certificates and manifests
  (\<open>pkg/certs/k8s_certs_generator.go\<close>), the kubelet's configuration (\<open>GenerateKubeletConfig\<close> of
  \<open>pkg/k8s/k8s.go\<close>) and Docker images (\<open>pkg/managers/docker_*.go\<close>).

  \<open>kubeadm\<close> is \<open>ho_Bash\<close>: a command line may change the files and may fail. What the code does around
  it, which commands it runs in which order, which files it reads and what it rewrites in them, is
  modelled.
\<close>

section \<open>Commands\<close>

definition executeCommand :: "'w host \<Rightarrow> string \<Rightarrow> string \<Rightarrow> 'w node \<Rightarrow> 'w node \<times> error option" where
  "executeCommand H command config nd =
     (case ho_Bash H (nd_world nd) (nd_files nd)
             (if config \<noteq> [] then command @ '' --config='' @ config else command) of
        (w, fs, e) \<Rightarrow> (\<lparr>nd_world = w, nd_files = fs\<rparr>, e))"

fun run_commands :: "'w host \<Rightarrow> string list \<Rightarrow> string \<Rightarrow> 'w node \<Rightarrow> 'w node \<times> error option" where
  "run_commands H [] config nd = (nd, None)"
| "run_commands H (c # cs) config nd =
     (case executeCommand H c config nd of
        (nd1, Some e) \<Rightarrow> (nd1, Some e)
      | (nd1, None) \<Rightarrow> run_commands H cs config nd1)"

section \<open>Walking a directory\<close>

definition below :: "string \<Rightarrow> string \<Rightarrow> bool" where
  "below dir p = is_prefix (dir @ ''/'') p"

text \<open>
  \<open>filepath.Walk\<close> visits the entries of a directory in the order of their names, so the files below
  a directory come in the order of their paths, compared segment by segment.
\<close>

definition walk_files :: "files \<Rightarrow> string \<Rightarrow> string list" where
  "walk_files fs dir = sort_key (split_on CHR ''/'') (filter (below dir) (remdups (map fst fs)))"

definition base_name :: "string \<Rightarrow> string" where
  "base_name p = last (split_on CHR ''/'' p)"

text \<open>On a directory that does not exist the callback gets a nil \<open>FileInfo\<close>, which it dereferences.\<close>

definition dir_exists :: "'w host \<Rightarrow> string \<Rightarrow> 'w node \<Rightarrow> bool" where
  "dir_exists H dir nd \<longleftrightarrow> walk_files (nd_files nd) dir \<noteq> [] \<or> ho_DirExists H (nd_world nd) dir"

section \<open>Reading the generated certificates\<close>

definition certificate_key :: "string \<Rightarrow> string \<Rightarrow> string" where
  "certificate_key title p = (if title \<noteq> [] then path_join [title, base_name p] else base_name p)"

fun take_files ::
  "'w host \<Rightarrow> 'w node \<Rightarrow> string \<Rightarrow> string list \<Rightarrow> (string, string) gomap \<Rightarrow> (string, string) gomap \<times> error option" where
  "take_files H nd title [] m = (m, None)"
| "take_files H nd title (p # ps) m =
     (if gm_get m (certificate_key title p) \<noteq> None then take_files H nd title ps m
      else case ho_OpenFile H (nd_world nd) p of
        Some e \<Rightarrow> (m, Some e)
      | None \<Rightarrow> take_files H nd title ps (gm_put (certificate_key title p) (gm_str (nd_files nd) p) m))"

definition getCertificatesContent ::
  "'w host \<Rightarrow> string \<Rightarrow> string \<Rightarrow> (string, string) gomap \<Rightarrow> 'w node \<Rightarrow> crash + (string, string) gomap \<times> error option" where
  "getCertificatesContent H path title m nd =
     (if \<not> dir_exists H path nd then Inl NilDeref
      else Inr (take_files H nd title (walk_files (nd_files nd) path) m))"

section \<open>Generating certificates\<close>

definition RemoveAll :: "string \<Rightarrow> 'w node \<Rightarrow> 'w node" where
  "RemoveAll path nd = nd\<lparr>nd_files := filter (\<lambda>(p, c). p \<noteq> path \<and> \<not> below path p) (nd_files nd)\<rparr>"

definition temp_path :: "string \<Rightarrow> string" where
  "temp_path u = ''/tmp/kubernetes-certs/'' @ u"

definition main_ca_commands :: "string \<Rightarrow> string list" where
  "main_ca_commands path = [''kubeadm init phase certs ca --cert-dir='' @ path,
     ''kubeadm init phase certs etcd-ca --cert-dir='' @ path,
     ''kubeadm init phase certs front-proxy-ca --cert-dir='' @ path,
     ''kubeadm init phase certs sa --cert-dir='' @ path]"

fun generate_cas ::
  "'w host \<Rightarrow> string \<Rightarrow> string list \<Rightarrow> (string, string) gomap \<Rightarrow> 'w node
     \<Rightarrow> crash + 'w node \<times> (error + (string, string) gomap)" where
  "generate_cas H path [] m nd = Inr (nd, Inr m)"
| "generate_cas H path (c # cs) m nd =
     (case executeCommand H c [] nd of
        (nd1, Some e) \<Rightarrow> Inr (nd1, Inl e)
      | (nd1, None) \<Rightarrow>
        bindC (getCertificatesContent H path (if contains ''etcd'' c then ''etcd'' else []) m nd1) (\<lambda>(m1, e).
          case e of Some err \<Rightarrow> Inr (nd1, Inl err) | None \<Rightarrow> generate_cas H path cs m1 nd1))"

text \<open>The temporary directory is removed in the end.\<close>

definition cleaned :: "string \<Rightarrow> crash + 'w node \<times> 'r \<Rightarrow> crash + 'w node \<times> 'r" where
  "cleaned path r = bindC r (\<lambda>(nd, x). Inr (RemoveAll path nd, x))"

definition GenerateMainCACertificates ::
  "'w host \<Rightarrow> 'w node \<Rightarrow> crash + 'w node \<times> (error + (string, string) gomap)" where
  "GenerateMainCACertificates H nd =
     (case ho_NewV4 H (nd_world nd) of (w, u) \<Rightarrow>
        cleaned (temp_path u) (generate_cas H (temp_path u) (main_ca_commands (temp_path u)) [] (nd\<lparr>nd_world := w\<rparr>)))"

text \<open>Running one command and reading what it made.\<close>

definition generate_with ::
  "'w host \<Rightarrow> string \<Rightarrow> string \<Rightarrow> 'w node \<Rightarrow> crash + 'w node \<times> (error + (string, string) gomap)" where
  "generate_with H path command nd =
     (case executeCommand H command [] nd of
        (nd1, Some e) \<Rightarrow> Inr (nd1, Inl e)
      | (nd1, None) \<Rightarrow>
        bindC (getCertificatesContent H path [] [] nd1) (\<lambda>(m, e).
          Inr (nd1, case e of Some err \<Rightarrow> Inl err | None \<Rightarrow> Inr m)))"

definition GenerateMasterCertificates ::
  "'w host \<Rightarrow> string \<Rightarrow> string \<Rightarrow> 'w node \<Rightarrow> crash + 'w node \<times> (error + (string, string) gomap)" where
  "GenerateMasterCertificates H advertiseAddr serviceCIDR nd =
     (case ho_NewV4 H (nd_world nd) of (w, u) \<Rightarrow>
        cleaned (temp_path u) (generate_with H (temp_path u)
          (''kubeadm init phase certs all --cert-dir='' @ temp_path u @ '' --apiserver-advertise-address='' @
           advertiseAddr @ '' --service-cidr='' @ serviceCIDR) (nd\<lparr>nd_world := w\<rparr>)))"

fun write_certificates :: "'w host \<Rightarrow> string \<Rightarrow> cert_pair list \<Rightarrow> 'w node \<Rightarrow> 'w node \<times> error option" where
  "write_certificates H path [] nd = (nd, None)"
| "write_certificates H path (c # cs) nd =
     (case WriteFile H (path_join [path, ck_Name c]) (ck_Value c) nd of
        (nd1, Some e) \<Rightarrow> (nd1, Some (EWrap (ck_Name c) e))
      | (nd1, None) \<Rightarrow> write_certificates H path cs nd1)"

definition GenerateAdminKubeConfig ::
  "'w host \<Rightarrow> string \<Rightarrow> cert_pair list \<Rightarrow> 'w node \<Rightarrow> crash + 'w node \<times> (error + (string, string) gomap)" where
  "GenerateAdminKubeConfig H advertiseAddr basicCertMap nd =
     (if basicCertMap = [] then Inr (nd, Inl (ERequiredField ''basic certificates''))
      else case ho_NewV4 H (nd_world nd) of (w, u) \<Rightarrow>
        (let path = temp_path u; nd1 = nd\<lparr>nd_world := w\<rparr> in
         case ho_MkdirAll H w path of
           Some e \<Rightarrow> Inr (nd1, Inl (EWrap path e))
         | None \<Rightarrow> cleaned path
             (case write_certificates H path basicCertMap nd1 of
                (nd2, Some e) \<Rightarrow> Inr (nd2, Inl e)
              | (nd2, None) \<Rightarrow> generate_with H path
                  (''kubeadm init phase kubeconfig admin --cert-dir='' @ path @ '' --kubeconfig-dir='' @ path @
                   '' --apiserver-advertise-address='' @ advertiseAddr) nd2)))"

section \<open>Certificates and manifests on a host\<close>

definition etcd_commands :: "string list" where
  "etcd_commands = [''kubeadm init phase certs etcd-server'', ''kubeadm init phase certs etcd-peer'',
     ''kubeadm init phase certs etcd-healthcheck-client'', ''kubeadm init phase certs apiserver-etcd-client'',
     ''kubeadm init phase etcd local'']"

definition GenerateETCDClientCertificatesAndManifest ::
  "'w host \<Rightarrow> string \<Rightarrow> string \<Rightarrow> 'w node \<Rightarrow> 'w node \<times> error option" where
  "GenerateETCDClientCertificatesAndManifest H certPath content nd =
     (let configFilePath = path_join [certPath, ''etcd_config.yml''] in
      case open_and_write H configFilePath content (RemoveAll configFilePath nd) of
        (nd1, Some e) \<Rightarrow> (nd1, Some e)
      | (nd1, None) \<Rightarrow> run_commands H etcd_commands configFilePath nd1)"

definition getExtraSans :: "(string, string) gomap \<Rightarrow> string" where
  "getExtraSans settings = (case gm_get settings MasterSettings_APIServerVIP of Some v \<Rightarrow> v | None \<Rightarrow> ''127.0.0.1'')"

definition master_commands :: "string \<Rightarrow> string \<Rightarrow> (string, string) gomap \<Rightarrow> string list" where
  "master_commands certPath address settings =
     [''kubeadm init phase certs apiserver --apiserver-advertise-address='' @ address @
        '' --service-dns-domain='' @ gm_str settings MasterSettings_ServiceDNSDomain @
        '' --service-cidr='' @ gm_str settings MasterSettings_ServiceCIDR @ '' --cert-dir='' @ certPath @
        '' --apiserver-cert-extra-sans='' @ getExtraSans settings,
      ''kubeadm init phase certs apiserver-etcd-client --cert-dir='' @ certPath,
      ''kubeadm init phase certs apiserver-kubelet-client --cert-dir='' @ certPath,
      ''kubeadm init phase certs front-proxy-client --cert-dir='' @ certPath,
      ''kubeadm init phase kubeconfig controller-manager --apiserver-advertise-address='' @ address @ '' --cert-dir='' @ certPath,
      ''kubeadm init phase kubeconfig scheduler --apiserver-advertise-address='' @ address @ '' --cert-dir='' @ certPath,
      ''kubeadm init phase control-plane all --apiserver-advertise-address='' @ address @
        '' --kubernetes-version='' @ gm_str settings MasterSettings_KubernetesVersion @
        '' --pod-network-cidr='' @ gm_str settings MasterSettings_PodCIDR @
        '' --service-cidr='' @ gm_str settings MasterSettings_ServiceCIDR @ '' --cert-dir='' @ certPath]"

text \<open>What becomes of the content of one manifest.\<close>

definition kube_apiserver_flags :: "string \<Rightarrow> string" where
  "kube_apiserver_flags ports = unlines [''- kube-apiserver'', ''    - --enable-aggregator-routing=true'',
     ''    - --service-node-port-range='' @ ports]"

definition rewrite_manifest ::
  "string \<Rightarrow> string \<Rightarrow> (string, string) gomap \<Rightarrow> string \<Rightarrow> string \<Rightarrow> string" where
  "rewrite_manifest p img settings address s =
     (let s1 = (if contains ''etcd'' p then s else replace_lines ''image: '' (''${1}'' @ img) s);
          s2 = replace_lines ''--address='' ''${1}0.0.0.0'' s1;
          s3 = replace_lines ''--enable-admission-plugins=''
            ''${1}NamespaceLifecycle,NamespaceExists,LimitRanger,ResourceQuota,ServiceAccount,MutatingAdmissionWebhook,ValidatingAdmissionWebhook'' s2;
          s4 = replace_str ''- kube-apiserver'' (kube_apiserver_flags (gm_str settings MasterSettings_PortRange)) s3;
          s5 = replace_lines ''etcd-servers='' (''${1}https://'' @ address @ '':2379'') s4;
          s6 = replace_lines ''advertise-address='' (''${1}'' @ address) s5 in
      replace_lines ''host:'' (''${1} '' @ address) s6)"

text \<open>One file: read, truncated, written again. The image is looked up in the images of the agent.\<close>

fun rewrite_files ::
  "'w host \<Rightarrow> image_collection option \<Rightarrow> (string, string) gomap \<Rightarrow> string \<Rightarrow> string list \<Rightarrow> 'w node
     \<Rightarrow> crash + 'w node \<times> error option" where
  "rewrite_files H images settings address [] nd = Inr (nd, None)"
| "rewrite_files H images settings address (p # ps) nd =
     (case ho_OpenFile H (nd_world nd) p of
        Some e \<Rightarrow> Inr (nd, Some e)
      | None \<Rightarrow>
        (if images = None \<and> \<not> contains ''etcd'' p then Inl NilDeref
         else case ho_Write H (nd_world nd) p of
           Some e \<Rightarrow> Inr (nd\<lparr>nd_files := gm_put p [] (nd_files nd)\<rparr>, Some e)
         | None \<Rightarrow> rewrite_files H images settings address ps
             (nd\<lparr>nd_files := gm_put p (rewrite_manifest p (case images of None \<Rightarrow> [] | Some c \<Rightarrow> image_name c ''k8s'')
                settings address (gm_str (nd_files nd) p)) (nd_files nd)\<rparr>)))"

definition GenerateMasterCertificatesAndManifest ::
  "'w host \<Rightarrow> string \<Rightarrow> string \<Rightarrow> (string, string) gomap \<Rightarrow> image_collection option \<Rightarrow> 'w node
     \<Rightarrow> crash + 'w node \<times> error option" where
  "GenerateMasterCertificatesAndManifest H certPath address settings images nd =
     (case run_commands H (master_commands certPath address settings) [] nd of
        (nd1, Some e) \<Rightarrow> Inr (nd1, Some e)
      | (nd1, None) \<Rightarrow>
        (let manifestPath = path_join [certPath, ''../'', ''manifests''] in
         if \<not> dir_exists H manifestPath nd1 then Inl NilDeref
         else rewrite_files H images settings address (walk_files (nd_files nd1) manifestPath) nd1))"

section \<open>The configuration of the kubelet\<close>

definition kubeletSettings :: string where
  "kubeletSettings = unlines
    [''address: 0.0.0.0'',
     ''apiVersion: kubelet.config.k8s.io/v1beta1'',
     ''authentication:'',
     ''  anonymous:'',
     ''    enabled: false'',
     ''  webhook:'',
     ''    cacheTTL: 2m0s'',
     ''    enabled: true'',
     ''  x509:'',
     ''    clientCAFile: /etc/kubernetes/pki/ca.crt'',
     ''authorization:'',
     ''  mode: Webhook'',
     ''  webhook:'',
     ''    cacheAuthorizedTTL: 5m0s'',
     ''    cacheUnauthorizedTTL: 30s'',
     ''cgroupDriver: cgroupfs'',
     ''clusterDNS:'',
     ''- {{.DNSIP}}'',
     ''clusterDomain: {{.DOMAIN}}'',
     ''configMapAndSecretChangeDetectionStrategy: Watch'',
     ''containerLogMaxFiles: 5'',
     ''containerLogMaxSize: 10Mi'',
     ''contentType: application/vnd.kubernetes.protobuf'',
     ''cpuCFSQuota: true'',
     ''cpuCFSQuotaPeriod: 100ms'',
     ''cpuManagerPolicy: none'',
     ''cpuManagerReconcilePeriod: 10s'',
     ''enableControllerAttachDetach: true'',
     ''enableDebuggingHandlers: true'',
     ''eventBurst: 10'',
     ''eventRecordQPS: 5'',
     ''evictionHard:'',
     ''  imagefs.available: 15%'',
     ''  memory.available: 200Mi'',
     ''  nodefs.available: 10%'',
     ''  nodefs.inodesFree: 10%'',
     ''evictionPressureTransitionPeriod: 5m0s'',
     ''failSwapOn: true'',
     ''fileCheckFrequency: 20s'',
     ''hairpinMode: promiscuous-bridge'',
     ''healthzBindAddress: 0.0.0.0'',
     ''healthzPort: 10248'',
     ''httpCheckFrequency: 20s'',
     ''imageGCHighThresholdPercent: 85'',
     ''imageGCLowThresholdPercent: 80'',
     ''imageMinimumGCAge: 2m0s'',
     ''iptablesDropBit: 15'',
     ''iptablesMasqueradeBit: 14'',
     ''kind: KubeletConfiguration'',
     ''kubeAPIBurst: 10'',
     ''kubeAPIQPS: 5'',
     ''makeIPTablesUtilChains: true'',
     ''maxOpenFiles: 1000000'',
     ''maxPods: {{.MAXPODS}}'',
     ''nodeLeaseDurationSeconds: 40'',
     ''nodeStatusReportFrequency: 1m0s'',
     ''nodeStatusUpdateFrequency: 10s'',
     ''oomScoreAdj: -999'',
     ''podPidsLimit: -1'',
     ''port: 10250'',
     ''registryBurst: 10'',
     ''registryPullQPS: 5'',
     ''resolvConf: /etc/resolv.conf'',
     ''rotateCertificates: true'',
     ''runtimeRequestTimeout: 2m0s'',
     ''serializeImagePulls: false'',
     ''staticPodPath: /etc/kubernetes/manifests'',
     ''streamingConnectionIdleTimeout: 4h0m0s'',
     ''syncFrequency: 1m0s'',
     ''volumeStatsAggPeriod: 1m0s'']"

definition GenerateKubeletConfig ::
  "'w host \<Rightarrow> string \<Rightarrow> string \<Rightarrow> (string, string) gomap \<Rightarrow> 'w node \<Rightarrow> 'w node \<times> error option" where
  "GenerateKubeletConfig H certPath masterAPIAddr slots nd =
     (case executeCommand H (''kubeadm init phase kubeconfig kubelet --cert-dir='' @ certPath @ '' --kubeconfig-dir='' @
             certPath @ '' --apiserver-advertise-address='' @ masterAPIAddr) [] nd of
        (nd1, Some e) \<Rightarrow> (nd1, Some e)
      | (nd1, None) \<Rightarrow>
        (case WriteFile H (path_join [certPath, ''kubelet_settings.yml''])
           (execute_template kubeletSettings
             [(''MAXPODS'', gm_str slots MasterSettings_MaxPodCountPerNode),
              (''DOMAIN'', gm_str slots MasterSettings_ServiceDNSDomain),
              (''DNSIP'', gm_str slots MasterSettings_ServiceDNSClusterIP)]) nd1 of
           (nd2, e) \<Rightarrow> (nd2, map_option (EWrap ''write kubelet settings file'') e)))"

section \<open>Docker images\<close>

definition NewDockerImageManager :: "string \<Rightarrow> image_collection \<Rightarrow> error + image_manager" where
  "NewDockerImageManager serverAddr c =
     (if ic_DownloadType c = DockerImageDownloadType_Registry then Inr (RemoteRegistryDockerImageManager c)
      else if ic_DownloadType c = DockerImageDownloadType_HTTP then Inr (HTTPDockerImageManager c serverAddr)
      else Inl (EUnsupported (ic_DownloadType c)))"

text \<open>The loops over the images visit the map in some order; the first error ends them.\<close>

fun pull_images :: "'w host \<Rightarrow> (string \<times> docker_image) list \<Rightarrow> 'w node \<Rightarrow> 'w node \<times> agent_error option" where
  "pull_images H [] nd = (nd, None)"
| "pull_images H ((n, i) # is) nd =
     (case ho_ImagePull H (nd_world nd) (di_ImageName i) of
        (w, Some e) \<Rightarrow> (nd\<lparr>nd_world := w\<rparr>, Some (XErrorf (EWrap ''pull docker image'' e)))
      | (w, None) \<Rightarrow> pull_images H is (nd\<lparr>nd_world := w\<rparr>))"

definition image_file :: "string \<Rightarrow> string" where
  "image_file name = ''/tmp/'' @ name @ ''.tar''"

text \<open>
  \<open>downloadFile\<close>: only a file that does not exist is downloaded; it is created before the server is
  asked, and what was received before an error stays in it. The result is the content.
\<close>

definition fetch_file :: "'w host \<Rightarrow> string \<Rightarrow> string \<Rightarrow> 'w node \<Rightarrow> 'w node \<times> error option" where
  "fetch_file H path url nd0 =
     (case ho_OpenFile H (nd_world nd0) path of
        Some e \<Rightarrow> (nd0, Some e)
      | None \<Rightarrow>
        (let nd = nd0\<lparr>nd_files := gm_put path [] (nd_files nd0)\<rparr> in
         case ho_Head H (nd_world nd) url of
           (w1, Inl e) \<Rightarrow> (nd\<lparr>nd_world := w1\<rparr>, Some e)
         | (w1, Inr contentLength) \<Rightarrow>
           (if atoi contentLength = None then (nd\<lparr>nd_world := w1\<rparr>, Some (EExternal contentLength))
            else case ho_Get H w1 url of
              (w2, Inl e) \<Rightarrow> (nd\<lparr>nd_world := w2\<rparr>, Some e)
            | (w2, Inr (content, e)) \<Rightarrow>
              (nd\<lparr>nd_world := w2, nd_files := gm_put path content (nd_files nd)\<rparr>, e))))"

definition downloadFile :: "'w host \<Rightarrow> string \<Rightarrow> string \<Rightarrow> 'w node \<Rightarrow> 'w node \<times> (error + string)" where
  "downloadFile H name url nd =
     (case Stat H (image_file name) nd of
        Inl e \<Rightarrow> (nd, Inl e)
      | Inr b \<Rightarrow>
        (case (if b then (nd, None) else fetch_file H (image_file name) url nd) of
           (nd1, Some e) \<Rightarrow> (nd1, Inl e)
         | (nd1, None) \<Rightarrow>
           (case ho_OpenFile H (nd_world nd1) (image_file name) of
              Some e \<Rightarrow> (nd1, Inl e)
            | None \<Rightarrow> (nd1, Inr (gm_str (nd_files nd1) (image_file name))))))"

fun load_images ::
  "'w host \<Rightarrow> string \<Rightarrow> string \<Rightarrow> (string \<times> docker_image) list \<Rightarrow> 'w node \<Rightarrow> 'w node \<times> agent_error option" where
  "load_images H server token [] nd = (nd, None)"
| "load_images H server token ((n, i) # is) nd =
     (case downloadFile H n (sprintf_s (di_DownloadAddr i) [server, token]) nd of
        (nd1, Inl e) \<Rightarrow> (nd1, Some (PlainError (EWrap ''download remote Docker image tarball file'' e)))
      | (nd1, Inr content) \<Rightarrow>
        (case ho_ImageLoad H (nd_world nd1) content of
           (w, Some e) \<Rightarrow> (nd1\<lparr>nd_world := w\<rparr>, Some (PlainError (EWrap ''load local tarball docker image file'' e)))
         | (w, None) \<Rightarrow> load_images H server token is (nd1\<lparr>nd_world := w\<rparr>)))"

fun Ready :: "'w host \<Rightarrow> image_manager \<Rightarrow> 'w node \<Rightarrow> 'w node \<times> agent_error option" where
  "Ready H (RemoteRegistryDockerImageManager c) nd = pull_images H (ic_Images c) nd"
| "Ready H (HTTPDockerImageManager c server) nd = load_images H server (ic_HTTPDownloadToken c) (ic_Images c) nd"

section \<open>What is read from a directory\<close>

lemma base_name_below: "base_name (path @ CHR ''/'' # n) = base_name n"
  by (simp add: base_name_def split_on_append)

lemma certificate_key_below: "certificate_key title (path @ CHR ''/'' # n) = certificate_key title n"
  by (simp add: certificate_key_def base_name_below)

definition put_all :: "string \<Rightarrow> (string \<times> string) list \<Rightarrow> files \<Rightarrow> files" where
  "put_all path outs fs = fold (\<lambda>(n, x) fs. gm_put (path @ CHR ''/'' # n) x fs) outs fs"

lemma put_all_append: "put_all path o2 (put_all path o1 fs) = put_all path (o1 @ o2) fs"
  by (simp add: put_all_def)

lemma put_all_names: "fst ` set (put_all path outs fs) = fst ` set fs \<union> (\<lambda>n. path @ CHR ''/'' # n) ` fst ` set outs"
  by (induction outs arbitrary: fs) (auto simp: put_all_def dom_update split: prod.splits)

lemma put_all_get:
  "gm_get (put_all path outs fs) (path @ CHR ''/'' # n) =
     (case gm_get (rev outs) n of Some x \<Rightarrow> Some x | None \<Rightarrow> gm_get fs (path @ CHR ''/'' # n))"
  by (induction outs rule: rev_induct) (auto simp: put_all_def split: prod.splits)

lemma below_path [simp]: "below path (path @ CHR ''/'' # n)"
  using is_prefix_append [of "path @ ''/''" n] by (simp add: below_def)

lemma walk_put_all:
  assumes "\<forall>p \<in> fst ` set fs. \<not> below path p" and "distinct (map fst outs)"
  shows "walk_files (put_all path outs fs) path =
           map (\<lambda>n. path @ CHR ''/'' # n) (sort_key (split_on CHR ''/'') (map fst outs))"
    (is "?l = ?r")
proof (rule map_sorted_distinct_set_unique [where f = "split_on CHR ''/''"])
  have inj: "inj_on (split_on CHR ''/'') A" for A
    using inj_split_on by (rule inj_on_subset) simp
  show "inj_on (split_on CHR ''/'') (set ?l \<union> set ?r)" by (rule inj)
  show "sorted (map (split_on CHR ''/'') ?l)" by (simp add: walk_files_def)
  have "sorted (map (split_on CHR ''/'') (sort_key (split_on CHR ''/'') (map fst outs)))" by simp
  then show "sorted (map (split_on CHR ''/'') ?r)"
    by (simp add: sorted_map o_def split_on_append lex_append sorted_wrt_map)
  show "distinct (map (split_on CHR ''/'') ?l)"
    by (simp add: distinct_map walk_files_def inj)
  have "inj (\<lambda>n. split_on CHR ''/'' (path @ CHR ''/'' # n))"
    using inj_split_on [of "CHR ''/''"] by (simp add: inj_def split_on_append)
  then show "distinct (map (split_on CHR ''/'') ?r)"
    using assms(2) by (simp add: distinct_map o_def inj_on_subset [OF _ subset_UNIV])
  show "set ?l = set ?r"
    using assms(1) by (auto simp: walk_files_def put_all_names image_iff)
qed

text \<open>Taking the files of these names, the first content of a key wins.\<close>

definition take_names ::
  "(string, string) gomap \<Rightarrow> string \<Rightarrow> string list \<Rightarrow> (string, string) gomap \<Rightarrow> (string, string) gomap" where
  "take_names outs title ns m = fold (\<lambda>n m. if gm_get m (certificate_key title n) \<noteq> None then m
     else gm_put (certificate_key title n) (gm_str (rev outs) n) m) ns m"

lemma take_files_names:
  assumes "\<And>p. ho_OpenFile H (nd_world nd) p = None" and "nd_files nd = put_all path outs fs"
    and "set ns \<subseteq> fst ` set outs"
  shows "take_files H nd title (map (\<lambda>n. path @ CHR ''/'' # n) ns) m = (take_names outs title ns m, None)"
  using assms(3)
proof (induction ns arbitrary: m)
  case Nil
  then show ?case by (simp add: take_names_def)
next
  case (Cons n ns)
  then have "gm_get (rev outs) n \<noteq> None" by (auto simp: map_of_eq_None_iff)
  then have "gm_str (nd_files nd) (path @ CHR ''/'' # n) = gm_str (rev outs) n"
    by (auto simp: gm_str_def assms(2) put_all_get)
  with Cons show ?case by (simp add: certificate_key_below assms(1) take_names_def)
qed

text \<open>What \<open>kubeadm\<close> documents of a phase: it writes these files below the directory and succeeds.\<close>

definition phase_writes :: "'w host \<Rightarrow> string \<Rightarrow> string \<Rightarrow> (string \<times> string) list \<Rightarrow> bool" where
  "phase_writes H path command outs \<longleftrightarrow>
     (\<forall>w fs. ho_Bash H w fs command = (fst (ho_Bash H w fs command), put_all path outs fs, None))"

lemma phase_writes_command:
  assumes "phase_writes H path c outs"
  shows "\<exists>w'. executeCommand H c [] nd = (\<lparr>nd_world = w', nd_files = put_all path outs (nd_files nd)\<rparr>, None)"
proof -
  have "ho_Bash H (nd_world nd) (nd_files nd) c =
      (fst (ho_Bash H (nd_world nd) (nd_files nd) c), put_all path outs (nd_files nd), None)"
    using assms by (simp add: phase_writes_def)
  then show ?thesis by (auto simp: executeCommand_def split: prod.splits)
qed

lemma certificates_read:
  assumes "\<And>w p. ho_OpenFile H w p = None" and "nd_files nd = put_all path outs fs"
    and "\<forall>p \<in> fst ` set fs. \<not> below path p" and "distinct (map fst outs)" and "outs \<noteq> []"
  shows "getCertificatesContent H path title m nd =
    Inr (take_names outs title (sort_key (split_on CHR ''/'') (map fst outs)) m, None)"
proof -
  have walk: "walk_files (nd_files nd) path =
      map (\<lambda>n. path @ CHR ''/'' # n) (sort_key (split_on CHR ''/'') (map fst outs))"
    using walk_put_all [OF assms(3,4)] assms(2) by simp
  moreover have "sort_key (split_on CHR ''/'') (map fst outs) \<noteq> []"
    using assms(5) by (metis length_0_conv length_sort map_is_Nil_conv)
  ultimately have "dir_exists H path nd" by (simp add: dir_exists_def)
  then show ?thesis
    using take_files_names [of H nd path outs fs "sort_key (split_on CHR ''/'') (map fst outs)" title m] assms(1,2)
    by (simp add: getCertificatesContent_def walk_put_all [OF assms(3,4)])
qed

text \<open>One command of \<open>GenerateMainCACertificates\<close> on top of what the commands before it wrote.\<close>

lemma generate_cas_phase:
  assumes "\<And>w p. ho_OpenFile H w p = None" and "\<forall>p \<in> fst ` set fs. \<not> below path p"
    and "phase_writes H path c new" and "nd_files nd = put_all path outs fs"
    and "distinct (map fst (outs @ new))" and "new \<noteq> []"
    and "(if contains ''etcd'' c then ''etcd'' else []) = title"
    and "take_names (outs @ new) title (sort_key (split_on CHR ''/'') (map fst (outs @ new))) m = m1"
  obtains nd' where "nd_files nd' = put_all path (outs @ new) fs"
    and "generate_cas H path (c # cs) m nd = generate_cas H path cs m1 nd'"
proof -
  obtain w' where run: "executeCommand H c [] nd = (\<lparr>nd_world = w', nd_files = put_all path new (nd_files nd)\<rparr>, None)"
    using phase_writes_command [OF assms(3)] by blast
  let ?nd = "\<lparr>nd_world = w', nd_files = put_all path new (nd_files nd)\<rparr>"
  have files: "nd_files ?nd = put_all path (outs @ new) fs" by (simp add: assms(4) put_all_append)
  have ne: "outs @ new \<noteq> []" using assms(6) by simp
  note read = certificates_read [OF assms(1) files assms(2,5) ne, of title m]
  have "generate_cas H path (c # cs) m nd = generate_cas H path cs m1 ?nd"
    by (simp only: generate_cas.simps run prod.case option.case assms(7) read assms(8) bindC.simps)
  with files show ?thesis by (rule that)
qed

lemma cas_titles:
  assumes "\<not> contains ''etcd'' u"
  shows "(if contains ''etcd'' (''kubeadm init phase certs ca --cert-dir='' @ temp_path u) then ''etcd'' else []) = []"
    and "(if contains ''etcd'' (''kubeadm init phase certs etcd-ca --cert-dir='' @ temp_path u) then ''etcd'' else []) = ''etcd''"
    and "(if contains ''etcd'' (''kubeadm init phase certs front-proxy-ca --cert-dir='' @ temp_path u) then ''etcd'' else []) = []"
    and "(if contains ''etcd'' (''kubeadm init phase certs sa --cert-dir='' @ temp_path u) then ''etcd'' else []) = []"
  using assms by (simp_all add: temp_path_def)

lemmas take_names_simps = take_names_def certificate_key_def base_name_def gm_str_def split_on_def
  path_join_def path_clean_def

lemma after_ca:
  "take_names [(''ca.crt'', a), (''ca.key'', b)] [] (sort_key (split_on CHR ''/'') [''ca.crt'', ''ca.key'']) [] =
     [(''ca.crt'', a), (''ca.key'', b)]"
  by (simp add: take_names_simps)

lemma after_etcd_ca:
  "take_names [(''ca.crt'', a), (''ca.key'', b), (''etcd/ca.crt'', c), (''etcd/ca.key'', d)] ''etcd''
     (sort_key (split_on CHR ''/'') [''ca.crt'', ''ca.key'', ''etcd/ca.crt'', ''etcd/ca.key''])
     [(''ca.crt'', a), (''ca.key'', b)] =
     [(''ca.crt'', a), (''ca.key'', b), (''etcd/ca.crt'', a), (''etcd/ca.key'', b)]"
  by (simp add: take_names_simps)

lemma after_front_proxy_ca:
  "take_names [(''ca.crt'', a), (''ca.key'', b), (''etcd/ca.crt'', c), (''etcd/ca.key'', d),
       (''front-proxy-ca.crt'', e), (''front-proxy-ca.key'', f)] []
     (sort_key (split_on CHR ''/'') [''ca.crt'', ''ca.key'', ''etcd/ca.crt'', ''etcd/ca.key'',
       ''front-proxy-ca.crt'', ''front-proxy-ca.key''])
     [(''ca.crt'', a), (''ca.key'', b), (''etcd/ca.crt'', a), (''etcd/ca.key'', b)] =
     [(''ca.crt'', a), (''ca.key'', b), (''etcd/ca.crt'', a), (''etcd/ca.key'', b),
      (''front-proxy-ca.crt'', e), (''front-proxy-ca.key'', f)]"
  by (simp add: take_names_simps)

lemma after_sa:
  "take_names [(''ca.crt'', a), (''ca.key'', b), (''etcd/ca.crt'', c), (''etcd/ca.key'', d),
       (''front-proxy-ca.crt'', e), (''front-proxy-ca.key'', f), (''sa.key'', g), (''sa.pub'', h)] []
     (sort_key (split_on CHR ''/'') [''ca.crt'', ''ca.key'', ''etcd/ca.crt'', ''etcd/ca.key'',
       ''front-proxy-ca.crt'', ''front-proxy-ca.key'', ''sa.key'', ''sa.pub''])
     [(''ca.crt'', a), (''ca.key'', b), (''etcd/ca.crt'', a), (''etcd/ca.key'', b),
      (''front-proxy-ca.crt'', e), (''front-proxy-ca.key'', f)] =
     [(''ca.crt'', a), (''ca.key'', b), (''etcd/ca.crt'', a), (''etcd/ca.key'', b),
      (''front-proxy-ca.crt'', e), (''front-proxy-ca.key'', f), (''sa.key'', g), (''sa.pub'', h)]"
  by (simp add: take_names_simps)

text \<open>
  C26: with the files that \<open>kubeadm\<close> documents for its four phases, the certificates of a new cluster
  hold under \<open>etcd/ca.crt\<close> and \<open>etcd/ca.key\<close> the authority of Kubernetes and not the one that was
  made for ETCD, whose files are read only after the names are taken; and the directory is removed.
\<close>

theorem etcd_ca_is_kubernetes_ca:
  assumes fresh: "ho_NewV4 H (nd_world nd) = (w, u)" "\<not> contains ''etcd'' u"
      "\<forall>p \<in> fst ` set (nd_files nd). \<not> below (temp_path u) p"
    and opens: "\<And>w p. ho_OpenFile H w p = None"
    and ca: "phase_writes H (temp_path u) (''kubeadm init phase certs ca --cert-dir='' @ temp_path u)
        [(''ca.crt'', a), (''ca.key'', b)]"
    and etcd: "phase_writes H (temp_path u) (''kubeadm init phase certs etcd-ca --cert-dir='' @ temp_path u)
        [(''etcd/ca.crt'', c), (''etcd/ca.key'', d)]"
    and proxy: "phase_writes H (temp_path u) (''kubeadm init phase certs front-proxy-ca --cert-dir='' @ temp_path u)
        [(''front-proxy-ca.crt'', e), (''front-proxy-ca.key'', f)]"
    and sa: "phase_writes H (temp_path u) (''kubeadm init phase certs sa --cert-dir='' @ temp_path u)
        [(''sa.key'', g), (''sa.pub'', h)]"
  shows "\<exists>nd'. GenerateMainCACertificates H nd = Inr (nd', Inr
      [(''ca.crt'', a), (''ca.key'', b), (''etcd/ca.crt'', a), (''etcd/ca.key'', b),
       (''front-proxy-ca.crt'', e), (''front-proxy-ca.key'', f), (''sa.key'', g), (''sa.pub'', h)])
    \<and> walk_files (nd_files nd') (temp_path u) = []"
proof -
  let ?nd0 = "nd\<lparr>nd_world := w\<rparr>" and ?p = "temp_path u"
  have f0: "nd_files ?nd0 = put_all ?p [] (nd_files nd)" by (simp add: put_all_def)
  note title = cas_titles [OF fresh(2)] and phase = generate_cas_phase [OF opens fresh(3)]
  obtain c1 c2 c3 c4 where cs: "main_ca_commands ?p = [c1, c2, c3, c4]"
    "c1 = ''kubeadm init phase certs ca --cert-dir='' @ ?p" "c2 = ''kubeadm init phase certs etcd-ca --cert-dir='' @ ?p"
    "c3 = ''kubeadm init phase certs front-proxy-ca --cert-dir='' @ ?p" "c4 = ''kubeadm init phase certs sa --cert-dir='' @ ?p"
    by (simp only: main_ca_commands_def)
  note run = ca etcd proxy sa and title = title
  note run = run [folded cs(2-5)] and title = title [folded cs(2-5)]
  note out = append.append_Nil append.append_Cons list.map fst_conv
  obtain nd1 where 1: "nd_files nd1 = put_all ?p [(''ca.crt'', a), (''ca.key'', b)] (nd_files nd)"
    "generate_cas H ?p [c1, c2, c3, c4] [] ?nd0 = generate_cas H ?p [c2, c3, c4] [(''ca.crt'', a), (''ca.key'', b)] nd1"
    by (rule phase [OF run(1) f0 _ _ title(1), unfolded out, OF _ _ after_ca]) (simp_all del: generate_cas.simps)
  obtain nd2 where 2: "nd_files nd2 = put_all ?p [(''ca.crt'', a), (''ca.key'', b), (''etcd/ca.crt'', c), (''etcd/ca.key'', d)] (nd_files nd)"
    "generate_cas H ?p [c2, c3, c4] [(''ca.crt'', a), (''ca.key'', b)] nd1 =
      generate_cas H ?p [c3, c4] [(''ca.crt'', a), (''ca.key'', b), (''etcd/ca.crt'', a), (''etcd/ca.key'', b)] nd2"
    by (rule phase [OF run(2) 1(1) _ _ title(2), unfolded out, OF _ _ after_etcd_ca]) (simp_all del: generate_cas.simps)
  obtain nd3 where 3: "nd_files nd3 = put_all ?p [(''ca.crt'', a), (''ca.key'', b), (''etcd/ca.crt'', c), (''etcd/ca.key'', d),
        (''front-proxy-ca.crt'', e), (''front-proxy-ca.key'', f)] (nd_files nd)"
    "generate_cas H ?p [c3, c4] [(''ca.crt'', a), (''ca.key'', b), (''etcd/ca.crt'', a), (''etcd/ca.key'', b)] nd2 =
      generate_cas H ?p [c4] [(''ca.crt'', a), (''ca.key'', b), (''etcd/ca.crt'', a), (''etcd/ca.key'', b),
        (''front-proxy-ca.crt'', e), (''front-proxy-ca.key'', f)] nd3"
    by (rule phase [OF run(3) 2(1) _ _ title(3), unfolded out, OF _ _ after_front_proxy_ca]) (simp_all del: generate_cas.simps)
  obtain nd4 where 4: "generate_cas H ?p [c4] [(''ca.crt'', a), (''ca.key'', b), (''etcd/ca.crt'', a), (''etcd/ca.key'', b),
        (''front-proxy-ca.crt'', e), (''front-proxy-ca.key'', f)] nd3 = Inr (nd4, Inr [(''ca.crt'', a), (''ca.key'', b),
        (''etcd/ca.crt'', a), (''etcd/ca.key'', b), (''front-proxy-ca.crt'', e), (''front-proxy-ca.key'', f), (''sa.key'', g), (''sa.pub'', h)])"
    by (rule phase [OF run(4) 3(1) _ _ title(4), unfolded out, OF _ _ after_sa, of "[]"]) (simp_all del: generate_cas.simps(2))
  have "walk_files (filter (\<lambda>(p, c). p \<noteq> ?p \<and> \<not> below ?p p) fs) ?p = []" for fs
    by (auto simp: walk_files_def filter_empty_conv)
  then show ?thesis
    by (simp del: generate_cas.simps add: GenerateMainCACertificates_def fresh(1) cs(1) 1(2) 2(2) 3(2) 4 cleaned_def RemoveAll_def)
qed

definition kubeadm_host :: "nat host" where
  "kubeadm_host = quiet_host\<lparr>ho_Bash := \<lambda>w fs c. (w,
     (case gm_get (zip (main_ca_commands (temp_path ''u1''))
         [[(''ca.crt'', ''A''), (''ca.key'', ''B'')], [(''etcd/ca.crt'', ''C''), (''etcd/ca.key'', ''D'')],
          [(''front-proxy-ca.crt'', ''E''), (''front-proxy-ca.key'', ''F'')], [(''sa.key'', ''G''), (''sa.pub'', ''H'')]]) c of
        None \<Rightarrow> fs | Some outs \<Rightarrow> put_all (temp_path ''u1'') outs fs), None)\<rparr>"

theorem etcd_ca_is_kubernetes_ca_witness:
  "\<exists>nd'. GenerateMainCACertificates kubeadm_host \<lparr>nd_world = 0, nd_files = []\<rparr> = Inr (nd', Inr
      [(''ca.crt'', ''A''), (''ca.key'', ''B''), (''etcd/ca.crt'', ''A''), (''etcd/ca.key'', ''B''),
       (''front-proxy-ca.crt'', ''E''), (''front-proxy-ca.key'', ''F''), (''sa.key'', ''G''), (''sa.pub'', ''H'')])
    \<and> walk_files (nd_files nd') (temp_path ''u1'') = []"
  by (rule etcd_ca_is_kubernetes_ca [where w = 0 and c = "''C''" and d = "''D''"])
     (simp_all add: kubeadm_host_def quiet_host_def phase_writes_def main_ca_commands_def)

section \<open>Images that were received in part\<close>

text \<open>
  A download that fails after its file was created leaves what was received there, and every
  later download of the image takes that file for the image, whatever the server would answer now.
\<close>

theorem failed_download_is_kept:
  assumes "downloadFile H name url nd = (nd', Inl e)"
    and "Stat H (image_file name) nd = Inr False" and "ho_OpenFile H (nd_world nd) (image_file name) = None"
    and "ho_Stat H w (image_file name) = None" and "ho_OpenFile H w (image_file name) = None"
  shows "downloadFile H name url' (nd'\<lparr>nd_world := w\<rparr>) =
     (nd'\<lparr>nd_world := w\<rparr>, Inr (gm_str (nd_files nd') (image_file name)))"
proof -
  obtain nd2 r where f: "fetch_file H (image_file name) url nd = (nd2, r)" by fastforce
  then have "gm_get (nd_files nd2) (image_file name) \<noteq> None"
    using assms(3) by (auto simp: fetch_file_def Let_def split: prod.splits sum.splits if_splits)
  moreover have "nd' = nd2"
    using assms(1,2) f by (auto simp: downloadFile_def split: option.splits)
  ultimately have "Stat H (image_file name) (nd'\<lparr>nd_world := w\<rparr>) = Inr True"
    using assms(4) by (simp add: Stat_def)
  then show ?thesis using assms(5) by (simp add: downloadFile_def)
qed

theorem failed_download_is_kept_witness:
  "(let H = quiet_host\<lparr>ho_Get := \<lambda>w u. (Suc w, Inr (''part'', if w = 0 then Some (EExternal ''EOF'') else None))\<rparr>;
        nd1 = fst (downloadFile H ''etcd'' ''u'' \<lparr>nd_world = 0, nd_files = []\<rparr>) in
    downloadFile H ''etcd'' ''u'' (nd1\<lparr>nd_world := 5\<rparr>) = (nd1\<lparr>nd_world := 5\<rparr>, Inr ''part''))"
  using failed_download_is_kept [where
      H = "quiet_host\<lparr>ho_Get := \<lambda>w u. (Suc w, Inr (''part'', if w = 0 then Some (EExternal ''EOF'') else None))\<rparr>"
      and nd = "\<lparr>nd_world = 0, nd_files = []\<rparr>" and name = "''etcd''" and url = "''u''" and url' = "''u''" and w = 5
      and e = "EExternal ''EOF''" and nd' = "\<lparr>nd_world = 1, nd_files = [(''/tmp/etcd.tar'', ''part'')]\<rparr>"]
  by (simp add: downloadFile_def fetch_file_def Stat_def image_file_def quiet_host_def gm_str_def atoi_def
      parse_int_def signed_def Let_def)

end
