(* ===== verification/MD5.thy ===== *)
theory MD5
  imports Prelude
begin

text \<open>
  \<open>crypto/md5\<close> (RFC 1321) on a byte string, with \<open>hex.EncodeToString\<close>: the agent names the members of
  the ETCD cluster by the digest of their address. Words are 32 bits wide and wrap.
\<close>

unbundle bit_operations_syntax

definition md5_shifts :: "nat list" where
  "md5_shifts = concat (replicate 4 [7, 12, 17, 22]) @ concat (replicate 4 [5, 9, 14, 20]) @
     concat (replicate 4 [4, 11, 16, 23]) @ concat (replicate 4 [6, 10, 15, 21])"

definition md5_table :: "32 word list" where
  "md5_table =
    [0xd76aa478, 0xe8c7b756, 0x242070db, 0xc1bdceee, 0xf57c0faf, 0x4787c62a, 0xa8304613, 0xfd469501,
     0x698098d8, 0x8b44f7af, 0xffff5bb1, 0x895cd7be, 0x6b901122, 0xfd987193, 0xa679438e, 0x49b40821,
     0xf61e2562, 0xc040b340, 0x265e5a51, 0xe9b6c7aa, 0xd62f105d, 0x02441453, 0xd8a1e681, 0xe7d3fbc8,
     0x21e1cde6, 0xc33707d6, 0xf4d50d87, 0x455a14ed, 0xa9e3e905, 0xfcefa3f8, 0x676f02d9, 0x8d2a4c8a,
     0xfffa3942, 0x8771f681, 0x6d9d6122, 0xfde5380c, 0xa4beea44, 0x4bdecfa9, 0xf6bb4b60, 0xbebfbc70,
     0x289b7ec6, 0xeaa127fa, 0xd4ef3085, 0x04881d05, 0xd9d4d039, 0xe6db99e5, 0x1fa27cf8, 0xc4ac5665,
     0xf4292244, 0x432aff97, 0xab9423a7, 0xfc93a039, 0x655b59c3, 0x8f0ccc92, 0xffeff47d, 0x85845dd1,
     0x6fa87e4f, 0xfe2ce6e0, 0xa3014314, 0x4e0811a1, 0xf7537e82, 0xbd3af235, 0x2ad7d2bb, 0xeb86d391]"

text \<open>Padding to a multiple of 64 bytes: one bit, zeros, and the length in bits in eight bytes.\<close>

fun le_bytes :: "nat \<Rightarrow> int \<Rightarrow> int list" where
  "le_bytes 0 n = []"
| "le_bytes (Suc k) n = n mod 256 # le_bytes k (n div 256)"

definition md5_pad :: "string \<Rightarrow> int list" where
  "md5_pad s = map of_char s @ 0x80 # replicate ((119 - length s mod 64) mod 64) 0 @ le_bytes 8 (int (8 * length s))"

fun le_words :: "int list \<Rightarrow> 32 word list" where
  "le_words (a # b # c # d # bs) = word_of_int (a + 256 * (b + 256 * (c + 256 * d))) # le_words bs"
| "le_words bs = []"

type_synonym md5_state = "32 word \<times> 32 word \<times> 32 word \<times> 32 word"

definition md5_round :: "32 word list \<Rightarrow> nat \<Rightarrow> md5_state \<Rightarrow> md5_state" where
  "md5_round m i s = (case s of (a, b, c, d) \<Rightarrow>
     (let (f, g) =
            (if i < 16 then ((b AND c) OR (NOT b AND d), i)
             else if i < 32 then ((d AND b) OR (NOT d AND c), (5 * i + 1) mod 16)
             else if i < 48 then (b XOR c XOR d, (3 * i + 5) mod 16)
             else (c XOR (b OR NOT d), (7 * i) mod 16))
      in (d, b + word_rotl (md5_shifts ! i) (a + f + md5_table ! i + m ! g), b, c)))"

definition md5_block :: "32 word list \<Rightarrow> md5_state \<Rightarrow> md5_state" where
  "md5_block m s = (case (s, fold (md5_round m) [0..<64] s) of
     ((a, b, c, d), (a', b', c', d')) \<Rightarrow> (a + a', b + b', c + c', d + d'))"

fun md5_blocks :: "nat \<Rightarrow> 32 word list \<Rightarrow> md5_state \<Rightarrow> md5_state" where
  "md5_blocks 0 ws s = s"
| "md5_blocks (Suc k) ws s = md5_blocks k (drop 16 ws) (md5_block (take 16 ws) s)"

definition hex_digit :: "int \<Rightarrow> char" where
  "hex_digit n = (if n < 10 then char_of (n + 48) else char_of (n + 87))"

definition hex_word :: "32 word \<Rightarrow> string" where
  "hex_word w = concat (map (\<lambda>b. [hex_digit (b div 16), hex_digit (b mod 16)]) (le_bytes 4 (uint w)))"

definition md5_hex :: "string \<Rightarrow> string" where
  "md5_hex s = (let ws = le_words (md5_pad s) in
     case md5_blocks (length ws div 16) ws (0x67452301, 0xefcdab89, 0x98badcfe, 0x10325476) of
       (a, b, c, d) \<Rightarrow> hex_word a @ hex_word b @ hex_word c @ hex_word d)"

lemma le_bytes_length [simp]: "length (le_bytes k n) = k"
  by (induction k n rule: le_bytes.induct) auto

end
