(* ===== verification/AgentJobs.thy ===== *)
theory AgentJobs
  imports CertTools MD5
begin

text \<open>
  The jobs of an agent (\<open>job_etcd.go\<close>, \<open>job_master.go\<close>, \<open>job_minion.go\<close>, \<open>job_ha.go\<close>, \<open>jobs.go\<close> and
  \<open>runKubeletContainer\<close> of \<open>register.go\<close>): for each component a handler that deploys it and a health
  check, which also runs every three seconds in a goroutine of its own.

  A handler gets the agent, which it only reads, and the node; it returns the node and the pair of
  results of the Go function. A crash is the index of an empty list of container names, or a nil
  pointer where the agent has not registered.
\<close>

section \<open>Containers\<close>

text \<open>
  The loops over the containers: the first one whose first name and status satisfy the test. A
  container without names ends the process.
\<close>

fun scan_containers :: "(string \<Rightarrow> string \<Rightarrow> bool) \<Rightarrow> container list \<Rightarrow> crash + container option" where
  "scan_containers P [] = Inr None"
| "scan_containers P (c # cs) =
     (case co_Names c of
        [] \<Rightarrow> Inl IndexOutOfRange
      | n # ns \<Rightarrow> (if P n (co_Status c) then Inr (Some c) else scan_containers P cs))"

definition system_container :: "string \<Rightarrow> string \<Rightarrow> string \<Rightarrow> bool" where
  "system_container part name status \<longleftrightarrow> contains part name \<and> contains ''kube-system'' name \<and> contains ''Up'' status"

definition named_container :: "string \<Rightarrow> string \<Rightarrow> string \<Rightarrow> bool" where
  "named_container full name status \<longleftrightarrow> name = full \<and> contains ''Up'' status"

section \<open>The kubelet: runKubeletContainer\<close>

definition setting_or :: "(string, string) gomap \<Rightarrow> string \<Rightarrow> string \<Rightarrow> string" where
  "setting_or settings key def = (case gm_get settings key of Some v \<Rightarrow> v | None \<Rightarrow> def)"

definition kubelet_command :: "string \<Rightarrow> agent_args \<Rightarrow> (string, string) gomap \<Rightarrow> string \<Rightarrow> string list" where
  "kubelet_command certPath arg settings infra =
     [''kubelet'',
      ''--config='' @ path_join [certPath, ''kubelet_settings.yml''],
      ''--kubeconfig='' @ path_join [certPath, ''kubelet.conf''],
      ''--pod-infra-container-image='' @ infra,
      ''--register-node='' @ (if aa_IsMinionRole arg then ''true'' else ''false''),
      ''--hostname-override='' @ aa_Address arg,
      ''--kube-reserved='' @ setting_or settings MasterSettings_ResourceReservation_Kube ''cpu=1,memory=1Gi'',
      ''--system-reserved='' @ setting_or settings MasterSettings_ResourceReservation_System ''cpu=1,memory=1Gi'',
      ''--cgroup-driver=cgroupfs'',
      ''--enforce-node-allocatable=pods,system-reserved,kube-reserved'',
      ''--kube-reserved-cgroup=/kube-reserved'',
      ''--system-reserved-cgroup=/system-reserved'',
      ''--allow-privileged=true'',
      ''--network-plugin=cni'',
      ''--serialize-image-pulls=false''] @
     (case aa_NodeLabels arg of None \<Rightarrow> [] | Some l \<Rightarrow> (if l \<noteq> [] then [''--node-labels='' @ l] else []))"

definition kubelet_binds :: "(string, string) gomap \<Rightarrow> string list" where
  "kubelet_binds settings =
     [''/sys:/sys:ro'', ''/etc:/etc'', ''/var/run:/var/run:rw'', ''/var/lib/docker:/var/lib/docker:rw'',
      ''/var/lib/kubelet:/var/lib/kubelet:rshared'', ''/opt/cni/bin:/opt/cni/bin''] @
     (let v = gm_str settings MasterSettings_DockerExtraGraphPath in if v \<noteq> [] then [v @ '':'' @ v @ '':rw''] else [])"

definition kubelet_container :: "lm_agent \<Rightarrow> image_collection \<Rightarrow> container_config" where
  "kubelet_container la images = \<lparr>cf_Hostname = aa_Address (la_arg la), cf_Image = image_name images ''k8s'',
     cf_Cmd = kubelet_command (la_CertPath la) (la_arg la) (la_masterSettings la) (image_name images ''infra''),
     cf_Binds = kubelet_binds (la_masterSettings la), cf_Privileged = True, cf_NetworkMode = ''host'',
     cf_PidMode = ''host'', cf_RestartPolicy = ''unless-stopped'', cf_Name = ''kubelet''\<rparr>"

text \<open>Create a container, start it, and read its log.\<close>

definition run_container :: "'w host \<Rightarrow> container_config \<Rightarrow> 'w node \<Rightarrow> 'w node \<times> agent_error option" where
  "run_container H cf nd =
     (case ho_ContainerCreate H (nd_world nd) cf of
        (w1, Inl e) \<Rightarrow> (nd\<lparr>nd_world := w1\<rparr>, Some (XErrorf (EWrap ''create container'' e)))
      | (w1, Inr cid) \<Rightarrow>
        (case ho_ContainerStart H w1 cid of
           (w2, Some e) \<Rightarrow> (nd\<lparr>nd_world := w2\<rparr>, Some (XErrorf (EWrap ''start container'' e)))
         | (w2, None) \<Rightarrow> (nd\<lparr>nd_world := w2\<rparr>, map_option (\<lambda>e. XErrorf (EWrap ''retrieve container logs'' e))
              (ho_ContainerLogs H w2 cid))))"

definition start_kubelet ::
  "'w host \<Rightarrow> string \<Rightarrow> lm_agent \<Rightarrow> 'w node \<Rightarrow> crash + 'w node \<times> agent_error option" where
  "start_kubelet H masterIP la nd =
     (case GenerateKubeletConfig H (la_CertPath la) (if masterIP = [] then aa_Address (la_arg la) else masterIP)
             (la_masterSettings la) nd of
        (nd1, Some e) \<Rightarrow> Inr (nd1, Some (XErrorf (EWrap masterIP e)))
      | (nd1, None) \<Rightarrow>
        (case la_basicImages la of
           None \<Rightarrow> Inl NilDeref
         | Some images \<Rightarrow> Inr (run_container H (kubelet_container la images) nd1)))"

definition runKubeletContainer ::
  "'w host \<Rightarrow> string \<Rightarrow> lm_agent \<Rightarrow> 'w node \<Rightarrow> crash + 'w node \<times> agent_error option" where
  "runKubeletContainer H masterIP la nd =
     (case ho_ContainerList H (nd_world nd) False of
        Inl e \<Rightarrow> Inr (nd, Some (XErrorf (EWrap ''get running container list'' e)))
      | Inr cs \<Rightarrow>
        bindC (scan_containers (\<lambda>n s. n = ''/kubelet'') cs) (\<lambda>found.
          case found of
            Some c \<Rightarrow> (if contains ''Up'' (co_Status c) then Inr (nd, None)
                       else Inr (nd, Some (XErrorf (EUnhealthy ''kubelet'' (co_Status c)))))
          | None \<Rightarrow> start_kubelet H masterIP la nd))"

section \<open>ETCD: job\_etcd.go\<close>

definition etcdConfigTemplate :: string where
  "etcdConfigTemplate = unlines
    [''apiVersion: '' @ [CHR 0x22] @ ''kubeadm.k8s.io/v1alpha3'' @ [CHR 0x22],
     ''kind: ClusterConfiguration'',
     ''etcd:'',
     ''    local:'',
     ''        image: {{.IMAGE}}'',
     ''        dataDir: {{.DATADIR}}'',
     ''        serverCertSANs:'',
     ''        - '' @ [CHR 0x22] @ ''{{.HOST}}'' @ [CHR 0x22],
     ''        - '' @ [CHR 0x22] @ ''127.0.0.1'' @ [CHR 0x22],
     ''        peerCertSANs:'',
     ''        - '' @ [CHR 0x22] @ ''{{.HOST}}'' @ [CHR 0x22],
     ''        - '' @ [CHR 0x22] @ ''127.0.0.1'' @ [CHR 0x22],
     ''        extraArgs:'',
     ''            initial-cluster: {{.SERVERS}}'',
     ''            initial-cluster-state: new'',
     ''            name: {{.NAME}}'',
     ''            listen-peer-urls: https://{{.ADDR}}:2380'',
     ''            listen-client-urls: https://{{.ADDR}}:2379'',
     ''            advertise-client-urls: https://{{.ADDR}}:2379'',
     ''            initial-advertise-peer-urls: https://{{.ADDR}}:2380'']"

definition generateETCDName :: "string \<Rightarrow> string" where
  "generateETCDName addr = md5_hex addr"

definition etcd_server :: "string \<Rightarrow> string" where
  "etcd_server ip = generateETCDName ip @ ''=https://'' @ ip @ '':2380''"

definition etcd_config :: "string \<Rightarrow> string \<Rightarrow> string \<Rightarrow> string" where
  "etcd_config addresses address img = execute_template etcdConfigTemplate
     [(''NAME'', generateETCDName address), (''HOST'', address),
      (''SERVERS'', join '','' (map etcd_server (split_on CHR '','' addresses))), (''IMAGE'', img),
      (''DATADIR'', ''/data/etcd''), (''ADDR'', address)]"

definition missed :: "string \<Rightarrow> agent_error" where
  "missed job = XErrorf (ERequiredField job)"

definition HandleDeployETCD ::
  "'w host \<Rightarrow> agent_job \<Rightarrow> lm_agent \<Rightarrow> 'w node \<Rightarrow> crash + 'w node \<times> bool \<times> agent_error option" where
  "HandleDeployETCD H job la nd =
     (if gm_str (aj_Arguments job) ''addresses'' = [] then Inr (nd, False, Some (missed ''ETCD''))
      else case la_basicImages la of
        None \<Rightarrow> Inl NilDeref
      | Some images \<Rightarrow>
        (case GenerateETCDClientCertificatesAndManifest H (la_CertPath la)
                (etcd_config (gm_str (aj_Arguments job) ''addresses'') (aa_Address (la_arg la)) (image_name images ''etcd'')) nd of
           (nd1, Some e) \<Rightarrow> Inr (nd1, False, Some (XErrorf (EWrap ''generate ETCD client certificates'' e)))
         | (nd1, None) \<Rightarrow> Inr (nd1, True, None)))"

definition etcdctl_command :: "string \<Rightarrow> string list" where
  "etcdctl_command address = [''/bin/sh'', ''-c'', ''export ETCDCTL_API=3 && /usr/local/bin/etcdctl --endpoints=https://['' @
     address @ '']:2379 --cacert=/etc/kubernetes/pki/etcd/ca.crt --cert=/etc/kubernetes/pki/etcd/healthcheck-client.crt'' @
     '' --key=/etc/kubernetes/pki/etcd/healthcheck-client.key member list'']"

definition getETCDClusterInfo :: "'w host \<Rightarrow> lm_agent \<Rightarrow> string \<Rightarrow> 'w node \<Rightarrow> 'w node \<times> (error + string)" where
  "getETCDClusterInfo H la cid nd =
     (case ho_ContainerExecCreate H (nd_world nd) cid (etcdctl_command (aa_Address (la_arg la))) of
        (w1, Inl e) \<Rightarrow> (nd\<lparr>nd_world := w1\<rparr>, Inl e)
      | (w1, Inr exec) \<Rightarrow>
        (case ho_ContainerExecAttach H w1 exec of
           (w2, Some e) \<Rightarrow> (nd\<lparr>nd_world := w2\<rparr>, Inl e)
         | (w2, None) \<Rightarrow>
           (case ho_ContainerExecStart H w2 exec of
              (w3, Some e) \<Rightarrow> (nd\<lparr>nd_world := w3\<rparr>, Inl e)
            | (w3, None) \<Rightarrow>
              (nd\<lparr>nd_world := w3\<rparr>,
               (case ho_ExecOutput H w3 exec of
                  Inl e \<Rightarrow> Inl e
                | Inr ls \<Rightarrow> Inr (concat (map (\<lambda>l. l @ [newline]) ls)))))))"

text \<open>A health check lists all containers; an error of doing so is its error.\<close>

definition with_containers ::
  "'w host \<Rightarrow> 'w node \<Rightarrow> (container list \<Rightarrow> crash + 'w node \<times> bool \<times> agent_error option)
     \<Rightarrow> crash + 'w node \<times> bool \<times> agent_error option" where
  "with_containers H nd f =
     (case ho_ContainerList H (nd_world nd) True of
        Inl e \<Rightarrow> Inr (nd, False, Some (PlainError e))
      | Inr cs \<Rightarrow> f cs)"

definition enough_started :: "lm_agent \<Rightarrow> string \<Rightarrow> bool" where
  "enough_started la result \<longleftrightarrow> la_expectedETCDNodeCount la \<le> int (count_str ''started'' result)"

definition CheckETCDHealth ::
  "'w host \<Rightarrow> lm_agent \<Rightarrow> 'w node \<Rightarrow> crash + 'w node \<times> bool \<times> agent_error option" where
  "CheckETCDHealth H la nd = with_containers H nd (\<lambda>cs.
     bindC (scan_containers (system_container ''k8s_etcd'') cs) (\<lambda>found.
       let cid = (case found of None \<Rightarrow> [] | Some c \<Rightarrow> co_ID c) in
       if cid = [] then Inr (nd, False, None)
       else case getETCDClusterInfo H la cid nd of
         (nd1, Inl e) \<Rightarrow> Inr (nd1, False, None)
       | (nd1, Inr result) \<Rightarrow> Inr (nd1, enough_started la result, None)))"

section \<open>Master: job\_master.go\<close>

definition HandleDeployMaster ::
  "'w host \<Rightarrow> lm_agent \<Rightarrow> 'w node \<Rightarrow> crash + 'w node \<times> bool \<times> agent_error option" where
  "HandleDeployMaster H la nd =
     bindC (GenerateMasterCertificatesAndManifest H (la_CertPath la) (aa_Address (la_arg la)) (la_masterSettings la)
              (la_basicImages la) nd) (\<lambda>(nd1, e).
       case e of
         Some err \<Rightarrow> Inr (nd1, False, Some (XErrorf (EWrap ''generate Kubernetes master certificates and manifests'' err)))
       | None \<Rightarrow> Inr (nd1, True, None))"

definition has_started :: "string \<Rightarrow> container list \<Rightarrow> crash + bool" where
  "has_started part cs = bindC (scan_containers (system_container part) cs) (\<lambda>found. Inr (found \<noteq> None))"

definition hasAPIServerStarted :: "container list \<Rightarrow> crash + bool" where
  "hasAPIServerStarted cs = has_started ''k8s_kube-apiserver'' cs"

definition hasControllerManagerStarted :: "container list \<Rightarrow> crash + bool" where
  "hasControllerManagerStarted cs = has_started ''k8s_kube-controller-manager'' cs"

definition hasSchedulerStarted :: "container list \<Rightarrow> crash + bool" where
  "hasSchedulerStarted cs = has_started ''k8s_kube-scheduler'' cs"

text \<open>The conjunction of Go evaluates the second operand only where the first is true.\<close>

definition and_then :: "crash + bool \<Rightarrow> crash + bool \<Rightarrow> crash + bool" where
  "and_then p q = bindC p (\<lambda>b. if b then q else Inr False)"

definition CheckMasterHealth ::
  "'w host \<Rightarrow> 'w node \<Rightarrow> crash + 'w node \<times> bool \<times> agent_error option" where
  "CheckMasterHealth H nd = with_containers H nd (\<lambda>cs.
     bindC (and_then (hasAPIServerStarted cs) (and_then (hasControllerManagerStarted cs) (hasSchedulerStarted cs)))
       (\<lambda>b. Inr (nd, b, None)))"

section \<open>Minion: job\_minion.go\<close>

definition minion_master :: "agent_job \<Rightarrow> string" where
  "minion_master job =
     (if gm_str (aj_Arguments job) ''ha_address'' \<noteq> [] then gm_str (aj_Arguments job) ''ha_address''
      else hd (split_on CHR '','' (gm_str (aj_Arguments job) ''addresses'')))"

definition HandleDeployMinion ::
  "'w host \<Rightarrow> agent_job \<Rightarrow> lm_agent \<Rightarrow> 'w node \<Rightarrow> crash + 'w node \<times> bool \<times> agent_error option" where
  "HandleDeployMinion H job la nd =
     (if gm_str (aj_Arguments job) ''addresses'' = [] \<and> gm_str (aj_Arguments job) ''ha_address'' = []
      then Inr (nd, False, Some (missed ''Minion''))
      else bindC (runKubeletContainer H (minion_master job) la nd) (\<lambda>(nd1, e). Inr (nd1, e = None, e)))"

definition CheckMinionHealth ::
  "'w host \<Rightarrow> lm_agent \<Rightarrow> 'w node \<Rightarrow> crash + 'w node \<times> bool \<times> agent_error option" where
  "CheckMinionHealth H la nd = with_containers H nd (\<lambda>cs.
     bindC (scan_containers (named_container ''/kubelet'') cs) (\<lambda>found.
       Inr (nd, found \<noteq> None \<and> aa_IsMinionRole (la_arg la), None)))"

section \<open>HAProxy and KeepAlived: job\_ha.go\<close>

definition haproxy_payload :: string where
  "haproxy_payload = unlines
    [''global'',
     ''    daemon'',
     ''    maxconn 30000'',
     ''    log 127.0.0.1 local0 debug'',
     ''    nbproc          2'',
     '''',
     ''#---------------------------------------------------------------------'',
     ''# common defaults that all the '' @ [CHR 0x27] @ ''listen'' @ [CHR 0x27] @ '' and '' @ [
       CHR 0x27] @ ''backend'' @ [CHR 0x27] @ '' sections will'',
     ''# use if not designated in their block'',
     ''#---------------------------------------------------------------------'',
     ''defaults'',
     ''    mode                    http'',
     ''    log                     global'',
     ''    option                  tcplog'',
     ''    option                  dontlognull'',
     ''    option http-server-close'',
     ''    option forwardfor       except 127.0.0.0/8'',
     ''    option                  redispatch'',
     ''    retries                 3'',
     ''    timeout http-request    10s'',
     ''    timeout queue           1m'',
     ''    timeout connect         10s'',
     ''    timeout client          1m'',
     ''    timeout server          1m'',
     ''    timeout http-keep-alive 10s'',
     ''    timeout check           10s'',
     ''    maxconn                 30000'',
     '''',
     '''',
     ''frontend kubernetes-apiserver'',
     ''    mode                 tcp'',
     ''    bind                 *:6443'',
     ''    option               tcplog'',
     ''    default_backend      kubernetes-apiserver'',
     '''',
     ''#---------------------------------------------------------------------'',
     ''# round robin balancing between the various backends'',
     ''#---------------------------------------------------------------------'',
     ''backend kubernetes-apiserver'',
     ''    mode        tcp'',
     ''    balance     static-rr'',
     ''{{.MASTERS}}'',
     '''',
     '''',
     ''listen stats'',
     ''    bind *:1080'',
     ''    mode http'',
     ''    stats refresh 30s'',
     ''    stats uri /stats'']"

definition keepalived_payload :: string where
  "keepalived_payload = unlines
    [''vrrp_script chk_haproxy {'',
     ''    script '' @ [CHR 0x22] @ ''/usr/local/bin/chk_haproxy.sh'' @ [CHR 0x22],
     ''    interval 3'',
     ''    weight 20'',
     ''    rise 3'',
     ''    fall 3'',
     ''}'',
     '''',
     ''vrrp_instance VI_1 {'',
     ''    state {{.STATE}}'',
     ''    interface {{.ETH}}'',
     ''    virtual_router_id {{.ROUTERID}}'',
     ''    priority {{.PRIORITY}}'',
     ''    advert_int 3                          '',
     ''    track_interface {'',
     ''        {{.ETH}}'',
     ''    }'',
     ''    #'' @ [CHR 0xE8, CHR 0xAE, CHR 0xBE, CHR 0xE5, CHR 0xAE, CHR 0x9A, CHR 0xE5, CHR 0x8D,
       CHR 0x95, CHR 0xE6, CHR 0x92, CHR 0xAD, CHR 0xE6, CHR 0x9C, CHR 0x89, CHR 0xE5, CHR 0xBE,
       CHR 0x88, CHR 0xE5, CHR 0xA4, CHR 0x9A, CHR 0xE5, CHR 0xA5, CHR 0xBD, CHR 0xE5, CHR 0xA4,
       CHR 0x84, CHR 0xEF, CHR 0xBC, CHR 0x8C, CHR 0xE6, CHR 0xAF, CHR 0x94, CHR 0xE5, CHR 0xA6,
       CHR 0x82, CHR 0xE5, CHR 0xBE, CHR 0x88, CHR 0xE5, CHR 0xA4, CHR 0x9A, CHR 0xE7, CHR 0xBD,
       CHR 0x91, CHR 0xE7, CHR 0xBB, CHR 0x9C, CHR 0xE6, CHR 0x98, CHR 0xAF, CHR 0xE4, CHR 0xB8,
       CHR 0x8D, CHR 0xE5, CHR 0x85, CHR 0x81, CHR 0xE8, CHR 0xAE, CHR 0xB8] @ ''VRRP'' @ [CHR 0xE5,
       CHR 0xA4, CHR 0x9A, CHR 0xE6, CHR 0x92, CHR 0xAD, CHR 0xE7, CHR 0x9A, CHR 0x84],
     ''    #'' @ [CHR 0xE8, CHR 0x80, CHR 0x8C, CHR 0xE8, CHR 0xAE, CHR 0xBE, CHR 0xE5, CHR 0xAE,
       CHR 0x9A, CHR 0xE5, CHR 0x9B, CHR 0xBA, CHR 0xE5, CHR 0xAE, CHR 0x9A, CHR 0xE8, CHR 0x8C,
       CHR 0x83, CHR 0xE5, CHR 0x9B, CHR 0xB4, CHR 0xE7, CHR 0x9A, CHR 0x84, CHR 0xE8, CHR 0xAF,
       CHR 0x9D, CHR 0xE5, CHR 0xB0, CHR 0xB1, CHR 0xE5, CHR 0x8F, CHR 0xAF, CHR 0xE4, CHR 0xBB,
       CHR 0xA5, CHR 0xE8, CHR 0xB6, CHR 0x8A, CHR 0xE8, CHR 0xBF, CHR 0x87, CHR 0xE8, CHR 0xBF,
       CHR 0x99, CHR 0xE4, CHR 0xB8, CHR 0xAA, CHR 0xE9, CHR 0x99, CHR 0x90, CHR 0xE5, CHR 0x88, CHR 0xB6],
     ''    unicast_src_ip {{.LOCALIP}} '',
     ''    unicast_peer {'',
     ''{{.MASTERIPS}}'',
     ''    }'',
     ''    virtual_ipaddress {'',
     ''        {{.VIP}}'',
     ''    }'',
     ''    track_script {'',
     ''        chk_haproxy'',
     ''    }'',
     ''}'']"

abbreviation keepAlivedConfigPath :: string where
  "keepAlivedConfigPath \<equiv> ''/etc/lightning-monkey/keepalived.conf''"

abbreviation haProxyConfigPath :: string where
  "haProxyConfigPath \<equiv> ''/etc/lightning-monkey/haproxy.cfg''"

text \<open>The other HA nodes, one in a line; the last one of all gets no line end.\<close>

fun peer_lines :: "string \<Rightarrow> string list \<Rightarrow> string" where
  "peer_lines self [] = []"
| "peer_lines self (ip # ips) =
     (if ip \<noteq> self then ''        '' @ ip @ (if ips \<noteq> [] then [newline] else []) else []) @ peer_lines self ips"

definition keepalived_config :: "string list \<Rightarrow> agent_job \<Rightarrow> agent_args \<Rightarrow> string" where
  "keepalived_config haIPs job arg = execute_template keepalived_payload
     [(''STATE'', gm_str (aj_Arguments job) ''state''), (''ETH'', aa_UsedEthernetInterface arg),
      (''ROUTERID'', gm_str (aj_Arguments job) ''router-id''), (''LOCALIP'', aa_Address arg),
      (''MASTERIPS'', peer_lines (aa_Address arg) haIPs), (''VIP'', gm_str (aj_Arguments job) ''vip''),
      (''PRIORITY'', gm_str (aj_Arguments job) ''priority'')]"

fun master_lines :: "nat \<Rightarrow> string list \<Rightarrow> string" where
  "master_lines i [] = []"
| "master_lines i (ip # ips) =
     ''    server  master-'' @ itoa (int i) @ '' '' @ ip @ '':6443 check inter 10s rise 3 fall 3'' @
     (if ips \<noteq> [] then [newline] else []) @ master_lines (Suc i) ips"

definition haproxy_config :: "string list \<Rightarrow> string" where
  "haproxy_config masterIPs = execute_template haproxy_payload [(''MASTERS'', master_lines 0 masterIPs)]"

definition replace_file :: "'w host \<Rightarrow> string \<Rightarrow> string \<Rightarrow> string \<Rightarrow> 'w node \<Rightarrow> 'w node \<times> agent_error option" where
  "replace_file H what path conf nd =
     (case WriteFile H path conf (Remove path nd) of
        (nd1, e) \<Rightarrow> (nd1, map_option (\<lambda>x. PlainError (EWrap what x)) e))"

definition writeKeepAlivedConfigFile ::
  "'w host \<Rightarrow> string list \<Rightarrow> agent_job \<Rightarrow> lm_agent \<Rightarrow> 'w node \<Rightarrow> 'w node \<times> agent_error option" where
  "writeKeepAlivedConfigFile H haIPs job la nd =
     replace_file H ''write KeepAlived configuration file'' keepAlivedConfigPath
       (keepalived_config haIPs job (la_arg la)) nd"

definition writeHAProxyConfigFile ::
  "'w host \<Rightarrow> string list \<Rightarrow> 'w node \<Rightarrow> 'w node \<times> agent_error option" where
  "writeHAProxyConfigFile H masterIPs nd =
     replace_file H ''write HAProxy configuration file'' haProxyConfigPath (haproxy_config masterIPs) nd"

definition ha_container :: "lm_agent \<Rightarrow> image_collection \<Rightarrow> container_config" where
  "ha_container la images = \<lparr>cf_Hostname = aa_Address (la_arg la), cf_Image = image_name images ''ha'', cf_Cmd = [],
     cf_Binds = [haProxyConfigPath @ '':/usr/local/etc/haproxy/haproxy.cfg'',
                 keepAlivedConfigPath @ '':/etc/keepalived/keepalived.conf''],
     cf_Privileged = True, cf_NetworkMode = ''host'', cf_PidMode = [], cf_RestartPolicy = ''unless-stopped'', cf_Name = ''ha''\<rparr>"

definition HandleDeployHA ::
  "'w host \<Rightarrow> agent_job \<Rightarrow> lm_agent \<Rightarrow> 'w node \<Rightarrow> crash + 'w node \<times> bool \<times> agent_error option" where
  "HandleDeployHA H job la nd =
     (if gm_str (aj_Arguments job) ''master-addresses'' = [] then Inr (nd, False, Some (missed ''HAProxy&KeepAlived''))
      else case writeKeepAlivedConfigFile H (split_on CHR '','' (gm_str (aj_Arguments job) ''ha-addresses'')) job la nd of
        (nd1, Some e) \<Rightarrow> Inr (nd1, False, Some e)
      | (nd1, None) \<Rightarrow>
        (case writeHAProxyConfigFile H (split_on CHR '','' (gm_str (aj_Arguments job) ''master-addresses'')) nd1 of
           (nd2, Some e) \<Rightarrow> Inr (nd2, False, Some e)
         | (nd2, None) \<Rightarrow>
           (case la_basicImages la of
              None \<Rightarrow> Inl NilDeref
            | Some images \<Rightarrow>
              (case run_container H (ha_container la images) nd2 of
                 (nd3, e) \<Rightarrow> Inr (nd3, e = None, e)))))"

definition CheckHAHealth ::
  "'w host \<Rightarrow> 'w node \<Rightarrow> crash + 'w node \<times> bool \<times> agent_error option" where
  "CheckHAHealth H nd = with_containers H nd (\<lambda>cs.
     bindC (scan_containers (named_container ''/ha'') cs) (\<lambda>found. Inr (nd, found \<noteq> None, None)))"

section \<open>The factory of handlers: jobs.go\<close>

definition handlers :: "(string \<times> job_handler) list" where
  "handlers = [(AgentJob_Deploy_ETCD, HandlerETCD), (AgentJob_Deploy_Master, HandlerMaster),
     (AgentJob_Deploy_Minion, HandlerMinion), (AgentJob_Deploy_HA, HandlerHA)]"

definition GetHandler :: "string \<Rightarrow> job_handler option" where
  "GetHandler name = gm_get handlers name"

fun deploy ::
  "'w host \<Rightarrow> job_handler \<Rightarrow> agent_job \<Rightarrow> lm_agent \<Rightarrow> 'w node \<Rightarrow> crash + 'w node \<times> bool \<times> agent_error option" where
  "deploy H HandlerETCD job la nd = HandleDeployETCD H job la nd"
| "deploy H HandlerMaster job la nd = HandleDeployMaster H la nd"
| "deploy H HandlerMinion job la nd = HandleDeployMinion H job la nd"
| "deploy H HandlerHA job la nd = HandleDeployHA H job la nd"

fun check_health ::
  "'w host \<Rightarrow> job_handler \<Rightarrow> lm_agent \<Rightarrow> 'w node \<Rightarrow> crash + 'w node \<times> bool \<times> agent_error option" where
  "check_health H HandlerETCD la nd = CheckETCDHealth H la nd"
| "check_health H HandlerMaster la nd = CheckMasterHealth H nd"
| "check_health H HandlerMinion la nd = CheckMinionHealth H la nd"
| "check_health H HandlerHA la nd = CheckHAHealth H nd"

definition health_item :: "'w host \<Rightarrow> 'w \<Rightarrow> bool \<Rightarrow> agent_error option \<Rightarrow> report_item" where
  "health_item H w b e = \<lparr>ri_HasProvisioned = b,
     ri_Reason = (case e of None \<Rightarrow> [] | Some x \<Rightarrow> ho_ErrorText H x), ri_LastSeenTime = ho_now H w\<rparr>"

text \<open>One round of a health-check goroutine, and the message that it sends.\<close>

definition healthCheck ::
  "'w host \<Rightarrow> job_handler \<Rightarrow> lm_agent \<Rightarrow> 'w node \<Rightarrow> crash + 'w node \<times> report_item" where
  "healthCheck H h la nd =
     bindC (check_health H h la nd) (\<lambda>(nd1, b, e). Inr (nd1, health_item H (nd_world nd1) b e))"

section \<open>The members of the ETCD cluster\<close>

text \<open>Characters that the escaper leaves alone and that do not separate addresses.\<close>

definition plain :: "char \<Rightarrow> bool" where
  "plain c \<longleftrightarrow> html_char c = [c] \<and> c \<noteq> CHR '',''"

lemma not_plain_comma: "list_all plain s \<Longrightarrow> CHR '','' \<notin> set s"
  by (induction s) (auto simp: plain_def)

lemma not_plain_commas: "list_all (list_all plain) xs \<Longrightarrow> \<forall>x \<in> set xs. CHR '','' \<notin> set x"
  by (induction xs) (simp_all add: not_plain_comma)

lemma html_escape_plain: "list_all plain s \<Longrightarrow> html_escape s = s"
  by (induction s) (simp_all add: html_escape_def plain_def)

lemma le_bytes_range: "b \<in> set (le_bytes k n) \<Longrightarrow> 0 \<le> b \<and> b < 256"
  by (induction k n rule: le_bytes.induct) auto

lemma hex_digits_plain: "list_all (\<lambda>n. plain (hex_digit n)) (map int [0..<16])"
  by code_simp

lemma hex_digit_plain:
  assumes "0 \<le> n" and "n < 16"
  shows "plain (hex_digit n)"
proof -
  have "n = int (nat n)" "nat n \<in> set [0..<16]" using assms by simp_all
  then have "n \<in> set (map int [0..<16])" by (metis imageI set_map)
  with hex_digits_plain show ?thesis by (simp only: list_all_iff)
qed

lemma hex_word_plain: "list_all plain (hex_word w)"
  by (auto simp: hex_word_def list_all_iff dest!: le_bytes_range intro!: hex_digit_plain)

lemma md5_hex_plain: "list_all plain (md5_hex s)"
  by (simp add: md5_hex_def Let_def hex_word_plain split: prod.splits)

lemma server_text_plain: "list_all plain ''=https://''" "list_all plain '':2380''"
  by code_simp+

lemma etcd_server_plain: "list_all plain ip \<Longrightarrow> list_all plain (etcd_server ip)"
  by (simp only: etcd_server_def generateETCDName_def list_all_append md5_hex_plain server_text_plain simp_thms)

lemma html_escape_join:
  "list_all (list_all plain) xs \<Longrightarrow> html_escape (join '','' xs) = join '','' xs"
proof (induction xs rule: induct_list012)
  case (3 x y xs)
  have "html_escape (a @ b) = html_escape a @ html_escape b" for a b by (simp add: html_escape_def)
  moreover have "html_escape '','' = '',''" by code_simp
  ultimately show ?case using 3 html_escape_plain [of x] by (simp del: append_Cons)
qed (simp_all add: html_escape_plain html_escape_def [of "[]"])

definition etcd_pieces :: "(string \<times> string) list" where
  "etcd_pieces =
    [(''IMAGE'', unlines ['''', ''        dataDir: '']),
     (''DATADIR'', unlines ['''', ''        serverCertSANs:'', ''        - '' @ [CHR 0x22]]),
     (''HOST'', unlines [[CHR 0x22], ''        - '' @ [CHR 0x22] @ ''127.0.0.1'' @ [CHR 0x22], ''        peerCertSANs:'',
        ''        - '' @ [CHR 0x22]]),
     (''HOST'', unlines [[CHR 0x22], ''        - '' @ [CHR 0x22] @ ''127.0.0.1'' @ [CHR 0x22], ''        extraArgs:'',
        ''            initial-cluster: '']),
     (''SERVERS'', unlines ['''', ''            initial-cluster-state: new'', ''            name: '']),
     (''NAME'', unlines ['''', ''            listen-peer-urls: https://'']),
     (''ADDR'', unlines ['':2380'', ''            listen-client-urls: https://'']),
     (''ADDR'', unlines ['':2379'', ''            advertise-client-urls: https://'']),
     (''ADDR'', unlines ['':2379'', ''            initial-advertise-peer-urls: https://'']),
     (''ADDR'', '':2380'')]"

abbreviation etcd_head :: string where
  "etcd_head \<equiv> unlines
    [''apiVersion: '' @ [CHR 0x22] @ ''kubeadm.k8s.io/v1alpha3'' @ [CHR 0x22],
     ''kind: ClusterConfiguration'', ''etcd:'', ''    local:'', ''        image: '']"

lemma etcd_template: "etcdConfigTemplate = template etcd_head etcd_pieces"
  by (simp add: etcdConfigTemplate_def template_def etcd_pieces_def unlines_def)

lemma etcd_template_ok: "template_ok etcd_head etcd_pieces"
  by (simp add: template_ok_def etcd_pieces_def unlines_def)

text \<open>
  C22: the ETCD agents that got the same addresses write configurations that differ only in the member's
  own name and address: all list the same members, and the member's own entry, under the name that the
  configuration gives it, is one of them.
\<close>

theorem etcd_members_agree:
  assumes "list_all (list_all plain) ips" and "address \<in> set ips" and "list_all plain img"
  shows "etcd_config (join '','' ips) address img = unlines
    [''apiVersion: '' @ [CHR 0x22] @ ''kubeadm.k8s.io/v1alpha3'' @ [CHR 0x22],
     ''kind: ClusterConfiguration'', ''etcd:'', ''    local:'',
     ''        image: '' @ img,
     ''        dataDir: /data/etcd'',
     ''        serverCertSANs:'',
     ''        - '' @ [CHR 0x22] @ address @ [CHR 0x22],
     ''        - '' @ [CHR 0x22] @ ''127.0.0.1'' @ [CHR 0x22],
     ''        peerCertSANs:'',
     ''        - '' @ [CHR 0x22] @ address @ [CHR 0x22],
     ''        - '' @ [CHR 0x22] @ ''127.0.0.1'' @ [CHR 0x22],
     ''        extraArgs:'',
     ''            initial-cluster: '' @ join '','' (map etcd_server ips),
     ''            initial-cluster-state: new'',
     ''            name: '' @ md5_hex address,
     ''            listen-peer-urls: https://'' @ address @ '':2380'',
     ''            listen-client-urls: https://'' @ address @ '':2379'',
     ''            advertise-client-urls: https://'' @ address @ '':2379'',
     ''            initial-advertise-peer-urls: https://'' @ address @ '':2380''] \<and>
    md5_hex address @ ''=https://'' @ address @ '':2380'' \<in> set (split_on CHR '','' (join '','' (map etcd_server ips)))"
proof -
  have ips: "ips \<noteq> []" using assms(2) by auto
  have servers: "list_all (list_all plain) (map etcd_server ips)"
    using assms(1) etcd_server_plain by (auto simp: list_all_iff)
  have "map etcd_server ips \<noteq> []" using ips by simp
  from split_join [OF this not_plain_commas [OF servers]] have own: "etcd_server address \<in> set (split_on CHR '','' (join '','' (map etcd_server ips)))"
    using assms(2) by simp
  have "list_all plain address" using assms(1,2) by (auto simp: list_all_iff)
  note esc = html_escape_plain [OF this] html_escape_plain [OF assms(3)] html_escape_plain [OF md5_hex_plain]
    html_escape_join [OF servers]
  have data: "html_escape ''/data/etcd'' = ''/data/etcd''" by code_simp
  let ?attrs = "[(''NAME'', md5_hex address), (''HOST'', address), (''SERVERS'', join '','' (map etcd_server ips)),
      (''IMAGE'', img), (''DATADIR'', ''/data/etcd''), (''ADDR'', address)]"
  have attrs: "gm_str ?attrs ''NAME'' = md5_hex address" "gm_str ?attrs ''HOST'' = address"
    "gm_str ?attrs ''SERVERS'' = join '','' (map etcd_server ips)" "gm_str ?attrs ''IMAGE'' = img"
    "gm_str ?attrs ''DATADIR'' = ''/data/etcd''" "gm_str ?attrs ''ADDR'' = address"
    by (simp_all add: gm_str_def)
  have "etcd_config (join '','' ips) address img =
      etcd_head @ concat (map (\<lambda>(k, u). html_escape (gm_str ?attrs k) @ u) etcd_pieces)"
    by (simp only: etcd_config_def etcd_template execute_template_pieces [OF etcd_template_ok] split_join [OF ips not_plain_commas [OF assms(1)]]
        generateETCDName_def)
  note config = this [unfolded etcd_pieces_def list.map prod.case concat.simps attrs esc data unlines_def join.simps append.simps append_assoc append_Nil2]
  show ?thesis
  proof
    show "md5_hex address @ ''=https://'' @ address @ '':2380'' \<in> set (split_on CHR '','' (join '','' (map etcd_server ips)))"
      using own by (simp only: etcd_server_def generateETCDName_def append_assoc)
  qed (simp only: config unlines_def join.simps append.simps append_assoc append_Nil2)
qed

theorem etcd_members_agree_witness:
  "md5_hex ''10.0.0.1'' @ ''=https://10.0.0.1:2380'' \<in>
     set (split_on CHR '','' (join '','' (map etcd_server [''10.0.0.1'', ''10.0.0.2''])))"
proof -
  have "list_all (list_all plain) [''10.0.0.1'', ''10.0.0.2'']" "list_all plain ''etcd:3.2.24''" by code_simp+
  from etcd_members_agree [OF this(1) _ this(2), of "''10.0.0.1''"] show ?thesis by simp
qed

end
