(* ===== verification/AgentProcess.thy ===== *)
theory AgentProcess
  imports AgentJobs
begin

text \<open>
  The running agent: its command line (\<open>main.go\<close>), registration, reports, queries and the two loops
  that take jobs and perform them (\<open>register.go\<close>).

  The goroutines of the agent share \<open>lm_agent\<close>. A process is that record with the node and the
  points at which the main loop and the goroutine of \<open>performJob\<close> stand; \<open>agent_turn\<close> lets one
  goroutine go on to its next point. A registration is cut where it sends its request: what comes in
  between, above all a change of the roles, is another turn.
\<close>

section \<open>The command line: main.go\<close>

record ip_address =
  ip_IsIPNet :: bool
  ip_IsLoopback :: bool
  ip_IsIPv4 :: bool
  ip_Text :: string

fun first_local :: "ip_address list \<Rightarrow> string" where
  "first_local [] = []"
| "first_local (a # as) =
     (if ip_IsIPNet a \<and> \<not> ip_IsLoopback a \<and> ip_IsIPv4 a then ip_Text a else first_local as)"

definition GetLocalIP :: "error + ip_address list \<Rightarrow> string" where
  "GetLocalIP addrs = (case addrs of Inl e \<Rightarrow> [] | Inr as \<Rightarrow> first_local as)"

definition new_agent :: "agent_args \<Rightarrow> string \<Rightarrow> lm_agent" where
  "new_agent arg certPath = \<lparr>la_arg = arg, la_CertPath = certPath, la_currentJob = None,
     la_jobs = (\<lambda>i. \<lparr>lj_job = \<lparr>aj_Name = [], aj_Arguments = [], aj_Reason = []\<rparr>, lj_HadDone = False,
       lj_HealthCheckHandler = None\<rparr>), la_nextJob = 0, la_workQueue = [], la_lastRegisteredTime = 0,
     la_hasRegistered = 0, la_basicImages = None, la_masterSettings = [], la_dockerImageManager = None,
     la_ItemsStatus = [], la_expectedETCDNodeCount = 0, la_rr = None\<rparr>"

text \<open>
  What \<open>main\<close> does with the parsed flags, which arrive as \<open>flags\<close> (with the default of \<open>--cluster\<close>,
  \<open>nil_uuid\<close>, filled in), \<open>--id\<close> and \<open>--cert-dir\<close>.
\<close>

definition start_main :: "error + ip_address list \<Rightarrow> agent_args \<Rightarrow> string \<Rightarrow> string \<Rightarrow> crash + lm_agent" where
  "start_main addrs flags fixedId certdir =
     (let arg = flags\<lparr>aa_AgentId := fixedId, aa_LeaseId := 0,
            aa_Address := (if aa_Address flags = [] then GetLocalIP addrs else aa_Address flags)\<rparr> in
      if aa_Server flags = [] \<or> aa_UsedEthernetInterface flags = [] \<or> aa_ClusterId flags = [] then Inl FatalExit
      else Inr (new_agent arg (if certdir \<noteq> [] then certdir else ''/etc/kubernetes'')))"

section \<open>Registration\<close>

definition hasInitializedRoles :: "agent_args \<Rightarrow> bool" where
  "hasInitializedRoles arg \<longleftrightarrow> aa_IsETCDRole arg \<or> aa_IsMasterRole arg \<or> aa_IsMinionRole arg \<or> aa_IsHARole arg"

text \<open>What the agent says of itself.\<close>

definition agent_object :: "'w host \<Rightarrow> agent_args \<Rightarrow> 'w \<Rightarrow> crash + agent" where
  "agent_object H arg w =
     (case ho_CPU H w of
        Inl e \<Rightarrow> Inl FatalExit
      | Inr cs \<Rightarrow>
        (case ho_Memory H w of
           Inl e \<Rightarrow> Inl FatalExit
         | Inr bytes \<Rightarrow>
           (case cs of
              [] \<Rightarrow> Inl IndexOutOfRange
            | (cores, mhz) # _ \<Rightarrow>
              (case ho_GoInfo H w of (os, kern, core) \<Rightarrow>
                 Inr (zero_agent\<lparr>ag_HasETCDRole := aa_IsETCDRole arg, ag_HasMasterRole := aa_IsMasterRole arg,
                   ag_HasMinionRole := aa_IsMinionRole arg, ag_HasHARole := aa_IsHARole arg,
                   ag_ClusterId := aa_ClusterId arg, ag_Hostname := ho_Hostname H w, ag_ListenPort := aa_ListenPort arg,
                   ag_Id := aa_AgentId arg, ag_HostInformation := \<lparr>hi_OS = os, hi_Kernel = kern @ '' '' @ core,
                     hi_CPUCores = cores, hi_CPUMhz = mhz, hi_MemoryTotalMB = bytes div 1024 div 1024\<rparr>\<rparr>)))))"

text \<open>
  The beginning of \<open>Register\<close>: settled without a request, failed before it, or a request to send.
\<close>

datatype register_start = Settled "agent_error option" | Unsent agent_error | Request string string

definition register_url :: "agent_args \<Rightarrow> string" where
  "register_url arg = aa_Server arg @ ''/apis/v1/agent/register''"

definition register_begin :: "'w host \<Rightarrow> lm_agent \<Rightarrow> 'w \<Rightarrow> crash + register_start" where
  "register_begin H la w =
     (if la_hasRegistered la = 1 then Inr (Settled None)
      else if la_hasRegistered la = -1 then Inr (Settled (Some NotInitialized))
      else bindC (agent_object H (la_arg la) w) (\<lambda>obj.
        case ho_MarshalAgent H obj of
          Inl e \<Rightarrow> Inr (Unsent (XErrorf e))
        | Inr data \<Rightarrow>
          (case ho_NewRequest H (register_url (la_arg la)) of
             Some e \<Rightarrow> Inr (Unsent (XErrorf e))
           | None \<Rightarrow> Inr (Request (register_url (la_arg la)) data))))"

text \<open>The deferred function of \<open>Register\<close>.\<close>

definition register_end :: "int \<Rightarrow> agent_error option \<Rightarrow> lm_agent \<Rightarrow> lm_agent" where
  "register_end now err la =
     (case err of
        None \<Rightarrow> (if la_hasRegistered la = 0 then la\<lparr>la_hasRegistered := 1, la_lastRegisteredTime := now\<rparr> else la)
      | Some e \<Rightarrow> la\<lparr>la_hasRegistered := (if e = NotInitialized then -1 else 0)\<rparr>)"

section \<open>Talking to the API server\<close>

definition reason_text :: "'w host \<Rightarrow> reason \<Rightarrow> string" where
  "reason_text H r = (case r of NoReason \<Rightarrow> [] | Text s \<Rightarrow> s | ErrText e \<Rightarrow> ho_ErrorText H (PlainError e))"

text \<open>The body of an answer with status 200, decoded.\<close>

definition decode_ok ::
  "(string \<Rightarrow> error + 'r) \<Rightarrow> error + http_answer \<Rightarrow> error + 'r" where
  "decode_ok unmarshal answer =
     (case answer of
        Inl e \<Rightarrow> Inl e
      | Inr a \<Rightarrow> (if hn_StatusCode a \<noteq> 200 then Inl (EHTTPStatus (hn_StatusCode a))
                 else case hn_Body a of Inl e \<Rightarrow> Inl e | Inr data \<Rightarrow> unmarshal data))"

text \<open>The same without a look at the status.\<close>

definition decode_any ::
  "(string \<Rightarrow> error + 'r) \<Rightarrow> error + http_answer \<Rightarrow> error + 'r" where
  "decode_any unmarshal answer =
     (case answer of
        Inl e \<Rightarrow> Inl e
      | Inr a \<Rightarrow> (case hn_Body a of Inl e \<Rightarrow> Inl e | Inr data \<Rightarrow> unmarshal data))"

definition read_registration ::
  "'w host \<Rightarrow> error + http_answer \<Rightarrow> agent_error + register_agent_response" where
  "read_registration H answer =
     (case decode_ok (ho_UnmarshalRegister H) answer of
        Inl e \<Rightarrow> Inl (XErrorf e)
      | Inr rsp \<Rightarrow>
        (if re_NeedCrash rsp then Inl (XErrorf (EBiz (re_ErrorId rsp) (reason_text H (re_Reason rsp))))
         else if re_ErrorId rsp \<noteq> Succeed then Inl (Errorf (EBiz (re_ErrorId rsp) []))
         else Inr rsp))"

section \<open>Certificates: downloadCertificates\<close>

definition certificate_url :: "agent_args \<Rightarrow> string \<Rightarrow> string" where
  "certificate_url arg name = aa_Server arg @ ''/apis/v1/certs/get?cluster='' @ aa_ClusterId arg @ ''&cert='' @ name"

definition read_certificate ::
  "'w host \<Rightarrow> string \<Rightarrow> error + http_answer \<Rightarrow> agent_error + get_certificate_response" where
  "read_certificate H name answer =
     (case decode_ok (ho_UnmarshalCertificate H) answer of
        Inl e \<Rightarrow> Inl (XErrorf e)
      | Inr rsp \<Rightarrow>
        (if re_ErrorId rsp \<noteq> Succeed then Inl (Errorf (EBiz (re_ErrorId rsp) []))
         else if gc_Content rsp = [] then Inl (Errorf (ERequiredField name))
         else Inr rsp))"

text \<open>
  \<open>os.IsExist\<close> holds of no result of \<open>os.Stat\<close> (a success is nil, and a failure is not one of
  creating something that exists), so the file is always opened and written, and never removed.
\<close>

definition saveRemoteCertificate ::
  "'w host \<Rightarrow> lm_agent \<Rightarrow> string \<Rightarrow> 'w node \<Rightarrow> 'w node \<times> agent_error option" where
  "saveRemoteCertificate H la name nd =
     (let url = certificate_url (la_arg la) name in
      case ho_NewRequest H url of
        Some e \<Rightarrow> (nd, Some (XErrorf e))
      | None \<Rightarrow>
        (case ho_Do H (nd_world nd) ''GET'' url [] of (w, answer) \<Rightarrow>
           (case read_certificate H name answer of
              Inl e \<Rightarrow> (nd\<lparr>nd_world := w\<rparr>, Some e)
            | Inr rsp \<Rightarrow>
              (case open_and_write H (path_join [la_CertPath la, name]) (gc_Content rsp) (nd\<lparr>nd_world := w\<rparr>) of
                 (nd1, e) \<Rightarrow> (nd1, map_option (\<lambda>x. Errorf (EWrap name x)) e)))))"

definition neededCerts :: "string list" where
  "neededCerts = [''ca.crt'', ''ca.key'', ''front-proxy-ca.crt'', ''front-proxy-ca.key'', ''sa.pub'', ''sa.key'',
     ''etcd/ca.crt'', ''etcd/ca.key'']"

text \<open>What is put into the message of another error, \<open>err.Error()\<close>.\<close>

fun inner_error :: "agent_error \<Rightarrow> error" where
  "inner_error (XErrorf e) = e"
| "inner_error (Errorf e) = e"
| "inner_error (PlainError e) = e"
| "inner_error NotInitialized = EExternal ''Not specified any cluster-id or roles.''"

fun save_certificates ::
  "'w host \<Rightarrow> lm_agent \<Rightarrow> string list \<Rightarrow> 'w node \<Rightarrow> 'w node \<times> agent_error option" where
  "save_certificates H la [] nd = (nd, None)"
| "save_certificates H la (c # cs) nd =
     (case saveRemoteCertificate H la c nd of
        (nd1, Some e) \<Rightarrow> (nd1, Some (XErrorf (EWrap ''save remote certificate'' (inner_error e))))
      | (nd1, None) \<Rightarrow> save_certificates H la cs nd1)"

definition downloadCertificates :: "'w host \<Rightarrow> lm_agent \<Rightarrow> 'w node \<Rightarrow> 'w node \<times> agent_error option" where
  "downloadCertificates H la nd =
     (case ho_MkdirAll H (nd_world nd) (la_CertPath la) of
        Some e \<Rightarrow> (nd, Some (XErrorf (EWrap ''create certificate storage path'' e)))
      | None \<Rightarrow> save_certificates H la neededCerts nd)"

section \<open>The answer to a registration\<close>

definition pooled :: "agent_args \<Rightarrow> bool" where
  "pooled arg \<longleftrightarrow> aa_ClusterId arg = nil_uuid \<or> \<not> hasInitializedRoles arg"

definition named_by :: "register_agent_response \<Rightarrow> lm_agent \<Rightarrow> lm_agent" where
  "named_by rsp la = la\<lparr>la_arg := (la_arg la)\<lparr>aa_AgentId := ra_AgentId rsp, aa_LeaseId := ra_LeaseId rsp\<rparr>\<rparr>"

text \<open>Certificates, images and, on a host that is no minion, the kubelet.\<close>

definition prepare_host ::
  "'w host \<Rightarrow> image_manager \<Rightarrow> lm_agent \<Rightarrow> 'w node \<Rightarrow> crash + 'w node \<times> agent_error option" where
  "prepare_host H im la nd =
     (case downloadCertificates H la nd of
        (nd1, Some e) \<Rightarrow> Inr (nd1, Some (XErrorf (inner_error e)))
      | (nd1, None) \<Rightarrow>
        (case Ready H im nd1 of
           (nd2, Some e) \<Rightarrow> Inr (nd2, Some (XErrorf (inner_error e)))
         | (nd2, None) \<Rightarrow>
           (if \<not> aa_IsMinionRole (la_arg la) then runKubeletContainer H (aa_Address (la_arg la)) la nd2
            else Inr (nd2, None))))"

text \<open>The late change of the cluster, which a failure to save turns into the end of the process.\<close>

definition adopt_cluster :: "'w host \<Rightarrow> string \<Rightarrow> lm_agent \<Rightarrow> 'w node \<Rightarrow> crash + 'w node \<times> lm_agent" where
  "adopt_cluster H cid la nd =
     (if aa_ClusterId (la_arg la) = nil_uuid \<and> cid \<noteq> nil_uuid then
        (let la1 = la\<lparr>la_arg := (la_arg la)\<lparr>aa_ClusterId := cid\<rparr>\<rparr> in
         case la_rr la1 of
           None \<Rightarrow> Inr (nd, la1)
         | Some rr \<Rightarrow>
           (let la2 = la1\<lparr>la_rr := Some (rr\<lparr>rv_ClusterID := cid\<rparr>)\<rparr> in
            case saveRecoveryFile H la2 nd of
              (nd1, None) \<Rightarrow> Inr (nd1, la2)
            | (nd1, Some e) \<Rightarrow> Inl FatalExit))
      else Inr (nd, la))"

definition join_cluster ::
  "'w host \<Rightarrow> register_agent_response \<Rightarrow> image_manager \<Rightarrow> lm_agent \<Rightarrow> 'w node
     \<Rightarrow> crash + 'w node \<times> lm_agent \<times> agent_error option" where
  "join_cluster H rsp im la0 nd0 =
     bindC (adopt_cluster H (ra_ClusterId rsp) (la0\<lparr>la_dockerImageManager := Some im\<rparr>) nd0) (\<lambda>(nd, la).
       case atoi (gm_str (ra_MasterSettings rsp) MasterSettings_ExpectedETCDNodeCount) of
         None \<Rightarrow> Inl FatalExit
       | Some n \<Rightarrow>
         (let la1 = la\<lparr>la_expectedETCDNodeCount := n\<rparr> in
          bindC (prepare_host H im la1 nd) (\<lambda>(nd1, e). Inr (nd1, la1, e))))"

definition use_registration ::
  "'w host \<Rightarrow> register_agent_response \<Rightarrow> lm_agent \<Rightarrow> 'w node \<Rightarrow> crash + 'w node \<times> lm_agent \<times> agent_error option" where
  "use_registration H rsp la0 nd =
     (let la = named_by rsp la0 in
      if pooled (la_arg la) then Inr (nd, la, Some NotInitialized)
      else
        (let la1 = la\<lparr>la_basicImages := Some (ra_BasicImages rsp), la_masterSettings := ra_MasterSettings rsp\<rparr> in
         case NewDockerImageManager (aa_Server (la_arg la1)) (ra_BasicImages rsp) of
           Inl e \<Rightarrow> Inr (nd, la1\<lparr>la_dockerImageManager := None\<rparr>, Some (XErrorf (EWrap ''create new docker image manager'' e)))
         | Inr im \<Rightarrow> join_cluster H rsp im la1 nd))"

text \<open>Sending the request and what follows, with the deferred function at the end.\<close>

definition register_finish ::
  "'w host \<Rightarrow> string \<Rightarrow> string \<Rightarrow> lm_agent \<Rightarrow> 'w node \<Rightarrow> crash + 'w node \<times> lm_agent \<times> agent_error option" where
  "register_finish H url data la nd =
     (case ho_Do H (nd_world nd) ''POST'' url data of (w, answer) \<Rightarrow>
        bindC (case read_registration H answer of
                 Inl e \<Rightarrow> Inr (nd\<lparr>nd_world := w\<rparr>, la, Some e)
               | Inr rsp \<Rightarrow> use_registration H rsp la (nd\<lparr>nd_world := w\<rparr>))
          (\<lambda>(nd1, la1, err). Inr (nd1, register_end (ho_now H (nd_world nd1)) err la1, err)))"

text \<open>\<open>Register\<close> as one call, when nothing comes in between.\<close>

definition agent_Register :: "'w host \<Rightarrow> lm_agent \<Rightarrow> 'w node \<Rightarrow> crash + 'w node \<times> lm_agent \<times> agent_error option" where
  "agent_Register H la nd =
     bindC (register_begin H la (nd_world nd)) (\<lambda>st.
       case st of
         Settled err \<Rightarrow> Inr (nd, la, err)
       | Unsent e \<Rightarrow> Inr (nd, register_end (ho_now H (nd_world nd)) (Some e) la, Some e)
       | Request url data \<Rightarrow> register_finish H url data la nd)"

section \<open>Reports and queries\<close>

definition cloneStatusMap :: "lm_agent \<Rightarrow> (string, report_item) gomap" where
  "cloneStatusMap la = la_ItemsStatus la"

definition agent_url :: "agent_args \<Rightarrow> string \<Rightarrow> string" where
  "agent_url arg page = aa_Server arg @ ''/apis/v1/agent/'' @ page @ ''?agent-id='' @ aa_AgentId arg @
     ''&cluster-id='' @ aa_ClusterId arg"

text \<open>Only the answer's lease is kept; its status is not looked at.\<close>

definition read_report :: "'w host \<Rightarrow> error + http_answer \<Rightarrow> agent_error + int" where
  "read_report H answer =
     (case decode_any (ho_UnmarshalReport H) answer of
        Inl e \<Rightarrow> Inl (XErrorf e)
      | Inr rsp \<Rightarrow>
        (if re_ErrorId rsp \<noteq> Succeed
         then (let e = EBiz (re_ErrorId rsp) (reason_text H (re_Reason rsp)) in
               Inl (if re_NeedCrash rsp then XErrorf e else PlainError e))
         else Inr (rp_LeaseId rsp)))"

definition reportStatusInternal ::
  "'w host \<Rightarrow> lm_agent \<Rightarrow> 'w node \<Rightarrow> 'w node \<times> lm_agent \<times> agent_error option" where
  "reportStatusInternal H la nd =
     (case ho_MarshalReport H \<lparr>rs_IP = aa_Address (la_arg la), rs_Items = cloneStatusMap la,
             rs_LeaseId = aa_LeaseId (la_arg la)\<rparr> of
        Inl e \<Rightarrow> (nd, la, Some (XErrorf e))
      | Inr data \<Rightarrow>
        (case ho_NewRequest H (agent_url (la_arg la) ''status'') of
           Some e \<Rightarrow> (nd, la, Some (XErrorf e))
         | None \<Rightarrow>
           (case ho_Do H (nd_world nd) ''PUT'' (agent_url (la_arg la) ''status'') data of (w, answer) \<Rightarrow>
              (case read_report H answer of
                 Inl e \<Rightarrow> (nd\<lparr>nd_world := w\<rparr>, la, Some e)
               | Inr lease \<Rightarrow> (nd\<lparr>nd_world := w\<rparr>, la\<lparr>la_arg := (la_arg la)\<lparr>aa_LeaseId := lease\<rparr>\<rparr>, None)))))"

definition read_job :: "'w host \<Rightarrow> error + http_answer \<Rightarrow> agent_error + agent_job option" where
  "read_job H answer =
     (case decode_any (ho_UnmarshalJob H) answer of
        Inl e \<Rightarrow> Inl (PlainError e)
      | Inr rsp \<Rightarrow>
        (if re_ErrorId rsp \<noteq> Succeed
         then (let e = EBiz (re_ErrorId rsp) (reason_text H (re_Reason rsp)) in
               Inl (if re_NeedCrash rsp then XErrorf e else PlainError e))
         else Inr (nj_Job rsp)))"

definition queryJob :: "'w host \<Rightarrow> lm_agent \<Rightarrow> 'w node \<Rightarrow> 'w node \<times> (agent_error + agent_job option)" where
  "queryJob H la nd =
     (case ho_NewRequest H (agent_url (la_arg la) ''query'') of
        Some e \<Rightarrow> (nd, Inl (PlainError e))
      | None \<Rightarrow>
        (case ho_Do H (nd_world nd) ''GET'' (agent_url (la_arg la) ''query'') [] of (w, answer) \<Rightarrow>
           (nd\<lparr>nd_world := w\<rparr>, read_job H answer)))"

section \<open>Certificates\<close>

text \<open>
  C21: a certificate that was saved without an error is what the server sent, followed by what an
  older and longer file held behind it: the file is the certificate if and only if the older
  content was not longer. No other file changes.
\<close>

theorem saved_certificate_file:
  assumes "saveRemoteCertificate H la name nd = (nd1, None)"
  shows "\<exists>rsp. read_certificate H name (snd (ho_Do H (nd_world nd) ''GET'' (certificate_url (la_arg la) name) [])) = Inr rsp
    \<and> gm_str (nd_files nd1) (path_join [la_CertPath la, name]) =
        gc_Content rsp @ drop (length (gc_Content rsp)) (gm_str (nd_files nd) (path_join [la_CertPath la, name]))
    \<and> (gm_str (nd_files nd1) (path_join [la_CertPath la, name]) = gc_Content rsp
         \<longleftrightarrow> length (gm_str (nd_files nd) (path_join [la_CertPath la, name])) \<le> length (gc_Content rsp))
    \<and> gm_get (gm_del (path_join [la_CertPath la, name]) (nd_files nd1)) = gm_get (gm_del (path_join [la_CertPath la, name]) (nd_files nd))"
proof -
  let ?p = "path_join [la_CertPath la, name]"
  obtain w answer where do: "ho_Do H (nd_world nd) ''GET'' (certificate_url (la_arg la) name) [] = (w, answer)" by fastforce
  with assms obtain rsp where rsp: "read_certificate H name answer = Inr rsp"
    and "open_and_write H ?p (gc_Content rsp) (nd\<lparr>nd_world := w\<rparr>) = (nd1, None)"
    by (auto simp: saveRemoteCertificate_def Let_def split: option.splits sum.splits prod.splits)
  then have "nd_files nd1 = overwrite ?p (gc_Content rsp) (nd_files nd)"
    by (auto simp: open_and_write_def split: option.splits)
  then show ?thesis
    using rsp do by (auto simp: overwrite_def gm_str_def fun_eq_iff split: option.splits)
qed

definition long_certificate :: get_certificate_response where
  "long_certificate = \<lparr>re_ErrorId = 0, re_Reason = NoReason, re_NeedCrash = False, gc_Content = ''new'', gc_ForceUpdate = True\<rparr>"

theorem saved_certificate_file_witness:
  "(let H = quiet_host\<lparr>ho_UnmarshalCertificate := \<lambda>s. Inr long_certificate\<rparr>;
        la = new_agent (\<lparr>aa_AgentId = [], aa_Server = [], aa_ClusterId = ''c'', aa_Address = [], aa_NodeLabels = None,
          aa_UsedEthernetInterface = [], aa_LeaseId = 0, aa_IsETCDRole = True, aa_IsMasterRole = False,
          aa_IsMinionRole = False, aa_IsHARole = False, aa_ListenPort = 0\<rparr>) ''/c'';
        nd1 = fst (saveRemoteCertificate H la ''ca.crt'' \<lparr>nd_world = 0, nd_files = [(''/c/ca.crt'', ''older'')]\<rparr>) in
    gm_str (nd_files nd1) (path_join [''/c'', ''ca.crt'']) = ''newer'')"
  using saved_certificate_file [where H = "quiet_host\<lparr>ho_UnmarshalCertificate := \<lambda>s. Inr long_certificate\<rparr>"
      and la = "new_agent (\<lparr>aa_AgentId = [], aa_Server = [], aa_ClusterId = ''c'', aa_Address = [], aa_NodeLabels = None,
          aa_UsedEthernetInterface = [], aa_LeaseId = 0, aa_IsETCDRole = True, aa_IsMasterRole = False,
          aa_IsMinionRole = False, aa_IsHARole = False, aa_ListenPort = 0\<rparr>) ''/c''"
      and name = "''ca.crt''" and nd = "\<lparr>nd_world = 0, nd_files = [(''/c/ca.crt'', ''older'')]\<rparr>"
      and ?nd1.0 = "\<lparr>nd_world = 0, nd_files = [(''/c/ca.crt'', ''newer'')]\<rparr>"]
  by (simp add: saveRemoteCertificate_def read_certificate_def decode_ok_def quiet_host_def long_certificate_def
      open_and_write_def overwrite_def new_agent_def Succeed_def path_join_def path_clean_def split_on_def gm_str_def Let_def)

section \<open>Registration\<close>

lemma runKubeletContainer_error:
  "runKubeletContainer H ip la nd = Inr (nd1, Some e) \<Longrightarrow> e \<noteq> NotInitialized"
  by (auto simp: runKubeletContainer_def start_kubelet_def run_container_def
      elim!: bindC_InrE split: sum.splits option.splits prod.splits if_splits)

lemma prepare_host_error: "prepare_host H im la nd = Inr (nd1, Some e) \<Longrightarrow> e \<noteq> NotInitialized"
  by (auto simp: prepare_host_def dest: runKubeletContainer_error split: prod.splits option.splits if_splits)

text \<open>What adopting a cluster and joining it leave of the agent.\<close>

lemma adopt_cluster_joined: "aa_ClusterId (la_arg la) \<noteq> nil_uuid \<Longrightarrow> adopt_cluster H cid la nd = Inr (nd, la)"
  by (simp add: adopt_cluster_def)

lemma join_cluster_agent:
  assumes "join_cluster H rsp im la nd = Inr (nd1, la1, err)" and "aa_ClusterId (la_arg la) \<noteq> nil_uuid"
  obtains n where "la1 = la\<lparr>la_dockerImageManager := Some im, la_expectedETCDNodeCount := n\<rparr>"
    and "atoi (gm_str (ra_MasterSettings rsp) MasterSettings_ExpectedETCDNodeCount) = Some n"
    and "prepare_host H im la1 nd = Inr (nd1, err)"
  using assms by (auto simp: join_cluster_def adopt_cluster_joined Let_def elim!: bindC_InrE split: option.splits)

lemma use_registration_cases:
  assumes "use_registration H rsp la nd = Inr (nd1, la1, err)"
  obtains (pool) "err = Some NotInitialized" "la1 = named_by rsp la" "nd1 = nd" "pooled (la_arg la1)"
  | (unsupported) e where "err = Some (XErrorf e)" "nd1 = nd" "la_hasRegistered la1 = la_hasRegistered la"
  | (joined) im n where "la1 = (named_by rsp la)\<lparr>la_basicImages := Some (ra_BasicImages rsp),
        la_masterSettings := ra_MasterSettings rsp, la_dockerImageManager := Some im, la_expectedETCDNodeCount := n\<rparr>"
      "\<not> pooled (la_arg la1)" "prepare_host H im la1 nd = Inr (nd1, err)"
      "NewDockerImageManager (aa_Server (la_arg la)) (ra_BasicImages rsp) = Inr im"
      "atoi (gm_str (ra_MasterSettings rsp) MasterSettings_ExpectedETCDNodeCount) = Some n"
proof -
  let ?la = "named_by rsp la"
  let ?la1 = "?la\<lparr>la_basicImages := Some (ra_BasicImages rsp), la_masterSettings := ra_MasterSettings rsp\<rparr>"
  show thesis
  proof (cases "pooled (la_arg ?la)")
    case True
    with assms show thesis by (intro pool) (auto simp: use_registration_def Let_def)
  next
    case False
    show thesis
    proof (cases "NewDockerImageManager (aa_Server (la_arg ?la1)) (ra_BasicImages rsp)")
      case (Inl e)
      with assms False show thesis
        by (intro unsupported) (auto simp: use_registration_def Let_def named_by_def)
    next
      case (Inr im)
      with assms False have "join_cluster H rsp im ?la1 nd = Inr (nd1, la1, err)"
        by (auto simp: use_registration_def Let_def)
      moreover have "aa_ClusterId (la_arg ?la1) \<noteq> nil_uuid" using False by (simp add: pooled_def)
      ultimately show thesis
      proof (rule join_cluster_agent)
        fix n
        assume "la1 = ?la1\<lparr>la_dockerImageManager := Some im, la_expectedETCDNodeCount := n\<rparr>"
          "atoi (gm_str (ra_MasterSettings rsp) MasterSettings_ExpectedETCDNodeCount) = Some n"
          "prepare_host H im la1 nd = Inr (nd1, err)"
        with False Inr show thesis by (intro joined [where im = im and n = n]) (auto simp: named_by_def)
      qed
    qed
  qed
qed

lemma register_finish_cases:
  assumes "register_finish H url data la nd = Inr (nd1, la1, err)"
  obtains (refused) e w where "err = Some e" "e \<noteq> NotInitialized" "la1 = register_end (ho_now H (nd_world nd1)) err la"
      "nd1 = nd\<lparr>nd_world := w\<rparr>"
  | (answered) w rsp la2 where "read_registration H (snd (ho_Do H (nd_world nd) ''POST'' url data)) = Inr rsp"
      "use_registration H rsp la (nd\<lparr>nd_world := w\<rparr>) = Inr (nd1, la2, err)"
      "la1 = register_end (ho_now H (nd_world nd1)) err la2"
proof -
  obtain w answer where a: "ho_Do H (nd_world nd) ''POST'' url data = (w, answer)" by fastforce
  show thesis
  proof (cases "read_registration H answer")
    case (Inl e)
    then have "e \<noteq> NotInitialized" by (auto simp: read_registration_def split: sum.splits if_splits)
    with assms a Inl show thesis by (intro refused) (auto simp: register_finish_def)
  next
    case (Inr rsp)
    with assms a show thesis
      by (auto simp: register_finish_def elim!: bindC_InrE intro!: answered)
  qed
qed

lemma register_end_arg [simp]: "la_arg (register_end now err la) = la_arg la"
  by (simp add: register_end_def split: option.splits)

text \<open>A registration that succeeds changes neither the cluster nor the roles.\<close>

lemma register_finish_arg:
  assumes "register_finish H url data la nd = Inr (nd1, la1, None)"
  obtains rsp where "la_arg la1 = (la_arg la)\<lparr>aa_AgentId := ra_AgentId rsp, aa_LeaseId := ra_LeaseId rsp\<rparr>"
    and "read_registration H (snd (ho_Do H (nd_world nd) ''POST'' url data)) = Inr rsp"
    and "la_masterSettings la1 = ra_MasterSettings rsp"
  using assms
proof (cases rule: register_finish_cases)
  case (refused e w)
  then show ?thesis by simp
next
  case (answered w rsp la2)
  from answered(2) show ?thesis
  proof (cases rule: use_registration_cases)
    case (joined im n)
    with answered show ?thesis by (intro that [of rsp]) (auto simp: named_by_def register_end_def)
  qed auto
qed

text \<open>What a registration leaves behind, whether in one piece or cut at its request.\<close>

definition registered_well :: "agent_error option \<Rightarrow> lm_agent \<Rightarrow> bool" where
  "registered_well err la =
     (case err of
        None \<Rightarrow> la_hasRegistered la = 1 \<and> \<not> pooled (la_arg la) \<and> la_basicImages la \<noteq> None \<and>
          la_dockerImageManager la \<noteq> None \<and>
          atoi (gm_str (la_masterSettings la) MasterSettings_ExpectedETCDNodeCount) = Some (la_expectedETCDNodeCount la)
      | Some e \<Rightarrow> la_hasRegistered la = (if e = NotInitialized then -1 else 0) \<and> (e \<noteq> NotInitialized \<or> pooled (la_arg la)))"

lemma register_finish_well:
  assumes "register_finish H url data la nd = Inr (nd1, la1, err)" and "la_hasRegistered la = 0"
  shows "registered_well err la1"
  using assms(1)
proof (cases rule: register_finish_cases)
  case (refused e w)
  then show ?thesis by (simp add: registered_well_def register_end_def)
next
  case (answered w rsp la2)
  from answered(2) show ?thesis
  proof (cases rule: use_registration_cases)
    case pool
    with answered(3) show ?thesis by (simp add: registered_well_def register_end_def)
  next
    case (unsupported e)
    with answered(3) show ?thesis by (simp add: registered_well_def register_end_def)
  next
    case (joined im n)
    show ?thesis
    proof (cases err)
      case None
      with joined answered(3) assms(2) show ?thesis
        by (simp add: registered_well_def register_end_def named_by_def)
    next
      case (Some e)
      with joined(3) have "e \<noteq> NotInitialized" using prepare_host_error by blast
      with Some answered(3) show ?thesis by (simp add: registered_well_def register_end_def)
    qed
  qed
qed

text \<open>
  C11: a call of \<open>Register\<close> that was not settled before either leaves the agent registered, in a
  cluster with a role, with its images and a readable number of ETCD members; or it says that the
  agent waits in the pool, and then it has no cluster or no role; or it fails and stays unregistered.
\<close>

theorem registration_outcome:
  assumes "la_hasRegistered la = 0" and "agent_Register H la nd = Inr (nd1, la1, err)"
  shows "case err of
      None \<Rightarrow> la_hasRegistered la1 = 1 \<and> \<not> pooled (la_arg la1) \<and> la_basicImages la1 \<noteq> None \<and>
        la_dockerImageManager la1 \<noteq> None \<and>
        atoi (gm_str (la_masterSettings la1) MasterSettings_ExpectedETCDNodeCount) = Some (la_expectedETCDNodeCount la1)
    | Some e \<Rightarrow> la_hasRegistered la1 = (if e = NotInitialized then -1 else 0) \<and> (e \<noteq> NotInitialized \<or> pooled (la_arg la1))"
proof -
  obtain st where "register_begin H la (nd_world nd) = Inr st"
    using assms(2) by (cases "register_begin H la (nd_world nd)") (auto simp: agent_Register_def)
  then consider e where "st = Unsent e" "e \<noteq> NotInitialized" | url data where "st = Request url data"
    using assms(1) by (auto simp: register_begin_def elim!: bindC_InrE split: sum.splits option.splits if_splits)
  then have "registered_well err la1"
  proof cases
    case 1
    with assms \<open>register_begin H la (nd_world nd) = Inr st\<close> show ?thesis
      by (auto simp: agent_Register_def registered_well_def register_end_def)
  next
    case 2
    with assms(2) \<open>register_begin H la (nd_world nd) = Inr st\<close> have "register_finish H url data la nd = Inr (nd1, la1, err)"
      by (simp add: agent_Register_def)
    then show ?thesis using assms(1) by (rule register_finish_well)
  qed
  then show ?thesis by (simp only: registered_well_def)
qed

definition sample_args :: agent_args where
  "sample_args = \<lparr>aa_AgentId = [], aa_Server = [], aa_ClusterId = ''c1'', aa_Address = ''10.0.0.1'', aa_NodeLabels = None,
     aa_UsedEthernetInterface = ''eth0'', aa_LeaseId = 0, aa_IsETCDRole = False, aa_IsMasterRole = False,
     aa_IsMinionRole = True, aa_IsHARole = False, aa_ListenPort = 6060\<rparr>"

definition sample_registration :: register_agent_response where
  "sample_registration = \<lparr>re_ErrorId = 0, re_Reason = NoReason, re_NeedCrash = False, ra_AgentId = ''a1'',
     ra_BasicImages = zero_images\<lparr>ic_DownloadType := ''HTTP''\<rparr>, ra_ClusterId = ''c1'',
     ra_MasterSettings = [(MasterSettings_ExpectedETCDNodeCount, ''3'')], ra_LeaseId = 7\<rparr>"

definition minion_request :: change_request where
  "minion_request = \<lparr>cr_OldClusterId = ''c1'', cr_NewClusterId = ''c2'', cr_IsETCDRole = False, cr_IsMasterRole = False,
     cr_IsMinionRole = True, cr_IsHARole = False\<rparr>"

definition etcd_job :: agent_job where
  "etcd_job = \<lparr>aj_Name = AgentJob_Deploy_ETCD, aj_Arguments = [(''addresses'', ''10.0.0.1'')], aj_Reason = []\<rparr>"

definition serving_host :: "nat host" where
  "serving_host = quiet_host\<lparr>ho_UnmarshalRegister := \<lambda>s. Inr sample_registration,
     ho_UnmarshalCertificate := \<lambda>s. Inr long_certificate, ho_UnmarshalChange := \<lambda>s. Inr minion_request,
     ho_UnmarshalJob := \<lambda>s. Inr \<lparr>re_ErrorId = 0, re_Reason = NoReason, re_NeedCrash = False, nj_Job = Some etcd_job\<rparr>\<rparr>"

lemma serving_host_saves:
  "ho_Do serving_host w me url b = (w, Inr \<lparr>hn_StatusCode = 200, hn_Body = Inr []\<rparr>)"
  "snd (saveRemoteCertificate serving_host la name nd) = None"
  by (simp_all add: serving_host_def quiet_host_def saveRemoteCertificate_def read_certificate_def decode_ok_def
      long_certificate_def open_and_write_def Succeed_def Let_def)

lemma serving_host_saves_all: "snd (save_certificates serving_host la names nd) = None"
proof (induction names arbitrary: nd)
  case Nil
  then show ?case by simp
next
  case (Cons n names)
  from serving_host_saves(2) [of la n nd] obtain nd1 where "saveRemoteCertificate serving_host la n nd = (nd1, None)"
    by (metis prod.collapse)
  with Cons show ?case by simp
qed

lemma serving_host_downloads: "\<exists>nd1. downloadCertificates serving_host la nd = (nd1, None)"
  using serving_host_saves_all [of la neededCerts nd]
  by (auto simp: downloadCertificates_def serving_host_def quiet_host_def prod_eq_iff)

lemma serving_host_finishes:
  assumes "aa_IsMinionRole (la_arg la)" and "aa_ClusterId (la_arg la) \<noteq> nil_uuid"
  shows "\<exists>nd1 la1. register_finish serving_host url data la nd = Inr (nd1, la1, None)"
proof -
  have read: "read_registration serving_host (Inr \<lparr>hn_StatusCode = 200, hn_Body = Inr []\<rparr>) = Inr sample_registration"
    by (simp add: read_registration_def decode_ok_def serving_host_def quiet_host_def sample_registration_def Succeed_def)
  have number: "atoi ''3'' = Some 3" by (simp add: atoi_def parse_int_def signed_def)
  have manager: "NewDockerImageManager server (ra_BasicImages sample_registration) =
      Inr (HTTPDockerImageManager (ra_BasicImages sample_registration) server)" for server
    by (simp add: NewDockerImageManager_def sample_registration_def)
  have ready: "ic_Images (ra_BasicImages sample_registration) = []"
    by (simp add: sample_registration_def zero_images_def)
  have prepare: "\<exists>nd1. prepare_host serving_host (HTTPDockerImageManager (ra_BasicImages sample_registration) server) la nd = Inr (nd1, None)"
    if "aa_IsMinionRole (la_arg la)" for la nd server
    using serving_host_downloads [of la nd] that by (auto simp: prepare_host_def ready)
  have settings: "gm_str (ra_MasterSettings sample_registration) MasterSettings_ExpectedETCDNodeCount = ''3''"
    by (simp add: sample_registration_def gm_str_def)
  let ?la = "(named_by sample_registration la)\<lparr>la_basicImages := Some (ra_BasicImages sample_registration),
      la_masterSettings := ra_MasterSettings sample_registration,
      la_dockerImageManager := Some (HTTPDockerImageManager (ra_BasicImages sample_registration) (aa_Server (la_arg la))),
      la_expectedETCDNodeCount := 3\<rparr>"
  have "aa_IsMinionRole (la_arg ?la)" using assms(1) by (simp add: named_by_def)
  from prepare [OF this, of "aa_Server (la_arg la)" nd]
  have "\<exists>nd1 la1. use_registration serving_host sample_registration la nd = Inr (nd1, la1, None)"
    using assms by (auto simp: use_registration_def join_cluster_def adopt_cluster_def named_by_def
        manager settings number pooled_def hasInitializedRoles_def)
  then obtain nd1 la1 where use: "use_registration serving_host sample_registration la nd = Inr (nd1, la1, None)"
    by blast
  then show ?thesis by (simp add: register_finish_def serving_host_saves(1) read)
qed

lemma serving_host_asks:
  "la_hasRegistered la = 0 \<Longrightarrow>
     \<exists>data. register_begin serving_host la w = Inr (Request (register_url (la_arg la)) data)"
  by (simp add: register_begin_def agent_object_def serving_host_def quiet_host_def)

lemma sample_minion: "aa_IsMinionRole sample_args" "aa_ClusterId sample_args \<noteq> nil_uuid"
  by (simp_all add: sample_args_def nil_uuid_def)

theorem registration_outcome_witness:
  "\<exists>nd1 la1. agent_Register serving_host (new_agent sample_args ''/c'') \<lparr>nd_world = 0, nd_files = []\<rparr> = Inr (nd1, la1, None)
     \<and> la_hasRegistered la1 = 1 \<and> \<not> pooled (la_arg la1)"
proof -
  let ?la = "new_agent sample_args ''/c''" and ?nd = "\<lparr>nd_world = 0, nd_files = []\<rparr> :: nat node"
  have zero: "la_hasRegistered ?la = 0" and arg: "la_arg ?la = sample_args" by (simp_all add: new_agent_def)
  obtain data where "register_begin serving_host ?la (nd_world ?nd) = Inr (Request (register_url (la_arg ?la)) data)"
    using serving_host_asks [OF zero] by blast
  moreover obtain nd1 la1 where "register_finish serving_host (register_url (la_arg ?la)) data ?la ?nd = Inr (nd1, la1, None)"
    using serving_host_finishes [of ?la "register_url (la_arg ?la)" data ?nd] sample_minion unfolding arg by blast
  ultimately have "agent_Register serving_host ?la ?nd = Inr (nd1, la1, None)" by (simp add: agent_Register_def)
  with registration_outcome [OF zero this] show ?thesis by auto
qed

section \<open>The manifests of a master\<close>

text \<open>
  An agent started without \<open>--cert-dir\<close> never completes the deployment of a master, unless a directory
  \<open>/etc/manifests\<close> happens to exist: it looks for the manifests beside \<open>/etc/kubernetes\<close>, not inside it,
  where it finds them with the directory \<open>/etc/kubernetes/pki\<close> of the instructions.
\<close>

theorem default_cert_dir_breaks_masters:
  assumes "start_main addrs flags fixedId [] = Inr started" and "la_CertPath la = la_CertPath started"
    and "\<not> dir_exists H ''/etc/manifests''
      (fst (run_commands H (master_commands (la_CertPath la) (aa_Address (la_arg la)) (la_masterSettings la)) [] nd))"
  shows "(HandleDeployMaster H la nd = Inl NilDeref \<or> (\<exists>nd1 e. HandleDeployMaster H la nd = Inr (nd1, False, Some e))) \<and>
    path_join [''/etc/kubernetes/pki'', ''../'', ''manifests''] = ''/etc/kubernetes/manifests''"
proof
  have p: "la_CertPath la = ''/etc/kubernetes''" using assms(1,2) by (auto simp: start_main_def new_agent_def Let_def split: if_splits)
  have "path_join [''/etc/kubernetes'', ''../'', ''manifests''] = ''/etc/manifests''" by code_simp
  with assms(3) p show "HandleDeployMaster H la nd = Inl NilDeref \<or> (\<exists>nd1 e. HandleDeployMaster H la nd = Inr (nd1, False, Some e))"
    by (auto simp: HandleDeployMaster_def GenerateMasterCertificatesAndManifest_def Let_def split: prod.splits option.splits)
qed code_simp

theorem default_cert_dir_breaks_masters_witness:
  "\<exists>started. start_main (Inr []) (sample_args\<lparr>aa_Server := ''http://s''\<rparr>) [] [] = Inr started \<and>
     HandleDeployMaster (quiet_host\<lparr>ho_DirExists := \<lambda>w p. False\<rparr>) started \<lparr>nd_world = 0, nd_files = []\<rparr> = Inl NilDeref"
proof -
  let ?H = "quiet_host\<lparr>ho_DirExists := \<lambda>w p. False\<rparr>" and ?nd = "\<lparr>nd_world = 0, nd_files = []\<rparr> :: nat node"
  obtain started where s: "start_main (Inr []) (sample_args\<lparr>aa_Server := ''http://s''\<rparr>) [] [] = Inr started"
    by (simp add: start_main_def sample_args_def)
  have run: "run_commands ?H cs d ?nd = (?nd, None)" for cs d
    by (induction cs) (simp_all add: executeCommand_def quiet_host_def)
  have "\<not> dir_exists ?H p ?nd" for p by (simp add: dir_exists_def walk_files_def quiet_host_def)
  with default_cert_dir_breaks_masters [OF s refl, of ?H ?nd] s show ?thesis
    by (auto simp: run HandleDeployMaster_def GenerateMasterCertificatesAndManifest_def Let_def split: if_splits)
qed

section \<open>The host before the agent starts: main.go and cgroups.go\<close>

definition cgroup_roots :: "string list" where
  "cgroup_roots = [''/sys/fs/cgroup/blkio'', ''/sys/fs/cgroup/cpu'', ''/sys/fs/cgroup/cpuacct'', ''/sys/fs/cgroup/cpuset'',
     ''/sys/fs/cgroup/devices'', ''/sys/fs/cgroup/freezer'', ''/sys/fs/cgroup/hugetlb'', ''/sys/fs/cgroup/memory'',
     ''/sys/fs/cgroup/net_cls'', ''/sys/fs/cgroup/net_prio'', ''/sys/fs/cgroup/perf_event'', ''/sys/fs/cgroup/pids'',
     ''/sys/fs/cgroup/systemd'']"

definition cgroup_subdirectories :: "string list" where
  "cgroup_subdirectories = [''kube-reserved'', ''system-reserved'']"

definition cgroup_paths :: "string list" where
  "cgroup_paths = concat (map (\<lambda>v. map (\<lambda>subPath. path_join [v, subPath]) cgroup_subdirectories) cgroup_roots)"

text \<open>\<open>mkdir\<close> is \<open>os.MkdirAll\<close>, whose error is dropped.\<close>

definition createCgroupsSubDirectories :: "('w \<Rightarrow> string \<Rightarrow> 'w) \<Rightarrow> 'w \<Rightarrow> 'w" where
  "createCgroupsSubDirectories mkdir w = fold (\<lambda>path v. mkdir v path) cgroup_paths w"

text \<open>On Linux \<open>main\<close> first copies the CNI binaries (\<open>sh\<close> runs a shell command) and makes these directories.\<close>

definition prepare_linux ::
  "bool \<Rightarrow> ('w \<Rightarrow> string \<Rightarrow> 'w \<times> error option) \<Rightarrow> ('w \<Rightarrow> string \<Rightarrow> 'w) \<Rightarrow> 'w \<Rightarrow> crash + 'w" where
  "prepare_linux linux sh mkdir w =
     (if \<not> linux then Inr w
      else case sh w ''cp -rf /tmp/cni/* /opt/cni/bin/'' of
             (w1, Some e) \<Rightarrow> Inl FatalExit
           | (w1, None) \<Rightarrow> Inr (createCgroupsSubDirectories mkdir w1))"

text \<open>The value of a flag on a command line.\<close>

definition flag_values :: "string \<Rightarrow> string list \<Rightarrow> string list" where
  "flag_values flag args = map (drop (length flag)) (filter (is_prefix flag) args)"

lemma cgroup_paths_eq: "cgroup_paths = concat (map (\<lambda>v. [v @ ''/kube-reserved'', v @ ''/system-reserved'']) cgroup_roots)"
  by code_simp

text \<open>
  The directories that the agent makes when it starts are the ones of the two control groups that it
  later names to the kubelet, under each of the thirteen controllers.
\<close>

theorem kubelet_cgroups_made:
  "\<exists>k s. flag_values ''--kube-reserved-cgroup='' (kubelet_command certPath arg settings infra) = [k] \<and>
     flag_values ''--system-reserved-cgroup='' (kubelet_command certPath arg settings infra) = [s] \<and>
     cgroup_paths = concat (map (\<lambda>v. [v @ k, v @ s]) cgroup_roots)"
  by (intro exI [of _ "''/kube-reserved''"] exI [of _ "''/system-reserved''"])
     (simp add: flag_values_def kubelet_command_def cgroup_paths_eq split: option.split)

text \<open>Every one of them is there afterwards, where making a directory makes it and removes none.\<close>

theorem cgroup_directories_exist:
  assumes "\<And>w p. exists_dir (mkdir w p) p" and "\<And>w p q. exists_dir w q \<Longrightarrow> exists_dir (mkdir w p) q"
    and "prepare_linux True sh mkdir w = Inr w'"
  shows "list_all (exists_dir w') cgroup_paths"
proof -
  have "list_all (exists_dir (fold (\<lambda>path v. mkdir v path) ps v)) (qs @ ps)" if "list_all (exists_dir v) qs" for ps qs v
    using that
  proof (induction ps arbitrary: v qs)
    case (Cons p ps)
    have "list_all (exists_dir (mkdir v p)) (qs @ [p])" using Cons.prems assms(1,2) by (auto simp: list_all_iff)
    from Cons.IH [OF this] show ?case by simp
  qed simp
  from this [of _ "[]"] assms(3) show ?thesis
    by (auto simp: prepare_linux_def createCgroupsSubDirectories_def split: prod.splits option.splits)
qed

end
