(* ===== verification/AgentLoops.thy ===== *)
theory AgentLoops
  imports AgentProcess
begin

text \<open>
  The loops of the running agent: \<open>Start\<close>, \<open>performJob\<close>, \<open>handleJob\<close>, \<open>reportStatus\<close> and
  \<open>startStatusTracing\<close> of \<open>register.go\<close>, the health checks of \<open>jobs.go\<close> and the two handlers of
  \<open>http_server.go\<close>, as turns of one process.

  A job is shared: the main loop enqueues it and then looks at it every second, the other goroutine
  performs it. Each look and each phase of a job (check, deployment) is a turn.
\<close>

section \<open>Jobs\<close>

definition set_done :: "nat \<Rightarrow> lm_agent \<Rightarrow> lm_agent" where
  "set_done i la = la\<lparr>la_jobs := (la_jobs la)(i := (la_jobs la i)\<lparr>lj_HadDone := True\<rparr>)\<rparr>"

definition set_handler :: "nat \<Rightarrow> job_handler \<Rightarrow> lm_agent \<Rightarrow> lm_agent" where
  "set_handler i h la = la\<lparr>la_jobs := (la_jobs la)(i := (la_jobs la i)\<lparr>lj_HealthCheckHandler := Some h\<rparr>)\<rparr>"

text \<open>The phases of \<open>handleJob\<close>; the last two return whether the job goes on.\<close>

definition find_handler :: "nat \<Rightarrow> lm_agent \<Rightarrow> crash + lm_agent \<times> job_handler" where
  "find_handler i la =
     (case GetHandler (aj_Name (lj_job (la_jobs la i))) of
        None \<Rightarrow> Inl FatalExit
      | Some h \<Rightarrow> Inr (set_handler i h la, h))"

definition check_job ::
  "'w host \<Rightarrow> nat \<Rightarrow> job_handler \<Rightarrow> lm_agent \<Rightarrow> 'w node \<Rightarrow> crash + 'w node \<times> lm_agent \<times> bool \<times> agent_error option" where
  "check_job H i h la nd =
     bindC (check_health H h la nd) (\<lambda>(nd1, healthy, e).
       case e of
         Some err \<Rightarrow> Inr (nd1, set_done i la, False, Some (PlainError (EWrap ''Phase -> Health Check'' (inner_error err))))
       | None \<Rightarrow> (if healthy then Inr (nd1, set_done i la, False, None) else Inr (nd1, la, True, None)))"

definition deploy_job ::
  "'w host \<Rightarrow> nat \<Rightarrow> job_handler \<Rightarrow> lm_agent \<Rightarrow> 'w node \<Rightarrow> crash + 'w node \<times> lm_agent \<times> agent_error option" where
  "deploy_job H i h la nd =
     bindC (deploy H h (lj_job (la_jobs la i)) la nd) (\<lambda>(nd1, succeed, e).
       case e of
         Some err \<Rightarrow>
           (if is_crash H err then Inl FatalExit
            else Inr (nd1, set_done i la, Some (PlainError (EWrap ''Failed to process job'' (inner_error err)))))
       | None \<Rightarrow>
           (if succeed then Inr (nd1, la, None)
            else Inr (nd1, set_done i la, Some (PlainError (EUnhealthy ''job'' ''un-successful status'')))))"

definition handleJob ::
  "'w host \<Rightarrow> nat \<Rightarrow> lm_agent \<Rightarrow> 'w node \<Rightarrow> crash + 'w node \<times> lm_agent \<times> agent_error option" where
  "handleJob H i la nd =
     bindC (find_handler i la) (\<lambda>(la1, h).
     bindC (check_job H i h la1 nd) (\<lambda>(nd1, la2, go_on, e).
       if go_on then deploy_job H i h la2 nd1 else Inr (nd1, la2, e)))"

section \<open>The process\<close>

text \<open>
  Where the main loop stands: about to register, waiting for the answer to a registration, about to
  ask for a job, about to enqueue one, or watching the current one.
\<close>

datatype main_point = Sleeping | Registering string string | Querying | Offering nat | Watching

datatype worker_point = Idle | Checking nat job_handler | Deploying nat job_handler

record 'w process =
  pr_node :: "'w node"
  pr_agent :: lm_agent
  pr_main :: main_point
  pr_worker :: worker_point

text \<open>The errors of \<open>Register\<close> and \<open>queryJob\<close>: the process ends or the loop begins again.\<close>

definition main_failed :: "'w host \<Rightarrow> agent_error \<Rightarrow> 'w process \<Rightarrow> crash + 'w process" where
  "main_failed H e p =
     (if e = NotInitialized then Inr (p\<lparr>pr_main := Sleeping\<rparr>)
      else if is_crash H e then Inl FatalExit else Inr (p\<lparr>pr_main := Sleeping\<rparr>))"

definition main_registered :: "'w host \<Rightarrow> agent_error option \<Rightarrow> 'w process \<Rightarrow> crash + 'w process" where
  "main_registered H err p =
     (case err of None \<Rightarrow> Inr (p\<lparr>pr_main := Querying\<rparr>) | Some e \<Rightarrow> main_failed H e p)"

definition begin_registration :: "'w host \<Rightarrow> 'w process \<Rightarrow> crash + 'w process" where
  "begin_registration H p =
     bindC (register_begin H (pr_agent p) (nd_world (pr_node p))) (\<lambda>st.
       case st of
         Settled err \<Rightarrow> main_registered H err p
       | Unsent e \<Rightarrow> main_failed H e (p\<lparr>pr_agent := register_end (ho_now H (nd_world (pr_node p))) (Some e) (pr_agent p)\<rparr>)
       | Request url data \<Rightarrow> Inr (p\<lparr>pr_main := Registering url data\<rparr>))"

definition finish_registration :: "'w host \<Rightarrow> string \<Rightarrow> string \<Rightarrow> 'w process \<Rightarrow> crash + 'w process" where
  "finish_registration H url data p =
     bindC (register_finish H url data (pr_agent p) (pr_node p)) (\<lambda>(nd, la, err).
       main_registered H err (p\<lparr>pr_node := nd, pr_agent := la\<rparr>))"

definition new_job :: "agent_job \<Rightarrow> lm_agent \<Rightarrow> lm_agent" where
  "new_job job la = la\<lparr>la_nextJob := Suc (la_nextJob la), la_jobs := (la_jobs la)(la_nextJob la :=
     \<lparr>lj_job = job, lj_HadDone = False, lj_HealthCheckHandler = None\<rparr>)\<rparr>"

definition query_turn :: "'w host \<Rightarrow> 'w process \<Rightarrow> crash + 'w process" where
  "query_turn H p =
     (case queryJob H (pr_agent p) (pr_node p) of
        (nd, Inl e) \<Rightarrow> main_failed H e (p\<lparr>pr_node := nd\<rparr>)
      | (nd, Inr None) \<Rightarrow> Inr (p\<lparr>pr_node := nd, pr_main := Sleeping\<rparr>)
      | (nd, Inr (Some job)) \<Rightarrow>
          (if aj_Name job = AgentJob_NOP then Inr (p\<lparr>pr_node := nd, pr_main := Sleeping\<rparr>)
           else Inr (p\<lparr>pr_node := nd, pr_agent := new_job job (pr_agent p), pr_main := Offering (la_nextJob (pr_agent p))\<rparr>)))"

text \<open>The queue holds one job; a second one blocks the main loop.\<close>

definition offer_turn :: "nat \<Rightarrow> 'w process \<Rightarrow> 'w process" where
  "offer_turn i p =
     (if length (la_workQueue (pr_agent p)) < 1
      then p\<lparr>pr_agent := (pr_agent p)\<lparr>la_workQueue := la_workQueue (pr_agent p) @ [i], la_currentJob := Some i\<rparr>,
             pr_main := Watching\<rparr>
      else p)"

definition leave_job :: "'w process \<Rightarrow> 'w process" where
  "leave_job p = p\<lparr>pr_agent := (pr_agent p)\<lparr>la_currentJob := None\<rparr>, pr_main := Sleeping\<rparr>"

definition watch_turn :: "'w host \<Rightarrow> 'w process \<Rightarrow> crash + 'w process" where
  "watch_turn H p =
     (case la_currentJob (pr_agent p) of
        None \<Rightarrow> Inr (leave_job p)
      | Some i \<Rightarrow>
        (if lj_HadDone (la_jobs (pr_agent p) i) then Inr (leave_job p)
         else case lj_HealthCheckHandler (la_jobs (pr_agent p) i) of
           None \<Rightarrow> Inr p
         | Some h \<Rightarrow>
           bindC (check_health H h (pr_agent p) (pr_node p)) (\<lambda>(nd, healthy, e).
             if e = None \<and> healthy then Inr (leave_job (p\<lparr>pr_node := nd\<rparr>)) else Inr (p\<lparr>pr_node := nd\<rparr>))))"

definition main_turn :: "'w host \<Rightarrow> 'w process \<Rightarrow> crash + 'w process" where
  "main_turn H p =
     (case pr_main p of
        Sleeping \<Rightarrow> begin_registration H p
      | Registering url data \<Rightarrow> finish_registration H url data p
      | Querying \<Rightarrow> query_turn H p
      | Offering i \<Rightarrow> Inr (offer_turn i p)
      | Watching \<Rightarrow> watch_turn H p)"

text \<open>\<open>performJob\<close>: an error of \<open>handleJob\<close> is logged.\<close>

definition worker_turn :: "'w host \<Rightarrow> 'w process \<Rightarrow> crash + 'w process" where
  "worker_turn H p =
     (case pr_worker p of
        Idle \<Rightarrow>
          (case la_workQueue (pr_agent p) of
             [] \<Rightarrow> Inr p
           | i # q \<Rightarrow> bindC (find_handler i ((pr_agent p)\<lparr>la_workQueue := q\<rparr>)) (\<lambda>(la, h).
               Inr (p\<lparr>pr_agent := la, pr_worker := Checking i h\<rparr>)))
      | Checking i h \<Rightarrow>
          bindC (check_job H i h (pr_agent p) (pr_node p)) (\<lambda>(nd, la, go_on, e).
            Inr (p\<lparr>pr_node := nd, pr_agent := la, pr_worker := (if go_on then Deploying i h else Idle)\<rparr>))
      | Deploying i h \<Rightarrow>
          bindC (deploy_job H i h (pr_agent p) (pr_node p)) (\<lambda>(nd, la, e).
            Inr (p\<lparr>pr_node := nd, pr_agent := la, pr_worker := Idle\<rparr>)))"

definition job_key :: "job_handler \<Rightarrow> string" where
  "job_key h = (case h of HandlerETCD \<Rightarrow> AgentJob_Deploy_ETCD | HandlerMaster \<Rightarrow> AgentJob_Deploy_Master
     | HandlerMinion \<Rightarrow> AgentJob_Deploy_Minion | HandlerHA \<Rightarrow> AgentJob_Deploy_HA)"

text \<open>A round of a health check and the receipt of its message by \<open>startStatusTracing\<close>.\<close>

definition health_turn :: "'w host \<Rightarrow> job_handler \<Rightarrow> 'w process \<Rightarrow> crash + 'w process" where
  "health_turn H h p =
     bindC (healthCheck H h (pr_agent p) (pr_node p)) (\<lambda>(nd, item).
       case trace_status H (job_key h) item (pr_agent p) nd of
         (nd1, la) \<Rightarrow> Inr (p\<lparr>pr_node := nd1, pr_agent := la\<rparr>))"

text \<open>One round of \<open>reportStatus\<close>.\<close>

definition report_turn :: "'w host \<Rightarrow> 'w process \<Rightarrow> crash + 'w process" where
  "report_turn H p =
     (if la_hasRegistered (pr_agent p) = 0 then Inr p
      else case reportStatusInternal H (pr_agent p) (pr_node p) of
        (nd, la, None) \<Rightarrow> Inr (p\<lparr>pr_node := nd, pr_agent := la\<rparr>)
      | (nd, la, Some e) \<Rightarrow> (if is_crash H e then Inl FatalExit else Inr (p\<lparr>pr_node := nd, pr_agent := la\<rparr>)))"

datatype turn = MainTurn | WorkerTurn | HealthTurn job_handler | ReportTurn
  | ChangeTurn "error + string" | RoutesTurn "error + string"

fun agent_turn :: "'w host \<Rightarrow> turn \<Rightarrow> 'w process \<Rightarrow> crash + 'w process" where
  "agent_turn H MainTurn p = main_turn H p"
| "agent_turn H WorkerTurn p = worker_turn H p"
| "agent_turn H (HealthTurn h) p = health_turn H h p"
| "agent_turn H ReportTurn p = report_turn H p"
| "agent_turn H (ChangeTurn body) p =
     (case RegistrationDataChange H body (pr_agent p) (pr_node p) of
        (nd, la, rsp) \<Rightarrow> Inr (p\<lparr>pr_node := nd, pr_agent := la\<rparr>))"
| "agent_turn H (RoutesTurn body) p =
     (case GenerateSystemRoutingRules H body (pr_agent p) (pr_node p) of
        (nd, rsp) \<Rightarrow> Inr (p\<lparr>pr_node := nd\<rparr>))"

fun agent_turns :: "'w host \<Rightarrow> turn list \<Rightarrow> 'w process \<Rightarrow> crash + 'w process" where
  "agent_turns H [] p = Inr p"
| "agent_turns H (t # ts) p = bindC (agent_turn H t p) (agent_turns H ts)"

inductive agent_step :: "'w host \<Rightarrow> 'w process \<Rightarrow> 'w process \<Rightarrow> bool" for H where
  turn: "agent_turn H t p = Inr p' \<Longrightarrow> agent_step H p p'"

definition new_process :: "lm_agent \<Rightarrow> 'w node \<Rightarrow> 'w process" where
  "new_process la nd = \<lparr>pr_node = nd, pr_agent = start_agent la, pr_main = Sleeping, pr_worker = Idle\<rparr>"

section \<open>The two loops\<close>

lemmas turn_defs = main_turn_def worker_turn_def health_turn_def report_turn_def

text \<open>
  Three turns of the goroutine that performs jobs are one call of \<open>handleJob\<close> on the job of the
  queue, whatever that call does: the same end of the process, or the same agent, node and outcome.
\<close>

theorem worker_performs_job:
  assumes "pr_worker p = Idle" and "la_workQueue (pr_agent p) = [i]"
  shows "agent_turns H [WorkerTurn, WorkerTurn, WorkerTurn] p =
     bindC (handleJob H i ((pr_agent p)\<lparr>la_workQueue := []\<rparr>) (pr_node p)) (\<lambda>(nd, la, e).
       Inr (p\<lparr>pr_node := nd, pr_agent := la, pr_worker := Idle\<rparr>))"
proof (cases "find_handler i ((pr_agent p)\<lparr>la_workQueue := []\<rparr>)")
  case (Inl c)
  with assms show ?thesis by (simp add: worker_turn_def handleJob_def)
next
  case (Inr r)
  obtain la1 h where r: "r = (la1, h)" by (cases r)
  have q1: "la_workQueue la1 = []"
    using Inr r by (auto simp: find_handler_def set_handler_def split: option.splits)
  let ?p1 = "p\<lparr>pr_agent := la1, pr_worker := Checking i h\<rparr>"
  have t1: "agent_turn H WorkerTurn p = Inr ?p1"
    using assms Inr r by (simp add: worker_turn_def)
  show ?thesis
  proof (cases "check_job H i h la1 (pr_node p)")
    case (Inl c)
    with t1 \<open>find_handler i ((pr_agent p)\<lparr>la_workQueue := []\<rparr>) = Inr r\<close> r show ?thesis
      by (simp add: worker_turn_def handleJob_def)
  next
    case c: (Inr s)
    obtain nd2 la2 go_on e where s: "s = (nd2, la2, go_on, e)" by (cases s)
    have q2: "la_workQueue la2 = []"
      using c s q1 by (auto simp: check_job_def set_done_def elim!: bindC_InrE split: option.splits if_splits prod.splits)
    have t2: "agent_turn H WorkerTurn ?p1 =
        Inr (p\<lparr>pr_node := nd2, pr_agent := la2, pr_worker := (if go_on then Deploying i h else Idle)\<rparr>)"
      using c s by (simp add: worker_turn_def)
    show ?thesis
    proof (cases go_on)
      case False
      with t1 t2 c s Inr r q2 show ?thesis by (simp add: worker_turn_def handleJob_def)
    next
      case True
      show ?thesis
      proof (cases "deploy_job H i h la2 nd2")
        case (Inl d)
        with True t1 t2 c s Inr r \<open>find_handler i ((pr_agent p)\<lparr>la_workQueue := []\<rparr>) = Inr r\<close> show ?thesis
          by (simp add: worker_turn_def handleJob_def)
      next
        case d: (Inr u)
        obtain nd3 la3 e3 where u: "u = (nd3, la3, e3)" by (cases u)
        have q3: "la_workQueue la3 = []"
          using d u q2 by (auto simp: deploy_job_def set_done_def elim!: bindC_InrE split: option.splits if_splits prod.splits)
        with True t1 t2 c s d u \<open>find_handler i ((pr_agent p)\<lparr>la_workQueue := []\<rparr>) = Inr r\<close> r show ?thesis
          by (simp add: worker_turn_def handleJob_def)
      qed
    qed
  qed
qed

section \<open>What each operation leaves alone\<close>

definition same_jobs :: "lm_agent \<Rightarrow> lm_agent \<Rightarrow> bool" where
  "same_jobs la la1 \<longleftrightarrow> la_jobs la1 = la_jobs la \<and> la_nextJob la1 = la_nextJob la \<and>
     la_workQueue la1 = la_workQueue la \<and> la_currentJob la1 = la_currentJob la"

lemma same_jobs_trans: "same_jobs a b \<Longrightarrow> same_jobs b c \<Longrightarrow> same_jobs a c"
  by (simp add: same_jobs_def)

lemma trace_frame:
  "trace_status H k it la nd = (nd1, la1) \<Longrightarrow>
     la1 = la\<lparr>la_ItemsStatus := la_ItemsStatus la1, la_rr := la_rr la1\<rparr>"
  by (auto simp: trace_status_def updateRecoveryFile_def Let_def split: option.splits)

lemma change_frame:
  "RegistrationDataChange H b la nd = (nd1, la1, rsp) \<Longrightarrow>
     la1 = la \<or> la1 = la\<lparr>la_arg := la_arg la1, la_rr := la_rr la1, la_hasRegistered := 0\<rparr>"
  by (auto simp: RegistrationDataChange_def apply_change_def Let_def split: sum.splits if_splits)

lemma report_frame:
  "reportStatusInternal H la nd = (nd1, la1, err) \<Longrightarrow> \<exists>lease. la1 = la\<lparr>la_arg := (la_arg la)\<lparr>aa_LeaseId := lease\<rparr>\<rparr>"
  by (auto simp: reportStatusInternal_def split: sum.splits option.splits prod.splits
      intro: exI [of _ "aa_LeaseId (la_arg la)"])

lemma adopt_frame:
  "adopt_cluster H cid la nd = Inr (nd1, la1) \<Longrightarrow> same_jobs la la1 \<and> la_basicImages la1 = la_basicImages la
     \<and> la_hasRegistered la1 = la_hasRegistered la"
  by (auto simp: adopt_cluster_def same_jobs_def Let_def split: if_splits option.splits prod.splits)

lemma use_frame:
  assumes "use_registration H rsp la nd = Inr (nd1, la1, err)"
  shows "same_jobs la la1 \<and> (la_basicImages la \<noteq> None \<longrightarrow> la_basicImages la1 \<noteq> None)
     \<and> la_hasRegistered la1 = la_hasRegistered la"
  using assms
  by (auto simp: use_registration_def join_cluster_def named_by_def same_jobs_def Let_def
      elim!: bindC_InrE dest!: adopt_frame split: if_splits sum.splits option.splits)

lemma end_frame: "same_jobs la (register_end now err la) \<and> la_basicImages (register_end now err la) = la_basicImages la"
  by (simp add: register_end_def same_jobs_def split: option.splits)

lemma finish_frame:
  assumes "register_finish H url data la nd = Inr (nd1, la1, err)"
  shows "same_jobs la la1" and "la_basicImages la \<noteq> None \<Longrightarrow> la_basicImages la1 \<noteq> None"
proof -
  have "same_jobs la la1 \<and> (la_basicImages la \<noteq> None \<longrightarrow> la_basicImages la1 \<noteq> None)"
    using assms
  proof (cases rule: register_finish_cases)
    case (refused e w)
    then show ?thesis using end_frame by simp
  next
    case (answered w rsp la2)
    then show ?thesis using use_frame [OF answered(2)] end_frame [of la2] same_jobs_trans by metis
  qed
  then show "same_jobs la la1" and "la_basicImages la \<noteq> None \<Longrightarrow> la_basicImages la1 \<noteq> None" by auto
qed

text \<open>The phases of a job touch only the entry of that job.\<close>

lemma check_job_agent:
  "check_job H i h la nd = Inr (nd1, la1, go_on, e) \<Longrightarrow> la1 = (if go_on then la else set_done i la)"
  by (auto simp: check_job_def elim!: bindC_InrE split: option.splits if_splits)

lemma deploy_job_agent:
  "deploy_job H i h la nd = Inr (nd1, la1, e) \<Longrightarrow> la1 = la \<or> la1 = set_done i la"
  by (auto simp: deploy_job_def elim!: bindC_InrE split: option.splits if_splits)

lemma find_handler_agent:
  "find_handler i la = Inr (la1, h) \<Longrightarrow> la1 = set_handler i h la \<and> GetHandler (aj_Name (lj_job (la_jobs la i))) = Some h"
  by (auto simp: find_handler_def split: option.splits)

section \<open>The invariant of the process\<close>

definition job_handled :: "lm_agent \<Rightarrow> nat \<Rightarrow> job_handler \<Rightarrow> bool" where
  "job_handled la i h \<longleftrightarrow> i < la_nextJob la \<and> GetHandler (aj_Name (lj_job (la_jobs la i))) = Some h"

definition jobs_inv :: "lm_agent \<Rightarrow> main_point \<Rightarrow> worker_point \<Rightarrow> bool" where
  "jobs_inv la main worker \<longleftrightarrow>
     length (la_workQueue la) \<le> 1 \<and> (\<forall>i \<in> set (la_workQueue la). i < la_nextJob la) \<and>
     (\<forall>i h. lj_HealthCheckHandler (la_jobs la i) = Some h \<longrightarrow> job_handled la i h) \<and>
     (\<forall>i h. worker = Checking i h \<or> worker = Deploying i h \<longrightarrow> job_handled la i h) \<and>
     (\<forall>i. main = Offering i \<longrightarrow> i < la_nextJob la) \<and>
     (main = Watching \<longleftrightarrow> la_currentJob la \<noteq> None)"

definition needs_images :: "lm_agent \<Rightarrow> main_point \<Rightarrow> worker_point \<Rightarrow> bool" where
  "needs_images la main worker \<longleftrightarrow> la_hasRegistered la = 1 \<or> la_workQueue la \<noteq> [] \<or> worker \<noteq> Idle \<or>
     main \<noteq> Sleeping \<and> (\<forall>u d. main \<noteq> Registering u d)"

definition flag_inv :: "lm_agent \<Rightarrow> main_point \<Rightarrow> worker_point \<Rightarrow> bool" where
  "flag_inv la main worker \<longleftrightarrow>
     la_hasRegistered la \<in> {-1, 0, 1} \<and> (\<forall>u d. main = Registering u d \<longrightarrow> la_hasRegistered la = 0) \<and>
     (needs_images la main worker \<longrightarrow> la_basicImages la \<noteq> None)"

definition process_inv :: "'w process \<Rightarrow> bool" where
  "process_inv p \<longleftrightarrow> jobs_inv (pr_agent p) (pr_main p) (pr_worker p) \<and> flag_inv (pr_agent p) (pr_main p) (pr_worker p)"

lemmas inv_defs = process_inv_def jobs_inv_def flag_inv_def needs_images_def

lemma same_jobs_inv: "same_jobs la la1 \<Longrightarrow> jobs_inv la1 main worker = jobs_inv la main worker"
  unfolding jobs_inv_def job_handled_def same_jobs_def by simp

lemma main_failed_inv:
  "main_failed H e p = Inr p' \<Longrightarrow> p' = p\<lparr>pr_main := Sleeping\<rparr>"
  by (auto simp: main_failed_def split: if_splits)

lemma main_registered_inv:
  "main_registered H err p = Inr p' \<Longrightarrow> p' = p\<lparr>pr_main := (if err = None then Querying else Sleeping)\<rparr>"
  by (auto simp: main_registered_def dest!: main_failed_inv split: option.splits)

lemma begin_keeps:
  assumes "process_inv p" and "pr_main p = Sleeping" and "begin_registration H p = Inr p'"
  shows "process_inv p'"
proof -
  have cur: "la_currentJob (pr_agent p) = None" using assms(1,2) by (simp add: inv_defs)
  from assms(3) obtain st where st: "register_begin H (pr_agent p) (nd_world (pr_node p)) = Inr st"
    by (auto simp: begin_registration_def elim!: bindC_InrE)
  show ?thesis
  proof (cases st)
    case (Settled err)
    with st have one: "la_hasRegistered (pr_agent p) = 1 \<or> err \<noteq> None"
      by (auto simp: register_begin_def elim!: bindC_InrE split: if_splits sum.splits option.splits)
    have "p' = p\<lparr>pr_main := (if err = None then Querying else Sleeping)\<rparr>"
      using assms(3) st Settled by (auto simp: begin_registration_def dest!: main_registered_inv)
    with assms(1,2) one cur show ?thesis by (cases err) (auto simp: inv_defs)
  next
    case (Unsent e)
    let ?la = "register_end (ho_now H (nd_world (pr_node p))) (Some e) (pr_agent p)"
    have "p' = p\<lparr>pr_agent := ?la, pr_main := Sleeping\<rparr>"
      using assms(3) st Unsent by (auto simp: begin_registration_def dest!: main_failed_inv)
    moreover have "jobs_inv ?la Sleeping (pr_worker p)"
      using assms(1,2) same_jobs_inv [OF conjunct1 [OF end_frame]] by (auto simp: process_inv_def)
    moreover have "flag_inv ?la Sleeping (pr_worker p)"
      using assms(1,2) by (auto simp: inv_defs register_end_def)
    ultimately show ?thesis by (simp add: process_inv_def)
  next
    case (Request url data)
    with st have "la_hasRegistered (pr_agent p) \<noteq> 1" "la_hasRegistered (pr_agent p) \<noteq> -1"
      by (auto simp: register_begin_def split: if_splits)
    with assms st Request cur show ?thesis by (auto simp: begin_registration_def inv_defs)
  qed
qed

lemma finish_keeps:
  assumes "process_inv p" and "pr_main p = Registering url data" and "finish_registration H url data p = Inr p'"
  shows "process_inv p'"
proof -
  from assms(3) obtain nd la err where fin: "register_finish H url data (pr_agent p) (pr_node p) = Inr (nd, la, err)"
    and p': "p' = p\<lparr>pr_node := nd, pr_agent := la, pr_main := (if err = None then Querying else Sleeping)\<rparr>"
    by (auto simp: finish_registration_def elim!: bindC_InrE dest!: main_registered_inv)
  have zero: "la_hasRegistered (pr_agent p) = 0" using assms(1,2) by (simp add: inv_defs)
  note well = register_finish_well [OF fin zero] and frame = finish_frame [OF fin]
  have same: "la_workQueue la = la_workQueue (pr_agent p)" "la_currentJob la = la_currentJob (pr_agent p)"
    using frame(1) by (simp_all add: same_jobs_def)
  have "jobs_inv la (if err = None then Querying else Sleeping) (pr_worker p)"
    using assms(1,2) same_jobs_inv [OF frame(1)] by (auto simp: process_inv_def jobs_inv_def)
  moreover have "flag_inv la (if err = None then Querying else Sleeping) (pr_worker p)"
    using assms(1,2) well frame(2) same by (auto simp: inv_defs registered_well_def split: option.splits)
  ultimately show ?thesis by (simp add: process_inv_def p')
qed

lemma query_keeps:
  assumes "process_inv p" and "pr_main p = Querying" and "query_turn H p = Inr p'"
  shows "process_inv p'"
proof -
  obtain nd r where q: "queryJob H (pr_agent p) (pr_node p) = (nd, r)" by fastforce
  let ?la = "pr_agent p"
  have idle: "process_inv (p\<lparr>pr_node := nd, pr_main := Sleeping\<rparr>)" using assms(1,2) by (auto simp: inv_defs)
  have handled: "job_handled (new_job job ?la) i h" if "job_handled ?la i h" for job i h
    using that by (auto simp: job_handled_def new_job_def)
  have fresh: "lj_HealthCheckHandler (la_jobs (new_job job ?la) i) = Some h \<Longrightarrow> job_handled (new_job job ?la) i h" for job i h
    using assms(1) handled by (auto simp: new_job_def inv_defs split: if_splits)
  have "jobs_inv (new_job job ?la) (Offering (la_nextJob ?la)) (pr_worker p)" for job
    using assms(1,2) fresh handled by (auto simp: process_inv_def jobs_inv_def) (auto simp: new_job_def less_SucI)
  moreover have "flag_inv (new_job job ?la) (Offering (la_nextJob ?la)) (pr_worker p)" for job
    using assms(1,2) by (auto simp: inv_defs new_job_def)
  ultimately have "process_inv (p\<lparr>pr_node := nd, pr_agent := new_job job ?la, pr_main := Offering (la_nextJob ?la)\<rparr>)" for job
    by (simp add: process_inv_def)
  with idle show ?thesis
    using assms(3) q by (auto simp: query_turn_def dest!: main_failed_inv split: sum.splits option.splits if_splits)
qed

lemma offer_keeps: "process_inv p \<Longrightarrow> pr_main p = Offering i \<Longrightarrow> process_inv (offer_turn i p)"
  by (auto simp: offer_turn_def inv_defs job_handled_def)

lemma leave_keeps: "process_inv p \<Longrightarrow> pr_main p = Watching \<Longrightarrow> process_inv (leave_job p)"
  by (auto simp: leave_job_def inv_defs job_handled_def)

lemma node_keeps: "process_inv (p\<lparr>pr_node := nd\<rparr>) = process_inv p"
  by (simp add: process_inv_def)

lemma watch_turn_cases:
  "watch_turn H p = Inr p' \<Longrightarrow> \<exists>nd. p' = p\<lparr>pr_node := nd\<rparr> \<or> p' = leave_job (p\<lparr>pr_node := nd\<rparr>)"
  by (cases p) (auto simp: watch_turn_def elim!: bindC_InrE split: option.splits if_splits)

lemma main_keeps:
  assumes "process_inv p" and "main_turn H p = Inr p'"
  shows "process_inv p'"
proof (cases "pr_main p")
  case Sleeping
  with assms show ?thesis by (auto simp: main_turn_def intro: begin_keeps)
next
  case (Registering u d)
  with assms show ?thesis by (auto simp: main_turn_def intro: finish_keeps)
next
  case Querying
  with assms show ?thesis by (auto simp: main_turn_def intro: query_keeps)
next
  case (Offering i)
  with assms show ?thesis by (auto simp: main_turn_def intro: offer_keeps)
next
  case Watching
  with assms(2) have "watch_turn H p = Inr p'" by (simp add: main_turn_def)
  from watch_turn_cases [OF this] obtain nd where "p' = p\<lparr>pr_node := nd\<rparr> \<or> p' = leave_job (p\<lparr>pr_node := nd\<rparr>)" ..
  with assms(1) Watching show ?thesis
    using leave_keeps [of "p\<lparr>pr_node := nd\<rparr>"] by (auto simp: node_keeps)
qed

lemma set_done_inv: "jobs_inv (set_done i la) main worker = jobs_inv la main worker"
  by (auto simp: jobs_inv_def set_done_def job_handled_def)

lemma set_done_flag: "flag_inv (set_done i la) main worker = flag_inv la main worker"
  by (simp add: flag_inv_def needs_images_def set_done_def)

lemma worker_keeps:
  assumes "process_inv p" and "worker_turn H p = Inr p'"
  shows "process_inv p'"
proof (cases "pr_worker p")
  case Idle
  show ?thesis
  proof (cases "la_workQueue (pr_agent p)")
    case Nil
    with assms Idle show ?thesis by (simp add: worker_turn_def)
  next
    case (Cons i q)
    let ?la = "(pr_agent p)\<lparr>la_workQueue := q\<rparr>"
    from assms(2) Idle Cons obtain la h where "find_handler i ?la = Inr (la, h)"
      and p': "p' = p\<lparr>pr_agent := la, pr_worker := Checking i h\<rparr>"
      by (auto simp: worker_turn_def elim!: bindC_InrE)
    then have la: "la = set_handler i h ?la" and h: "GetHandler (aj_Name (lj_job (la_jobs (pr_agent p) i))) = Some h"
      by (auto dest: find_handler_agent)
    have "i < la_nextJob (pr_agent p)" using assms(1) Cons by (simp add: inv_defs)
    with h have "jobs_inv la (pr_main p) (Checking i h)"
      using assms(1) Cons by (auto simp: la set_handler_def process_inv_def jobs_inv_def job_handled_def)
    moreover have "flag_inv la (pr_main p) (Checking i h)"
      using assms(1) Cons by (auto simp: la set_handler_def process_inv_def flag_inv_def needs_images_def)
    ultimately show ?thesis by (simp add: process_inv_def p')
  qed
next
  case (Checking i h)
  with assms(2) obtain nd la go_on e where c: "check_job H i h (pr_agent p) (pr_node p) = Inr (nd, la, go_on, e)"
    and p': "p' = p\<lparr>pr_node := nd, pr_agent := la, pr_worker := (if go_on then Deploying i h else Idle)\<rparr>"
    by (auto simp: worker_turn_def elim!: bindC_InrE)
  have "process_inv (p\<lparr>pr_worker := (if go_on then Deploying i h else Idle)\<rparr>)"
    using assms(1) Checking by (auto simp: process_inv_def jobs_inv_def flag_inv_def needs_images_def)
  then show ?thesis
    using check_job_agent [OF c] by (auto simp: p' process_inv_def set_done_inv set_done_flag split: if_splits)
next
  case (Deploying i h)
  with assms(2) obtain nd la e where c: "deploy_job H i h (pr_agent p) (pr_node p) = Inr (nd, la, e)"
    and p': "p' = p\<lparr>pr_node := nd, pr_agent := la, pr_worker := Idle\<rparr>"
    by (auto simp: worker_turn_def elim!: bindC_InrE)
  have "process_inv (p\<lparr>pr_worker := Idle\<rparr>)"
    using assms(1) Deploying by (auto simp: process_inv_def jobs_inv_def flag_inv_def needs_images_def)
  then show ?thesis
    using deploy_job_agent [OF c] by (auto simp: p' process_inv_def set_done_inv set_done_flag)
qed

lemma turn_keeps:
  assumes "process_inv p" and "agent_turn H t p = Inr p'"
  shows "process_inv p'"
proof (cases t)
  case MainTurn
  with assms show ?thesis by (auto intro: main_keeps)
next
  case WorkerTurn
  with assms show ?thesis by (auto intro: worker_keeps)
next
  case (HealthTurn h)
  with assms(2) obtain nd item nd1 la where "trace_status H (job_key h) item (pr_agent p) nd = (nd1, la)"
    and p': "p' = p\<lparr>pr_node := nd1, pr_agent := la\<rparr>"
    by (auto simp: health_turn_def elim!: bindC_InrE split: prod.splits)
  then have "la = (pr_agent p)\<lparr>la_ItemsStatus := la_ItemsStatus la, la_rr := la_rr la\<rparr>" using trace_frame by blast
  then obtain x y where "la = (pr_agent p)\<lparr>la_ItemsStatus := x, la_rr := y\<rparr>" by blast
  with assms(1) show ?thesis by (simp add: p' inv_defs job_handled_def)
next
  case ReportTurn
  show ?thesis
  proof (cases "la_hasRegistered (pr_agent p) = 0")
    case True
    with assms ReportTurn show ?thesis by (simp add: report_turn_def)
  next
    case False
    with assms(2) ReportTurn obtain nd la e where "reportStatusInternal H (pr_agent p) (pr_node p) = (nd, la, e)"
      and p': "p' = p\<lparr>pr_node := nd, pr_agent := la\<rparr>"
      by (auto simp: report_turn_def split: prod.splits option.splits if_splits)
    then obtain arg where "la = (pr_agent p)\<lparr>la_arg := arg\<rparr>" using report_frame by blast
    with assms(1) show ?thesis by (simp add: p' inv_defs job_handled_def)
  qed
next
  case (ChangeTurn body)
  with assms(2) obtain nd la rsp where "RegistrationDataChange H body (pr_agent p) (pr_node p) = (nd, la, rsp)"
    and p': "p' = p\<lparr>pr_node := nd, pr_agent := la\<rparr>"
    by (auto split: prod.splits)
  from change_frame [OF this(1)] consider "la = pr_agent p"
    | x y where "la = (pr_agent p)\<lparr>la_arg := x, la_rr := y, la_hasRegistered := 0\<rparr>" by blast
  then show ?thesis
  proof cases
    case 1
    with assms(1) show ?thesis by (simp add: p' process_inv_def)
  next
    case 2
    with assms(1) show ?thesis by (auto simp: p' inv_defs job_handled_def)
  qed
next
  case (RoutesTurn body)
  with assms show ?thesis by (auto simp: node_keeps split: prod.splits)
qed

lemma new_process_inv: "la_hasRegistered la = 0 \<Longrightarrow> la_workQueue la = [] \<Longrightarrow> la_currentJob la = None \<Longrightarrow>
    (\<forall>i. lj_HealthCheckHandler (la_jobs la i) = None) \<Longrightarrow> process_inv (new_process la nd)"
  by (auto simp: new_process_def start_agent_def inv_defs split: option.splits)

interpretation agent_process: invariant_system
  "\<lambda>p. \<exists>arg path rr nd. p = new_process ((new_agent arg path)\<lparr>la_rr := rr\<rparr>) nd" "agent_step H" process_inv for H
proof
  fix p :: "'a process"
  assume "\<exists>arg path rr nd. p = new_process ((new_agent arg path)\<lparr>la_rr := rr\<rparr>) nd"
  then show "process_inv p" by (auto intro!: new_process_inv simp: new_agent_def)
next
  fix H :: "'a host" and p p' :: "'a process"
  assume "process_inv p" and "agent_step H p p'"
  then show "process_inv p'" by (auto elim!: agent_step.cases intro: turn_keeps)
qed

lemma agent_turns_steps: "agent_turns H ts p = Inr p' \<Longrightarrow> (agent_step H)\<^sup>*\<^sup>* p p'"
proof (induction ts arbitrary: p)
  case Nil
  then show ?case by simp
next
  case (Cons t ts)
  then obtain q where "agent_turn H t p = Inr q" "agent_turns H ts q = Inr p'" by (auto elim!: bindC_InrE)
  with Cons.IH show ?case by (meson agent_step.turn converse_rtranclp_into_rtranclp)
qed

section \<open>Jobs end\<close>

lemma set_handler_job [simp]: "lj_job (la_jobs (set_handler i h la) i) = lj_job (la_jobs la i)"
  by (simp add: set_handler_def)

lemma handleJob_cases:
  assumes "handleJob H i la nd = Inr (nd1, la1, e)"
  obtains (checked) h b ce where "GetHandler (aj_Name (lj_job (la_jobs la i))) = Some h"
      "check_health H h (set_handler i h la) nd = Inr (nd1, b, ce)" "b \<or> ce \<noteq> None"
      "la1 = set_done i (set_handler i h la)" "e = None \<longleftrightarrow> ce = None"
  | (deployed) h nd0 b de where "GetHandler (aj_Name (lj_job (la_jobs la i))) = Some h"
      "check_health H h (set_handler i h la) nd = Inr (nd0, False, None)"
      "deploy H h (lj_job (la_jobs la i)) (set_handler i h la) nd0 = Inr (nd1, b, de)"
      "\<forall>err. de = Some err \<longrightarrow> \<not> is_crash H err"
      "la1 = (if b \<and> de = None then set_handler i h la else set_done i (set_handler i h la))"
      "e = None \<longleftrightarrow> b \<and> de = None"
proof -
  from assms obtain h where h: "GetHandler (aj_Name (lj_job (la_jobs la i))) = Some h"
    and rest: "bindC (check_job H i h (set_handler i h la) nd) (\<lambda>(nd1, la2, go_on, e).
       if go_on then deploy_job H i h la2 nd1 else Inr (nd1, la2, e)) = Inr (nd1, la1, e)"
    by (auto simp: handleJob_def dest: find_handler_agent elim!: bindC_InrE)
  from rest obtain nd0 b ce where c: "check_health H h (set_handler i h la) nd = Inr (nd0, b, ce)"
    by (auto simp: check_job_def elim!: bindC_InrE)
  show thesis
  proof (cases "b \<or> ce \<noteq> None")
    case True
    with rest c show thesis
      by (intro checked [OF h, of b ce]) (auto simp: check_job_def split: option.splits if_splits)
  next
    case False
    with c have c': "check_health H h (set_handler i h la) nd = Inr (nd0, False, None)" by simp
    with rest have d: "deploy_job H i h (set_handler i h la) nd0 = Inr (nd1, la1, e)" by (simp add: check_job_def)
    then obtain nd2 b de where "deploy H h (lj_job (la_jobs la i)) (set_handler i h la) nd0 = Inr (nd2, b, de)"
      by (auto simp: deploy_job_def elim!: bindC_InrE)
    with d show thesis
      by (intro deployed [OF h c', of b de]) (auto simp: deploy_job_def split: option.splits if_splits)
  qed
qed

text \<open>
  C2: what \<open>handleJob\<close> leaves, when it returns. The job has the health check of the handler for its
  name, and nothing else of the agent changes but whether the job is done. The health check runs
  first: if it fails or finds the component healthy, there is no deployment, the job is done, and
  the error is that of the check. Otherwise the deployment runs in the state that the check left,
  with no crash error; the job becomes done, with an error, exactly if the deployment fails or
  reports no success, and after a success it stays as it was, without an error.
\<close>

theorem handled_job:
  assumes "handleJob H i la nd = Inr (nd1, la1, e)"
  shows "\<exists>h nd0 healthy ce. GetHandler (aj_Name (lj_job (la_jobs la i))) = Some h \<and>
     la1 = la\<lparr>la_jobs := (la_jobs la)(i := (la_jobs la i)
       \<lparr>lj_HealthCheckHandler := Some h, lj_HadDone := lj_HadDone (la_jobs la1 i)\<rparr>)\<rparr> \<and>
     check_health H h (set_handler i h la) nd = Inr (nd0, healthy, ce) \<and>
     (if healthy \<or> ce \<noteq> None
      then nd1 = nd0 \<and> lj_HadDone (la_jobs la1 i) \<and> (e = None \<longleftrightarrow> ce = None)
      else \<exists>success de. deploy H h (lj_job (la_jobs la i)) (set_handler i h la) nd0 = Inr (nd1, success, de) \<and>
        (\<forall>err. de = Some err \<longrightarrow> \<not> is_crash H err) \<and>
        (if success \<and> de = None then lj_HadDone (la_jobs la1 i) = lj_HadDone (la_jobs la i) \<and> e = None
         else lj_HadDone (la_jobs la1 i) \<and> e \<noteq> None))"
  using assms
proof (cases rule: handleJob_cases)
  case (checked h b ce)
  then show ?thesis
    by (intro exI [of _ h] exI [of _ nd1] exI [of _ b] exI [of _ ce])
      (auto simp: set_done_def set_handler_def)
next
  case (deployed h nd0 b de)
  then show ?thesis
    by (intro exI [of _ h] exI [of _ nd0] exI [of _ False] exI [of _ None] conjI)
      (auto simp: set_done_def set_handler_def)
qed

section \<open>The watching loop ends\<close>

text \<open>An endless run of the process, and a main loop that is never left out for ever.\<close>

definition endless_run :: "'w host \<Rightarrow> (nat \<Rightarrow> turn) \<Rightarrow> (nat \<Rightarrow> 'w process) \<Rightarrow> bool" where
  "endless_run H \<tau> \<sigma> \<longleftrightarrow> (\<forall>n. agent_turn H (\<tau> n) (\<sigma> n) = Inr (\<sigma> (Suc n)))"

definition fair_main :: "(nat \<Rightarrow> turn) \<Rightarrow> bool" where
  "fair_main \<tau> \<longleftrightarrow> (\<forall>n. \<exists>m. n \<le> m \<and> \<tau> m = MainTurn)"

text \<open>The other goroutines leave the place of the main loop and its current job alone.\<close>

lemma other_turns_keep_main:
  assumes "agent_turn H t p = Inr p'" and "t \<noteq> MainTurn"
  shows "pr_main p' = pr_main p \<and> la_currentJob (pr_agent p') = la_currentJob (pr_agent p)"
proof (cases t)
  case MainTurn
  with assms(2) show ?thesis by simp
next
  case WorkerTurn
  with assms(1) show ?thesis
    by (auto simp: worker_turn_def set_done_def set_handler_def elim!: bindC_InrE split: worker_point.splits list.splits
        dest!: check_job_agent deploy_job_agent find_handler_agent)
next
  case (HealthTurn h)
  with assms(1) obtain nd item nd1 la where "trace_status H (job_key h) item (pr_agent p) nd = (nd1, la)"
    and p': "p' = p\<lparr>pr_node := nd1, pr_agent := la\<rparr>"
    by (auto simp: health_turn_def elim!: bindC_InrE split: prod.splits)
  from arg_cong [OF trace_frame [OF this(1)], of la_currentJob]
  have "la_currentJob la = la_currentJob (pr_agent p)" by simp
  then show ?thesis by (simp add: p')
next
  case ReportTurn
  with assms(1) show ?thesis
    by (auto simp: report_turn_def split: if_splits prod.splits option.splits dest!: report_frame)
next
  case (ChangeTurn body)
  with assms(1) obtain nd la rsp where r: "RegistrationDataChange H body (pr_agent p) (pr_node p) = (nd, la, rsp)"
    and p': "p' = p\<lparr>pr_node := nd, pr_agent := la\<rparr>"
    by (auto split: prod.splits)
  from r have "la_currentJob la = la_currentJob (pr_agent p)"
    by (auto simp: RegistrationDataChange_def apply_change_def Let_def split: sum.splits if_splits)
  then show ?thesis by (simp add: p')
next
  case (RoutesTurn body)
  with assms(1) show ?thesis by (auto split: prod.splits)
qed

text \<open>A job that is done, or whose health check finds the component healthy.\<close>

definition job_over :: "'w host \<Rightarrow> nat \<Rightarrow> 'w process \<Rightarrow> bool" where
  "job_over H i p \<longleftrightarrow> lj_HadDone (la_jobs (pr_agent p) i) \<or>
     (\<exists>h nd. lj_HealthCheckHandler (la_jobs (pr_agent p) i) = Some h \<and>
        check_health H h (pr_agent p) (pr_node p) = Inr (nd, True, None))"

lemma watch_turn_over:
  "la_currentJob (pr_agent p) = Some i \<Longrightarrow> job_over H i p \<Longrightarrow> watch_turn H p = Inr p' \<Longrightarrow>
     pr_main p' = Sleeping \<and> la_currentJob (pr_agent p') = None"
  by (auto simp: watch_turn_def job_over_def leave_job_def split: if_splits)

text \<open>
  C7: in every endless run of the agent in which the main loop gets its turn again and again, if the
  job that it watches is at last over (done, or healthy whenever it is looked at), the main loop
  leaves it and goes on to register and to ask for work.
\<close>

theorem watching_ends:
  assumes "endless_run H \<tau> \<sigma>" and "fair_main \<tau>" and "pr_main (\<sigma> 0) = Watching"
    and "la_currentJob (pr_agent (\<sigma> 0)) = Some i" and over: "\<And>n. N \<le> n \<Longrightarrow> job_over H i (\<sigma> n)"
  shows "\<exists>n. pr_main (\<sigma> n) = Sleeping \<and> la_currentJob (pr_agent (\<sigma> n)) = None"
proof (rule ccontr)
  assume never: "\<not> (\<exists>n. pr_main (\<sigma> n) = Sleeping \<and> la_currentJob (pr_agent (\<sigma> n)) = None)"
  have step: "agent_turn H (\<tau> n) (\<sigma> n) = Inr (\<sigma> (Suc n))" for n using assms(1) by (simp add: endless_run_def)
  have watching: "pr_main (\<sigma> n) = Watching \<and> la_currentJob (pr_agent (\<sigma> n)) = Some i" for n
  proof (induction n)
    case 0
    show ?case using assms(3,4) by simp
  next
    case (Suc n)
    show ?case
    proof (cases "\<tau> n = MainTurn")
      case True
      with step [of n] Suc have "watch_turn H (\<sigma> n) = Inr (\<sigma> (Suc n))" by (simp add: main_turn_def)
      from watch_turn_cases [OF this] obtain nd where
        "\<sigma> (Suc n) = (\<sigma> n)\<lparr>pr_node := nd\<rparr> \<or> \<sigma> (Suc n) = leave_job ((\<sigma> n)\<lparr>pr_node := nd\<rparr>)" ..
      moreover have "\<sigma> (Suc n) \<noteq> leave_job ((\<sigma> n)\<lparr>pr_node := nd\<rparr>)"
      proof
        assume "\<sigma> (Suc n) = leave_job ((\<sigma> n)\<lparr>pr_node := nd\<rparr>)"
        then have "pr_main (\<sigma> (Suc n)) = Sleeping \<and> la_currentJob (pr_agent (\<sigma> (Suc n))) = None"
          by (simp add: leave_job_def)
        with never show False by blast
      qed
      ultimately show ?thesis using Suc by simp
    next
      case False
      with other_turns_keep_main [OF step] Suc show ?thesis by simp
    qed
  qed
  obtain m where m: "N \<le> m" "\<tau> m = MainTurn" using assms(2) unfolding fair_main_def by blast
  with step [of m] watching [of m] have "watch_turn H (\<sigma> m) = Inr (\<sigma> (Suc m))" by (simp add: main_turn_def)
  with watch_turn_over watching [of m] over [OF m(1)] never show False by blast
qed

text \<open>An agent that performs a job, on a host with one running container.\<close>

definition running_host :: "string \<Rightarrow> nat host" where
  "running_host name = quiet_host\<lparr>ho_ContainerList := \<lambda>w b. Inr [\<lparr>co_ID = ''1'', co_Names = [name], co_Status = ''Up''\<rparr>]\<rparr>"

definition busy_agent :: "string \<Rightarrow> lm_agent" where
  "busy_agent name = (new_job \<lparr>aj_Name = name, aj_Arguments = [], aj_Reason = []\<rparr> (new_agent sample_args ''/c''))
     \<lparr>la_currentJob := Some 0, la_workQueue := [0], la_hasRegistered := 1\<rparr>"

definition busy_process :: "string \<Rightarrow> nat process" where
  "busy_process name = \<lparr>pr_node = \<lparr>nd_world = 0, nd_files = []\<rparr>, pr_agent = busy_agent name, pr_main = Watching, pr_worker = Idle\<rparr>"

lemmas busy_defs = busy_process_def busy_agent_def new_job_def new_agent_def running_host_def quiet_host_def

lemma set_job_arg [simp]: "la_arg (set_handler i h la) = la_arg la" "la_arg (set_done i la) = la_arg la"
  by (simp_all add: set_handler_def set_done_def)

lemma busy_minion_healthy:
  "handleJob (running_host ''/kubelet'') 0 ((busy_agent AgentJob_Deploy_Minion)\<lparr>la_workQueue := q\<rparr>) \<lparr>nd_world = 0, nd_files = []\<rparr> =
     Inr (\<lparr>nd_world = 0, nd_files = []\<rparr>, set_done 0 (set_handler 0 HandlerMinion
       ((busy_agent AgentJob_Deploy_Minion)\<lparr>la_workQueue := q\<rparr>)), None)"
  by (simp add: handleJob_def find_handler_def check_job_def CheckMinionHealth_def with_containers_def GetHandler_def
      handlers_def named_container_def busy_defs sample_args_def)

theorem handled_job_witness:
  "(case handleJob (running_host ''/kubelet'') 0 (busy_agent AgentJob_Deploy_Minion) \<lparr>nd_world = 0, nd_files = []\<rparr> of
      Inl c \<Rightarrow> False | Inr (nd1, la1, e) \<Rightarrow> lj_HadDone (la_jobs la1 0) \<and> e = None)"
proof -
  have "(busy_agent AgentJob_Deploy_Minion)\<lparr>la_workQueue := [0]\<rparr> = busy_agent AgentJob_Deploy_Minion"
    by (simp add: busy_agent_def)
  then have run: "handleJob (running_host ''/kubelet'') 0 (busy_agent AgentJob_Deploy_Minion) \<lparr>nd_world = 0, nd_files = []\<rparr> =
      Inr (\<lparr>nd_world = 0, nd_files = []\<rparr>, set_done 0 (set_handler 0 HandlerMinion (busy_agent AgentJob_Deploy_Minion)), None)"
    using busy_minion_healthy [of "[0]"] by simp
  show ?thesis using handled_job [OF run] run by (simp add: set_done_def)
qed

theorem worker_performs_job_witness:
  "agent_turns (running_host ''/kubelet'') [WorkerTurn, WorkerTurn, WorkerTurn] (busy_process AgentJob_Deploy_Minion) =
     Inr ((busy_process AgentJob_Deploy_Minion)\<lparr>pr_agent := set_done 0 (set_handler 0 HandlerMinion
       ((busy_agent AgentJob_Deploy_Minion)\<lparr>la_workQueue := []\<rparr>))\<rparr>)"
proof -
  have "pr_worker (busy_process AgentJob_Deploy_Minion) = Idle"
    and "la_workQueue (pr_agent (busy_process AgentJob_Deploy_Minion)) = [0]"
    by (simp_all add: busy_process_def busy_agent_def)
  from worker_performs_job [OF this, of "running_host ''/kubelet''"] show ?thesis
    using busy_minion_healthy [of "[]"] by (simp add: busy_process_def)
qed

theorem watching_ends_witness:
  "(let p = (busy_process AgentJob_Deploy_HA)\<lparr>pr_agent := (set_done 0 (busy_agent AgentJob_Deploy_HA))\<lparr>la_hasRegistered := -1\<rparr>\<rparr> in
     \<exists>n. pr_main (if n = (0 :: nat) then p else leave_job p) = Sleeping \<and>
       la_currentJob (pr_agent (if n = 0 then p else leave_job p)) = None)"
proof -
  let ?p = "(busy_process AgentJob_Deploy_HA)\<lparr>pr_agent := (set_done 0 (busy_agent AgentJob_Deploy_HA))\<lparr>la_hasRegistered := -1\<rparr>\<rparr>"
  let ?s = "\<lambda>n. if n = (0 :: nat) then ?p else leave_job ?p"
  have "agent_turn quiet_host MainTurn (?s n) = Inr (?s (Suc n))" for n
    by (simp add: main_turn_def watch_turn_def begin_registration_def register_begin_def main_registered_def
        main_failed_def leave_job_def set_done_def busy_defs)
  then have "endless_run quiet_host (\<lambda>n. MainTurn) ?s" by (simp add: endless_run_def)
  moreover have "fair_main (\<lambda>n. MainTurn)" by (auto simp: fair_main_def)
  moreover have "pr_main (?s 0) = Watching" "la_currentJob (pr_agent (?s 0)) = Some 0"
    by (simp_all add: busy_defs set_done_def)
  moreover have "job_over quiet_host 0 (?s n)" if "0 \<le> n" for n
    by (simp add: job_over_def leave_job_def set_done_def)
  ultimately have "\<exists>n. pr_main (?s n) = Sleeping \<and> la_currentJob (pr_agent (?s n)) = None"
    by (rule watching_ends [where \<sigma> = ?s and i = 0 and N = 0])
  then show ?thesis by (simp only: Let_def)
qed

section \<open>A job that never ends\<close>

definition not_change :: "turn \<Rightarrow> bool" where
  "not_change t = (case t of ChangeTurn b \<Rightarrow> False | _ \<Rightarrow> True)"

text \<open>The main loop watches a minion job that was deployed, on an agent that is no minion any more.\<close>

definition minion_stuck :: "nat \<Rightarrow> 'w process \<Rightarrow> bool" where
  "minion_stuck i p \<longleftrightarrow> pr_main p = Watching \<and> pr_worker p = Idle \<and>
     (let la = pr_agent p in la_currentJob la = Some i \<and> la_workQueue la = [] \<and> la_hasRegistered la = 0 \<and>
       \<not> lj_HadDone (la_jobs la i) \<and> lj_HealthCheckHandler (la_jobs la i) = Some HandlerMinion \<and>
       \<not> aa_IsMinionRole (la_arg la))"

lemma healthy_minion_role: "CheckMinionHealth H la nd = Inr (nd1, True, e) \<Longrightarrow> aa_IsMinionRole (la_arg la)"
  by (auto simp: CheckMinionHealth_def with_containers_def elim!: bindC_InrE split: sum.splits)

lemma stuck_turn:
  assumes "minion_stuck i p" and "not_change t" and "agent_turn H t p = Inr p'"
  shows "minion_stuck i p'"
proof (cases t)
  case MainTurn
  with assms(1,3) show ?thesis
    by (auto simp: minion_stuck_def main_turn_def watch_turn_def Let_def elim!: bindC_InrE
        dest: healthy_minion_role split: if_splits)
next
  case WorkerTurn
  with assms(1,3) show ?thesis by (simp add: minion_stuck_def worker_turn_def Let_def)
next
  case (HealthTurn h)
  with assms(3) obtain nd item nd1 la where t: "trace_status H (job_key h) item (pr_agent p) nd = (nd1, la)"
    and p': "p' = p\<lparr>pr_node := nd1, pr_agent := la\<rparr>"
    by (auto simp: health_turn_def elim!: bindC_InrE split: prod.splits)
  from trace_frame [OF t] obtain x y where "la = (pr_agent p)\<lparr>la_ItemsStatus := x, la_rr := y\<rparr>" by blast
  with assms(1) show ?thesis by (simp add: p' minion_stuck_def Let_def)
next
  case ReportTurn
  with assms(1,3) show ?thesis by (simp add: minion_stuck_def report_turn_def Let_def)
next
  case (ChangeTurn body)
  with assms(2) show ?thesis by (simp add: not_change_def)
next
  case (RoutesTurn body)
  with assms(1,3) show ?thesis by (auto simp: minion_stuck_def Let_def split: prod.splits)
qed

lemma stuck_turns:
  "minion_stuck i p \<Longrightarrow> list_all not_change ts \<Longrightarrow> agent_turns H ts p = Inr p' \<Longrightarrow> minion_stuck i p'"
  by (induction ts arbitrary: p) (auto elim!: bindC_InrE dest: stuck_turn)

text \<open>
  C18: when an agent whose minion job was deployed and is being watched is told to take roles without
  the minion, its main loop watches the job for ever, whatever happens but another such change: it
  never registers its new roles, and the goroutine of the reports sends nothing.
\<close>

theorem moved_minion_never_registers:
  assumes "pr_main p = Watching" and "la_currentJob (pr_agent p) = Some i" and "pr_worker p = Idle"
    and "la_workQueue (pr_agent p) = []" and "\<not> lj_HadDone (la_jobs (pr_agent p) i)"
    and "lj_HealthCheckHandler (la_jobs (pr_agent p) i) = Some HandlerMinion"
    and "ho_UnmarshalChange H body = Inr req" and "\<not> cr_IsMinionRole req"
    and "list_all not_change ts" and "agent_turns H (ChangeTurn (Inr body) # ts) p = Inr p'"
  shows "pr_main p' = Watching \<and> la_hasRegistered (pr_agent p') = 0 \<and> report_turn H p' = Inr p'"
proof -
  obtain q where q: "agent_turn H (ChangeTurn (Inr body)) p = Inr q" and rest: "agent_turns H ts q = Inr p'"
    using assms(10) by (auto elim!: bindC_InrE)
  have "minion_stuck i q"
    using q assms(1-8) by (auto simp: minion_stuck_def RegistrationDataChange_def apply_change_def change_args_def Let_def)
  from stuck_turns [OF this assms(9) rest] show ?thesis by (simp add: minion_stuck_def report_turn_def Let_def)
qed

definition away_request :: change_request where
  "away_request = \<lparr>cr_OldClusterId = ''c1'', cr_NewClusterId = ''c2'', cr_IsETCDRole = True, cr_IsMasterRole = False,
     cr_IsMinionRole = False, cr_IsHARole = False\<rparr>"

definition deployed_minion :: "nat process" where
  "deployed_minion = (busy_process AgentJob_Deploy_Minion)\<lparr>pr_agent :=
     (set_handler 0 HandlerMinion (busy_agent AgentJob_Deploy_Minion))\<lparr>la_workQueue := []\<rparr>\<rparr>"

theorem moved_minion_never_registers_witness:
  "(let H = (running_host ''/kubelet'')\<lparr>ho_UnmarshalChange := \<lambda>s. Inr away_request\<rparr> in
    case agent_turns H [ChangeTurn (Inr []), MainTurn, WorkerTurn, ReportTurn, MainTurn] deployed_minion of
      Inl c \<Rightarrow> False | Inr p' \<Rightarrow> pr_main p' = Watching \<and> la_hasRegistered (pr_agent p') = 0)"
proof -
  let ?H = "(running_host ''/kubelet'')\<lparr>ho_UnmarshalChange := \<lambda>s. Inr away_request\<rparr>"
  let ?ts = "[MainTurn, WorkerTurn, ReportTurn, MainTurn]"
  have "\<exists>p'. agent_turns ?H (ChangeTurn (Inr []) # ?ts) deployed_minion = Inr p'"
    by (simp add: deployed_minion_def set_handler_def RegistrationDataChange_def apply_change_def change_args_def away_request_def
        main_turn_def watch_turn_def worker_turn_def report_turn_def CheckMinionHealth_def with_containers_def
        named_container_def busy_defs Let_def)
  then obtain p' where run: "agent_turns ?H (ChangeTurn (Inr []) # ?ts) deployed_minion = Inr p'" ..
  have "pr_main p' = Watching \<and> la_hasRegistered (pr_agent p') = 0 \<and> report_turn ?H p' = Inr p'"
    by (rule moved_minion_never_registers [OF _ _ _ _ _ _ _ _ _ run, of 0 away_request])
       (simp_all add: deployed_minion_def set_handler_def away_request_def not_change_def busy_defs)
  with run show ?thesis by (simp only: Let_def sum.case)
qed

section \<open>A change during a registration\<close>

text \<open>
  C17: a change of cluster and roles that arrives while a registration waits for its answer is lost on
  the server: what was sent names the old cluster and roles, the agent holds the new ones, counts as
  registered, and will not send another registration.
\<close>

theorem change_during_registration_lost:
  assumes "pr_main p = Sleeping" and "la_hasRegistered (pr_agent p) = 0"
    and "ho_UnmarshalChange H body = Inr req"
    and "agent_turns H [MainTurn, ChangeTurn (Inr body), MainTurn] p = Inr p'" and "pr_main p' = Querying"
  shows "\<exists>obj data. agent_object H (la_arg (pr_agent p)) (nd_world (pr_node p)) = Inr obj \<and> ho_MarshalAgent H obj = Inr data
      \<and> agent_turn H MainTurn p = Inr (p\<lparr>pr_main := Registering (register_url (la_arg (pr_agent p))) data\<rparr>)
      \<and> ag_ClusterId obj = aa_ClusterId (la_arg (pr_agent p)) \<and> ag_HasMinionRole obj = aa_IsMinionRole (la_arg (pr_agent p))
      \<and> aa_ClusterId (la_arg (pr_agent p')) = cr_NewClusterId req \<and> aa_IsMinionRole (la_arg (pr_agent p')) = cr_IsMinionRole req
      \<and> (la_hasRegistered (pr_agent p') = 1 \<and> register_begin H (pr_agent p') (nd_world (pr_node p')) = Inr (Settled None))"
proof -
  let ?la = "pr_agent p"
  from assms(4) obtain q r where q: "agent_turn H MainTurn p = Inr q"
    and r: "agent_turn H (ChangeTurn (Inr body)) q = Inr r" and p': "agent_turn H MainTurn r = Inr p'"
    by (auto elim!: bindC_InrE)
  have main_r: "pr_main r = pr_main q"
    using r by (auto split: prod.splits)
  from q assms(1) have b: "begin_registration H p = Inr q" by (simp add: main_turn_def)
  then obtain st where st: "register_begin H ?la (nd_world (pr_node p)) = Inr st"
    by (auto simp: begin_registration_def elim!: bindC_InrE)
  have "pr_main q \<noteq> Sleeping"
  proof
    assume "pr_main q = Sleeping"
    with main_r p' have "begin_registration H r = Inr p'" by (simp add: main_turn_def)
    moreover have "la_hasRegistered (pr_agent r) = 0"
      using r assms(3) by (auto simp: RegistrationDataChange_def apply_change_def Let_def split: prod.splits)
    ultimately show False using assms(5) \<open>pr_main q = Sleeping\<close> main_r
      by (auto simp: begin_registration_def register_begin_def elim!: bindC_InrE
          dest!: main_failed_inv split: sum.splits option.splits)
  qed
  with b st assms(2) obtain obj data where obj: "agent_object H (la_arg ?la) (nd_world (pr_node p)) = Inr obj"
    "ho_MarshalAgent H obj = Inr data" and q': "q = p\<lparr>pr_main := Registering (register_url (la_arg ?la)) data\<rparr>"
    by (auto simp: begin_registration_def register_begin_def elim!: bindC_InrE dest!: main_failed_inv
        split: sum.splits option.splits if_splits)
  let ?nd1 = "fst (apply_change H req ?la (pr_node p))" and ?la1 = "snd (apply_change H req ?la (pr_node p))"
  have r': "r = q\<lparr>pr_node := ?nd1, pr_agent := ?la1\<rparr>"
    using r assms(3) q' by (auto simp: RegistrationDataChange_def split: prod.splits)
  have la1: "la_hasRegistered ?la1 = 0" "la_arg ?la1 = change_args req (la_arg ?la)"
    by (simp_all add: apply_change_def Let_def)
  from p' r' q' obtain nd2 la2 err where fin: "register_finish H (register_url (la_arg ?la)) data ?la1 ?nd1 = Inr (nd2, la2, err)"
    and p'': "p' = r\<lparr>pr_node := nd2, pr_agent := la2, pr_main := (if err = None then Querying else Sleeping)\<rparr>"
    by (auto simp: main_turn_def finish_registration_def elim!: bindC_InrE dest!: main_registered_inv)
  with assms(5) have none: "err = None" by (auto split: if_splits)
  have well: "registered_well err la2" using register_finish_well [OF fin la1(1)] .
  have roles: "aa_ClusterId (la_arg la2) = aa_ClusterId (la_arg ?la1) \<and> aa_IsMinionRole (la_arg la2) = aa_IsMinionRole (la_arg ?la1)"
    by (rule register_finish_arg [OF fin [unfolded none]]) simp
  have "ag_ClusterId obj = aa_ClusterId (la_arg ?la) \<and> ag_HasMinionRole obj = aa_IsMinionRole (la_arg ?la)"
    using obj(1) by (auto simp: agent_object_def split: sum.splits list.splits prod.splits)
  with obj q q' well none roles show ?thesis
    by (auto simp: p'' la1(2) change_args_def registered_well_def register_begin_def)
qed

definition sample_process :: "nat process" where
  "sample_process = new_process (new_agent sample_args ''/c'') \<lparr>nd_world = 0, nd_files = []\<rparr>"

lemma sample_process_simps [simp]:
  "pr_main sample_process = Sleeping" "pr_worker sample_process = Idle" "la_hasRegistered (pr_agent sample_process) = 0"
  "la_arg (pr_agent sample_process) = sample_args"
  by (simp_all add: sample_process_def new_process_def start_agent_def new_agent_def)

text \<open>On the host that serves everything an unregistered minion registers in two turns.\<close>

lemma serving_host_turns:
  assumes "pr_main p = Sleeping" and "la_hasRegistered (pr_agent p) = 0"
  obtains data where "agent_turn serving_host MainTurn p = Inr (p\<lparr>pr_main := Registering (register_url (la_arg (pr_agent p))) data\<rparr>)"
  using serving_host_asks [OF assms(2), of "nd_world (pr_node p)"] assms(1)
  by (auto simp: main_turn_def begin_registration_def)

lemma serving_host_turn:
  assumes "pr_main p = Registering url data" and "aa_IsMinionRole (la_arg (pr_agent p))"
    and "aa_ClusterId (la_arg (pr_agent p)) \<noteq> nil_uuid"
  obtains p' where "agent_turn serving_host MainTurn p = Inr p'" and "pr_main p' = Querying"
    and "pr_worker p' = pr_worker p" and "same_jobs (pr_agent p) (pr_agent p')"
proof -
  obtain nd la where fin: "register_finish serving_host url data (pr_agent p) (pr_node p) = Inr (nd, la, None)"
    using serving_host_finishes [OF assms(2,3)] by blast
  with assms(1) finish_frame(1) [OF fin] show thesis
    by (intro that [of "p\<lparr>pr_node := nd, pr_agent := la, pr_main := Querying\<rparr>"])
       (simp_all add: main_turn_def finish_registration_def main_registered_def)
qed

theorem change_during_registration_lost_witness:
  "\<exists>p'. agent_turns serving_host [MainTurn, ChangeTurn (Inr []), MainTurn] sample_process = Inr p' \<and>
     aa_ClusterId (la_arg (pr_agent p')) = ''c2'' \<and> la_hasRegistered (pr_agent p') = 1"
proof -
  obtain data where 1: "agent_turn serving_host MainTurn sample_process =
      Inr (sample_process\<lparr>pr_main := Registering (register_url sample_args) data\<rparr>)"
    by (rule serving_host_turns [of sample_process]) simp_all
  have change: "ho_UnmarshalChange serving_host [] = Inr minion_request" by (simp add: serving_host_def)
  let ?q = "sample_process\<lparr>pr_main := Registering (register_url sample_args) data\<rparr>"
  obtain r where 2: "agent_turn serving_host (ChangeTurn (Inr [])) ?q = Inr r"
    and r: "pr_main r = Registering (register_url sample_args) data" "la_arg (pr_agent r) = change_args minion_request sample_args"
    by (auto simp: RegistrationDataChange_def change apply_change_def Let_def split: prod.splits)
  have "aa_IsMinionRole (la_arg (pr_agent r))" "aa_ClusterId (la_arg (pr_agent r)) \<noteq> nil_uuid"
    by (simp_all add: r(2) change_args_def minion_request_def nil_uuid_def)
  then obtain p' where 3: "agent_turn serving_host MainTurn r = Inr p'" and q: "pr_main p' = Querying"
    by (rule serving_host_turn [OF r(1)])
  have run: "agent_turns serving_host [MainTurn, ChangeTurn (Inr []), MainTurn] sample_process = Inr p'"
    by (simp del: agent_turn.simps add: 1 2 3)
  with change_during_registration_lost [OF _ _ change run q] show ?thesis by (auto simp: minion_request_def)
qed

section \<open>Restarting\<close>

definition no_roles :: "recovery_record \<Rightarrow> bool" where
  "no_roles rr \<longleftrightarrow> \<not> rv_IsETCDRole rr \<and> \<not> rv_IsMasterRole rr \<and> \<not> rv_IsMinionRole rr \<and> \<not> rv_IsHARole rr"

definition recovers_no_roles :: "lm_agent \<Rightarrow> bool" where
  "recovers_no_roles la \<longleftrightarrow> (case la_rr la of None \<Rightarrow> False | Some rr \<Rightarrow> no_roles rr)"

lemma note_installed_roles: "note_installed key item rr = Some rr' \<Longrightarrow> no_roles rr' = no_roles rr"
  by (auto simp: note_installed_def no_roles_def split: if_splits)

lemma trace_roles: "trace_status H k it la nd = (nd1, la1) \<Longrightarrow> recovers_no_roles la \<Longrightarrow> recovers_no_roles la1"
  by (auto simp: trace_status_def updateRecoveryFile_def recovers_no_roles_def Let_def note_installed_roles
      split: option.splits)

lemma adopt_roles: "adopt_cluster H cid la nd = Inr (nd1, la1) \<Longrightarrow> recovers_no_roles la \<Longrightarrow> recovers_no_roles la1"
  by (auto simp: adopt_cluster_def recovers_no_roles_def no_roles_def Let_def split: if_splits option.splits prod.splits)

lemma use_roles:
  assumes "use_registration H rsp la nd = Inr (nd1, la1, err)" and "recovers_no_roles la"
  shows "recovers_no_roles la1"
proof -
  have same: "recovers_no_roles (la'\<lparr>la_basicImages := x, la_masterSettings := y, la_dockerImageManager := z\<rparr>) = recovers_no_roles la'"
    "recovers_no_roles (la'\<lparr>la_dockerImageManager := z\<rparr>) = recovers_no_roles la'"
    "recovers_no_roles (la'\<lparr>la_expectedETCDNodeCount := n\<rparr>) = recovers_no_roles la'"
    "recovers_no_roles (la'\<lparr>la_basicImages := x, la_masterSettings := y\<rparr>) = recovers_no_roles la'"
    "recovers_no_roles (named_by rsp la') = recovers_no_roles la'" for la' x y z n
    by (simp_all add: recovers_no_roles_def named_by_def)
  from assms show ?thesis
    by (auto simp: use_registration_def join_cluster_def Let_def same elim!: bindC_InrE dest!: adopt_roles
        split: if_splits sum.splits option.splits)
qed

lemma register_end_rr [simp]: "la_rr (register_end now err la) = la_rr la"
  by (simp add: register_end_def split: option.splits)

lemma finish_roles:
  assumes "register_finish H url data la nd = Inr (nd1, la1, err)" and "recovers_no_roles la"
  shows "recovers_no_roles la1"
  using assms(1)
proof (cases rule: register_finish_cases)
  case (refused e w)
  with assms(2) show ?thesis by (simp add: recovers_no_roles_def)
next
  case (answered w rsp la2)
  with use_roles [OF answered(2) assms(2)] show ?thesis by (simp add: recovers_no_roles_def)
qed

lemma main_roles:
  assumes "main_turn H p = Inr p'" and "recovers_no_roles (pr_agent p)"
  shows "recovers_no_roles (pr_agent p')"
proof (cases "pr_main p")
  case Sleeping
  with assms show ?thesis
    by (auto simp: main_turn_def begin_registration_def recovers_no_roles_def elim!: bindC_InrE dest!: main_failed_inv main_registered_inv
        split: register_start.splits)
next
  case (Registering u d)
  with assms show ?thesis
    by (auto simp: main_turn_def finish_registration_def elim!: bindC_InrE dest!: main_registered_inv
        intro: finish_roles)
next
  case Querying
  with assms show ?thesis
    by (auto simp: main_turn_def query_turn_def new_job_def recovers_no_roles_def dest!: main_failed_inv
        split: prod.splits sum.splits option.splits if_splits)
next
  case (Offering i)
  with assms show ?thesis by (auto simp: main_turn_def offer_turn_def recovers_no_roles_def)
next
  case Watching
  with assms(1) have "watch_turn H p = Inr p'" by (simp add: main_turn_def)
  from watch_turn_cases [OF this] assms(2) show ?thesis by (auto simp: leave_job_def recovers_no_roles_def)
qed

lemma turn_roles:
  assumes "agent_turn H t p = Inr p'" and "not_change t" and "recovers_no_roles (pr_agent p)"
  shows "recovers_no_roles (pr_agent p')"
proof (cases t)
  case MainTurn
  with assms show ?thesis by (auto intro: main_roles)
next
  case WorkerTurn
  with assms show ?thesis
    by (auto simp: worker_turn_def set_done_def set_handler_def recovers_no_roles_def elim!: bindC_InrE split: worker_point.splits list.splits
        dest!: check_job_agent deploy_job_agent find_handler_agent)
next
  case (HealthTurn h)
  with assms(1) obtain nd item nd1 la where t: "trace_status H (job_key h) item (pr_agent p) nd = (nd1, la)"
    and p': "p' = p\<lparr>pr_node := nd1, pr_agent := la\<rparr>"
    by (auto simp: health_turn_def elim!: bindC_InrE split: prod.splits)
  from trace_roles [OF t assms(3)] show ?thesis by (simp add: p')
next
  case ReportTurn
  with assms show ?thesis
    by (auto simp: report_turn_def recovers_no_roles_def split: if_splits prod.splits option.splits dest!: report_frame)
next
  case (ChangeTurn body)
  with assms(2) show ?thesis by (simp add: not_change_def)
next
  case (RoutesTurn body)
  with assms show ?thesis by (auto split: prod.splits)
qed

lemma turns_roles:
  "agent_turns H ts p = Inr p' \<Longrightarrow> list_all not_change ts \<Longrightarrow> recovers_no_roles (pr_agent p) \<Longrightarrow>
     recovers_no_roles (pr_agent p')"
  by (induction ts arbitrary: p) (auto elim!: bindC_InrE dest: turn_roles)

text \<open>
  An agent that got its roles from the command line never writes them to its recovery file: after
  any run without a remote change, what it saves gives an agent that restarts no role at all, whatever
  its command line says, so every answer to its registration sends it to the pool.
\<close>

theorem restart_forgets_roles:
  assumes "la_rr la = None" and "agent_turns H ts (new_process la nd) = Inr p" and "list_all not_change ts"
    and "saveRecoveryFile H (pr_agent p) nd1 = (nd2, None)"
    and json: "\<And>rr data. la_rr (pr_agent p) = Some rr \<Longrightarrow> ho_MarshalRecovery H rr = Inr data \<Longrightarrow> ho_UnmarshalRecovery H data = Inr rr"
    and "recover_read H (new_agent arg path) nd2 = Inr (Some la2)"
  shows "\<not> hasInitializedRoles (la_arg (start_agent la2)) \<and>
    use_registration H rsp (start_agent la2) nd3 = Inr (nd3, named_by rsp (start_agent la2), Some NotInitialized)"
proof -
  have "recovers_no_roles (pr_agent (new_process la nd))"
    using assms(1) by (simp add: new_process_def start_agent_def recovers_no_roles_def no_roles_def new_recovery_def)
  from turns_roles [OF assms(2,3) this] obtain rr where rr: "la_rr (pr_agent p) = Some rr" "no_roles rr"
    by (auto simp: recovers_no_roles_def split: option.splits)
  from assms(4) rr(1) obtain data where "ho_MarshalRecovery H rr = Inr data"
    and "gm_str (nd_files nd2) RECOVERY_FILE_PATH = data"
    by (auto simp: saveRecoveryFile_def WriteFile_def gm_str_def Let_def split: option.splits sum.splits prod.splits)
  with assms(6) json [OF rr(1)] have "la_rr la2 = Some rr"
    by (auto simp: recover_read_def split: sum.splits bool.splits option.splits)
  with rr(2) have "\<not> hasInitializedRoles (la_arg (start_agent la2))"
    by (simp add: start_agent_def hasInitializedRoles_def no_roles_def)
  then show ?thesis
    by (simp add: use_registration_def pooled_def named_by_def Let_def hasInitializedRoles_def)
qed

definition installed_record :: recovery_record where
  "installed_record = (new_recovery ''c1'')\<lparr>rv_HasInstalledMinion := True, rv_MinionDeploymentType := ''integration''\<rparr>"

definition recording_host :: "nat host" where
  "recording_host = (running_host ''/kubelet'')\<lparr>ho_UnmarshalRecovery := \<lambda>s. Inr installed_record\<rparr>"

lemma recording_run:
  "agent_turns recording_host [HealthTurn HandlerMinion] sample_process =
     Inr (sample_process\<lparr>pr_node := \<lparr>nd_world = 0, nd_files = [(RECOVERY_FILE_PATH, ''c1'')]\<rparr>,
       pr_agent := (pr_agent sample_process)\<lparr>la_ItemsStatus := [(''Minion'', \<lparr>ri_HasProvisioned = True, ri_Reason = [], ri_LastSeenTime = 0\<rparr>)],
         la_rr := Some installed_record\<rparr>\<rparr>)"
  by (simp add: sample_process_def new_process_def start_agent_def health_turn_def healthCheck_def health_item_def
      CheckMinionHealth_def with_containers_def named_container_def trace_status_def updateRecoveryFile_def note_installed_def
      job_key_def saveRecoveryFile_def WriteFile_def Remove_def recording_host_def installed_record_def new_recovery_def
      sample_args_def busy_defs Let_def)

theorem restart_forgets_roles_witness:
  "aa_IsMinionRole sample_args \<and>
   (\<exists>la2. recover_read recording_host (new_agent sample_args ''/c'') \<lparr>nd_world = 0, nd_files = [(RECOVERY_FILE_PATH, ''c1'')]\<rparr> = Inr (Some la2)
     \<and> \<not> hasInitializedRoles (la_arg (start_agent la2)))"
proof -
  let ?nd = "\<lparr>nd_world = 0, nd_files = [(RECOVERY_FILE_PATH, ''c1'')]\<rparr> :: nat node"
  have read: "\<exists>la2. recover_read recording_host (new_agent sample_args ''/c'') ?nd = Inr (Some la2)"
    by (simp add: recover_read_def Stat_def recording_host_def running_host_def quiet_host_def)
  then obtain la2 where la2: "recover_read recording_host (new_agent sample_args ''/c'') ?nd = Inr (Some la2)" ..
  have "\<not> hasInitializedRoles (la_arg (start_agent la2)) \<and> use_registration recording_host sample_registration (start_agent la2) ?nd =
      Inr (?nd, named_by sample_registration (start_agent la2), Some NotInitialized)"
    by (rule restart_forgets_roles [OF _ recording_run [unfolded sample_process_def] _ _ _ la2, where ?nd1.0 = ?nd])
       (simp_all add: new_agent_def not_change_def saveRecoveryFile_def WriteFile_def Remove_def recording_host_def running_host_def
         quiet_host_def installed_record_def new_recovery_def Let_def)
  with la2 sample_minion(1) show ?thesis by blast
qed

section \<open>Deployments find their images\<close>

lemma deploy_no_nil:
  assumes "la_basicImages la \<noteq> None" and "h \<noteq> HandlerMaster"
  shows "deploy H h job la nd \<noteq> Inl NilDeref"
proof -
  have scan: "scan_containers P cs \<noteq> Inl NilDeref" for P cs
    by (induction cs) (auto split: list.splits)
  have "start_kubelet H ip la nd \<noteq> Inl c" for ip nd c
    using assms(1) by (auto simp: start_kubelet_def split: prod.splits option.splits)
  then have "runKubeletContainer H ip la nd \<noteq> Inl NilDeref" for ip nd
    using scan by (auto simp: runKubeletContainer_def bindC_Inl_iff split: sum.splits option.splits if_splits)
  then show ?thesis
    using assms by (cases h) (auto simp: HandleDeployETCD_def HandleDeployMinion_def HandleDeployHA_def bindC_Inl_iff
        split: option.splits prod.splits if_splits)
qed

text \<open>
  C10: in every state that the process can reach, whatever its goroutines do in whatever order, a job
  that is about to be deployed is deployed by the handler of its own name, the images of the cluster
  are known, and only the deployment of a master can still meet a nil pointer.
\<close>

theorem deployments_have_images:
  assumes "(agent_step H)\<^sup>*\<^sup>* (new_process ((new_agent arg path)\<lparr>la_rr := rr\<rparr>) nd) p" and "pr_worker p = Deploying i h"
  shows "GetHandler (aj_Name (lj_job (la_jobs (pr_agent p) i))) = Some h \<and> la_basicImages (pr_agent p) \<noteq> None \<and>
    (h = HandlerMaster \<or> deploy H h (lj_job (la_jobs (pr_agent p) i)) (pr_agent p) (pr_node p) \<noteq> Inl NilDeref)"
proof -
  have "process_inv p" using agent_process.inv_reachable [OF _ assms(1)] by blast
  with assms(2) have "job_handled (pr_agent p) i h" and "la_basicImages (pr_agent p) \<noteq> None"
    by (auto simp: inv_defs)
  with deploy_no_nil [of "pr_agent p" h H "lj_job (la_jobs (pr_agent p) i)" "pr_node p"] show ?thesis
    by (auto simp: job_handled_def)
qed

lemma serving_host_deploys:
  assumes "pr_main p = Querying" and "pr_worker p = Idle" and "la_workQueue (pr_agent p) = []"
  shows "\<exists>p'. agent_turns serving_host [MainTurn, MainTurn, WorkerTurn, WorkerTurn] p = Inr p' \<and>
    pr_worker p' = Deploying (la_nextJob (pr_agent p)) HandlerETCD"
  using assms
  by (simp add: main_turn_def query_turn_def queryJob_def read_job_def decode_any_def offer_turn_def worker_turn_def
      find_handler_def set_handler_def new_job_def check_job_def CheckETCDHealth_def with_containers_def GetHandler_def
      handlers_def etcd_job_def serving_host_def quiet_host_def Succeed_def)

theorem deployments_have_images_witness:
  "\<exists>p. (agent_step serving_host)\<^sup>*\<^sup>* sample_process p \<and> pr_worker p = Deploying 0 HandlerETCD \<and>
     la_basicImages (pr_agent p) \<noteq> None"
proof -
  let ?q = "\<lambda>data. sample_process\<lparr>pr_main := Registering (register_url sample_args) data\<rparr>"
  obtain data where 1: "agent_turn serving_host MainTurn sample_process = Inr (?q data)"
    by (rule serving_host_turns [of sample_process]) simp_all
  obtain r where 2: "agent_turn serving_host MainTurn (?q data) = Inr r" "pr_main r = Querying"
    and r: "pr_worker r = Idle" "la_workQueue (pr_agent r) = []" "la_nextJob (pr_agent r) = 0"
    by (rule serving_host_turn [of "?q data"])
       (use sample_minion in \<open>simp_all add: same_jobs_def sample_process_def new_process_def start_agent_def new_agent_def\<close>)
  obtain p where 3: "agent_turns serving_host [MainTurn, MainTurn, WorkerTurn, WorkerTurn] r = Inr p"
    and p: "pr_worker p = Deploying 0 HandlerETCD"
    using serving_host_deploys [OF 2(2) r(1,2)] r(3) by auto
  have "agent_turns serving_host ([MainTurn, MainTurn] @ [MainTurn, MainTurn, WorkerTurn, WorkerTurn]) sample_process = Inr p"
    using 3 by (simp del: agent_turn.simps add: 1 2)
  then have steps: "(agent_step serving_host)\<^sup>*\<^sup>* sample_process p" by (rule agent_turns_steps)
  have start: "sample_process = new_process ((new_agent sample_args ''/c'')\<lparr>la_rr := None\<rparr>) \<lparr>nd_world = 0, nd_files = []\<rparr>"
    by (simp add: sample_process_def new_agent_def)
  from deployments_have_images [OF steps [unfolded start] p] p steps show ?thesis by blast
qed

section \<open>Recovery of an agent that was moved\<close>

text \<open>
  What happens to the agent while it recovers: nothing, or a message of a health check arrives, sent at
  that time or earlier.
\<close>

definition status_messages :: "'w host \<Rightarrow> (nat \<Rightarrow> lm_agent) \<Rightarrow> bool" where
  "status_messages H las \<longleftrightarrow> (\<forall>n. las (Suc n) = las n \<or>
     (\<exists>h item nd nd'. (\<exists>k \<le> n. \<exists>nd0 nd1. healthCheck H h (las k) nd0 = Inr (nd1, item)) \<and>
        trace_status H (job_key h) item (las n) nd = (nd', las (Suc n))))"

definition waits_for_minion :: "lm_agent \<Rightarrow> bool" where
  "waits_for_minion la \<longleftrightarrow> \<not> aa_IsMinionRole (la_arg la) \<and>
     \<not> provisioned_item (la_ItemsStatus la) AgentJob_Deploy_Minion \<and>
     (case la_rr la of None \<Rightarrow> False | Some rr \<Rightarrow> rv_HasInstalledMinion rr)"

lemma waits_for_minion_message:
  assumes "waits_for_minion la" and "trace_status H (job_key h) item la nd = (nd', la')"
    and "healthCheck H h la0 nd0 = Inr (nd1, item)" and "waits_for_minion la0"
  shows "waits_for_minion la'"
proof -
  have "\<not> ri_HasProvisioned item" if "h = HandlerMinion"
    using assms(3,4) that by (auto simp: waits_for_minion_def healthCheck_def health_item_def elim!: bindC_InrE dest: healthy_minion_role)
  then have "\<not> provisioned_item (la_ItemsStatus la') AgentJob_Deploy_Minion"
    using assms(1) trace_status_keeps(2) [OF assms(2)]
    by (cases h) (auto simp: waits_for_minion_def provisioned_item_def job_key_def)
  with assms(1) trace_status_keeps(1,3) [OF assms(2)] show ?thesis
    by (fastforce simp: waits_for_minion_def split: option.splits)
qed

text \<open>
  C19: an agent that was started for the pool and given the role of a minion later does not come back
  from a restart: while it recovers it has the roles of its command line, for which its own health
  check never finds the minion provisioned, and that is what the waiting loop waits for, whenever it
  looks and whatever the messages of the health checks change in the recovery record meanwhile.
\<close>

theorem recovery_of_moved_minion_never_ends:
  assumes "recover_read H la nd = Inr (Some la1)" and "la_rr la1 = Some rr" and "rv_HasInstalledMinion rr"
    and "\<not> aa_IsMinionRole (la_arg la)" and "\<not> provisioned_item (la_ItemsStatus la) AgentJob_Deploy_Minion"
    and "las 0 = la1" and "status_messages H las"
  shows "recover_wait (\<lambda>n. las (look n)) 0 = None"
proof -
  have "waits_for_minion la1"
    using assms(1-5)
    by (auto simp: waits_for_minion_def recover_read_def split: sum.splits bool.splits option.splits if_splits)
  have waits: "waits_for_minion (las n)" for n
  proof (induction n rule: less_induct)
    case (less n)
    show ?case
    proof (cases n)
      case 0
      with assms(6) \<open>waits_for_minion la1\<close> show ?thesis by simp
    next
      case (Suc m)
      with less have ih: "waits_for_minion (las k)" if "k \<le> m" for k using that by simp
      from assms(7) consider "las (Suc m) = las m"
        | h item nd nd' k nd0 nd1 where "k \<le> m" "healthCheck H h (las k) nd0 = Inr (nd1, item)"
            "trace_status H (job_key h) item (las m) nd = (nd', las (Suc m))"
        unfolding status_messages_def by blast
      then show ?thesis
      proof cases
        case 2
        from waits_for_minion_message [OF ih [OF order_refl] 2(3,2) ih [OF 2(1)]] show ?thesis by (simp add: Suc)
      qed (use ih [OF order_refl] Suc in simp)
    qed
  qed
  have "\<not> (case la_rr (las (look m)) of None \<Rightarrow> True | Some rr \<Rightarrow> checkHealthy rr (la_ItemsStatus (las (look m))))" for m
    using waits [of "look m"] by (auto simp: waits_for_minion_def checkHealthy_def split: option.splits)
  then show ?thesis
    using recover_wait_Some [of "\<lambda>n. las (look n)" 0] by (cases "recover_wait (\<lambda>n. las (look n)) 0") blast+
qed

theorem recovery_of_moved_minion_never_ends_witness:
  "\<exists>la1 la2 nd2. recover_read recording_host (new_agent (sample_args\<lparr>aa_IsMinionRole := False\<rparr>) ''/c'')
       \<lparr>nd_world = 0, nd_files = [(RECOVERY_FILE_PATH, ''c1'')]\<rparr> = Inr (Some la1) \<and>
     trace_status recording_host AgentJob_Deploy_Minion \<lparr>ri_HasProvisioned = False, ri_Reason = [], ri_LastSeenTime = 0\<rparr>
       la1 \<lparr>nd_world = 0, nd_files = []\<rparr> = (nd2, la2) \<and>
     recover_wait (\<lambda>n. if n = 0 then la1 else la2) 0 = None"
proof -
  let ?la = "new_agent (sample_args\<lparr>aa_IsMinionRole := False\<rparr>) ''/c''"
  let ?nd = "\<lparr>nd_world = 0, nd_files = [(RECOVERY_FILE_PATH, ''c1'')]\<rparr> :: nat node"
  let ?item = "\<lparr>ri_HasProvisioned = False, ri_Reason = [], ri_LastSeenTime = 0\<rparr>"
  obtain la1 where la1: "recover_read recording_host ?la ?nd = Inr (Some la1)" "la_rr la1 = Some installed_record"
      "\<not> aa_IsMinionRole (la_arg la1)"
    by (simp add: recover_read_def Stat_def recording_host_def running_host_def quiet_host_def new_agent_def)
  have check: "healthCheck recording_host HandlerMinion la1 ?nd = Inr (?nd, ?item)"
    using la1(3) by (simp add: healthCheck_def health_item_def CheckMinionHealth_def with_containers_def named_container_def
        recording_host_def running_host_def quiet_host_def)
  obtain nd2 la2 where t: "trace_status recording_host AgentJob_Deploy_Minion ?item la1 \<lparr>nd_world = 0, nd_files = []\<rparr> = (nd2, la2)"
    by (cases "trace_status recording_host AgentJob_Deploy_Minion ?item la1 \<lparr>nd_world = 0, nd_files = []\<rparr>")
  let ?las = "\<lambda>n :: nat. if n = 0 then la1 else la2"
  have k: "job_key HandlerMinion = AgentJob_Deploy_Minion" by (simp add: job_key_def)
  have "?las (Suc n) = ?las n \<or> (\<exists>h item nd nd'. (\<exists>k \<le> n. \<exists>nd0 nd1. healthCheck recording_host h (?las k) nd0 = Inr (nd1, item)) \<and>
      trace_status recording_host (job_key h) item (?las n) nd = (nd', ?las (Suc n)))" for n
  proof (cases "n = 0")
    case True
    have "trace_status recording_host (job_key HandlerMinion) ?item (?las n) \<lparr>nd_world = 0, nd_files = []\<rparr> = (nd2, ?las (Suc n))"
      using t True by (simp add: k)
    moreover have "\<exists>k \<le> n. \<exists>nd0 nd1. healthCheck recording_host HandlerMinion (?las k) nd0 = Inr (nd1, ?item)"
      using check by (intro exI [of _ 0]) auto
    ultimately show ?thesis by blast
  qed simp
  then have "status_messages recording_host ?las" unfolding status_messages_def by blast
  with recovery_of_moved_minion_never_ends [OF la1(1,2), of ?las "\<lambda>n. n"]
  have "recover_wait ?las 0 = None"
    by (simp add: installed_record_def new_recovery_def new_agent_def provisioned_item_def)
  with la1(1) t show ?thesis by blast
qed

end
