(* ===== verification/Installations.thy ===== *)
theory Installations
  imports Deployments
begin

text \<open>
  What the deployment controllers do with the payloads that the source carries: \<open>Initialize\<close> makes
  exactly the objects that \<open>payload_objects\<close> lists, \<open>Install\<close> creates them, and after that
  \<open>HasInstalled\<close> finds what it looks for. The decoders enter by \<open>decodes\<close>, for the documents of the
  filled-in payload only; the values that are filled in are \<open>plain_values\<close>.
\<close>

section \<open>What a controller installs\<close>

fun payload_of :: "controller_type \<Rightarrow> payload_name option" where
  "payload_of ImagePullSecretsController = None"
| "payload_of PrometheusController = Some PayloadPrometheus"
| "payload_of MetricServerController = Some PayloadMetricServer"
| "payload_of TraefikController = Some PayloadTraefik"
| "payload_of ElasticSearchController = Some PayloadElasticSearch"
| "payload_of FilebeatController = Some PayloadFilebeat"
| "payload_of MetricbeatController = Some PayloadMetricbeat"
| "payload_of HelmController = Some PayloadHelm"
| "payload_of CoreDNSController = Some PayloadCoreDNS"
| "payload_of KubeRouterController = Some PayloadKubeRouter"

text \<open>The values for its template; \<open>None\<close> where an extension is not asked for.\<close>

fun values_of :: "controller_type \<Rightarrow> string \<Rightarrow> cluster_settings \<Rightarrow> (string, string) gomap option" where
  "values_of ElasticSearchController ip settings =
     map_option ElasticSearch_attributes (gm_get (cs_ExtensionalDeployments settings) EXT_DEPLOYMENT_ES)"
| "values_of FilebeatController ip settings =
     map_option Filebeat_attributes (gm_get (cs_ExtensionalDeployments settings) EXT_DEPLOYMENT_FILEBEAT)"
| "values_of MetricbeatController ip settings =
     map_option Metricbeat_attributes (gm_get (cs_ExtensionalDeployments settings) EXT_DEPLOYMENT_METRICBEAT)"
| "values_of CoreDNSController ip settings = Some (CoreDNS_attributes settings)"
| "values_of KubeRouterController ip settings = Some (KubeRouter_attributes ip settings)"
| "values_of t ip settings = Some []"

text \<open>What the theorems ask of the settings and of the decoders.\<close>

definition decodes_payload :: "'w kube \<Rightarrow> payload_name \<Rightarrow> (string, string) gomap \<Rightarrow> bool" where
  "decodes_payload K p attrs = (case text_template (payload p) attrs of None \<Rightarrow> True
     | Some s \<Rightarrow> list_all (decodes K) (split_str ''---'' s))"

definition installable :: "'w kube \<Rightarrow> string \<Rightarrow> cluster_settings \<Rightarrow> controller_type \<Rightarrow> bool" where
  "installable K ip settings t =
     (case payload_of t of None \<Rightarrow> True
      | Some p \<Rightarrow> (case values_of t ip settings of None \<Rightarrow> True
         | Some attrs \<Rightarrow> plain_values attrs \<and> decodes_payload K p attrs))"

text \<open>A controller with the objects that it is to have.\<close>

definition built :: "controller_type \<Rightarrow> deployment_controller \<Rightarrow> bool" where
  "built t dc =
     (case payload_of t of
        None \<Rightarrow> dc_parsedObjects dc = map newSecret (cs_ImagePullSecrets (dc_settings dc))
      | Some p \<Rightarrow>
          if values_of t [] (dc_settings dc) = None then dc_parsedObjects dc = []
          else list_all2 is_object (dc_parsedObjects dc) (payload_objects p))"

section \<open>Initialize\<close>

lemma decode_all_objects:
  assumes "list_all2 (\<lambda>d i. \<exists>obj. DecodeYamlOrJson K d = Inr obj \<and> is_object obj i) ds ids"
  shows "\<exists>objs. decode_all K ds dc = (dc\<lparr>dc_parsedObjects := dc_parsedObjects dc @ objs\<rparr>, None) \<and> list_all2 is_object objs ids"
  using assms
proof (induction arbitrary: dc rule: list_all2_induct)
  case Nil
  then show ?case by (intro exI [of _ "[]"]) simp
next
  case (Cons d ds i ids)
  from Cons(1) obtain obj where obj: "DecodeYamlOrJson K d = Inr obj" "is_object obj i" by blast
  from Cons.IH [of "dc\<lparr>dc_parsedObjects := dc_parsedObjects dc @ [obj]\<rparr>"] obtain objs where
    "decode_all K ds (dc\<lparr>dc_parsedObjects := dc_parsedObjects dc @ [obj]\<rparr>) =
       (dc\<lparr>dc_parsedObjects := dc_parsedObjects dc @ obj # objs\<rparr>, None)" "list_all2 is_object objs ids" by auto
  with obj show ?case by (intro exI [of _ "obj # objs"]) simp
qed

text \<open>The decoded documents of a payload are its objects.\<close>

lemma load_payload_objects:
  assumes "plain_values attrs" and "decodes_payload K p attrs" and "text_template (payload p) attrs = Some s"
  shows "\<exists>objs. load_payload K s dc = (dc\<lparr>dc_parsedObjects := dc_parsedObjects dc @ objs\<rparr>, None) \<and>
     list_all2 is_object objs (payload_objects p)"
  unfolding load_payload_def
proof (rule decode_all_objects)
  have docs: "list_all2 is_about (split_str ''---'' s) (payload_objects p)"
  proof (rule payload_text [OF assms(1), of p])
    fix s' assume s': "text_template (payload p) attrs = Some s'"
    assume "list_all2 is_about (split_str ''---'' s') (payload_objects p)"
    moreover have "s' = s" using s' assms(3) by simp
    ultimately show ?thesis by (simp only:)
  qed
  have dec: "list_all (decodes K) (split_str ''---'' s)" using assms(2,3) by (simp add: decodes_payload_def)
  show "list_all2 (\<lambda>d i. \<exists>obj. DecodeYamlOrJson K d = Inr obj \<and> is_object obj i) (split_str ''---'' s) (payload_objects p)"
  proof (rule list_all2_all_nthI)
    show len: "length (split_str ''---'' s) = length (payload_objects p)" using docs by (rule list_all2_lengthD)
    fix n assume n: "n < length (split_str ''---'' s)"
    let ?d = "split_str ''---'' s ! n" and ?i = "payload_objects p ! n"
    from list_all2_nthD [OF docs n, unfolded is_about_def] have d: "?i = (yh_apiVersion (yaml_header ?d), yh_kind (yaml_header ?d), yh_namespace (yaml_header ?d), yh_name (yaml_header ?d))"
      "contains ''apiregistration.k8s.io'' ?d = (fst ?i = ''apiregistration.k8s.io/v1beta1'')" by auto
    have "?i \<in> set (payload_objects p)" using n len by simp
    with payload_kinds [of p] have k: "case id_kind ?i of None \<Rightarrow> False
      | Some k \<Rightarrow> create_case k \<noteq> None \<and> (k = APIService) = (fst ?i = ''apiregistration.k8s.io/v1beta1'')"
      by (auto simp only: list_all_iff)
    have hk: "header_kind (yaml_header ?d) = id_kind ?i" by (simp add: header_kind_def id_kind_def d(1))
    show "\<exists>obj. DecodeYamlOrJson K ?d = Inr obj \<and> is_object obj ?i"
      using d k hk dec n by (intro DecodeYamlOrJson_object [OF _ d(1) refl]) (auto simp: list_all_length split: option.splits)
  qed
qed

lemmas Initialize_defs = Prometheus_Initialize_def MetricServer_Initialize_def Traefik_Initialize_def
  ElasticSearch_Initialize_def Filebeat_Initialize_def Metricbeat_Initialize_def Helm_Initialize_def
  CoreDNS_Initialize_def KubeRouter_Initialize_def ElasticSearch_processArguments_def
  Filebeat_processArguments_def Metricbeat_processArguments_def render_def

lemma Initialize_loads:
  assumes "payload_of t = Some p" and "values_of t ip settings = Some attrs" and "plain_values attrs"
  obtains s where "text_template (payload p) attrs = Some s"
    "Initialize_of t K client ip settings dc = load_payload K s (dc_bind client settings dc)"
proof -
  obtain s where s: "text_template (payload p) attrs = Some s"
    and none: "concat (payload_fields p) = [] \<Longrightarrow> s = payload p"
    using payload_text [OF assms(3)] by metis
  have "Initialize_of t K client ip settings dc = load_payload K s (dc_bind client settings dc)"
    using assms(1,2) s none by (cases t) (auto simp: Initialize_defs dc_bind_def)
  with s that show thesis by blast
qed

lemma dc_bind_new: "dc_client (dc_bind client settings dc) = client" "dc_settings (dc_bind client settings dc) = settings"
  "dc_parsedObjects (dc_bind client settings dc) = dc_parsedObjects dc"
  "dc_hasInstalled (dc_bind client settings dc) = dc_hasInstalled dc"
  by (simp_all add: dc_bind_def)

lemma values_of_ip: "values_of t ip settings = None \<longleftrightarrow> values_of t ip' settings = None"
  by (cases t) auto

lemma Initialize_built:
  assumes "installable K ip settings t"
  shows "\<exists>dc. Initialize_of t K client ip settings new_dc = (dc, None) \<and> built t dc \<and>
     dc_client dc = client \<and> dc_settings dc = settings \<and> \<not> dc_hasInstalled dc"
proof (cases "payload_of t")
  case None
  then have "t = ImagePullSecretsController" by (cases t) simp_all
  then show ?thesis by (simp add: ImagePullSecrets_Initialize_def built_def dc_bind_new new_dc_def)
next
  case (Some p)
  show ?thesis
  proof (cases "values_of t ip settings")
    case None
    then have "values_of t [] settings = None" using values_of_ip by blast
    with None Some show ?thesis
      by (cases t) (simp_all add: Initialize_defs built_def dc_bind_def new_dc_def)
  next
    case v: (Some attrs)
    with assms Some have p: "plain_values attrs" "decodes_payload K p attrs" by (simp_all add: installable_def)
    obtain s where s: "text_template (payload p) attrs = Some s"
      "Initialize_of t K client ip settings new_dc = load_payload K s (dc_bind client settings new_dc)"
      by (rule Initialize_loads [OF Some v p(1)])
    from load_payload_objects [OF p s(1), of "dc_bind client settings new_dc"] obtain objs where
      "load_payload K s (dc_bind client settings new_dc) = ((dc_bind client settings new_dc)\<lparr>dc_parsedObjects := objs\<rparr>, None)"
      "list_all2 is_object objs (payload_objects p)" by (auto simp: dc_bind_def new_dc_def)
    moreover have "values_of t [] settings \<noteq> None" using v values_of_ip [of t ip settings "[]"] by auto
    ultimately show ?thesis using s Some by (auto simp: built_def dc_bind_def new_dc_def)
  qed
qed

section \<open>Install, then HasInstalled\<close>

text \<open>The object that \<open>HasInstalled\<close> asks for.\<close>

fun query_of :: "controller_type \<Rightarrow> cluster_settings \<Rightarrow> (kind \<times> string \<times> string) option" where
  "query_of ImagePullSecretsController settings =
     (case cs_ImagePullSecrets settings of [] \<Rightarrow> None | s # r \<Rightarrow> Some (Secret, ps_Namespace s, ps_Name s))"
| "query_of PrometheusController settings = Some (AppsV1beta1Deployment, ''kube-system'', ''prometheus-deployment'')"
| "query_of MetricServerController settings = Some (ExtDeployment, ''kube-system'', ''metrics-server'')"
| "query_of TraefikController settings = Some (ExtDaemonSet, ''kube-system'', ''traefik-ingress-controller'')"
| "query_of ElasticSearchController settings = Some (AppsV1beta1Deployment, ''kube-system'', ''elasticsearch-master'')"
| "query_of FilebeatController settings = Some (ExtDaemonSet, ''kube-system'', ''filebeat'')"
| "query_of MetricbeatController settings = Some (ExtDeployment, ''kube-system'', ''metricbeat'')"
| "query_of HelmController settings = Some (ExtDeployment, ''kube-system'', ''tiller-deploy'')"
| "query_of CoreDNSController settings = Some (AppsV1beta1Deployment, ''kube-system'', ''coredns'')"
| "query_of KubeRouterController settings = Some (ExtDaemonSet, ''kube-system'', ''kube-router'')"

lemma HasInstalled_query:
  assumes "HasInstalled_of t K dc w = Inr (w', dc', Inr False)"
  obtains k ns n where "query_of t (dc_settings dc) = Some (k, ns, n)" "values_of t [] (dc_settings dc) \<noteq> None"
    "query_installed K k ns n dc w = Inr (w', dc', Inr False)"
  using assms by (cases t) (auto simp: HasInstalled_defs split: if_splits list.splits)

text \<open>An answer \<open>False\<close> means that the object was not there.\<close>

lemma query_installed_no:
  assumes "kube_law K objs past" and "query_installed K k ns n dc w = Inr (w', dc', Inr False)"
  obtains c where "scope_client (dc_client dc) Namespaced = Inr c" "objs w c (resource k, ns, n) = None"
proof -
  obtain c g where 1: "scope_client (dc_client dc) Namespaced = Inr c" "ka_Get K w c [] k ns n = (w', g)"
    "(w', dc', Inr False) = note_answer n dc (w', g)" by (rule query_installed_cases [OF assms(2)])
  show thesis
  proof (cases g)
    case (Inl e)
    with 1 have "IsNotFound e" by (auto simp: note_answer_def split: if_splits)
    with kube_get(2) [OF assms(1) 1(2)] Inl that 1(1) show thesis by (auto simp: answers_def)
  next
    case (Inr x)
    with 1 kube_get(2) [OF assms(1) 1(2)] show thesis by (auto simp: note_answer_def answers_def)
  qed
qed

text \<open>Every payload has the object that its controller asks for, under the same key.\<close>

lemma query_in_payload:
  assumes "payload_of t = Some p" and "query_of t settings = Some (k, ns, n)"
  shows "\<exists>i \<in> set (payload_objects p). case i of (v, kd, ns', n') \<Rightarrow> ns' = ns \<and> n' = n \<and> ns \<noteq> [] \<and>
     (\<exists>k'. map_of scheme_types (v, kd) = Some k' \<and> resource k' = resource k \<and> exists_case k' = Some Namespaced)"
  using assms by (cases t) (auto simp: scheme_types_def)

lemma built_query:
  assumes "built t dc" and "query_of t (dc_settings dc) = Some (k, ns, n)" and "values_of t [] (dc_settings dc) \<noteq> None"
  obtains obj where "obj \<in> set (dc_parsedObjects dc)" "resource (ko_Kind obj) = resource k"
    "exists_case (ko_Kind obj) = Some Namespaced" "ko_Meta obj = Some \<lparr>om_Namespace = ns, om_Name = n\<rparr>"
proof (cases "payload_of t")
  case None
  then have "t = ImagePullSecretsController" by (cases t) simp_all
  with assms(2) obtain s r where s: "cs_ImagePullSecrets (dc_settings dc) = s # r" "k = Secret" "ns = ps_Namespace s" "n = ps_Name s"
    by (auto split: list.splits)
  with assms(1) None have "newSecret s \<in> set (dc_parsedObjects dc)" by (simp add: built_def)
  with s that [of "newSecret s"] show ?thesis by (simp add: newSecret_def Let_def)
next
  case (Some p)
  with assms have b: "list_all2 is_object (dc_parsedObjects dc) (payload_objects p)" by (auto simp: built_def)
  from query_in_payload [OF Some assms(2)] obtain i where i: "i \<in> set (payload_objects p)"
    "case i of (v, kd, ns', n') \<Rightarrow> ns' = ns \<and> n' = n \<and> ns \<noteq> [] \<and>
     (\<exists>k'. map_of scheme_types (v, kd) = Some k' \<and> resource k' = resource k \<and> exists_case k' = Some Namespaced)" ..
  from b i(1) obtain obj where obj: "obj \<in> set (dc_parsedObjects dc)" "is_object obj i"
    by (metis list_all2_conv_all_nth in_set_conv_nth)
  with i(2) that show ?thesis by (auto simp: is_object_def split: prod.splits)
qed

lemma built_frame: "dc' = dc \<or> dc' = dc\<lparr>dc_hasInstalled := True\<rparr> \<Longrightarrow> built t dc' = built t dc"
  by (auto simp: built_def split: option.splits)

lemma built_installed:
  assumes "kube_law K objs past" and "built t dc" and "HasInstalled_of t K dc w = Inr (w', dc', Inr b)"
    and "\<forall>obj \<in> set (dc_parsedObjects dc). present objs (dc_client dc) w obj"
  shows b
proof (rule ccontr)
  assume "\<not> b"
  with assms(3) have "HasInstalled_of t K dc w = Inr (w', dc', Inr False)" by simp
  then obtain k ns n where q: "query_of t (dc_settings dc) = Some (k, ns, n)" "values_of t [] (dc_settings dc) \<noteq> None"
    "query_installed K k ns n dc w = Inr (w', dc', Inr False)" by (rule HasInstalled_query)
  obtain c where c: "scope_client (dc_client dc) Namespaced = Inr c" "objs w c (resource k, ns, n) = None"
    by (rule query_installed_no [OF assms(1) q(3)])
  obtain obj where obj: "obj \<in> set (dc_parsedObjects dc)" "resource (ko_Kind obj) = resource k"
    "exists_case (ko_Kind obj) = Some Namespaced" "ko_Meta obj = Some \<lparr>om_Namespace = ns, om_Name = n\<rparr>"
    by (rule built_query [OF assms(2) q(1,2)])
  with assms(4) c show False by (fastforce simp: present_def object_key_def scope_ns_def)
qed

lemma built_install_installed:
  assumes "kube_law K objs past" and "built t dc" and "Install_of t K dc w = Inr (w1, dc1, None)" and "grows objs past w1 w2"
    and "HasInstalled_of t K dc1 w2 = Inr (w3, dc3, Inr b)" and "undisturbed objs past w"
  shows b
proof -
  note frame = Install_frame [OF assms(3)]
  have b: "built t dc1" using assms(2) built_frame [OF frame] by simp
  from install_complete' [OF assms(1,3,6)] show ?thesis
  proof
    assume "\<forall>obj \<in> set (dc_parsedObjects dc). present objs (dc_client dc) w1 obj"
    with assms(4) frame have "\<forall>obj \<in> set (dc_parsedObjects dc1). present objs (dc_client dc1) w2 obj"
      by (auto intro: grows_present)
    with built_installed [OF assms(1) b assms(5)] show ?thesis by blast
  next
    assume "\<forall>v. HasInstalled_of t K dc1 v = Inr (v, dc1, Inr True)"
    with assms(5) show ?thesis by auto
  qed
qed

text \<open>What the extension controller keeps when it is created, and what it finds after \<open>Install\<close>.\<close>

lemma init_controllers_built:
  assumes "\<forall>t \<in> set ts. installable K ip settings t"
  shows "map fst (init_controllers K client ip settings ts) = ts \<and>
    list_all (\<lambda>(t, dc). built t dc) (init_controllers K client ip settings ts)"
  using assms
proof (induction ts)
  case (Cons t ts)
  then obtain dc where "Initialize_of t K client ip settings new_dc = (dc, None)" "built t dc"
    using Initialize_built [of K ip settings t client] by auto
  with Cons show ?case by simp
qed simp

lemma check_after_install:
  assumes "kube_law K objs past" and "list_all (\<lambda>(t, dc). built t dc) cs"
    and "install_controllers K cs w = Inr (w1, cs1, None)" and "grows objs past w1 v"
    and "check_controllers K cs1 v = Inr (w2, cs2, r)" and "undisturbed objs past w"
  shows "r \<noteq> Inr False"
  using assms(2-6)
proof (induction cs arbitrary: w v cs1 cs2)
  case (Cons c cs)
  obtain t dc where c: "c = (t, dc)" by (cases c)
  with Cons.prems(2) obtain u dc1 rest where i: "Install_of t K dc w = Inr (u, dc1, None)"
    "install_controllers K cs u = Inr (w1, rest, None)" "cs1 = (t, dc1) # rest"
    by (auto simp: bindC_Inr_iff split: option.splits)
  have g: "grows objs past u v"
    using install_controllers_grows [OF assms(1) i(2)] Cons.prems(3) by (rule grows_trans)
  have u: "undisturbed objs past u"
    using Install_grows [OF assms(1) i(1)] Cons.prems(5) by (rule grows_undisturbed)
  from Cons.prems(4) i(3) obtain v1 dc2 r1 where h: "HasInstalled_of t K dc1 v = Inr (v1, dc2, r1)"
    by (auto simp: bindC_Inr_iff)
  show ?case
  proof (cases r1)
    case (Inl e)
    with Cons.prems(4) i(3) h show ?thesis by auto
  next
    case (Inr b)
    have b using built_install_installed [OF assms(1) _ i(1) g _ Cons.prems(5)] Cons.prems(1) c h Inr by simp
    with Cons.prems(4) i(3) h Inr obtain rest2 where "check_controllers K rest v1 = Inr (w2, rest2, r)"
      by (auto simp: bindC_Inr_iff)
    moreover have "grows objs past w1 v1"
      using Cons.prems(3) unchanged_grows [OF HasInstalled_same [OF assms(1) h]] by (rule grows_trans)
    ultimately show ?thesis using Cons.IH [OF _ i(2)] Cons.prems(1) u by simp
  qed
qed auto

section \<open>Properties\<close>

text \<open>
  C6: from settings with plain values, and with decoders that read the headers of the documents,
  every controller that has a payload and is asked for makes exactly the
  objects of the specification \<open>payload_objects\<close>, in their order, all of types that
  \<open>CreateK8SResource\<close> handles; nothing of the payload is lost, split or sent to the wrong decoder.
\<close>

theorem initialize_makes_objects:
  assumes "payload_of t = Some p" and "values_of t ip settings = Some attrs" and "installable K ip settings t"
  shows "\<exists>dc. Initialize_of t K client ip settings new_dc = (dc, None) \<and>
     list_all2 is_object (dc_parsedObjects dc) (payload_objects p) \<and>
     (\<forall>obj \<in> set (dc_parsedObjects dc). create_case (ko_Kind obj) \<noteq> None)"
proof -
  obtain dc where dc: "Initialize_of t K client ip settings new_dc = (dc, None)" "built t dc" "dc_settings dc = settings"
    using Initialize_built [OF assms(3)] by blast
  have "values_of t [] settings \<noteq> None" using assms(2) values_of_ip [of t ip settings "[]"] by auto
  with dc assms(1) have b: "list_all2 is_object (dc_parsedObjects dc) (payload_objects p)" by (simp add: built_def)
  have "create_case (ko_Kind obj) \<noteq> None" if "obj \<in> set (dc_parsedObjects dc)" for obj
  proof -
    from b that obtain i where i: "i \<in> set (payload_objects p)" "is_object obj i"
      by (metis list_all2_conv_all_nth in_set_conv_nth)
    then have "id_kind i = Some (ko_Kind obj)" by (auto simp: is_object_def id_kind_def split: prod.splits)
    with payload_kinds [of p] i(1) show ?thesis by (fastforce simp: list_all_iff)
  qed
  with b dc(1) show ?thesis by blast
qed

text \<open>
  C5: with plain values in the settings, and decoders that read the headers of the documents, the
  extension controller keeps all its eight controllers. When its \<open>Install\<close> has then returned without an
  error, in a cluster from which nothing has been deleted, \<open>HasInstalled\<close> does not answer \<open>False\<close>: it
  finds every component that was asked for, or reports an error of the API server.
\<close>

theorem installed_is_found:
  assumes "kube_law K objs past"
    and "\<forall>t \<in> set extension_types. installable K ip settings t"
    and "CreateExtensionDeploymentController K client ip settings = (Some ec, None)"
    and "undisturbed objs past w" and "Extension_Install K ec w = Inr (w1, ec1, None)"
    and "Extension_HasInstalled K ec1 w1 = Inr (w2, ec2, r)"
  shows "map fst (ec_controllers ec) = extension_types \<and> r \<noteq> Inr False"
proof -
  have ec: "ec_controllers ec = init_controllers K client ip settings extension_types"
    using assms(3) by (auto simp: CreateExtensionDeploymentController_def Extension_Initialize_def)
  from assms(5,6) obtain cs1 cs2 where "install_controllers K (ec_controllers ec) w = Inr (w1, cs1, None)"
    "check_controllers K cs1 w1 = Inr (w2, cs2, r)"
    by (auto simp: Extension_Install_def Extension_HasInstalled_def bindC_Inr_iff)
  with check_after_install [OF assms(1), of "ec_controllers ec" w w1 cs1 w1 w2 cs2 r]
    init_controllers_built [OF assms(2)] ec assms(4)
  show ?thesis by simp
qed

section \<open>A run in memory\<close>

text \<open>All components asked for, and clients for both APIs.\<close>

definition all_extensions :: cluster_settings where
  "all_extensions = zero_settings\<lparr>cs_ExtensionalDeployments :=
     [(EXT_DEPLOYMENT_PROMETHEUS, []), (EXT_DEPLOYMENT_METRICSERVER, []), (EXT_DEPLOYMENT_TRAEFIK, []),
      (EXT_DEPLOYMENT_ES, []), (EXT_DEPLOYMENT_FILEBEAT, [(''es_host'', ''es.example.org'')]),
      (EXT_DEPLOYMENT_METRICBEAT, []), (EXT_DEPLOYMENT_HELM, [])]\<rparr>"

definition both_clients :: "client_set option" where
  "both_clients = Some \<lparr>kc_CoreClient = Some 0, kc_APIRegClientV1beta1 = Some 1\<rparr>"

lemma all_extensions_installable: "installable sim_kube ip all_extensions t" if "t \<in> set extension_types"
proof -
  have dec: "decodes_payload sim_kube p attrs" for p attrs
    by (simp add: decodes_payload_def list_all_iff sim_decodes split: option.split)
  have "plain_values (ElasticSearch_attributes [])" "plain_values (Filebeat_attributes [(''es_host'', ''es.example.org'')])"
    "plain_values (Metricbeat_attributes [])" by code_simp+
  moreover have "map_of (cs_ExtensionalDeployments all_extensions) EXT_DEPLOYMENT_ES = Some []"
    "map_of (cs_ExtensionalDeployments all_extensions) EXT_DEPLOYMENT_FILEBEAT = Some [(''es_host'', ''es.example.org'')]"
    "map_of (cs_ExtensionalDeployments all_extensions) EXT_DEPLOYMENT_METRICBEAT = Some []"
    by (simp_all add: all_extensions_def)
  moreover have "plain_values []" by (simp add: plain_values_def)
  ultimately show ?thesis using that by (auto simp: installable_def extension_types_def dec)
qed

theorem initialize_makes_objects_witness:
  "\<exists>dc. Initialize_of FilebeatController (sim_kube :: sim_world kube) both_clients ''10.0.0.1'' all_extensions new_dc = (dc, None) \<and>
     length (dc_parsedObjects dc) = 5"
proof -
  have v: "values_of FilebeatController ''10.0.0.1'' all_extensions = Some (Filebeat_attributes [(''es_host'', ''es.example.org'')])"
    by (simp add: all_extensions_def)
  have "installable (sim_kube :: sim_world kube) ''10.0.0.1'' all_extensions FilebeatController"
    by (rule all_extensions_installable) (simp add: extension_types_def)
  from initialize_makes_objects [OF _ v this, of PayloadFilebeat both_clients]
  show ?thesis by (auto dest: list_all2_lengthD)
qed

text \<open>The cluster in memory never fails on objects of supported types.\<close>

definition creatable :: "k8s_object \<Rightarrow> bool" where
  "creatable obj \<longleftrightarrow> create_case (ko_Kind obj) \<noteq> None \<and> ko_Meta obj \<noteq> None"

lemma both_client: "\<exists>c. scope_client both_clients sc = Inr c"
  by (simp add: scope_client_def both_clients_def)

lemma sim_install_loop:
  "list_all creatable obs \<Longrightarrow> \<exists>w'. install_loop sim_kube both_clients obs w = Inr (w', None)"
proof (induction obs arbitrary: w)
  case (Cons obj obs)
  then obtain sc m where sc: "create_case (ko_Kind obj) = Some sc" "ko_Meta obj = Some m" by (auto simp: creatable_def)
  obtain c where c: "scope_client both_clients sc = Inr c" using both_client by blast
  note [simp] = sc c exists_create_case [OF sc(1)]
  note defs = install_loop.simps(2) ObjectMetaFor_def IsKubernetesResourceExists_def CreateK8SResource_def meta_of_def
    sim_kube_def sim_get_def sim_create_def IsNotFound_def
  show ?case
  proof (cases "gm_get (sw_objs w) (c, resource (ko_Kind obj), scope_ns sc (om_Namespace m), om_Name m)")
    case None
    with Cons show ?thesis by (simp add: defs)
  next
    case (Some x)
    with Cons show ?thesis by (simp add: defs)
  qed
qed simp

lemma built_creatable:
  assumes "built t dc"
  shows "list_all creatable (dc_parsedObjects dc)"
proof (cases "payload_of t")
  case None
  with assms show ?thesis by (auto simp: built_def list_all_iff creatable_def newSecret_def Let_def)
next
  case (Some p)
  have "creatable obj" if "obj \<in> set (dc_parsedObjects dc)" "list_all2 is_object (dc_parsedObjects dc) (payload_objects p)" for obj
  proof -
    from that obtain i where i: "i \<in> set (payload_objects p)" "is_object obj i"
      by (metis list_all2_conv_all_nth in_set_conv_nth)
    then have "id_kind i = Some (ko_Kind obj)" by (auto simp: is_object_def id_kind_def split: prod.splits)
    with payload_kinds [of p] i show ?thesis by (fastforce simp: list_all_iff creatable_def is_object_def split: prod.splits)
  qed
  with assms Some show ?thesis by (cases "dc_parsedObjects dc = []") (auto simp: built_def list_all_iff split: if_splits)
qed

lemma sim_HasInstalled:
  assumes "dc_client dc = both_clients"
  shows "\<exists>dc' b. HasInstalled_of t sim_kube dc w = Inr (w, dc', Inr b)"
proof -
  obtain c where "scope_client both_clients Namespaced = Inr c" using both_client by blast
  then have "\<exists>dc' b. query_installed sim_kube k ns n dc w = Inr (w, dc', Inr b)" for k ns n
    using assms by (auto simp: query_installed_def note_answer_def sim_kube_def sim_get_def IsNotFound_def split: option.split)
  then show ?thesis by (cases t) (auto simp: HasInstalled_defs split: list.split)
qed

lemma sim_Install:
  assumes "built t dc" and "dc_client dc = both_clients"
  shows "\<exists>w' dc'. Install_of t sim_kube dc w = Inr (w', dc', None) \<and> dc_client dc' = both_clients"
proof -
  obtain dc1 b where h: "HasInstalled_of t sim_kube dc w = Inr (w, dc1, Inr b)"
    using sim_HasInstalled [OF assms(2)] by blast
  from HasInstalled_frame [OF h] assms(2) have dc1: "dc_parsedObjects dc1 = dc_parsedObjects dc" "dc_client dc1 = both_clients" by auto
  obtain w' where l: "install_loop sim_kube both_clients (dc_parsedObjects dc) w = Inr (w', None)"
    using sim_install_loop [OF built_creatable [OF assms(1)]] by blast
  have "\<exists>w' dc'. guarded_install (HasInstalled_of t) n sim_kube dc w = Inr (w', dc', None) \<and> dc_client dc' = both_clients" for n
    using h l dc1 assms(2) by (simp add: guarded_install_def)
  moreover have "\<exists>w' dc'. plain_install sim_kube dc w = Inr (w', dc', None) \<and> dc_client dc' = both_clients"
    using l assms(2) by (simp add: plain_install_def)
  ultimately show ?thesis by (cases t) (simp_all add: Install_defs)
qed

lemma sim_install_controllers:
  "list_all (\<lambda>(t, dc). built t dc \<and> dc_client dc = both_clients) cs \<Longrightarrow>
   \<exists>w' cs'. install_controllers sim_kube cs w = Inr (w', cs', None) \<and> list_all (\<lambda>(t, dc). dc_client dc = both_clients) cs'"
proof (induction cs arbitrary: w)
  case (Cons c cs)
  obtain t dc where c: "c = (t, dc)" by (cases c)
  with Cons.prems obtain w1 dc1 where "Install_of t sim_kube dc w = Inr (w1, dc1, None)" "dc_client dc1 = both_clients"
    using sim_Install [of t dc w] by auto
  with Cons.IH [of w1] Cons.prems c show ?case by fastforce
qed simp

lemma sim_check_controllers:
  "list_all (\<lambda>(t, dc). dc_client dc = both_clients) cs \<Longrightarrow>
   \<exists>cs' b. check_controllers sim_kube cs w = Inr (w, cs', Inr b)"
proof (induction cs)
  case (Cons c cs)
  obtain t dc where c: "c = (t, dc)" by (cases c)
  with Cons.prems obtain dc1 b where "HasInstalled_of t sim_kube dc w = Inr (w, dc1, Inr b)"
    using sim_HasInstalled [of dc t w] by auto
  with Cons c show ?case by fastforce
qed auto

theorem installed_is_found_witness:
  "\<exists>ec w1 ec1 w2 ec2. CreateExtensionDeploymentController (sim_kube :: sim_world kube) both_clients [] all_extensions = (Some ec, None) \<and>
     Extension_Install sim_kube ec sim_world = Inr (w1, ec1, None) \<and>
     Extension_HasInstalled sim_kube ec1 w1 = Inr (w2, ec2, Inr True)"
proof -
  let ?K = "sim_kube :: sim_world kube"
  have init: "list_all (\<lambda>(t, dc). built t dc \<and> dc_client dc = both_clients) (init_controllers ?K both_clients [] all_extensions ts)"
    if "set ts \<subseteq> set extension_types" for ts
    using that
  proof (induction ts)
    case (Cons t ts)
    then obtain dc where "Initialize_of t ?K both_clients [] all_extensions new_dc = (dc, None)" "built t dc" "dc_client dc = both_clients"
      using Initialize_built [OF all_extensions_installable, of t both_clients "[]"] by auto
    with Cons show ?case by simp
  qed simp
  let ?ec = "\<lparr>ec_client = both_clients, ec_settings = all_extensions,
     ec_controllers = init_controllers ?K both_clients [] all_extensions extension_types\<rparr>"
  have ec: "CreateExtensionDeploymentController ?K both_clients [] all_extensions = (Some ?ec, None)"
    by (simp add: CreateExtensionDeploymentController_def Extension_Initialize_def)
  obtain w1 cs1 where i: "install_controllers sim_kube (ec_controllers ?ec) sim_world = Inr (w1, cs1, None)"
    "list_all (\<lambda>(t, dc). dc_client dc = both_clients) cs1"
    using sim_install_controllers [OF init, of extension_types sim_world] by auto
  obtain cs2 b where c: "check_controllers sim_kube cs1 w1 = Inr (w1, cs2, Inr b)" using sim_check_controllers [OF i(2)] by blast
  have e: "Extension_Install sim_kube ?ec sim_world = Inr (w1, ?ec\<lparr>ec_controllers := cs1\<rparr>, None)"
    using i by (simp add: Extension_Install_def)
  have h: "Extension_HasInstalled sim_kube (?ec\<lparr>ec_controllers := cs1\<rparr>) w1 = Inr (w1, ?ec\<lparr>ec_controllers := cs2\<rparr>, Inr b)"
    using c by (simp add: Extension_HasInstalled_def)
  have "Inr b \<noteq> (Inr False :: error + bool)"
    using installed_is_found [OF sim_kube_law _ ec sim_undisturbed e h] all_extensions_installable by blast
  with h have "Extension_HasInstalled sim_kube (?ec\<lparr>ec_controllers := cs1\<rparr>) w1 = Inr (w1, ?ec\<lparr>ec_controllers := cs2\<rparr>, Inr True)"
    by simp
  with ec e show ?thesis by blast
qed

section \<open>No two payloads share an object\<close>

definition id_key :: "object_id \<Rightarrow> key" where
  "id_key i = (case i of (v, k, ns, n) \<Rightarrow>
     (case map_of scheme_types (v, k) of
        None \<Rightarrow> ([], [], [])
      | Some kd \<Rightarrow> (resource kd, if exists_case kd = Some Namespaced then (if ns = [] then ''default'' else ns) else [], n)))"

text \<open>The payloads of the controllers that the extension controller and the job strategies run.\<close>

definition controller_payloads :: "payload_name list" where
  "controller_payloads = [PayloadPrometheus, PayloadMetricServer, PayloadTraefik, PayloadElasticSearch,
     PayloadFilebeat, PayloadMetricbeat, PayloadHelm, PayloadCoreDNS, PayloadKubeRouter]"

text \<open>
  The objects of the payloads of all these controllers live under different keys of the cluster, so no controller
  takes an object of another one for its own and skips it.
\<close>

theorem payload_keys_distinct:
  "distinct (map id_key (concat (map payload_objects controller_payloads)))"
  by code_simp

section \<open>The alert manager\<close>

text \<open>The documents of its payload are about four objects, none of which another payload has.\<close>

definition header_id :: "string list \<Rightarrow> object_id" where
  "header_id ls = (let h = header_of ls in (yh_apiVersion h, yh_kind h, yh_namespace h, yh_name h))"

text \<open>Indented lines after the top-level line that ends the block \<open>metadata\<close> do not matter.\<close>

lemma header_of_append:
  assumes "list_all (is_prefix '' '') b" and "list_ex (\<lambda>l. \<not> is_prefix '' '' l) (tl (dropWhile (\<lambda>l. l \<noteq> ''metadata:'') a))"
  shows "header_of (a @ b) = header_of a"
proof -
  have no: "filter (is_prefix (c # k)) b = []" if "c \<noteq> CHR '' ''" for c k
    using assms(1)
  proof (induction b)
    case (Cons l b)
    with that show ?case by (cases l) auto
  qed simp
  have m: "''metadata:'' \<in> set a" using assms(2) by (induction a) (auto split: if_splits)
  then have d: "dropWhile (\<lambda>l. l \<noteq> ''metadata:'') (a @ b) = dropWhile (\<lambda>l. l \<noteq> ''metadata:'') a @ b"
    by (auto intro: dropWhile_append1)
  have ne: "dropWhile (\<lambda>l. l \<noteq> ''metadata:'') a \<noteq> []" using m by (simp add: dropWhile_eq_Nil_conv)
  have "takeWhile (is_prefix '' '') (xs @ b) = takeWhile (is_prefix '' '') xs" if "list_ex (\<lambda>l. \<not> is_prefix '' '' l) xs" for xs
    using that by (auto simp: list_ex_iff intro: takeWhile_append1)
  with assms(2) ne have "metadata_block (a @ b) = metadata_block a" by (simp add: metadata_block_def d)
  then show ?thesis using no by (simp add: header_of_def scalar_def Let_def)
qed

lemma altermanager_headers:
  "header_id altermanager_configmap = altermanager_objects ! 0"
  "header_id altermanager_configmap_2 = altermanager_objects ! 1"
  "header_id altermanager_deployment = altermanager_objects ! 2"
  "header_id altermanager_service = altermanager_objects ! 3"
proof -
  have "list_all (is_prefix '' '') altermanager_templates_2" "list_all (is_prefix '' '') altermanager_templates_3"
    by (simp_all add: altermanager_templates_2_def altermanager_templates_3_def)
  then have "list_all (is_prefix '' '') (altermanager_templates_2 @ altermanager_templates_3)" by simp
  moreover have "list_ex (\<lambda>l. \<not> is_prefix '' '' l) (tl (dropWhile (\<lambda>l. l \<noteq> ''metadata:'') altermanager_templates_1))"
    by (simp add: altermanager_templates_1_def)
  ultimately have "header_of altermanager_configmap = header_of altermanager_templates_1"
    unfolding altermanager_configmap_def by (rule header_of_append)
  moreover have "header_id altermanager_templates_1 = altermanager_objects ! 0" by code_simp
  ultimately show "header_id altermanager_configmap = altermanager_objects ! 0" by (simp add: header_id_def)
qed code_simp+

lemma altermanager_keys: "list_all (\<lambda>i. id_key i \<notin> set (map id_key (concat (map payload_objects controller_payloads)))) altermanager_objects"
  by code_simp

lemma decode_all_settings: "dc_settings (fst (decode_all K ds dc)) = dc_settings dc"
  by (induction ds arbitrary: dc) (auto split: sum.split)

lemma Initialize_settings: "dc_settings (fst (Initialize_of t K client ip settings dc)) = settings"
  by (cases t) (auto simp: Initialize_defs ImagePullSecrets_Initialize_def load_payload_def decode_all_settings dc_bind_def Let_def
      split: option.split)

lemma quiet_controller:
  assumes "cs_ExtensionalDeployments (dc_settings dc) = [(''altermanager'', args)]"
    and "cs_ImagePullSecrets (dc_settings dc) = []" and "t \<in> set extension_types"
  shows "\<exists>dc'. HasInstalled_of t K dc w = Inr (w, dc', Inr True) \<and> Install_of t K dc w = Inr (w, dc', None) \<or>
     HasInstalled_of t K dc w = Inr (w, dc', Inr True) \<and> Install_of t K dc w = Inr (w, dc, None)"
  using assms by (cases t) (auto simp: HasInstalled_defs Install_defs guarded_install_def extension_types_def)

text \<open>
  C37: a cluster that asks for the alert manager as its only extension, and has no image pull secrets,
  gets nothing: no controller handles it, the extension controller reports without a request that all
  is installed, and \<open>Install\<close> leaves the world as it is.
\<close>

theorem altermanager_never_installed:
  assumes "cs_ExtensionalDeployments settings = [(EXT_DEPLOYMENT_ALTERMANAGER, args)]"
    and "cs_ImagePullSecrets settings = []"
  shows "\<exists>ec. CreateExtensionDeploymentController K client ip settings = (Some ec, None) \<and>
     (\<exists>ec1. Extension_HasInstalled K ec w = Inr (w, ec1, Inr True)) \<and>
     (\<exists>ec2. Extension_Install K ec w = Inr (w, ec2, None))"
proof -
  have init: "list_all (\<lambda>(t, dc). t \<in> set extension_types \<and> dc_settings dc = settings) (init_controllers K client ip settings ts)"
    if "set ts \<subseteq> set extension_types" for ts
    using that
  proof (induction ts)
    case (Cons t ts)
    obtain dc e where i: "Initialize_of t K client ip settings new_dc = (dc, e)" by fastforce
    have "dc_settings dc = settings" using Initialize_settings [of t K client ip settings new_dc] i by simp
    with Cons i show ?case by (cases e) simp_all
  qed simp
  have run: "(\<exists>cs1. check_controllers K cs w = Inr (w, cs1, Inr True)) \<and> (\<exists>cs2. install_controllers K cs w = Inr (w, cs2, None))"
    if "list_all (\<lambda>(t, dc). t \<in> set extension_types \<and> dc_settings dc = settings) cs" for cs
    using that
  proof (induction cs)
    case (Cons c cs)
    obtain t dc where c: "c = (t, dc)" by (cases c)
    with Cons.prems assms quiet_controller [of dc args t K w] obtain dc1 dc2 where
      "HasInstalled_of t K dc w = Inr (w, dc1, Inr True)" "Install_of t K dc w = Inr (w, dc2, None)" by auto
    with Cons c show ?case by auto
  qed simp
  from run [OF init, of extension_types] show ?thesis
    by (auto simp: CreateExtensionDeploymentController_def Extension_Initialize_def Extension_HasInstalled_def Extension_Install_def)
qed

theorem altermanager_never_installed_witness:
  "\<exists>ec. CreateExtensionDeploymentController (sim_kube :: sim_world kube) None []
       (zero_settings\<lparr>cs_ExtensionalDeployments := [(EXT_DEPLOYMENT_ALTERMANAGER, [])]\<rparr>) = (Some ec, None) \<and>
     (\<exists>ec1. Extension_HasInstalled sim_kube ec sim_world = Inr (sim_world, ec1, Inr True))"
  using altermanager_never_installed [of "zero_settings\<lparr>cs_ExtensionalDeployments := [(EXT_DEPLOYMENT_ALTERMANAGER, [])]\<rparr>" "[]"
      "sim_kube :: sim_world kube" None "[]" sim_world]
  by (auto simp: zero_settings_def)

end
