(* ===== verification/System.thy ===== *)
theory System
  imports Apis AgentLoops Installations
begin

text \<open>
  Theorems over the API server and the agent together: that what the one sends, distributes and asks
  for is what the other can use. The definitions are those of the two programs; HTTP and JSON between
  them enter as the hypotheses that a message arrives and is decoded to what was sent.
\<close>

section \<open>Certificates\<close>

text \<open>
  C20: a certificate that the API server hands out for a cluster reaches the file of an agent unchanged
  where there is no file yet: if the handler's reply to the agent's request arrives with status 200 and
  is decoded to what was sent, no older file is at its path, and the file can be opened and written,
  the file is the stored certificate.
\<close>

theorem certificate_delivered:
  assumes "api_DownloadCerts rq sv w = Inr (w', sv', Certificate r)"
    and "GetClusterCertificates (rq_URLParam rq ''cluster'') (sv_cm sv) = Inr certs"
    and "ho_NewRequest H (certificate_url (la_arg la) (rq_URLParam rq ''cert'')) = None"
    and "ho_Do H (nd_world nd) ''GET'' (certificate_url (la_arg la) (rq_URLParam rq ''cert'')) [] =
       (w1, Inr \<lparr>hn_StatusCode = 200, hn_Body = Inr body\<rparr>)"
    and "ho_UnmarshalCertificate H body = Inr r"
    and "ho_OpenFile H w1 (path_join [la_CertPath la, rq_URLParam rq ''cert'']) = None"
    and "ho_Write H w1 (path_join [la_CertPath la, rq_URLParam rq ''cert'']) = None"
    and "gm_get (nd_files nd) (path_join [la_CertPath la, rq_URLParam rq ''cert'']) = None"
  shows "\<exists>nd1. saveRemoteCertificate H la (rq_URLParam rq ''cert'') nd = (nd1, None) \<and>
     gm_get (nd_files nd1) (path_join [la_CertPath la, rq_URLParam rq ''cert'']) =
       Some (GetCertificateContent certs (rq_URLParam rq ''cert''))"
proof -
  have r: "re_ErrorId r = Succeed" "gc_Content r = GetCertificateContent certs (rq_URLParam rq ''cert'')" "gc_Content r \<noteq> []"
    using assms(1,2) by (auto simp: api_DownloadCerts_def certificate_reply_def Let_def split: if_splits)
  then have "read_certificate H (rq_URLParam rq ''cert'') (Inr \<lparr>hn_StatusCode = 200, hn_Body = Inr body\<rparr>) = Inr r"
    by (simp add: read_certificate_def decode_ok_def assms(5))
  with assms(3,4,6-8) r show ?thesis
    by (simp add: saveRemoteCertificate_def open_and_write_def overwrite_def gm_str_def Let_def)
qed

section \<open>Registrations\<close>

text \<open>
  C23: what a registration hands out can be used if and only if the cluster's version of Kubernetes is
  one of the two that the server has images for: the number of ETCD members always reads back as it
  was configured, but for any other version the agent fails to make an image manager. The certificate of
  the Kubernetes API names the virtual address of the cluster, and without one no address at all: the
  default of the agent, the loopback address, is never used, since the setting is always sent.
\<close>

theorem registration_usable:
  assumes "registration_reply token (settings, aid, cid, lease) = Inr (Registered r)"
    and "- (2 ^ 63) \<le> cs_ExpectedETCDCount settings" and "cs_ExpectedETCDCount settings < 2 ^ 63"
  shows "atoi (gm_str (ra_MasterSettings r) MasterSettings_ExpectedETCDNodeCount) = Some (cs_ExpectedETCDCount settings) \<and>
    NewDockerImageManager server (ra_BasicImages r) =
      (if cs_KubernetesVersion settings \<in> {''1.12.5'', ''1.13.12''} then Inr (HTTPDockerImageManager (ra_BasicImages r) server)
       else Inl (EUnsupported [])) \<and>
    getExtraSans (ra_MasterSettings r) = (case cs_HASettings settings of None \<Rightarrow> [] | Some h \<Rightarrow> hs_VIP h)"
proof -
  from assms(1) obtain m where m: "master_settings settings = Inr m" and r: "ra_MasterSettings r = m"
    "ra_BasicImages r = (basic_images (cs_KubernetesVersion settings))\<lparr>ic_HTTPDownloadToken := token\<rparr>"
    by (auto simp: registration_reply_def elim!: bindC_InrE)
  from m have "gm_str m MasterSettings_ExpectedETCDNodeCount = itoa (cs_ExpectedETCDCount settings)"
    by (auto simp: master_settings_def gm_str_def elim!: bindC_InrE)
  moreover have "ic_DownloadType (basic_images v) = (if v \<in> {''1.12.5'', ''1.13.12''} then ''HTTP'' else [])" for v
    by (simp add: basic_images_def BasicImages_def zero_images_def)
  moreover from m have "getExtraSans m = (case cs_HASettings settings of None \<Rightarrow> [] | Some h \<Rightarrow> hs_VIP h)"
    by (auto simp: getExtraSans_def master_settings_def elim!: bindC_InrE split: option.splits)
  ultimately show ?thesis using assms(2,3) atoi_itoa r by (simp add: NewDockerImageManager_def)
qed

section \<open>Images\<close>

text \<open>The addresses of the images: two verbs around a path that a route with a token serves.\<close>

definition image_address :: "string \<Rightarrow> string \<Rightarrow> bool" where
  "image_address p a \<longleftrightarrow> a = ''%s'' @ p @ ''?token=%s'' \<and> list_all (\<lambda>c. c \<noteq> CHR ''%'') p \<and>
     list_ex (\<lambda>(t, q). t \<and> is_prefix q p) file_routes"

lemma image_addresses:
  "list_all (\<lambda>(v, c). list_all (\<lambda>(n, i). image_address (take (length (di_DownloadAddr i) - 11) (drop 2 (di_DownloadAddr i)))
     (di_DownloadAddr i)) (ic_Images c)) BasicImages"
  by code_simp

lemma sprintf_no_verb: "list_all (\<lambda>c. c \<noteq> CHR ''%'') p \<Longrightarrow> sprintf_s (p @ CHR ''?'' # s) xs = p @ sprintf_s (CHR ''?'' # s) xs"
proof (induction p)
  case Nil
  then show ?case by simp
next
  case (Cons c p)
  then show ?case by (cases p) auto
qed

lemma routed:
  assumes "list_ex (\<lambda>(t, q). t \<and> is_prefix q p) file_routes" and "rq_URLParam rq ''token'' = sv_token sv"
  shows "serve_file W p rq sv w = Inr (w, sv, File (we_ServeFile W (drop (length ''/apis/v1/'') p)))"
  using assms
  by (auto simp: file_routes_def is_prefix_iff serve_file_def api_downloadFile_def serve_stripped_def strip_prefix_def)

text \<open>
  C25: every image that a registration names can be fetched: its address, filled in with the server and
  the token, is a path on that server which the file routes serve to a request with that token.
\<close>

theorem images_served:
  assumes "gm_get BasicImages v = Some c" and "gm_get (ic_Images c) name = Some i"
    and "rq_URLParam rq ''token'' = sv_token sv"
  shows "\<exists>path. sprintf_s (di_DownloadAddr i) [server, token] = server @ path @ ''?token='' @ token \<and>
     serve_file W path rq sv w = Inr (w, sv, File (we_ServeFile W (drop (length ''/apis/v1/'') path)))"
proof -
  from assms(1,2) have "(v, c) \<in> set BasicImages" "(name, i) \<in> set (ic_Images c)" by (auto dest: map_of_SomeD)
  with image_addresses obtain p where p: "image_address p (di_DownloadAddr i)"
    by (fastforce simp: list_all_iff)
  then have "sprintf_s (di_DownloadAddr i) [server, token] = server @ p @ ''?token='' @ token"
    by (simp add: image_address_def sprintf_no_verb)
  with p routed [OF _ assms(3), of p W w] show ?thesis by (auto simp: image_address_def)
qed

section \<open>Jobs\<close>

text \<open>The deployment of a load balancer once its arguments are read.\<close>

definition deploy_ha_with ::
  "'w host \<Rightarrow> (string, string) gomap \<Rightarrow> string list \<Rightarrow> lm_agent \<Rightarrow> 'w node \<Rightarrow> crash + 'w node \<times> bool \<times> agent_error option" where
  "deploy_ha_with H keepalived masters la nd =
     (case replace_file H ''write KeepAlived configuration file'' keepAlivedConfigPath
             (execute_template keepalived_payload keepalived) nd of
        (nd1, Some e) \<Rightarrow> Inr (nd1, False, Some e)
      | (nd1, None) \<Rightarrow>
        (case replace_file H ''write HAProxy configuration file'' haProxyConfigPath (haproxy_config masters) nd1 of
           (nd2, Some e) \<Rightarrow> Inr (nd2, False, Some e)
         | (nd2, None) \<Rightarrow>
           (case la_basicImages la of
              None \<Rightarrow> Inl NilDeref
            | Some images \<Rightarrow>
              (case run_container H (ha_container la images) nd2 of (nd3, e) \<Rightarrow> Inr (nd3, e = None, e)))))"

text \<open>The addresses of the agents that are listed under a role.\<close>

definition addresses_of :: "agent_cache \<Rightarrow> role \<Rightarrow> string set" where
  "addresses_of ac \<rho> = {last_ip b | b. view ac \<rho> (ag_Id b) = Some b}"

lemma sort_Nil_iff: "sort xs = [] \<longleftrightarrow> xs = []"
  by (metis length_0_conv length_sort)

lemma addresses_of_range:
  "cache_inv ac \<Longrightarrow> addresses_of ac \<rho> = set (map last_ip (range_agents ac (cache_map \<rho> ac)))"
  using range_agents_iff [of ac _ \<rho>] by (auto simp: addresses_of_def)

lemma all_addresses:
  assumes "cache_inv ac" and "(s, \<rho>) \<in> {(AgentRole_Master, RoleMaster), (AgentRole_HA, RoleHA)}"
    and "GetAgentsAddress now s AgentStatusFlag_Whatever ac = Inr ips"
  shows "ips = sort (map last_ip (range_agents ac (cache_map \<rho> ac)))" and "set ips = addresses_of ac \<rho>"
proof -
  have r: "role_of s = Some \<rho>" using assms(2) by (auto simp: role_of_def)
  have "\<forall>b \<in> set (range_agents ac (cache_map \<rho> ac)). expFunc now AgentStatusFlag_Whatever \<rho> b"
    using range_agents_in [OF assms(1), of _ \<rho>] assms(2)
    by (fastforce simp: expFunc_def expFunc_Master_def expFunc_HA_def entry_ok_def)
  with GetAgentsAddress_ok [OF assms(1) r, of now AgentStatusFlag_Whatever] assms(3)
  show ips: "ips = sort (map last_ip (range_agents ac (cache_map \<rho> ac)))" by (simp add: filter_id_conv [THEN iffD2])
  show "set ips = addresses_of ac \<rho>" by (simp add: ips addresses_of_range [OF assms(1)])
qed

lemma HA_confirmed:
  assumes "HA_CanDeploy now cc a (Some ac) = Inr (ConditionConfirmed, reason, args, None)" and "cache_inv ac"
  obtains hs ms "is" where "cs_HASettings (GetSettings cc) = Some hs" "args = ha_arguments hs (last_ip a) ms is"
    "hs_NodeCount hs \<le> int (length is)" "ms = sort (map last_ip (range_agents ac (ac_k8sMaster ac)))"
    "set ms = addresses_of ac RoleMaster" "set is = addresses_of ac RoleHA"
proof -
  from assms(1) have "\<exists>hs ms is. cs_HASettings (GetSettings cc) = Some hs \<and> args = ha_arguments hs (last_ip a) ms is \<and>
    hs_NodeCount hs \<le> int (length is) \<and> GetAgentsAddress now AgentRole_Master AgentStatusFlag_Whatever ac = Inr ms \<and>
    GetAgentsAddress now AgentRole_HA AgentStatusFlag_Whatever ac = Inr is"
    by (auto simp: HA_CanDeploy_def verdict_defs deref_def state_field_iff last_ip_def not_less elim!: bindC_InrE
        split: option.splits if_splits)
  then obtain hs ms "is" where *: "cs_HASettings (GetSettings cc) = Some hs" "args = ha_arguments hs (last_ip a) ms is"
    "hs_NodeCount hs \<le> int (length is)"
    "GetAgentsAddress now AgentRole_Master AgentStatusFlag_Whatever ac = Inr ms"
    "GetAgentsAddress now AgentRole_HA AgentStatusFlag_Whatever ac = Inr is" by blast
  from all_addresses [OF assms(2) _ *(4)] all_addresses [OF assms(2) _ *(5)] show thesis
    by (intro that [OF *(1-3)]) auto
qed

lemma deploy_ha_arguments:
  assumes "aj_Arguments job = ha_arguments hs ip ms is" and "ms \<noteq> []" and "is \<noteq> []"
    and "\<forall>x \<in> set ms \<union> set is. x \<noteq> [] \<and> CHR '','' \<notin> set x"
  shows "HandleDeployHA H job la nd = deploy_ha_with H
     [(''STATE'', ''BACKUP''), (''ETH'', aa_UsedEthernetInterface (la_arg la)),
      (''ROUTERID'', if hs_RouterID hs \<noteq> [] then hs_RouterID hs else ''40''), (''LOCALIP'', aa_Address (la_arg la)),
      (''MASTERIPS'', peer_lines (aa_Address (la_arg la)) (sort is)), (''VIP'', hs_VIP hs),
      (''PRIORITY'', itoa (indexOf ip (sort is) + 100))] ms la nd"
proof -
  have s: "split_on CHR '','' (join '','' ms) = ms" "split_on CHR '','' (join '','' (sort is)) = sort is"
    using assms(2-4) by (intro split_join; auto simp: sort_Nil_iff)+
  have "join '','' ms \<noteq> []"
  proof
    assume "join '','' ms = []"
    moreover have "split_on CHR '','' [] = [[]]" by code_simp
    ultimately have "ms = [[]]" using s(1) by simp
    with assms(4) show False by simp
  qed
  then have args: "gm_str (aj_Arguments job) ''master-addresses'' \<noteq> []"
    "gm_str (aj_Arguments job) ''master-addresses'' = join '','' ms" "gm_str (aj_Arguments job) ''ha-addresses'' = join '','' (sort is)"
    "gm_str (aj_Arguments job) ''state'' = ''BACKUP''"
    "gm_str (aj_Arguments job) ''router-id'' = (if hs_RouterID hs \<noteq> [] then hs_RouterID hs else ''40'')"
    "gm_str (aj_Arguments job) ''priority'' = itoa (indexOf ip (sort is) + 100)" "gm_str (aj_Arguments job) ''vip'' = hs_VIP hs"
    by (simp_all add: assms(1) ha_arguments_def gm_str_def Let_def)
  then show ?thesis
    by (simp add: HandleDeployHA_def writeKeepAlivedConfigFile_def keepalived_config_def writeHAProxyConfigFile_def
        deploy_ha_with_def s)
qed

text \<open>
  C24: every job that the scheduler hands out is one that the agent has a handler for, and the agent
  deploys a load balancer from all six arguments that are sent: in a cluster whose settings ask for at
  least one node and whose masters and load balancers have reported addresses (not empty, without a
  comma), the guard of the handler passes, KeepAlived is configured with the state \<open>BACKUP\<close>, the
  router, the virtual address, the sorted addresses of the load balancers as peers and the agent's
  place among them as its priority, and HAProxy with the addresses of all masters, at least one.
\<close>

theorem jobs_understood:
  assumes "GetNextJob E cc a w = Inr (w', cc', d)" and "cc_strategies cc = InitializeStrategies"
    and "aj_Name (de_Job d) \<noteq> AgentJob_NOP"
    and "cc_cache cc = Some ac" and "cache_inv ac"
    and "\<forall>x \<in> addresses_of ac RoleMaster \<union> addresses_of ac RoleHA. x \<noteq> [] \<and> CHR '','' \<notin> set x"
    and "\<forall>hs. cs_HASettings (cc_settings cc) = Some hs \<longrightarrow> 0 < hs_NodeCount hs"
  shows "\<exists>h. GetHandler (aj_Name (de_Job d)) = Some h \<and> job_key h = aj_Name (de_Job d) \<and>
     (h = HandlerHA \<longrightarrow> (\<exists>hs ms is. cs_HASettings (cc_settings cc) = Some hs \<and>
        ms \<noteq> [] \<and> set ms = addresses_of ac RoleMaster \<and> sorted is \<and> set is = addresses_of ac RoleHA \<and>
        deploy H h (de_Job d) la nd = deploy_ha_with H
          [(''STATE'', ''BACKUP''), (''ETH'', aa_UsedEthernetInterface (la_arg la)),
           (''ROUTERID'', if hs_RouterID hs \<noteq> [] then hs_RouterID hs else ''40''), (''LOCALIP'', aa_Address (la_arg la)),
           (''MASTERIPS'', peer_lines (aa_Address (la_arg la)) is), (''VIP'', hs_VIP hs),
           (''PRIORITY'', itoa (indexOf (last_ip a) is + 100))] ms la nd))"
  using assms(1,2)
proof (cases rule: GetNextJob_cases)
  case (job pre s post reason args)
  show ?thesis
  proof (cases "s = HAJobStrategy")
    case False
    with asked_confirmed [OF job(3)] job(4) show ?thesis
      by (auto simp: GetHandler_def handlers_def job_key_def)
  next
    case True
    from asked_looking(3) [OF job(3) True] obtain cc1 now where c: "same_core cc cc1"
      "HA_CanDeploy now cc1 a (Some ac) = Inr (ConditionConfirmed, reason, args, None)" by (auto simp: assms(4))
    obtain hs ms "is" where ha: "cs_HASettings (GetSettings cc1) = Some hs" "args = ha_arguments hs (last_ip a) ms is"
      "hs_NodeCount hs \<le> int (length is)" "ms = sort (map last_ip (range_agents ac (ac_k8sMaster ac)))"
      "set ms = addresses_of ac RoleMaster" "set is = addresses_of ac RoleHA"
      by (rule HA_confirmed [OF c(2) assms(5)])
    from c(1) ha(1) have hs: "cs_HASettings (cc_settings cc) = Some hs" by (simp add: same_core_def GetSettings_def)
    with assms(7) ha(3) have is_ne: "is \<noteq> []" by auto
    have "some_master cc" using job(2) strategy_before(2) [OF job(1)] True passes_Master by fastforce
    then have "range_agents ac (ac_k8sMaster ac) \<noteq> []"
      by (auto simp: some_master_def assms(4) GetTotalProvisionedCountByRole_def)
    then have ms_ne: "ms \<noteq> []" using ha(4) by (simp add: sort_Nil_iff)
    have d: "aj_Arguments (de_Job d) = ha_arguments hs (last_ip a) ms is" "aj_Name (de_Job d) = ''HA''"
      using job(4) ha(2) True by simp_all
    have "deploy H HandlerHA (de_Job d) la nd = deploy_ha_with H
          [(''STATE'', ''BACKUP''), (''ETH'', aa_UsedEthernetInterface (la_arg la)),
           (''ROUTERID'', if hs_RouterID hs \<noteq> [] then hs_RouterID hs else ''40''), (''LOCALIP'', aa_Address (la_arg la)),
           (''MASTERIPS'', peer_lines (aa_Address (la_arg la)) (sort is)), (''VIP'', hs_VIP hs),
           (''PRIORITY'', itoa (indexOf (last_ip a) (sort is) + 100))] ms la nd"
      unfolding deploy.simps using assms(6) ha(5,6) by (intro deploy_ha_arguments [OF d(1) ms_ne is_ne]) simp
    moreover have "GetHandler ''HA'' = Some HandlerHA" "job_key HandlerHA = ''HA''"
      by (simp_all add: GetHandler_def handlers_def job_key_def)
    ultimately show ?thesis using hs ms_ne ha(5,6) unfolding d(2)
      by (intro exI [of _ HandlerHA] conjI impI exI [of _ hs] exI [of _ ms] exI [of _ "sort is"]) simp_all
  qed
qed (use assms(3) in simp_all)

text \<open>A strategy that only looks and whose job is not the one handed out was inapplicable.\<close>

lemma run_look:
  assumes "run_strategies can_deploy name a (s # ss) cc w = Inr (w', cc', d)"
    and "can_deploy s cc a w = looking v cc w" and "aj_Name (de_Job d) \<notin> {name s, AgentJob_NOP}"
  shows "run_strategies can_deploy name a ss cc w = Inr (w', cc', d)"
proof -
  from assms(1,2) obtain flag reason args err where "v = Inr (flag, reason, args, err)"
    by (cases v) (auto simp: looking_def)
  with assms show ?thesis by (auto simp: looking_def nop_job_def split: if_splits)
qed

text \<open>The minion strategy is the first to be asked that matters, with the clock as it is at the query.\<close>

lemma minion_job:
  assumes "GetNextJob E cc a w = Inr (w', cc', d)" and "cc_strategies cc = InitializeStrategies"
    and "aj_Name (de_Job d) = AgentJob_Deploy_Minion"
  shows "\<exists>reason args. Minion_CanDeploy (en_now E w) cc a (cc_cache cc) = Inr (ConditionConfirmed, reason, args, None) \<and>
     aj_Arguments (de_Job d) = args"
proof -
  have out: "outstanding RoleMinion a"
    using assms(1,2)
  proof (cases rule: GetNextJob_cases)
    case (job pre s post reason args)
    with assms(3) have "s = ClusterKubernetesMinionJobStrategy" by (cases s) simp_all
    with asked_confirmed [OF job(3)] show ?thesis by auto
  qed (use assms(3) in simp_all)
  let ?run = "run_strategies (CanDeploy E) GetStrategyName a"
  have "?run InitializeStrategies cc w = Inr (w', cc', d)"
    using assms by (auto simp: GetNextJob_def InitializeStrategies_def nop_job_def split: if_splits)
  then have "?run (drop 1 InitializeStrategies) cc w = Inr (w', cc', d)"
    unfolding InitializeStrategies_def using assms(3)
    by (simp only: drop_Suc_Cons drop_0 One_nat_def) (erule run_look, simp, simp)
  then have "?run (drop 2 InitializeStrategies) cc w = Inr (w', cc', d)"
    unfolding InitializeStrategies_def using assms(3)
    by (simp only: drop_Suc_Cons drop_0 One_nat_def numeral_2_eq_2) (erule run_look, simp, simp)
  then have "?run (drop 3 InitializeStrategies) cc w = Inr (w', cc', d)"
    unfolding InitializeStrategies_def using assms(3)
    by (simp only: drop_Suc_Cons drop_0 One_nat_def numeral_2_eq_2 numeral_3_eq_3) (erule run_look, simp, simp)
  then have run: "?run (ClusterKubernetesMinionJobStrategy # drop 4 InitializeStrategies) cc w = Inr (w', cc', d)"
    unfolding InitializeStrategies_def by (simp only: drop_Suc_Cons drop_0 numeral_3_eq_3 eval_nat_numeral BitM.simps)
  then obtain flag reason args err where
    v: "Minion_CanDeploy (en_now E w) cc a (cc_cache cc) = Inr (flag, reason, args, err)"
    by (cases "Minion_CanDeploy (en_now E w) cc a (cc_cache cc)") (auto simp: looking_def)
  from Minion_verdicts(1,2) [OF v] out have "err = None" "flag \<noteq> ConditionInapplicable" by auto
  with run v assms(3) show ?thesis by (cases flag) (auto simp: looking_def nop_job_def)
qed

text \<open>
  C4: in a cluster without a virtual address, a minion that asks when no master of the cache has reported
  within the last thirty seconds, by the clock at that moment, and that gets its job nevertheless, gets one
  without any address, whose deployment always fails and ends its process if the error of the agent
  wraps \<open>crashError\<close>: the scheduler counts the provisioned masters whether they run
  or not, but lists the addresses of those that run.
\<close>

theorem stale_masters_fail_minion:
  assumes "GetNextJob E cc a w = Inr (w', cc', d)" and "cc_strategies cc = InitializeStrategies"
    and "aj_Name (de_Job d) = AgentJob_Deploy_Minion" and "cs_HASettings (cc_settings cc) = None"
    and "cc_cache cc = Some ac" and "cache_inv ac"
    and "\<And>b. view ac RoleMaster (ag_Id b) = Some b \<Longrightarrow> \<not> IsRunning (en_now E w) b"
    and "lj_job (la_jobs la i) = de_Job d"
  shows "some_master cc \<and> aj_Arguments (de_Job d) = [(''addresses'', []), (''ha_address'', [])] \<and>
     deploy_job H i HandlerMinion la nd =
       (if ho_XErrorfWraps H then Inl FatalExit
        else Inr (nd, set_done i la, Some (PlainError (EWrap ''Failed to process job'' (ERequiredField ''Minion'')))))"
proof -
  obtain reason args where c: "Minion_CanDeploy (en_now E w) cc a (cc_cache cc) = Inr (ConditionConfirmed, reason, args, None)"
    "aj_Arguments (de_Job d) = args" using minion_job [OF assms(1-3)] by blast
  have none: "filter (expFunc (en_now E w) AgentStatusFlag_Provisioned RoleMaster) (range_agents ac (cache_map RoleMaster ac)) = []"
    using range_agents_iff [OF assms(6), of _ RoleMaster] assms(7)
    by (auto simp: filter_empty_conv expFunc_def expFunc_Master_def)
  have "GetAgentsAddress (en_now E w) AgentRole_Master AgentStatusFlag_Provisioned ac = Inr []"
    using GetAgentsAddress_ok [OF assms(6), of AgentRole_Master RoleMaster "en_now E w" AgentStatusFlag_Provisioned]
    by (simp only: none) simp
  with c assms(4,5) have args: "aj_Arguments (de_Job d) = [(''addresses'', []), (''ha_address'', [])]"
    by (auto simp: Minion_CanDeploy_def GetSettings_def verdict_defs deref_def elim!: bindC_InrE split: if_splits)
  then have "deploy_job H i HandlerMinion la nd =
      (if ho_XErrorfWraps H then Inl FatalExit
       else Inr (nd, set_done i la, Some (PlainError (EWrap ''Failed to process job'' (ERequiredField ''Minion'')))))"
    using assms(8) by (simp add: deploy_job_def HandleDeployMinion_def gm_str_def missed_def is_crash_def)
  moreover have "some_master cc"
    using assms(1,2)
  proof (cases rule: GetNextJob_cases)
    case (job pre s post reason args)
    with assms(3) have s: "s = ClusterKubernetesMinionJobStrategy" by (cases s) simp_all
    show ?thesis using job(2) strategy_before(2) [OF job(1)] s passes_Master by fastforce
  qed (use assms(3) in simp_all)
  ultimately show ?thesis using args by blast
qed

section \<open>Witnesses\<close>

definition serving_server :: server where
  "serving_server = (new_server ''t'')\<lparr>sv_cm := c1_manager\<lparr>cm_heap :=
     (\<lambda>_. c1_controller\<lparr>cc_certs := [(''ca.crt'', ''pem'')]\<rparr>)\<rparr>\<rparr>"

definition echo_host :: "nat host" where
  "echo_host = quiet_host\<lparr>ho_UnmarshalCertificate := \<lambda>s. Inr \<lparr>re_ErrorId = Succeed, re_Reason = NoReason,
     re_NeedCrash = False, gc_Content = ''pem'', gc_ForceUpdate = False\<rparr>\<rparr>"

theorem certificate_delivered_witness:
  "\<exists>nd1. saveRemoteCertificate echo_host (new_agent sample_args ''/c'') ''ca.crt'' \<lparr>nd_world = 0, nd_files = []\<rparr> = (nd1, None) \<and>
     gm_get (nd_files nd1) (path_join [''/c'', ''ca.crt'']) = Some ''pem''"
proof -
  let ?rq = "sample_http [(''cluster'', ''c1''), (''cert'', ''ca.crt'')]"
  have p: "rq_URLParam ?rq ''cluster'' = ''c1''" "rq_URLParam ?rq ''cert'' = ''ca.crt''"
    by (simp_all add: sample_http_def gm_str_def)
  have c: "GetClusterCertificates ''c1'' (sv_cm serving_server) = Inr [\<lparr>ck_Name = ''ca.crt'', ck_Value = ''pem''\<rparr>]"
    by (simp add: GetClusterCertificates_def GetCertificates_def serving_server_def c1_manager_def replace_char_def)
  have g: "GetCertificateContent [\<lparr>ck_Name = ''ca.crt'', ck_Value = ''pem''\<rparr>] ''ca.crt'' = ''pem''" by simp
  have a: "api_DownloadCerts ?rq serving_server sim_world = Inr (sim_world, serving_server, certificate_reply ''pem'')"
    unfolding api_DownloadCerts_def p c by (simp add: Let_def)
  from certificate_delivered [OF a [unfolded certificate_reply_def], unfolded p, OF c, of echo_host "new_agent sample_args ''/c''"
      "\<lparr>nd_world = 0, nd_files = []\<rparr>" 0 "[]"]
  show ?thesis by (simp add: echo_host_def quiet_host_def new_agent_def)
qed

theorem registration_usable_witness:
  "\<exists>r. registration_reply ''t'' (zero_settings\<lparr>cs_PortRangeSettings := Some \<lparr>pr_Begin = 1, pr_End = 2\<rparr>,
       cs_ExpectedETCDCount := 3, cs_KubernetesVersion := ''1.18.0''\<rparr>, ''n1'', ''c1'', 7) = Inr (Registered r) \<and>
     atoi (gm_str (ra_MasterSettings r) MasterSettings_ExpectedETCDNodeCount) = Some 3 \<and>
     NewDockerImageManager ''http://s'' (ra_BasicImages r) = Inl (EUnsupported [])"
proof -
  let ?s = "zero_settings\<lparr>cs_PortRangeSettings := Some \<lparr>pr_Begin = 1, pr_End = 2\<rparr>,
       cs_ExpectedETCDCount := 3, cs_KubernetesVersion := ''1.18.0''\<rparr>"
  obtain r where r: "registration_reply ''t'' (?s, ''n1'', ''c1'', 7) = Inr (Registered r)"
    by (simp add: registration_reply_def master_settings_def deref_def)
  from registration_usable [OF this, of "''http://s''"] r show ?thesis by (intro exI [of _ r]) simp
qed

theorem images_served_witness:
  "\<exists>path. sprintf_s ''%s/apis/v1/registry/1.12.5/k8s.tar?token=%s'' [''http://s'', ''t''] = ''http://s'' @ path @ ''?token='' @ ''t'' \<and>
     serve_file sim_web path (sample_http [(''token'', ''t'')]) (new_server ''t'') sim_world =
       Inr (sim_world, new_server ''t'', File (drop (length ''/apis/v1/'') path))"
proof -
  have "map_option (\<lambda>c. map_option di_DownloadAddr (gm_get (ic_Images c) ''k8s'')) (gm_get BasicImages ''1.12.5'') =
      Some (Some ''%s/apis/v1/registry/1.12.5/k8s.tar?token=%s'')"
    by code_simp
  then obtain c i where "gm_get BasicImages ''1.12.5'' = Some c" "gm_get (ic_Images c) ''k8s'' = Some i"
    "di_DownloadAddr i = ''%s/apis/v1/registry/1.12.5/k8s.tar?token=%s''" by (auto simp: map_option_eq_Some)
  from images_served [OF this(1,2), of "sample_http [(''token'', ''t'')]" "new_server ''t''" "''http://s''" "''t''" sim_web sim_world] this(3)
  show ?thesis by (simp add: sample_http_def gm_str_def new_server_def sim_web_def api.defs web.defs)
qed

definition ha_agent :: agent where
  "ha_agent = zero_agent\<lparr>ag_Id := ''h1'', ag_HasHARole := True, ag_State := Some (zero_state\<lparr>as_LastReportIP := ''10.0.0.5''\<rparr>)\<rparr>"

definition ha_cluster :: cluster_controller where
  "ha_cluster = ready_cluster\<lparr>cc_settings := sample_settings\<lparr>cs_HASettings :=
       Some \<lparr>hs_VIP = ''10.0.0.9'', hs_RouterID = [], hs_NodeCount = 1\<rparr>\<rparr>,
     cc_cache := Some (Online ha_agent (Online sample_master_agent (Online (sample_etcd ''n1'' ''10.0.0.1'') Initialize)))\<rparr>"

lemma run_ha: "outcome (GetNextJob sim_env ha_cluster ha_agent sim_world) = Some (AgentJob_Deploy_HA, Some 1)"
  by code_simp

theorem jobs_understood_witness:
  "\<exists>w cc d ms is. GetNextJob sim_env ha_cluster ha_agent sim_world = Inr (w, cc, d) \<and>
     set ms = {''10.0.0.3''} \<and> set is = {''10.0.0.5''} \<and>
     deploy quiet_host HandlerHA (de_Job d) (new_agent sample_args ''/c'') \<lparr>nd_world = 0, nd_files = []\<rparr> =
       deploy_ha_with quiet_host
          [(''STATE'', ''BACKUP''), (''ETH'', aa_UsedEthernetInterface sample_args),
           (''ROUTERID'', ''40''), (''LOCALIP'', aa_Address sample_args),
           (''MASTERIPS'', peer_lines (aa_Address sample_args) is), (''VIP'', ''10.0.0.9''),
           (''PRIORITY'', itoa (indexOf ''10.0.0.5'' is + 100))] ms (new_agent sample_args ''/c'') \<lparr>nd_world = 0, nd_files = []\<rparr>"
proof -
  obtain w cc d where g: "GetNextJob sim_env ha_cluster ha_agent sim_world = Inr (w, cc, d)"
    "aj_Name (de_Job d) = AgentJob_Deploy_HA"
    using run_ha by (auto simp: outcome_Some)
  let ?ac = "Online ha_agent (Online sample_master_agent (Online (sample_etcd ''n1'' ''10.0.0.1'') Initialize))"
  have inv: "cache_inv ?ac"
    by (intro cache_inv_Online cache_inv_Initialize) (simp_all add: sample_etcd_def sample_master_agent_def ha_agent_def)
  have "map last_ip (range_agents ?ac (cache_map RoleMaster ?ac)) = [''10.0.0.3'']"
    "map last_ip (range_agents ?ac (cache_map RoleHA ?ac)) = [''10.0.0.5'']" by code_simp+
  then have addr: "addresses_of ?ac RoleMaster = {''10.0.0.3''}" "addresses_of ?ac RoleHA = {''10.0.0.5''}"
    by (simp_all add: addresses_of_range [OF inv])
  have cluster: "cc_strategies ha_cluster = InitializeStrategies" "cc_cache ha_cluster = Some ?ac"
    "cs_HASettings (cc_settings ha_cluster) = Some \<lparr>hs_VIP = ''10.0.0.9'', hs_RouterID = [], hs_NodeCount = 1\<rparr>"
    by (simp_all add: ha_cluster_def ready_cluster_def)
  have plain: "\<forall>x \<in> addresses_of ?ac RoleMaster \<union> addresses_of ?ac RoleHA. x \<noteq> [] \<and> CHR '','' \<notin> set x"
    by (simp add: addr)
  have "last_ip ha_agent = ''10.0.0.5''" "la_arg (new_agent sample_args ''/c'') = sample_args"
    by (simp_all add: ha_agent_def last_ip_def new_agent_def)
  with jobs_understood [OF g(1) cluster(1) _ cluster(2) inv plain, of quiet_host "new_agent sample_args ''/c''"
      "\<lparr>nd_world = 0, nd_files = []\<rparr>"] g cluster(3)
  show ?thesis by (auto simp: GetHandler_def handlers_def addr)
qed

definition old_master :: agent where
  "old_master = sample_master_agent\<lparr>ag_State := Some (zero_state\<lparr>as_LastReportIP := ''10.0.0.3'',
     as_HasProvisionedMasterComponents := True\<rparr>)\<rparr>"

text \<open>A clock that goes on with the store: at the time of the query the only report is a minute old.\<close>

definition ticking_env :: "sim_world env" where
  "ticking_env = sim_env\<lparr>en_now := \<lambda>w. 60000000000 * mw_next w\<rparr>"

definition stale_cluster :: cluster_controller where
  "stale_cluster = ready_cluster\<lparr>cc_cache := Some (Online old_master (Online (sample_etcd ''n1'' ''10.0.0.1'') Initialize))\<rparr>"

definition new_minion :: agent where
  "new_minion = zero_agent\<lparr>ag_Id := ''m2'', ag_HasMinionRole := True, ag_State := Some zero_state\<rparr>"

lemma run_stale: "outcome (GetNextJob ticking_env stale_cluster new_minion sim_world) = Some (AgentJob_Deploy_Minion, Some 1)"
  by code_simp

theorem stale_masters_fail_minion_witness:
  "\<exists>w cc d. GetNextJob ticking_env stale_cluster new_minion sim_world = Inr (w, cc, d) \<and>
     deploy_job quiet_host 0 HandlerMinion (new_job (de_Job d) (new_agent sample_args ''/c''))
       \<lparr>nd_world = 0, nd_files = []\<rparr> = Inl FatalExit"
proof -
  obtain w cc d where g: "GetNextJob ticking_env stale_cluster new_minion sim_world = Inr (w, cc, d)"
    "aj_Name (de_Job d) = AgentJob_Deploy_Minion"
    using run_stale by (auto simp: outcome_Some)
  let ?e = "Online (sample_etcd ''n1'' ''10.0.0.1'') Initialize"
  have inv: "cache_inv ?e" by (intro cache_inv_Online cache_inv_Initialize) (simp add: sample_etcd_def)
  then have inv2: "cache_inv (Online old_master ?e)" by (rule cache_inv_Online) (simp add: old_master_def)
  have "b = old_master" if "view (Online old_master ?e) RoleMaster (ag_Id b) = Some b" for b
    using that inv by (auto simp: view_Online cache_inv_Initialize sample_etcd_def zero_agent_def split: if_splits) (simp_all add: view_def)
  moreover have "\<not> IsRunning (en_now ticking_env sim_world) old_master"
    by (simp add: IsRunning_def within_report_timeout_def MaxAgentReportTimeoutSecs_def old_master_def ticking_env_def
        sim_world_def zero_state_def)
  ultimately have stale: "\<not> IsRunning (en_now ticking_env sim_world) b"
    if "view (Online old_master ?e) RoleMaster (ag_Id b) = Some b" for b using that by metis
  have cluster: "cc_strategies stale_cluster = InitializeStrategies" "cs_HASettings (cc_settings stale_cluster) = None"
    "cc_cache stale_cluster = Some (Online old_master ?e)"
    by (simp_all add: stale_cluster_def ready_cluster_def sample_settings_def zero_settings_def)
  have host: "ho_XErrorfWraps quiet_host" by (simp add: quiet_host_def)
  have job: "lj_job (la_jobs (new_job (de_Job d) (new_agent sample_args ''/c'')) 0) = de_Job d"
    by (simp add: new_job_def new_agent_def)
  have "deploy_job quiet_host 0 HandlerMinion (new_job (de_Job d) (new_agent sample_args ''/c'')) \<lparr>nd_world = 0, nd_files = []\<rparr> =
     (if ho_XErrorfWraps quiet_host then Inl FatalExit
      else Inr (\<lparr>nd_world = 0, nd_files = []\<rparr>, set_done 0 (new_job (de_Job d) (new_agent sample_args ''/c'')),
        Some (PlainError (EWrap ''Failed to process job'' (ERequiredField ''Minion'')))))"
    using stale_masters_fail_minion [OF g(1) cluster(1) g(2) cluster(2,3) inv2 stale job] by blast
  with host g(1) show ?thesis by simp
qed

end
