(* ===== verification/ServerMain.thy ===== *)
theory ServerMain
  imports Apis
begin

text \<open>
  The process of the API server: \<open>cmd/apiserver/main.go\<close>, the groups of routes of
  \<open>cmd/apiserver/apis\<close>, and the stack dump of \<open>apis/debug\<close>.

  \<open>server_main\<close> is \<open>main\<close> up to \<open>app.Run\<close>: it yields the state in which the web engine starts, or
  the crash that ends the process (\<open>logrus.Fatalf\<close>, or an index out of range while the arguments of
  the storage driver are split). What it calls of other packages is the record \<open>'w start\<close>: the
  environment variables, \<open>logrus.ParseLevel\<close>, \<open>time.ParseDuration\<close>, \<open>clientv3.New\<close>, the bytes of
  \<open>math/rand\<close>, whose source is not seeded and so is the same in every run, and what the handlers
  use once there is an etcd client.
\<close>

section \<open>The groups of routes\<close>

datatype api_group = ClusterGroup | AgentGroup | CertificateGroup | RegistryGroup | DebugGroup

definition api_entries :: "api_group list" where
  "api_entries = [ClusterGroup, AgentGroup, CertificateGroup, RegistryGroup, DebugGroup]"

definition debug_routes :: "(string \<times> string) list" where
  "debug_routes = [(''GET'', ''/debug/dump'')]"

text \<open>\<open>Register\<close> of a group adds its routes and never fails.\<close>

fun Register_group :: "api_group \<Rightarrow> (string \<times> string) list \<Rightarrow> (string \<times> string) list \<times> error option" where
  "Register_group ClusterGroup app = (app @ map fst cluster_routes, None)"
| "Register_group AgentGroup app = (app @ map fst agent_routes, None)"
| "Register_group CertificateGroup app = (app @ map fst certificate_routes, None)"
| "Register_group RegistryGroup app = (app @ map (\<lambda>(t, p). (''GET'', p @ ''*'')) file_routes, None)"
| "Register_group DebugGroup app = (app @ debug_routes, None)"

fun DoRegister :: "api_group list \<Rightarrow> (string \<times> string) list \<Rightarrow> (string \<times> string) list \<times> error option" where
  "DoRegister [] app = (app, None)"
| "DoRegister (g # gs) app =
     (case Register_group g app of
        (app', Some e) \<Rightarrow> (app', Some e)
      | (app', None) \<Rightarrow> DoRegister gs app')"

text \<open>\<open>runtime.Stack\<close> fills a buffer of 20 MB.\<close>

definition GetStackTraceDump :: "string \<Rightarrow> string" where
  "GetStackTraceDump stacks = take (1024 * 1024 * 20) stacks"

section \<open>The arguments of the storage driver\<close>

fun collect_args :: "string list \<Rightarrow> (string, string) gomap \<Rightarrow> crash + (string, string) gomap" where
  "collect_args [] args = Inr args"
| "collect_args (a # as) args =
     (case split_on CHR ''='' a of
        k # v # r \<Rightarrow> collect_args as (gm_put k v args)
      | _ \<Rightarrow> Inl IndexOutOfRange)"

definition driver_args :: "string \<Rightarrow> crash + (string, string) gomap" where
  "driver_args s = (if s = [] then Inr [] else collect_args (split_on CHR '';'' s) [])"

section \<open>main\<close>

record 'w start =
  su_Getenv :: "string \<Rightarrow> string"
  su_ParseLevel :: "string \<Rightarrow> error option"
  su_ParseDuration :: "string \<Rightarrow> error + int"
  su_NewClient :: "string list \<Rightarrow> int \<Rightarrow> error + nat"
  su_Rand :: "nat \<Rightarrow> nat list"
  su_Web :: "nat \<Rightarrow> int \<Rightarrow> 'w web"

definition fatal :: "error + 'a \<Rightarrow> crash + 'a" where
  "fatal r = (case r of Inl e \<Rightarrow> Inl FatalExit | Inr x \<Rightarrow> Inr x)"

definition fatal_if :: "error option \<Rightarrow> crash + unit" where
  "fatal_if e = (case e of None \<Rightarrow> Inr () | Some e \<Rightarrow> Inl FatalExit)"

text \<open>The verb \<open>%x\<close> on bytes.\<close>

definition hex_bytes :: "nat list \<Rightarrow> string" where
  "hex_bytes bs = concat (map (\<lambda>b. [hex_char (b div 16), hex_char (b mod 16)]) bs)"

definition download_token :: "'w start \<Rightarrow> string" where
  "download_token S =
     (if su_Getenv S ''GET_TOKEN'' = [] then hex_bytes (su_Rand S 24) else su_Getenv S ''GET_TOKEN'')"

definition set_log_level :: "'w start \<Rightarrow> crash + unit" where
  "set_log_level S =
     (let logLevel = su_Getenv S ''LOG_LEVEL'' in
      if logLevel = [] then Inr () else fatal_if (su_ParseLevel S logLevel))"

text \<open>A storage driver that is connected: its client and the timeout of requests.\<close>

definition open_driver :: "'w start \<Rightarrow> crash + nat \<times> int" where
  "open_driver S =
     (let t = su_Getenv S ''BACKEND_STORAGE_TYPE''; driverType = (if t = [] then ''etcd'' else t) in
      bindC (driver_args (su_Getenv S ''BACKEND_STORAGE_ARGS'')) (\<lambda>args.
      bindC (fatal (NewStorageDriver driverType)) (\<lambda>k.
        fatal (snd (ETCD_Initialize (su_ParseDuration S) (su_NewClient S) args)))))"

definition pool_settings :: cluster_settings where
  "pool_settings = zero_settings\<lparr>cs_Id := nil_uuid, cs_PortRangeSettings := Some \<lparr>pr_Begin = 30000, pr_End = 32767\<rparr>\<rparr>"

definition server_main :: "'w start \<Rightarrow> 'w \<Rightarrow> crash + 'w \<times> 'w web \<times> server" where
  "server_main S w =
     bindC (fatal_if (snd (DoRegister api_entries []))) (\<lambda>_.
     bindC (set_log_level S) (\<lambda>_.
     bindC (open_driver S) (\<lambda>(client, timeout).
       let W = su_Web S client timeout in
       bindC (CM_Initialize (ap_env W) new_manager w) (\<lambda>(w1, cm, e).
       bindC (fatal_if e) (\<lambda>_.
         case NewCluster (api.truncate W) pool_settings w1 of
           (w2, r) \<Rightarrow> bindC (fatal r) (\<lambda>_.
             Inr (w2, W, (new_server (download_token S))\<lparr>sv_cm := cm\<rparr>)))))))"

section \<open>Routes\<close>

text \<open>
  The groups register without an error, and no method and path twice; the first three give the
  table that \<open>serve\<close> dispatches on.
\<close>

theorem routes_registered:
  "\<exists>app. DoRegister api_entries [] = (app, None) \<and> distinct app \<and>
     take (length routes) app = map fst routes"
proof (intro exI conjI)
  show "DoRegister api_entries [] = (map fst routes @ map (\<lambda>(t, p). (''GET'', p @ ''*'')) file_routes @ debug_routes, None)"
    by (simp add: api_entries_def routes_def)
  show "distinct (map fst routes @ map (\<lambda>(t, p). (''GET'', p @ ''*'')) file_routes @ debug_routes)"
    by code_simp
qed simp

section \<open>Splitting the arguments\<close>

lemma split_on_pair: "CHR ''='' \<in> set a \<Longrightarrow> \<exists>k v r. split_on CHR ''='' a = k # v # r"
proof -
  assume "CHR ''='' \<in> set a"
  then obtain k s where "a = k @ CHR ''='' # s" "CHR ''='' \<notin> set k" by (metis split_list_first)
  then have "split_on CHR ''='' a = k # split_on CHR ''='' s" by (simp add: split_on_cons)
  moreover obtain v r where "split_on CHR ''='' s = v # r" by (metis list.exhaust split_on_not_Nil)
  ultimately show ?thesis by simp
qed

lemma collect_args_cases:
  "(collect_args as m = Inl IndexOutOfRange \<and> (\<exists>a \<in> set as. CHR ''='' \<notin> set a)) \<or>
   (\<exists>m'. collect_args as m = Inr m' \<and> (\<forall>a \<in> set as. CHR ''='' \<in> set a))"
proof (induction as arbitrary: m)
  case (Cons a as)
  show ?case
  proof (cases "CHR ''='' \<in> set a")
    case True
    then obtain k v r where "split_on CHR ''='' a = k # v # r" using split_on_pair by blast
    with Cons.IH [of "gm_put k v m"] True show ?thesis by auto
  next
    case False
    then show ?thesis by (simp add: split_on_single)
  qed
qed simp

text \<open>
  C38: the arguments of the driver are split or the process panics, by an index out of range: it
  panics exactly when one of the parts between semicolons has no \<open>=\<close>. So a semicolon at the end
  ends the process at its start, before it has a storage driver.
\<close>

theorem driver_args_panic:
  "(driver_args s = Inl IndexOutOfRange \<longleftrightarrow> s \<noteq> [] \<and> (\<exists>a \<in> set (split_on CHR '';'' s). CHR ''='' \<notin> set a)) \<and>
   driver_args s \<noteq> Inl NilDeref \<and> driver_args s \<noteq> Inl FatalExit \<and>
   driver_args (s @ '';'') = Inl IndexOutOfRange"
proof -
  have "split_on CHR '';'' (s @ '';'') = split_on CHR '';'' s @ [[]]"
    using split_on_append [of "CHR '';''" s "[]"] by (simp add: split_on_single)
  then have "driver_args (s @ '';'') = Inl IndexOutOfRange"
    using collect_args_cases [of "split_on CHR '';'' s @ [[]]" "[]"] by (auto simp: driver_args_def)
  with collect_args_cases [of "split_on CHR '';'' s" "[]"] show ?thesis by (auto simp: driver_args_def)
qed

text \<open>The text of a map of arguments.\<close>

definition args_text :: "(string, string) gomap \<Rightarrow> string" where
  "args_text m = join '';'' (map (\<lambda>(k, v). k @ ''='' @ v) m)"

definition plain_arg :: "string \<Rightarrow> bool" where
  "plain_arg s \<longleftrightarrow> CHR '';'' \<notin> set s \<and> CHR ''='' \<notin> set s"

lemma gm_put_new: "k \<notin> set (map fst m) \<Longrightarrow> gm_put k v m = m @ [(k, v)]"
  by (induction m) auto

lemma collect_args_text:
  assumes "\<forall>(k, v) \<in> set m. plain_arg k \<and> plain_arg v" and "distinct (map fst (acc @ m))"
  shows "collect_args (map (\<lambda>(k, v). k @ ''='' @ v) m) acc = Inr (acc @ m)"
  using assms
proof (induction m arbitrary: acc)
  case (Cons p m)
  obtain k v where p: "p = (k, v)" by (cases p)
  have "split_on CHR ''='' (k @ CHR ''='' # v) = [k, v]"
    using Cons.prems(1) p by (simp add: split_on_cons split_on_single plain_arg_def)
  moreover have "gm_put k v acc = acc @ [(k, v)]"
    using Cons.prems(2) p by (intro gm_put_new) auto
  ultimately show ?case using Cons.IH [of "acc @ [(k, v)]"] Cons.prems p by simp
qed simp

text \<open>
  What is written as \<open>key=value\<close> pairs between semicolons is read back, for keys and values
  without either character (a second \<open>=\<close> cuts a value off).
\<close>

theorem driver_args_roundtrip:
  assumes "gm_wf m" and "\<forall>(k, v) \<in> set m. plain_arg k \<and> plain_arg v"
  shows "driver_args (args_text m) = Inr m"
proof (cases "m = []")
  case False
  let ?ps = "map (\<lambda>(k, v). k @ ''='' @ v) m"
  have "split_on CHR '';'' (args_text m) = ?ps"
    unfolding args_text_def using False assms(2) by (intro split_join) (auto simp: plain_arg_def)
  moreover have "args_text m \<noteq> []" using False by (cases m; cases "tl m") (auto simp: args_text_def)
  ultimately show ?thesis
    using collect_args_text [OF assms(2), of "[]"] assms(1) by (simp add: driver_args_def gm_wf_def)
qed (simp add: driver_args_def args_text_def)

theorem driver_args_roundtrip_witness:
  "driver_args (args_text [(''ENDPOINTS'', ''http://10.0.0.1:2379,http://10.0.0.2:2379''), (''DIAL_TIMEOUT'', ''5s'')]) =
     Inr [(''ENDPOINTS'', ''http://10.0.0.1:2379,http://10.0.0.2:2379''), (''DIAL_TIMEOUT'', ''5s'')]"
  by (rule driver_args_roundtrip) (simp_all add: gm_wf_def plain_arg_def)

section \<open>The server that starts\<close>

lemma fatal_Inr [simp]: "fatal r = Inr x \<longleftrightarrow> r = Inr x"
  by (cases r) (simp_all add: fatal_def)

lemma fatal_if_Inr [simp]: "fatal_if e = Inr u \<longleftrightarrow> e = None"
  by (cases e) (simp_all add: fatal_if_def)

lemma server_main_cases:
  assumes "server_main S w = Inr (w', W, sv)"
  obtains client timeout w1 cm cid where "open_driver S = Inr (client, timeout)" "W = su_Web S client timeout"
    "CM_Initialize (ap_env W) new_manager w = Inr (w1, cm, None)"
    "NewCluster (api.truncate W) pool_settings w1 = (w', Inr cid)"
    "sv = (new_server (download_token S))\<lparr>sv_cm := cm\<rparr>"
proof -
  from assms obtain client timeout w1 cm where 1: "open_driver S = Inr (client, timeout)"
    "CM_Initialize (ap_env (su_Web S client timeout)) new_manager w = Inr (w1, cm, None)"
    and k: "(case NewCluster (api.truncate (su_Web S client timeout)) pool_settings w1 of
         (w2, r) \<Rightarrow> bindC (fatal r) (\<lambda>_. Inr (w2, su_Web S client timeout, (new_server (download_token S))\<lparr>sv_cm := cm\<rparr>))) =
       Inr (w', W, sv)"
    by (auto simp: server_main_def bindC_Inr_iff Let_def)
  obtain w2 r where 2: "NewCluster (api.truncate (su_Web S client timeout)) pool_settings w1 = (w2, r)" by fastforce
  from k 2 1 that [of client timeout w1 cm] show thesis by (auto simp: bindC_Inr_iff)
qed

text \<open>The settings of the pool of resources as every start writes them.\<close>

definition stored_pool :: "int \<Rightarrow> cluster_settings" where
  "stored_pool now = zero_settings\<lparr>cs_Id := nil_uuid,
     cs_PortRangeSettings := Some \<lparr>pr_Begin = 30000, pr_End = 32767\<rparr>, cs_MaximumAllowedPodCountPerNode := 110, cs_ServiceDNSDomain := ''cluster.local'',
     cs_SecurityToken := ''abc'', cs_CreateTime := now\<rparr>"

text \<open>
  C12: when \<open>main\<close> gets to the web engine, the server is in a reachable state of its state machine
  and keeps its invariant, so what holds of reachable states holds of it and of all that
  follows; and the metadata of the pool are those of a new pool, whatever was stored before.
\<close>

theorem main_starts_server:
  assumes "server_main S w = Inr (w', W, sv)" and "kv_driver (en_driver (ap_env W)) kv"
  shows "(server_step W)\<^sup>*\<^sup>* (new_server (download_token S)) sv \<and> server_inv sv \<and>
     (\<exists>now d. mar_settings (en_codec (ap_env W)) (stored_pool now) = Inr d \<and>
        kv w' (metadata_path nil_uuid) = Some d)"
proof -
  obtain client timeout w1 cm cid where m: "CM_Initialize (ap_env W) new_manager w = Inr (w1, cm, None)"
    "NewCluster (api.truncate W) pool_settings w1 = (w', Inr cid)"
    "sv = (new_server (download_token S))\<lparr>sv_cm := cm\<rparr>"
    by (rule server_main_cases [OF assms(1)])
  have "server_step W (new_server (download_token S)) sv"
    unfolding m(3) by (rule server_step.manager) (simp add: new_server_def manager_step.initialize [OF m(1)])
  then have reach: "(server_step W)\<^sup>*\<^sup>* (new_server (download_token S)) sv" by blast
  moreover have "server_inv sv" by (rule server.inv_reachable [OF refl reach])
  moreover have "\<exists>now d. mar_settings (en_codec (ap_env W)) (stored_pool now) = Inr d \<and> kv w' (metadata_path nil_uuid) = Some d"
    using m(2)
  proof (cases rule: NewCluster_cases)
    case (1 v certs v' c' v'' d)
    have c': "c' = stored_pool (en_now (ap_env W) v')"
      using 1(2) by (auto simp: fill_cluster_def pool_settings_def stored_pool_def zero_settings_def nil_uuid_def api.defs)
    then have "cid = nil_uuid" using 1(3) by (simp add: stored_pool_def pool_settings_def)
    with 1 c' assms(2) kv_put [of "en_driver (ap_env W)" kv v'' _ d None w'] show ?thesis
      by (intro exI [of _ "en_now (ap_env W) v'"] exI [of _ d]) (simp add: api.defs)
  qed
  ultimately show ?thesis by blast
qed

definition sim_start :: "sim_world start" where
  "sim_start = \<lparr>su_Getenv = (\<lambda>k. if k = ''BACKEND_STORAGE_ARGS'' then ''ENDPOINTS=10.0.0.1:2379'' else []),
     su_ParseLevel = (\<lambda>s. None), su_ParseDuration = (\<lambda>s. Inr 5), su_NewClient = (\<lambda>es t. Inr 0),
     su_Rand = (\<lambda>n. replicate n 82), su_Web = (\<lambda>c t. sim_web)\<rparr>"

lemma sim_start_runs: "(case server_main sim_start sim_world of Inl c \<Rightarrow> False | Inr r \<Rightarrow> True)"
  by code_simp

theorem main_starts_server_witness:
  "\<exists>w' W sv. server_main sim_start sim_world = Inr (w', W, sv) \<and> server_inv sv \<and>
     mem_kv w' (metadata_path nil_uuid) \<noteq> None"
proof -
  obtain w' W sv where m: "server_main sim_start sim_world = Inr (w', W, sv)"
    using sim_start_runs by (auto split: sum.splits)
  obtain client timeout where "W = su_Web sim_start client timeout" by (rule server_main_cases [OF m])
  then have "kv_driver (en_driver (ap_env W)) mem_kv"
    using sim_api_facts(1) by (simp add: sim_start_def sim_web_def api.defs)
  from main_starts_server [OF m this] m show ?thesis by auto
qed

end
