(* ===== verification/Startup.thy ===== *)
theory Startup
  imports ClusterManager
begin

text \<open>
  What a start of the API server restores: \<open>CM_Initialize\<close> on a store that earlier servers and
  agents have written. \<open>well_stored\<close> says which keys such a store has; \<open>restored\<close> what the controller
  of a cluster then holds.
\<close>

section \<open>Stores\<close>

text \<open>
  The keys below a cluster. Two identifiers would be mistaken by the classifiers for a part of a
  path: \<open>metadata\<close> and \<open>certificates\<close>.
\<close>

definition plain_id :: "string \<Rightarrow> bool" where
  "plain_id s \<longleftrightarrow> seg s \<and> s \<noteq> ''metadata'' \<and> s \<noteq> ''certificates''"

definition directory_keys :: "string \<Rightarrow> string list" where
  "directory_keys cid = [cluster_path cid, cluster_path cid @ ''/agents'', cluster_path cid @ ''/certificates'']"

definition certificate_key :: "string \<Rightarrow> string \<Rightarrow> string" where
  "certificate_key cid n = cluster_path cid @ ''/certificates/'' @ n"

definition cluster_key :: "string \<Rightarrow> string \<Rightarrow> bool" where
  "cluster_key cid k \<longleftrightarrow> k \<in> set (directory_keys cid) \<or> k = metadata_path cid \<or>
     (\<exists>aid. plain_id aid \<and> (k = agent_settings_path cid aid \<or> k = agent_state_path cid aid)) \<or>
     (\<exists>n. plain_id n \<and> k = certificate_key cid n)"

definition store_key :: "string \<Rightarrow> bool" where
  "store_key k \<longleftrightarrow> (\<exists>cid. plain_id cid \<and> cluster_key cid k)"

definition well_stored :: "codec \<Rightarrow> (string \<rightharpoonup> string) \<Rightarrow> bool" where
  "well_stored c st \<longleftrightarrow>
     (\<forall>k. is_prefix clusters_prefix k \<longrightarrow> st k \<noteq> None \<longrightarrow> store_key k) \<and>
     (\<forall>cid v s. plain_id cid \<longrightarrow> st (metadata_path cid) = Some v \<longrightarrow> unm_settings c v = Inr s \<longrightarrow> cs_Id s = cid) \<and>
     (\<forall>cid i a. plain_id cid \<longrightarrow> seg i \<longrightarrow> stored_agent c st cid i = Some a \<longrightarrow> ag_Id a = i)"

text \<open>Registering clusters adds directory keys at most.\<close>

definition grown :: "(string \<rightharpoonup> string) \<Rightarrow> (string \<rightharpoonup> string) \<Rightarrow> bool" where
  "grown st st' \<longleftrightarrow> (\<forall>k. st' k = st k \<or> (\<exists>cid. plain_id cid \<and> k \<in> set (directory_keys cid)))"

text \<open>The controller of a cluster that holds what the store does.\<close>

definition restored :: "codec \<Rightarrow> (string \<rightharpoonup> string) \<Rightarrow> string \<Rightarrow> cluster_controller \<Rightarrow> bool" where
  "restored c st cid cc \<longleftrightarrow>
     (\<exists>v. st (metadata_path cid) = Some v \<and> unm_settings c v = Inr (cc_settings cc)) \<and>
     \<not> cc_isDisposed cc \<and> cc_watch cc = Watching \<and>
     (\<forall>n v. gm_get (cc_certs cc) n = Some v \<longleftrightarrow> plain_id n \<and> v \<noteq> [] \<and> st (certificate_key cid n) = Some v) \<and>
     (\<exists>ac. cc_cache cc = Some ac \<and> cache_inv ac \<and> (\<forall>\<rho> i a. view ac \<rho> i = Some a \<longleftrightarrow>
        seg i \<and> stored_agent c st cid i = Some a \<and> ag_State a \<noteq> None \<and> has_role \<rho> a))"

section \<open>Classification of the keys of a store\<close>

lemma plain_id_seg: "plain_id s \<Longrightarrow> seg s"
  by (simp add: plain_id_def)

lemma fields_directory:
  assumes "seg cid"
  shows "slash_fields (cluster_path cid) = [''lightning-monkey'', ''clusters'', cid]"
    "slash_fields (cluster_path cid @ ''/agents'') = [''lightning-monkey'', ''clusters'', cid, ''agents'']"
    "slash_fields (cluster_path cid @ ''/certificates'') = [''lightning-monkey'', ''clusters'', cid, ''certificates'']"
proof -
  have s: "seg ''agents''" "seg ''certificates''" by (simp_all add: seg_def)
  have "slash_fields (clusters_prefix @ cid @ CHR ''/'' # x) = [''lightning-monkey'', ''clusters'', cid, x]" if "seg x" for x
    using assms that by (simp only: slash_fields_cluster seg_simps)
  from this [OF s(1)] this [OF s(2)] show
    "slash_fields (cluster_path cid @ ''/agents'') = [''lightning-monkey'', ''clusters'', cid, ''agents'']"
    "slash_fields (cluster_path cid @ ''/certificates'') = [''lightning-monkey'', ''clusters'', cid, ''certificates'']"
    by (simp_all add: cluster_path_def)
  show "slash_fields (cluster_path cid) = [''lightning-monkey'', ''clusters'', cid]"
    using assms by (simp only: cluster_path_def slash_fields_cluster seg_simps)
qed

lemma fields_certificate:
  assumes "seg cid" and "seg n"
  shows "slash_fields (certificate_key cid n) = [''lightning-monkey'', ''clusters'', cid, ''certificates'', n]"
proof -
  have "certificate_key cid n = clusters_prefix @ cid @ CHR ''/'' # ''certificates'' @ CHR ''/'' # n"
    by (simp add: certificate_key_def cluster_path_def)
  moreover have "seg ''certificates''" by (simp add: seg_def)
  ultimately show ?thesis using assms by (simp only: slash_fields_cluster seg_simps)
qed

lemmas fields = fields_directory slash_fields_metadata slash_fields_settings slash_fields_state fields_certificate

lemma cluster_key_cases:
  assumes "plain_id cid" and "cluster_key cid k"
  obtains (directory) "k \<in> set (directory_keys cid)" "slash_fields k \<in> {[''lightning-monkey'', ''clusters'', cid],
      [''lightning-monkey'', ''clusters'', cid, ''agents''], [''lightning-monkey'', ''clusters'', cid, ''certificates'']}"
    | (metadata) "k = metadata_path cid" "slash_fields k = [''lightning-monkey'', ''clusters'', cid, ''metadata'']"
    | (agent) aid l where "plain_id aid" "l \<in> {''settings'', ''state''}" "k = agent_path cid aid @ ''/'' @ l"
        "slash_fields k = [''lightning-monkey'', ''clusters'', cid, ''agents'', aid, l]"
    | (certificate) n where "plain_id n" "k = certificate_key cid n"
        "slash_fields k = [''lightning-monkey'', ''clusters'', cid, ''certificates'', n]"
proof -
  note s = plain_id_seg [OF assms(1)]
  consider "k \<in> set (directory_keys cid)" | "k = metadata_path cid"
    | aid where "plain_id aid" "k = agent_settings_path cid aid" | aid where "plain_id aid" "k = agent_state_path cid aid"
    | n where "plain_id n" "k = certificate_key cid n"
    using assms(2) by (auto simp: cluster_key_def)
  then show thesis
  proof cases
    case 1
    with s show thesis by (intro directory) (auto simp: directory_keys_def fields)
  next
    case 2
    with s show thesis by (intro metadata) (simp_all add: fields)
  next
    case (3 aid)
    with s show thesis by (intro agent [of aid "''settings''"]) (simp_all add: fields plain_id_seg, simp add: agent_settings_path_def)
  next
    case (4 aid)
    with s show thesis by (intro agent [of aid "''state''"]) (simp_all add: fields plain_id_seg, simp add: agent_state_path_def)
  next
    case (5 n)
    with s show thesis by (intro certificate [of n]) (simp_all add: fields plain_id_seg)
  qed
qed

lemma metadata_only:
  assumes "plain_id cid" and "cluster_key cid k"
  shows "isClusterChanged (slash_fields k) = Inr (if k = metadata_path cid then Some cid else None)"
  using assms
proof (cases rule: cluster_key_cases)
  case directory
  moreover from this have "k \<noteq> metadata_path cid" using assms(1) by (auto simp: slash_fields_metadata plain_id_seg)
  ultimately show ?thesis using assms(1) by (auto simp: classify_defs plain_id_def)
next
  case metadata
  then show ?thesis by (simp add: classify_defs)
next
  case (agent aid l)
  moreover from this have "k \<noteq> metadata_path cid" using assms(1) by (auto simp: slash_fields_metadata plain_id_seg)
  ultimately show ?thesis by (auto simp: classify_defs)
next
  case (certificate n)
  moreover from this have "k \<noteq> metadata_path cid" using assms(1) by (auto simp: slash_fields_metadata plain_id_seg)
  ultimately show ?thesis by (auto simp: classify_defs plain_id_def)
qed

lemma certificate_key_inj [simp]: "certificate_key cid n = certificate_key cid m \<longleftrightarrow> n = m"
  by (simp add: certificate_key_def)

lemma certificates_only:
  assumes "plain_id cid" and "cluster_key cid k"
  shows "isCertificatesChanged (slash_fields k) = Inr n \<longleftrightarrow>
     (case n of Some m \<Rightarrow> plain_id m \<and> k = certificate_key cid m | None \<Rightarrow> \<forall>m. plain_id m \<longrightarrow> k \<noteq> certificate_key cid m)"
proof -
  have fc: "slash_fields k = [''lightning-monkey'', ''clusters'', cid, ''certificates'', m]"
    if "plain_id m" "k = certificate_key cid m" for m
    using that assms(1) by (simp add: fields_certificate plain_id_seg)
  have none: ?thesis if "isCertificatesChanged (slash_fields k) = Inr None"
    "\<And>m. slash_fields k \<noteq> [''lightning-monkey'', ''clusters'', cid, ''certificates'', m]"
  proof -
    from fc that(2) have "\<not> (plain_id m \<and> k = certificate_key cid m)" for m by blast
    with that(1) show ?thesis by (cases n) auto
  qed
  show ?thesis
    using assms
  proof (cases rule: cluster_key_cases)
    case directory
    with assms(1) show ?thesis by (intro none) (auto simp: classify_defs plain_id_def)
  next
    case metadata
    with assms(1) show ?thesis by (intro none) (auto simp: classify_defs plain_id_def)
  next
    case (agent aid l)
    then show ?thesis by (intro none) (auto simp: classify_defs plain_id_def)
  next
    case (certificate m)
    then show ?thesis by (auto simp: classify_defs split: option.splits)
  qed
qed

section \<open>Stores that grow\<close>

lemma grown_refl: "grown st st"
  by (simp add: grown_def)

lemma grown_trans: "grown st st' \<Longrightarrow> grown st' st'' \<Longrightarrow> grown st st''"
  unfolding grown_def by metis

lemma not_directory:
  assumes "plain_id cid"
  shows "plain_id c' \<Longrightarrow> metadata_path cid \<notin> set (directory_keys c')"
    "plain_id c' \<Longrightarrow> seg aid \<Longrightarrow> agent_settings_path cid aid \<notin> set (directory_keys c')"
    "plain_id c' \<Longrightarrow> seg aid \<Longrightarrow> agent_state_path cid aid \<notin> set (directory_keys c')"
    "plain_id c' \<Longrightarrow> plain_id n \<Longrightarrow> certificate_key cid n \<notin> set (directory_keys c')"
  using assms by (auto simp: directory_keys_def fields plain_id_seg dest!: arg_cong [of _ _ slash_fields])

lemma grown_same:
  assumes "grown st st'" and "plain_id cid"
  shows "st' (metadata_path cid) = st (metadata_path cid)"
    "seg i \<Longrightarrow> stored_agent c st' cid i = stored_agent c st cid i"
    "plain_id n \<Longrightarrow> st' (certificate_key cid n) = st (certificate_key cid n)"
proof -
  have eq: "st' k = st k" if "\<And>c'. plain_id c' \<Longrightarrow> k \<notin> set (directory_keys c')" for k
    using assms(1) that by (auto simp: grown_def)
  show "st' (metadata_path cid) = st (metadata_path cid)"
    "plain_id n \<Longrightarrow> st' (certificate_key cid n) = st (certificate_key cid n)"
    using not_directory [OF assms(2)] by (auto intro: eq)
  show "stored_agent c st' cid i = stored_agent c st cid i" if "seg i"
    using eq [OF not_directory(2) [OF assms(2) _ that]] eq [OF not_directory(3) [OF assms(2) _ that]]
    by (simp only: stored_agent_def)
qed

lemma well_stored_grown:
  assumes "well_stored c st" and "grown st st'"
  shows "well_stored c st'"
proof -
  have "store_key k" if "is_prefix clusters_prefix k" "st' k \<noteq> None" for k
  proof (cases "st' k = st k")
    case True
    with that assms(1) show ?thesis by (simp add: well_stored_def)
  next
    case False
    with assms(2) show ?thesis by (auto simp: grown_def store_key_def cluster_key_def)
  qed
  with assms(1) grown_same [OF assms(2)] show ?thesis by (simp add: well_stored_def)
qed

lemma restored_grown: "grown st st' \<Longrightarrow> plain_id cid \<Longrightarrow> restored c st' cid cc \<longleftrightarrow> restored c st cid cc"
  by (simp add: restored_def grown_same cong: conj_cong)

text \<open>The keys below one cluster.\<close>

lemma below_cluster:
  assumes "well_stored c st" and "plain_id cid" and "is_prefix (cluster_path cid @ ''/'') k" and "st k \<noteq> None"
  shows "cluster_key cid k"
proof -
  obtain r where r: "k = clusters_prefix @ cid @ CHR ''/'' # r" using assms(3) by (auto simp: is_prefix_iff cluster_path_def)
  then have "slash_fields k = ''lightning-monkey'' # ''clusters'' # cid # slash_fields r"
    using plain_id_seg [OF assms(2)] by (simp only: slash_fields_cluster seg_simps)
  moreover have "is_prefix clusters_prefix k" by (simp add: r)
  then obtain c' where c': "plain_id c'" "cluster_key c' k"
    using assms(1,4) by (auto simp: well_stored_def store_key_def)
  moreover from c' obtain x where "slash_fields k = ''lightning-monkey'' # ''clusters'' # c' # x"
    by (cases rule: cluster_key_cases) auto
  ultimately show ?thesis by simp
qed

lemma below_agents:
  assumes "well_stored c st" and "plain_id cid" and "is_prefix (agents_prefix cid) k" and "st k \<noteq> None"
  shows "agent_key cid k"
proof -
  obtain r where "k = cluster_path cid @ ''/'' @ ''agents/'' @ r" using assms(3) by (auto simp: is_prefix_iff agents_prefix_def)
  then have "cluster_key cid k" using below_cluster [OF assms(1,2) _ assms(4)] by (simp add: is_prefix_iff)
  moreover obtain r where "slash_fields k = ''lightning-monkey'' # ''clusters'' # cid # ''agents'' # r"
    using slash_fields_agents [OF plain_id_seg [OF assms(2)] assms(3)] by blast
  ultimately show ?thesis
    using assms(2,3) plain_id_seg
    by (auto simp: agent_key_def cluster_key_def directory_keys_def fields)
qed

section \<open>Certificates\<close>

lemma classified:
  assumes "plain_id cid" and "cluster_key cid k"
  obtains n where "isCertificatesChanged (slash_fields k) = Inr n"
    "case n of Some m \<Rightarrow> plain_id m \<and> k = certificate_key cid m | None \<Rightarrow> \<forall>m. plain_id m \<longrightarrow> k \<noteq> certificate_key cid m"
proof (cases "\<exists>m. plain_id m \<and> k = certificate_key cid m")
  case True
  then obtain m where m: "plain_id m" "k = certificate_key cid m" by blast
  with certificates_only [OF assms, of "Some m"] show thesis by (intro that [of "Some m"]) simp_all
next
  case False
  with certificates_only [OF assms, of None] show thesis by (intro that [of None]) simp_all
qed

lemma cert_entries_stored:
  assumes "plain_id cid" and "list_all (cluster_key cid \<circ> fst) kvs" and "distinct (map fst kvs)"
  shows "distinct (map fst (cert_entries kvs)) \<and>
     (\<forall>n v. (n, v) \<in> set (cert_entries kvs) \<longleftrightarrow> plain_id n \<and> v \<noteq> [] \<and> (certificate_key cid n, v) \<in> set kvs)"
  using assms(2,3)
proof (induction kvs)
  case (Cons kv kvs)
  obtain k v where kv: "kv = (k, v)" by (cases kv)
  with Cons.prems have c: "cluster_key cid k" by simp
  obtain n where n: "isCertificatesChanged (slash_fields k) = Inr n"
    "case n of Some m \<Rightarrow> plain_id m \<and> k = certificate_key cid m | None \<Rightarrow> \<forall>m. plain_id m \<longrightarrow> k \<noteq> certificate_key cid m"
    by (rule classified [OF assms(1) c])
  from Cons have ih: "distinct (map fst (cert_entries kvs))"
    "(m, x) \<in> set (cert_entries kvs) \<longleftrightarrow> plain_id m \<and> x \<noteq> [] \<and> (certificate_key cid m, x) \<in> set kvs" for m x by auto
  have new: "(m, x) \<notin> set (cert_entries kvs)" if "k = certificate_key cid m" for m x
    using Cons.prems(2) kv that ih(2) by force
  show ?case
  proof (cases n)
    case None
    with n ih kv show ?thesis by auto
  next
    case (Some m)
    moreover have "m \<notin> fst ` set (cert_entries kvs)" using new [of m] n Some by auto
    ultimately show ?thesis using n(1,2) ih kv by auto
  qed
qed simp

lemma sync_certificates_total:
  assumes "plain_id cid" and "list_all (cluster_key cid \<circ> fst) kvs"
  shows "\<exists>cc'. sync_certificates kvs cc = Inr cc'"
  using assms(2)
proof (induction kvs arbitrary: cc)
  case (Cons kv kvs)
  obtain k v where kv: "kv = (k, v)" by (cases kv)
  with Cons.prems have "cluster_key cid k" by simp
  then obtain n where "isCertificatesChanged (slash_fields k) = Inr n" using classified [OF assms(1)] by metis
  with Cons kv show ?case by (auto split: option.splits)
qed simp

text \<open>\<open>Initialize\<close> of a controller: it ends the process or finds the certificates of its cluster.\<close>

lemma CC_Initialize_restores:
  assumes "kv_driver (en_driver E) kv" and "well_stored c (kv w)" and "plain_id (GetClusterId cc)" and "\<not> cc_isDisposed cc"
  shows "case CC_Initialize E cc w of
      Inl x \<Rightarrow> x = FatalExit
    | Inr (w', cc') \<Rightarrow> kv w' = kv w \<and>
        cc' = cc\<lparr>cc_certs := cc_certs cc', cc_cache := Some Initialize, cc_strategies := InitializeStrategies\<rparr> \<and>
        (\<forall>n v. gm_get (cc_certs cc') n = Some v \<longleftrightarrow> plain_id n \<and> v \<noteq> [] \<and> kv w (certificate_key (GetClusterId cc) n) = Some v)"
proof -
  let ?cid = "GetClusterId cc"
  let ?c = "cc\<lparr>cc_certs := [], cc_cache := Some Initialize, cc_strategies := InitializeStrategies\<rparr>"
  obtain w1 r where g: "sd_Get (en_driver E) w (cluster_path ?cid @ ''/'') True = (w1, r)" by fastforce
  show ?thesis
  proof (cases r)
    case (Inl e)
    with g show ?thesis by (simp add: CC_Initialize_def CC_fullSync_def GetClusterId_def)
  next
    case (Inr rsp)
    note k = kv_get_prefix [OF assms(1) g [unfolded Inr]]
    have keys: "cluster_key ?cid x" if "(x, y) \<in> set (gr_Kvs rsp)" for x y
    proof -
      have "map_of (gr_Kvs rsp) x = Some y" using k(4) that by simp
      with k(5) have "is_prefix (cluster_path ?cid @ ''/'') x" "kv w x \<noteq> None" by (auto split: if_splits)
      then show ?thesis by (rule below_cluster [OF assms(2,3)])
    qed
    then have all: "list_all (cluster_key ?cid \<circ> fst) (gr_Kvs rsp)" by (auto simp: list_all_iff)
    obtain cc1 where cc1: "sync_certificates (gr_Kvs rsp) ?c = Inr cc1" using sync_certificates_total [OF assms(3) all] by blast
    have "CC_fullSync E ?c w = Inr (w1, if gr_Count rsp = 0 then ?c else cc1, None)"
      using g cc1 Inr by (simp add: CC_fullSync_def GetClusterId_def)
    then obtain cc' where i: "CC_Initialize E cc w = Inr (w1, cc')" by (simp add: CC_Initialize_def)
    have "gm_get (cc_certs cc') n = Some v \<longleftrightarrow> plain_id n \<and> v \<noteq> [] \<and> kv w (certificate_key ?cid n) = Some v" for n v
    proof -
      have "gm_get (cc_certs cc') n = map_of (rev (cert_entries (gr_Kvs rsp))) n"
        by (rule full_sync_certificates [OF i assms(4) g [unfolded Inr] k(2)])
      also have "\<dots> = Some v \<longleftrightarrow> (n, v) \<in> set (cert_entries (gr_Kvs rsp))"
        using cert_entries_stored [OF assms(3) all k(4)] by (simp add: rev_map [symmetric])
      also have "\<dots> \<longleftrightarrow> plain_id n \<and> v \<noteq> [] \<and> map_of (gr_Kvs rsp) (certificate_key ?cid n) = Some v"
        using cert_entries_stored [OF assms(3) all k(4)] k(4) by simp
      finally show ?thesis by (simp add: k(5) is_prefix_iff certificate_key_def)
    qed
    moreover have "cc' = cc\<lparr>cc_certs := cc_certs cc', cc_cache := Some Initialize, cc_strategies := InitializeStrategies\<rparr>"
      using i assms(4) by (rule CC_Initialize_cases) simp
    ultimately show ?thesis using i k(1) by simp
  qed
qed

section \<open>One cluster\<close>

lemma new_cluster_restored:
  assumes "kv_driver (en_driver E) kv" and "visit_law E" and "well_stored (en_codec E) (kv w)"
    and "plain_id cid" and "kv w (metadata_path cid) = Some v" and "unm_settings (en_codec E) v = Inr settings"
  shows "case bindC (CC_Initialize E (new_cluster settings) w) (\<lambda>(w1, cc1). doRegister E cc1 w1) of
      Inl x \<Rightarrow> x = FatalExit
    | Inr (w', cc, e) \<Rightarrow> e = None \<longrightarrow> grown (kv w) (kv w') \<and> restored (en_codec E) (kv w) cid cc"
proof -
  let ?n = "new_cluster settings"
  have n: "cc_settings ?n = settings" "\<not> cc_isDisposed ?n"
    by (simp_all add: new_cluster_def UpdateClusterSettings_def new_controller_def)
  have id: "GetClusterId ?n = cid" using assms(3-6) n(1) by (auto simp: well_stored_def GetClusterId_def)
  from CC_Initialize_restores [OF assms(1,3) _ n(2)] assms(4) id consider
      "CC_Initialize E ?n w = Inl FatalExit"
    | w1 cc1 where "CC_Initialize E ?n w = Inr (w1, cc1)" "kv w1 = kv w"
        "cc1 = ?n\<lparr>cc_certs := cc_certs cc1, cc_cache := Some Initialize, cc_strategies := InitializeStrategies\<rparr>"
        "\<forall>n v. gm_get (cc_certs cc1) n = Some v \<longleftrightarrow> plain_id n \<and> v \<noteq> [] \<and> kv w (certificate_key cid n) = Some v"
    by (fastforce split: sum.splits)
  then show ?thesis
  proof cases
    case (2 w1 cc1)
    have c: "cc_settings cc1 = settings" "\<not> cc_isDisposed cc1" "cc_cache cc1 = Some Initialize"
      using arg_cong [OF 2(3), of cc_settings] arg_cong [OF 2(3), of cc_isDisposed] arg_cong [OF 2(3), of cc_cache] n by simp_all
    with id n(1) have id1: "GetClusterId cc1 = cid" by (simp add: GetClusterId_def)
    have keys: "agent_key (GetClusterId cc1) k" if "is_prefix (agents_prefix (GetClusterId cc1)) k" "kv w1 k \<noteq> None" for k
      using below_agents [OF assms(3,4)] that 2(2) id1 by simp
    have ids: "ag_Id a = i" if "seg i" "stored_agent (en_codec E) (kv w1) (GetClusterId cc1) i = Some a" for i a
      using assms(3,4) that 2(2) id1 by (simp add: well_stored_def)
    obtain w' cc e where d: "doRegister E cc1 w1 = Inr (w', cc, e)" and ok: "e = None \<Longrightarrow>
       (\<forall>k. k \<notin> set (directory_keys cid) \<longrightarrow> kv w' k = kv w1 k) \<and>
       (\<exists>ac i. cc = SetCancellationFunc ((SetSynchronizedRevision i cc1)\<lparr>cc_cache := Some ac\<rparr>) \<and> cache_inv ac \<and>
          (\<forall>\<rho> i a. view ac \<rho> i = Some a \<longleftrightarrow> seg i \<and> stored_agent (en_codec E) (kv w1) cid i = Some a \<and>
             ag_State a \<noteq> None \<and> has_role \<rho> a))"
      using doRegister_fills [OF assms(1,2) _ c(3,2) keys ids] plain_id_seg [OF assms(4)]
      unfolding id1 directory_keys_def by blast
    have "grown (kv w) (kv w') \<and> restored (en_codec E) (kv w) cid cc" if "e = None"
    proof
      from ok [OF that] obtain ac i where a: "\<forall>k. k \<notin> set (directory_keys cid) \<longrightarrow> kv w' k = kv w1 k"
        "cc = SetCancellationFunc ((SetSynchronizedRevision i cc1)\<lparr>cc_cache := Some ac\<rparr>)" "cache_inv ac"
        "\<forall>\<rho> i a. view ac \<rho> i = Some a \<longleftrightarrow> seg i \<and> stored_agent (en_codec E) (kv w1) cid i = Some a \<and>
             ag_State a \<noteq> None \<and> has_role \<rho> a" by blast
      from a(1) 2(2) assms(4) show "grown (kv w) (kv w')" unfolding grown_def by metis
      have f: "cc_settings cc = settings" "\<not> cc_isDisposed cc" "cc_watch cc = Watching" "cc_cache cc = Some ac" "cc_certs cc = cc_certs cc1"
        using c by (simp_all add: a(2) SetCancellationFunc_def SetSynchronizedRevision_def)
      show "restored (en_codec E) (kv w) cid cc"
        unfolding restored_def f using a(3,4) 2(2,4) assms(5,6) f by (intro conjI exI [of _ v] exI [of _ ac]) simp_all
    qed
    with d 2(1) show ?thesis by simp
  qed simp
qed

lemma doClusterChange_new:
  assumes "gm_get (cm_clusters cm) cid = None" and "unm_settings (en_codec E) v = Inr settings"
  shows "doClusterChange E cid v False cm w =
     bindC (bindC (CC_Initialize E (new_cluster settings) w) (\<lambda>(w1, cc1). doRegister E cc1 w1)) (\<lambda>(w2, cc2, e).
       let (r, cm2) = alloc cc2 cm in
       case e of Some err \<Rightarrow> Inr (w2, cm2, Some err)
       | None \<Rightarrow> Inr (w2, cm2\<lparr>cm_clusters := gm_put cid r (cm_clusters cm2)\<rparr>, None))"
  using assms by (simp add: doClusterChange_def bindC_assoc split_def)

section \<open>All clusters\<close>

text \<open>A manager that has restored the clusters whose metadata is among these keys.\<close>

definition restored_all :: "codec \<Rightarrow> (string \<rightharpoonup> string) \<Rightarrow> string set \<Rightarrow> cluster_manager \<Rightarrow> bool" where
  "restored_all c st ks cm \<longleftrightarrow>
     (\<forall>cid. plain_id cid \<longrightarrow> (gm_get (cm_clusters cm) cid \<noteq> None \<longleftrightarrow> metadata_path cid \<in> ks)) \<and>
     (\<forall>cid r. gm_get (cm_clusters cm) cid = Some r \<longrightarrow>
        r < cm_next cm \<and> plain_id cid \<and> restored c st cid (cm_heap cm r))"

lemma restored_all_put:
  assumes "restored_all c st ks cm" and "restored c st cid cc" and "plain_id cid" and "alloc cc cm = (r, cm2)"
  shows "restored_all c st (insert (metadata_path cid) ks) (cm2\<lparr>cm_clusters := gm_put cid r (cm_clusters cm2)\<rparr>)"
proof -
  have inj: "metadata_path a = metadata_path b \<longleftrightarrow> a = b" for a b by (simp add: metadata_path_def cluster_path_def)
  have al: "cm2 = cm\<lparr>cm_heap := (cm_heap cm)(cm_next cm := cc), cm_next := cm_next cm + 1\<rparr>" "r = cm_next cm"
    using assms(4) by (auto simp: alloc_def)
  from assms(1) have "plain_id x \<Longrightarrow> gm_get (cm_clusters cm) x \<noteq> None \<longleftrightarrow> metadata_path x \<in> ks"
    and "gm_get (cm_clusters cm) x = Some y \<Longrightarrow> y < cm_next cm \<and> plain_id x \<and> restored c st x (cm_heap cm y)" for x y
    unfolding restored_all_def by blast+
  with assms(2,3) show ?thesis unfolding restored_all_def al
    by (intro conjI allI impI) (simp_all add: inj split: if_splits, fastforce+)
qed

lemma restored_all_skip:
  assumes "restored_all c st ks cm" and "\<And>cid. plain_id cid \<Longrightarrow> k \<noteq> metadata_path cid"
  shows "restored_all c st (insert k ks) cm"
  using assms by (auto simp: restored_all_def)

lemma doClusterChange_restores:
  assumes "kv_driver (en_driver E) kv" and "visit_law E" and "well_stored (en_codec E) st"
    and "restored_all (en_codec E) st ks cm" and "grown st (kv w)" and "plain_id cid"
    and "st (metadata_path cid) = Some v" and "gm_get (cm_clusters cm) cid = None"
  shows "case doClusterChange E cid v False cm w of
      Inl x \<Rightarrow> x = FatalExit
    | Inr (w1, cm1, e) \<Rightarrow> e = None \<longrightarrow>
        grown st (kv w1) \<and> restored_all (en_codec E) st (insert (metadata_path cid) ks) cm1"
proof (cases "unm_settings (en_codec E) v")
  case (Inl err)
  then show ?thesis by (simp add: doClusterChange_def)
next
  case (Inr settings)
  have v: "kv w (metadata_path cid) = Some v" using assms(7) grown_same(1) [OF assms(5,6)] by simp
  note one = new_cluster_restored [OF assms(1,2) well_stored_grown [OF assms(3,5)] assms(6) v Inr]
  let ?m = "bindC (CC_Initialize E (new_cluster settings) w) (\<lambda>(w1, cc1). doRegister E cc1 w1)"
  show ?thesis
  proof (cases ?m)
    case (Inl x)
    with one show ?thesis unfolding doClusterChange_new [OF assms(8) Inr] by simp
  next
    case m: (Inr y)
    obtain w1 cc e where y: "y = (w1, cc, e)" by (cases y)
    obtain r cm2 where al: "alloc cc cm = (r, cm2)" by (cases "alloc cc cm")
    show ?thesis
    proof (cases e)
      case None
      with one m y have g: "grown (kv w) (kv w1)" "restored (en_codec E) (kv w) cid cc" by simp_all
      from g(2) have "restored (en_codec E) st cid cc" by (simp add: restored_grown [OF assms(5,6)])
      from restored_all_put [OF assms(4) this assms(6) al] grown_trans [OF assms(5) g(1)] None m y al
      show ?thesis unfolding doClusterChange_new [OF assms(8) Inr] by simp
    qed (use m y al in \<open>simp add: doClusterChange_new [OF assms(8) Inr]\<close>)
  qed
qed

lemma sync_clusters_restores:
  assumes "kv_driver (en_driver E) kv" and "visit_law E" and "well_stored (en_codec E) st"
  shows "restored_all (en_codec E) st ks cm \<Longrightarrow> grown st (kv w) \<Longrightarrow> distinct (map fst kvs) \<Longrightarrow>
     ks \<inter> fst ` set kvs = {} \<Longrightarrow> \<forall>(k, v) \<in> set kvs. store_key k \<and> st k = Some v \<Longrightarrow>
     (case sync_clusters E kvs cm w of
        Inl x \<Rightarrow> x = FatalExit
      | Inr (w', cm', e) \<Rightarrow> e = None \<longrightarrow> restored_all (en_codec E) st (ks \<union> fst ` set kvs) cm')"
proof (induction kvs arbitrary: ks cm w)
  case (Cons kv0 kvs)
  obtain k v where kv: "kv0 = (k, v)" by (cases kv0)
  with Cons.prems(5) obtain cid where k: "plain_id cid" "cluster_key cid k" "st k = Some v" by (auto simp: store_key_def)
  note cl = metadata_only [OF k(1,2)]
  have rest: "distinct (map fst kvs)" "insert k ks \<inter> fst ` set kvs = {}" "\<forall>(k, v) \<in> set kvs. store_key k \<and> st k = Some v"
    using Cons.prems(3-5) kv by (auto simp: image_iff)
  note go = Cons.IH [OF _ _ rest]
  show ?case
  proof (cases "k = metadata_path cid")
    case False
    have "k \<noteq> metadata_path c'" if "plain_id c'" for c'
    proof
      assume m: "k = metadata_path c'"
      from that have "cluster_key c' k" by (simp add: cluster_key_def m)
      from metadata_only [OF that this] cl False m show False by simp
    qed
    then have "restored_all (en_codec E) st (insert k ks) cm" by (rule restored_all_skip [OF Cons.prems(1)])
    from go [OF this Cons.prems(2)] cl False kv show ?thesis by (auto split: sum.splits)
  next
    case True
    with Cons.prems(1,4) k(1) kv have none: "gm_get (cm_clusters cm) cid = None" by (auto simp: restored_all_def)
    note one = doClusterChange_restores [OF assms Cons.prems(1,2) k(1) k(3) [unfolded True] none, folded True]
    show ?thesis
    proof (cases "doClusterChange E cid v False cm w")
      case (Inl x)
      with one kv cl True show ?thesis by simp
    next
      case (Inr y)
      obtain w1 cm1 e where y: "y = (w1, cm1, e)" by (cases y)
      show ?thesis
      proof (cases e)
        case None
        with one Inr y have "restored_all (en_codec E) st (insert k ks) cm1" "grown st (kv w1)" by simp_all
        from go [OF this] None Inr y kv cl True show ?thesis by (auto split: sum.splits)
      qed (use Inr y kv cl True in simp)
    qed
  qed
qed simp

section \<open>The start\<close>

text \<open>
  C13: a start of the API server on a store that servers and agents have written brings back every
  cluster: \<open>Initialize\<close> of the manager ends the process, fails, or leaves a manager that watches the
  store and has a cluster exactly for each identifier with metadata, and its controller has the
  settings, the certificates and, for every role, the agents that the store has, and watches
  them. It never panics.
\<close>

theorem start_restores_clusters:
  assumes "kv_driver (en_driver E) kv" and "visit_law E" and "well_stored (en_codec E) (kv w)"
  shows "case CM_Initialize E cm w of
      Inl x \<Rightarrow> x = FatalExit
    | Inr (w', cm', e) \<Rightarrow> e = None \<longrightarrow> cm_watchFrom cm' \<noteq> None \<and>
        (\<forall>cid. plain_id cid \<longrightarrow> (gm_get (cm_clusters cm') cid \<noteq> None \<longleftrightarrow> kv w (metadata_path cid) \<noteq> None)) \<and>
        (\<forall>cid r. gm_get (cm_clusters cm') cid = Some r \<longrightarrow>
           plain_id cid \<and> restored (en_codec E) (kv w) cid (cm_heap cm' r))"
proof -
  let ?cm = "cm\<lparr>cm_clusters := []\<rparr>"
  obtain w1 r where g: "sd_Get (en_driver E) w clusters_prefix True = (w1, r)" by fastforce
  show ?thesis
  proof (cases r)
    case (Inl e)
    with g show ?thesis by (simp add: CM_Initialize_def CM_fullSync_def)
  next
    case (Inr rsp)
    note k = kv_get_prefix [OF assms(1) g [unfolded Inr]]
    have all: "kv w x = Some y \<and> store_key x" if "(x, y) \<in> set (gr_Kvs rsp)" for x y
    proof -
      have "map_of (gr_Kvs rsp) x = Some y" using k(4) that by simp
      with k(5) assms(3) show ?thesis by (auto simp: well_stored_def split: if_splits)
    qed
    have listed: "metadata_path cid \<in> fst ` set (gr_Kvs rsp) \<longleftrightarrow> kv w (metadata_path cid) \<noteq> None" for cid
    proof -
      have "is_prefix clusters_prefix (metadata_path cid)" by (simp add: metadata_path_def cluster_path_def)
      then have "map_of (gr_Kvs rsp) (metadata_path cid) = kv w (metadata_path cid)" by (simp add: k(5))
      then show ?thesis by (metis map_of_eq_None_iff)
    qed
    have "case sync_clusters E (gr_Kvs rsp) ?cm w1 of Inl x \<Rightarrow> x = FatalExit
      | Inr (w', cm', e) \<Rightarrow> e = None \<longrightarrow> restored_all (en_codec E) (kv w) ({} \<union> fst ` set (gr_Kvs rsp)) cm'"
    proof (rule sync_clusters_restores [OF assms _ _ k(4)])
      show "grown (kv w) (kv w1)" by (simp add: k(1) grown_refl)
    qed (use all in \<open>auto simp: restored_all_def\<close>)
    moreover have "gr_Count rsp = 0 \<Longrightarrow> gr_Kvs rsp = []" using k(2) by simp
    ultimately show ?thesis using g Inr
      by (auto simp: CM_Initialize_def CM_fullSync_def watchClusterChanges_def restored_all_def listed
          split: sum.splits option.splits)
  qed
qed

section \<open>A store with one cluster\<close>

definition stored_world :: sim_world where
  "stored_world = sim_world\<lparr>mw_kvs := [(metadata_path ''c1'', ''c1''), (certificate_key ''c1'' ''ca.crt'', ''x'')]\<rparr>"

lemma stored_world_starts:
  "case CM_Initialize sim_env new_manager stored_world of
      Inl x \<Rightarrow> False
    | Inr (w', cm', e) \<Rightarrow> (case e of Some err \<Rightarrow> False | None \<Rightarrow> True)"
  by code_simp

lemma stored_world_kv:
  "mem_kv stored_world k = (if k = metadata_path ''c1'' then Some ''c1''
     else if k = certificate_key ''c1'' ''ca.crt'' then Some ''x'' else None)"
  by (simp add: mem_kv_def stored_world_def)

lemma stored_world_well: "well_stored (en_codec sim_env) (mem_kv stored_world)"
proof -
  have p: "plain_id ''c1''" "plain_id ''ca.crt''" by (simp_all add: plain_id_def seg_def)
  have f: "slash_fields (metadata_path ''c1'') = [''lightning-monkey'', ''clusters'', ''c1'', ''metadata'']"
    "slash_fields (certificate_key ''c1'' ''ca.crt'') = [''lightning-monkey'', ''clusters'', ''c1'', ''certificates'', ''ca.crt'']"
    using p [THEN plain_id_seg] by (simp_all add: fields)
  have "store_key k" if "mem_kv stored_world k \<noteq> None" for k
    using that p by (auto simp: stored_world_kv store_key_def cluster_key_def split: if_splits)
  moreover have "cs_Id x = cid"
    if "plain_id cid" "mem_kv stored_world (metadata_path cid) = Some v" "unm_settings (en_codec sim_env) v = Inr x" for cid v x
  proof -
    from that(2) have "slash_fields (metadata_path cid) \<in> {slash_fields (metadata_path ''c1''), slash_fields (certificate_key ''c1'' ''ca.crt'')}"
      by (auto simp: stored_world_kv split: if_splits)
    then have "cid = ''c1''" using that(1) by (simp add: fields(4) plain_id_seg f)
    with that show ?thesis by (auto simp: stored_world_kv sim_env_def sim_codec_def)
  qed
  moreover have "stored_agent (en_codec sim_env) (mem_kv stored_world) cid i = None" if "plain_id cid" "seg i" for cid i
  proof -
    have "agent_settings_path cid i \<noteq> k" if "k \<in> {metadata_path ''c1'', certificate_key ''c1'' ''ca.crt''}" for k
      using that f slash_fields_settings [OF plain_id_seg [OF \<open>plain_id cid\<close>] \<open>seg i\<close>] by auto
    then show ?thesis by (simp add: stored_agent_def stored_world_kv)
  qed
  ultimately show ?thesis unfolding well_stored_def by (simp add: sim_env_def)
qed

theorem start_restores_clusters_witness:
  "\<exists>w' cm' r. CM_Initialize sim_env new_manager stored_world = Inr (w', cm', None) \<and>
     gm_get (cm_clusters cm') ''c1'' = Some r \<and> gm_get (cc_certs (cm_heap cm' r)) ''ca.crt'' = Some ''x''"
proof -
  have p: "plain_id ''c1''" "plain_id ''ca.crt''" by (simp_all add: plain_id_def seg_def)
  obtain w' cm' where i: "CM_Initialize sim_env new_manager stored_world = Inr (w', cm', None)"
    using stored_world_starts by (auto split: sum.splits option.splits)
  from start_restores_clusters [OF c1_facts(1,2) stored_world_well, of new_manager] i
  have s: "gm_get (cm_clusters cm') ''c1'' \<noteq> None"
    "\<And>r. gm_get (cm_clusters cm') ''c1'' = Some r \<Longrightarrow> restored (en_codec sim_env) (mem_kv stored_world) ''c1'' (cm_heap cm' r)"
    using p(1) by (simp_all add: stored_world_kv)
  then obtain r where r: "gm_get (cm_clusters cm') ''c1'' = Some r" by blast
  from s(2) [OF r] p(2) have "gm_get (cc_certs (cm_heap cm' r)) ''ca.crt'' = Some ''x''"
    unfolding restored_def using stored_world_kv [of "certificate_key ''c1'' ''ca.crt''"]
    by (simp add: certificate_key_def metadata_path_def)
  with i r show ?thesis by blast
qed

section \<open>A reserved identifier\<close>

lemma create_keys_creates:
  assumes "kv_driver (en_driver E) kv"
  shows "create_keys E ks w = (w', None) \<Longrightarrow> k \<in> set ks \<or> kv w k \<noteq> None \<Longrightarrow> kv w' k = (case kv w k of None \<Rightarrow> Some [] | Some v \<Rightarrow> Some v)"
proof (induction ks arbitrary: w)
  case (Cons x xs)
  then obtain w1 where s: "sd_TxnCreate (en_driver E) w x [] = (w1, None)" "create_keys E xs w1 = (w', None)"
    by (auto simp: createKeyIfNotExists_def split: prod.splits option.splits)
  note kv1 = kv_txn [OF assms s(1)]
  show ?case
  proof (cases "k \<in> set xs \<or> kv w1 k \<noteq> None")
    case True
    from Cons.IH [OF s(2) True] kv1 show ?thesis by (auto split: option.splits if_splits)
  qed (use Cons.prems(2) kv1 in \<open>auto split: if_splits\<close>)
qed (auto split: option.split)

lemma sync_clusters_stops:
  assumes "(k, v) \<in> set kvs" and "isClusterChanged (slash_fields k) = Inr (Some cid)" and "unm_settings (en_codec E) v = Inl err"
  shows "sync_clusters E kvs cm w \<noteq> Inr (w', cm', None)"
  using assms(1)
proof (induction kvs arbitrary: cm w)
  case (Cons kv0 kvs)
  obtain k0 v0 where kv0: "kv0 = (k0, v0)" by (cases kv0)
  show ?case
  proof
    assume s: "sync_clusters E (kv0 # kvs) cm w = Inr (w', cm', None)"
    show False
    proof (cases "(k0, v0) = (k, v)")
      case True
      with s kv0 assms(2,3) show False by (simp add: doClusterChange_def)
    next
      case False
      with Cons.prems kv0 have "(k, v) \<in> set kvs" by auto
      with Cons.IH s kv0 show False by (auto simp: bindC_Inr_iff split: option.splits)
    qed
  qed
qed simp

text \<open>
  C14: a cluster with the identifier \<open>metadata\<close>, which the API accepts, keeps every API server from
  starting: its registration creates the empty key of the cluster, the start takes that key for
  the metadata of a cluster named \<open>clusters\<close>, and \<open>Initialize\<close> of the manager fails on it as long as
  it is there, whatever else the store has.
\<close>

theorem reserved_identifier_blocks_start:
  assumes "kv_driver (en_driver E) kv" and "GetClusterId cc = ''metadata''"
    and "doRegister E cc w = Inr (w1, cc1, None)" and "kv w (cluster_path ''metadata'') = None"
    and "unm_settings (en_codec E) [] = Inl err"
    and "kv w2 (cluster_path ''metadata'') = kv w1 (cluster_path ''metadata'')"
  shows "CM_Initialize E cm w2 \<noteq> Inr (w3, cm', None)"
proof
  let ?k = "cluster_path ''metadata''"
  assume init: "CM_Initialize E cm w2 = Inr (w3, cm', None)"
  obtain wa wb rsp where c: "create_keys E [?k, ?k @ ''/agents'', ?k @ ''/certificates''] w = (wa, None)"
    "sd_Get (en_driver E) wa (?k @ ''/agents'' @ ''/'') True = (wb, Inr rsp)" "w1 = sd_Watch (en_driver E) wb (?k @ ''/'')"
    using assms(2,3) by (auto simp: doRegister_def Let_def bindC_Inr_iff simp del: create_keys.simps split: prod.splits option.splits sum.splits)
  have "kv wa ?k = Some []" using create_keys_creates [OF assms(1) c(1), of ?k] by (simp only: assms(4)) simp
  then have v: "kv w2 ?k = Some []" by (simp only: assms(6) c(3) kv_watch [OF assms(1)] kv_read [OF assms(1) c(2)])
  obtain wc r where g: "sd_Get (en_driver E) w2 clusters_prefix True = (wc, r)" by fastforce
  with init obtain rsp where r: "r = Inr rsp" by (cases r) (auto simp: CM_Initialize_def CM_fullSync_def)
  note k = kv_get_prefix [OF assms(1) g [unfolded r]]
  have "is_prefix clusters_prefix ?k" by (simp add: cluster_path_def)
  then have "map_of (gr_Kvs rsp) ?k = Some []" by (simp add: k(5) v)
  then have listed: "(?k, []) \<in> set (gr_Kvs rsp)" by (rule map_of_SomeD)
  have "slash_fields ?k = [''lightning-monkey'', ''clusters'', ''metadata'']" by (simp add: fields_directory seg_def)
  then have "isClusterChanged (slash_fields ?k) = Inr (Some ''clusters'')" by (simp add: classify_defs)
  note stops = sync_clusters_stops [OF listed this assms(5)]
  from listed k(2) have "gr_Count rsp \<noteq> 0" by auto
  obtain w' x e where s: "sync_clusters E (gr_Kvs rsp) (cm\<lparr>cm_clusters := []\<rparr>) wc = Inr (w', x, e)"
    using init g r \<open>gr_Count rsp \<noteq> 0\<close> by (cases "sync_clusters E (gr_Kvs rsp) (cm\<lparr>cm_clusters := []\<rparr>) wc")
      (auto simp: CM_Initialize_def CM_fullSync_def)
  moreover have "e = None" using init g r s \<open>gr_Count rsp \<noteq> 0\<close>
    by (cases e) (auto simp: CM_Initialize_def CM_fullSync_def)
  ultimately show False using stops by simp
qed

definition strict_env :: "sim_world env" where
  "strict_env = sim_env\<lparr>en_codec := sim_codec\<lparr>unm_settings := (\<lambda>s. if s = [] then Inl (EExternal ''json'')
     else Inr (zero_settings\<lparr>cs_Id := s\<rparr>))\<rparr>\<rparr>"

lemma reserved_registers:
  "case doRegister strict_env ((new_cluster (zero_settings\<lparr>cs_Id := ''metadata''\<rparr>))\<lparr>cc_cache := Some Initialize\<rparr>) sim_world of
     Inl x \<Rightarrow> False | Inr (w1, cc1, e) \<Rightarrow> (case e of None \<Rightarrow> True | Some err \<Rightarrow> False)"
  by code_simp

theorem reserved_identifier_blocks_start_witness:
  "\<exists>w1 cc1. doRegister strict_env ((new_cluster (zero_settings\<lparr>cs_Id := ''metadata''\<rparr>))\<lparr>cc_cache := Some Initialize\<rparr>) sim_world =
       Inr (w1, cc1, None) \<and> (\<forall>w3 cm'. CM_Initialize strict_env new_manager w1 \<noteq> Inr (w3, cm', None))"
proof -
  let ?cc = "(new_cluster (zero_settings\<lparr>cs_Id := ''metadata''\<rparr>))\<lparr>cc_cache := Some Initialize\<rparr>"
  obtain w1 cc1 where r: "doRegister strict_env ?cc sim_world = Inr (w1, cc1, None)"
    using reserved_registers by (auto split: sum.splits option.splits)
  have e: "kv_driver (en_driver strict_env) mem_kv" "unm_settings (en_codec strict_env) [] = Inl (EExternal ''json'')"
    using c1_facts(1) by (simp_all add: strict_env_def)
  have "GetClusterId ?cc = ''metadata''" "mem_kv sim_world (cluster_path ''metadata'') = None"
    by (simp_all add: GetClusterId_def new_cluster_def UpdateClusterSettings_def mem_kv_def sim_world_def)
  from reserved_identifier_blocks_start [OF e(1) this(1) r this(2) e(2) refl] r show ?thesis by blast
qed

end
